(* ===== verification/Prelude.thy ===== *)
theory Prelude
  imports Complex_Main "HOL-Library.AList"
begin

text \<open>
  Shared vocabulary of the blood-bank development: the JavaScript operators and
  string methods the sources call (\<open>??\<close>, \<open>String.prototype.trim\<close>,
  \<open>toLowerCase\<close>, \<open>includes\<close>), removal of one list element by position (the
  sources' \<open>prev.filter((r) => r !== request)\<close>, which drops exactly the clicked
  object), and the fixed-size batching of \<open>for (i = 0; i < n; i += size)
  batches.push(xs.slice(i, i + size))\<close>. JavaScript numbers are modelled as
  \<open>real\<close> (idealised floating point), timestamps of \<open>Date.now()\<close> as \<open>int\<close>
  milliseconds.
\<close>

named_theorems js_simps "evaluation rules of the JavaScript helpers"

type_synonym millis = int

subsection \<open>The nullish-coalescing operator\<close>

text \<open>\<open>a ?? b\<close>: \<open>a\<close> unless it is \<open>null\<close> or \<open>undefined\<close> (\<open>None\<close>).\<close>

definition js_nullish :: "'a option \<Rightarrow> 'a \<Rightarrow> 'a" where
  "js_nullish a b = (case a of Some x \<Rightarrow> x | None \<Rightarrow> b)"

subsection \<open>Strings\<close>

text \<open>
  The white space removed by \<open>trim\<close> (the ASCII part of ECMAScript's
  WhiteSpace and LineTerminator: tab, line feed, vertical tab, form feed, carriage
  return, space).
\<close>

definition is_js_space :: "char \<Rightarrow> bool" where
  "is_js_space c \<longleftrightarrow> ((9::nat) \<le> of_char c \<and> of_char c \<le> (13::nat)) \<or> of_char c = (32::nat)"

definition js_trim :: "string \<Rightarrow> string" where
  "js_trim s = rev (dropWhile is_js_space (rev (dropWhile is_js_space s)))"

text \<open>\<open>toLowerCase\<close> on the ASCII letters.\<close>

definition js_lower_char :: "char \<Rightarrow> char" where
  "js_lower_char c =
     (if of_char (CHR ''A'') \<le> (of_char c :: nat) \<and> of_char c \<le> (of_char (CHR ''Z'') :: nat)
      then char_of (of_char c + (32::nat)) else c)"

definition js_lower :: "string \<Rightarrow> string" where
  "js_lower s = map js_lower_char s"

text \<open>\<open>s.startsWith(t)\<close> and \<open>s.includes(t)\<close>, executable.\<close>

fun starts_with :: "string \<Rightarrow> string \<Rightarrow> bool" where
  "starts_with s [] = True"
| "starts_with [] (c # cs) = False"
| "starts_with (x # xs) (c # cs) = (x = c \<and> starts_with xs cs)"

fun js_includes :: "string \<Rightarrow> string \<Rightarrow> bool" where
  "js_includes [] t = (t = [])"
| "js_includes (x # xs) t = (starts_with (x # xs) t \<or> js_includes xs t)"

text \<open>\<open>Number.prototype.toString()\<close> on a non-negative integer: its decimal digits.\<close>

fun js_nat_string :: "nat \<Rightarrow> string" where
  "js_nat_string n =
     (if n < 10 then [char_of (48 + n)] else js_nat_string (n div 10) @ [char_of (48 + n mod 10)])"

declare js_nat_string.simps [simp del]

subsection \<open>Lists\<close>

text \<open>Removing the element at position \<open>i\<close> (a no-op out of range).\<close>

definition remove_at :: "nat \<Rightarrow> 'a list \<Rightarrow> 'a list" where
  "remove_at i xs = take i xs @ drop (Suc i) xs"

text \<open>
  Batches of \<open>n\<close> consecutive elements, the last one possibly shorter. A size
  of 0 gives no batch (the JavaScript loop would not terminate; the sources only
  use 5).
\<close>

function batches :: "nat \<Rightarrow> 'a list \<Rightarrow> 'a list list" where
  "batches n xs = (if n = 0 \<or> xs = [] then [] else take n xs # batches n (drop n xs))"
  by pat_completeness auto
termination
  by (relation "measure (\<lambda>(n, xs). length xs)") auto

declare batches.simps [simp del]

subsection \<open>Decimal digits and truthiness\<close>

text \<open>
  The value of a string of decimal digits (what \<open>parseInt\<close> reads back from
  \<open>Number.prototype.toString()\<close>), and the truthiness of an optional string
  (\<open>undefined\<close> and the empty string are falsy).
\<close>

definition digits_value :: "string \<Rightarrow> nat" where
  "digits_value s = foldl (\<lambda>acc c. acc * 10 + (of_char c - 48)) 0 s"

definition js_truthy_str :: "string option \<Rightarrow> bool" where
  "js_truthy_str s \<longleftrightarrow> (case s of None \<Rightarrow> False | Some t \<Rightarrow> t \<noteq> [])"

subsection \<open>Numbers\<close>

text \<open>\<open>Math.round\<close> (halves round up) and \<open>String(i)\<close> of an integer.\<close>

definition js_round :: "real \<Rightarrow> int" where
  "js_round x = \<lfloor>x + 1 / 2\<rfloor>"

definition js_int_string :: "int \<Rightarrow> string" where
  "js_int_string i = (if i < 0 then ''-'' @ js_nat_string (nat (- i)) else js_nat_string (nat i))"

subsection \<open>Generic lemmas\<close>

lemma js_nullish_Some [simp, js_simps]: "js_nullish (Some x) b = x"
  and js_nullish_None [simp, js_simps]: "js_nullish None b = b"
  by (simp_all add: js_nullish_def)

text \<open>Rules that evaluate the string helpers on literals.\<close>

lemmas js_string_eval [js_simps] = js_trim_def js_lower_def js_lower_char_def is_js_space_def char_of_def bit_0

lemma starts_with_iff: "starts_with s t \<longleftrightarrow> (\<exists>q. s = t @ q)"
  by (induction s t rule: starts_with.induct) auto

lemma js_includes_iff: "js_includes s t \<longleftrightarrow> (\<exists>p q. s = p @ t @ q)"
proof (induction s)
  case Nil
  then show ?case by simp
next
  case (Cons x xs)
  have "(\<exists>p q. x # xs = p @ t @ q) \<longleftrightarrow> (\<exists>q. x # xs = t @ q) \<or> (\<exists>p q. xs = p @ t @ q)"
    by (auto simp: Cons_eq_append_conv)
  with Cons.IH show ?case by (simp add: starts_with_iff)
qed

lemma length_js_nat_string:
  "10 ^ k \<le> n \<Longrightarrow> n < 10 ^ Suc k \<Longrightarrow> length (js_nat_string n) = Suc k"
proof (induction k arbitrary: n)
  case 0
  then show ?case by (simp add: js_nat_string.simps)
next
  case (Suc k)
  have "10 ^ k \<le> n div 10"
    using Suc.prems(1) by (simp add: less_eq_div_iff_mult_less_eq mult.commute)
  moreover have "n div 10 < 10 ^ Suc k"
    using Suc.prems(2) by (simp add: div_less_iff_less_mult mult.commute)
  ultimately have "length (js_nat_string (n div 10)) = Suc k" by (rule Suc.IH)
  moreover have "\<not> n < 10"
  proof -
    have "(10::nat) \<le> 10 ^ Suc k" by simp
    with Suc.prems(1) show ?thesis by linarith
  qed
  ultimately show ?case by (simp add: js_nat_string.simps [of n])
qed

text \<open>\<open>{...o, [k]: v}\<close> on an object without the key \<open>k\<close> appends it.\<close>

text \<open>An element of an indexed map (\<open>xs.map((x, index) => ...)\<close>) comes from an element of the list.\<close>

lemma set_map2_upt: "r \<in> set (map2 f [0..<length ds] ds) \<Longrightarrow> \<exists>i d. d \<in> set ds \<and> r = f i d"
  by (auto dest: set_zip_rightD)

text \<open>An indexed map whose observation ignores the index is a plain map.\<close>

lemma map2_upt_index_free:
  assumes "\<And>i x. h (F i x) = G x"
  shows "map h (map2 F [0..<length xs] xs) = map G xs"
proof -
  have "map h (map2 F [0..<length xs] xs) = map (G \<circ> snd) (zip [0..<length xs] xs)"
    using assms by (simp add: comp_def case_prod_unfold)
  also have "\<dots> = map G (map snd (zip [0..<length xs] xs))" by (simp only: map_map)
  also have "\<dots> = map G xs" by simp
  finally show ?thesis .
qed

text \<open>Deleting several keys from an object (\<open>delete o[k]\<close> in turn).\<close>

lemma map_of_fold_delete:
  "map_of (fold AList.delete ks al) k = (if k \<in> set ks then None else map_of al k)"
  by (induction ks arbitrary: al) (auto simp: delete_conv')

lemma update_absent: "k \<notin> fst ` set al \<Longrightarrow> AList.update k v al = al @ [(k, v)]"
  by (induction al) auto

lemma length_remove_at [simp]: "i < length xs \<Longrightarrow> length (remove_at i xs) = length xs - 1"
  by (simp add: remove_at_def)

lemma set_remove_at_subset: "set (remove_at i xs) \<subseteq> set xs"
  by (auto simp: remove_at_def dest: in_set_takeD in_set_dropD)

lemma set_map_filter_id [simp]: "x \<in> set (List.map_filter (\<lambda>r. r) rs) \<longleftrightarrow> Some x \<in> set rs"
  by (induction rs) (auto split: option.splits)

lemma batches_Nil [simp]: "batches n [] = []"
  by (simp add: batches.simps)

lemma batches_Cons_eq:
  "0 < n \<Longrightarrow> xs \<noteq> [] \<Longrightarrow> batches n xs = take n xs # batches n (drop n xs)"
  by (simp add: batches.simps)

lemma concat_batches: "0 < n \<Longrightarrow> concat (batches n xs) = xs"
proof (induction n xs rule: batches.induct)
  case (1 n xs)
  then show ?case by (cases "xs = []") (simp_all add: batches_Cons_eq)
qed

lemma batches_length_le: "b \<in> set (batches n xs) \<Longrightarrow> length b \<le> n"
proof (induction n xs rule: batches.induct)
  case (1 n xs)
  then show ?case
    by (cases "n = 0 \<or> xs = []") (auto simp: batches.simps [of n xs])
qed

lemma batches_nonempty: "b \<in> set (batches n xs) \<Longrightarrow> b \<noteq> []"
proof (induction n xs rule: batches.induct)
  case (1 n xs)
  then show ?case
    by (cases "n = 0 \<or> xs = []") (auto simp: batches.simps [of n xs])
qed

lemma of_char_digit: "d < 10 \<Longrightarrow> of_char (char_of (48 + d) :: char) = (48 + d :: nat)"
  by (simp add: of_char_of)

lemma digits_value_snoc: "digits_value (s @ [c]) = digits_value s * 10 + (of_char c - 48)"
  by (simp add: digits_value_def)

lemma digits_value_js_nat_string [simp]: "digits_value (js_nat_string n) = n"
proof (induction n rule: js_nat_string.induct)
  case (1 n)
  show ?case
  proof (cases "n < 10")
    case True
    then show ?thesis by (simp add: js_nat_string.simps digits_value_def of_char_digit)
  next
    case False
    then have "digits_value (js_nat_string n) = digits_value (js_nat_string (n div 10)) * 10 + n mod 10"
      by (simp add: js_nat_string.simps [of n] digits_value_snoc of_char_digit)
    with 1 False show ?thesis by simp
  qed
qed

lemma js_nat_string_inj: "js_nat_string m = js_nat_string n \<longleftrightarrow> m = n"
  by (metis digits_value_js_nat_string)

lemma dash_notin_js_nat_string [simp]: "CHR ''-'' \<notin> set (js_nat_string n)"
proof (induction n rule: js_nat_string.induct)
  case (1 n)
  have d_ne: "CHR ''-'' \<noteq> char_of (48 + d)" if "d < 10" for d :: nat
  proof
    assume "CHR ''-'' = char_of (48 + d)"
    then have "of_char (char_of (48 + d) :: char) = (of_char (CHR ''-'') :: nat)" by simp
    with that show False by (simp add: of_char_digit)
  qed
  show ?case
    using 1 d_ne [of n] d_ne [of "n mod 10"] by (simp add: js_nat_string.simps [of n])
qed

lemma append_sep_cancel:
  assumes "CHR ''-'' \<notin> set a" and "CHR ''-'' \<notin> set b" and "a @ CHR ''-'' # x = b @ CHR ''-'' # y"
  shows "a = b"
proof -
  have "takeWhile (\<lambda>c. c \<noteq> CHR ''-'') (a @ CHR ''-'' # x) = a"
    using assms(1) by (induction a) auto
  moreover have "takeWhile (\<lambda>c. c \<noteq> CHR ''-'') (b @ CHR ''-'' # y) = b"
    using assms(2) by (induction b) auto
  ultimately show ?thesis using assms(3) by simp
qed

lemma js_int_string_nonneg: "0 \<le> i \<Longrightarrow> js_int_string i = js_nat_string (nat i)"
  by (simp add: js_int_string_def)

end
