(* ===== verification/Geocoder.thy ===== *)
theory Geocoder
  imports Geo
begin

text \<open>
  The location resolver \<open>geocodeLocation\<close> of DeliveryDashboard.tsx (lines
  484-533). Its state is the dashboard's \<open>geocodeCacheRef\<close>, a JavaScript
  \<open>Map\<close> from the trimmed, lower-cased location text to a coordinate, here a
  map \<open>string \<rightharpoonup> coord\<close> passed in and returned. The Nominatim request is the
  environment: a function from the search query to the first result, \<open>None\<close>
  standing for a network error, a non-success status or an empty result list (all
  three end in \<open>return null\<close> without touching the cache). The lemmas show that a
  cache hit makes no request, that the cache only grows, that a resolved location
  is answered from the cache afterwards whatever the network does, and that every
  cached coordinate is the service's answer for some text with that key.
\<close>

record geo_result =
  g_lat :: real
  g_lon :: real
  g_display_name :: string

type_synonym geocoder = "string \<Rightarrow> geo_result option"
type_synonym geo_cache = "string \<rightharpoonup> coord"

definition normalize_location :: "string \<Rightarrow> string" where
  "normalize_location location = js_lower (js_trim location)"

text \<open>The query: \<open>, India\<close> is appended unless the text names India or has a comma.\<close>

definition search_query :: "string \<Rightarrow> string" where
  "search_query location =
     (let q = js_trim location
      in if \<not> js_includes (js_lower q) ''india'' \<and> \<not> js_includes q '','' then q @ '', India'' else q)"

text \<open>\<open>address: data[0].display_name || location\<close>: an empty name is falsy.\<close>

definition result_coord :: "string \<Rightarrow> geo_result \<Rightarrow> coord" where
  "result_coord location r =
     \<lparr>lat = g_lat r, lon = g_lon r,
      address = (if g_display_name r = [] then location else g_display_name r)\<rparr>"

definition geocodeLocation :: "geocoder \<Rightarrow> geo_cache \<Rightarrow> string \<Rightarrow> coord option \<times> geo_cache" where
  "geocodeLocation nominatim cache location =
     (if js_trim location = [] then (None, cache)
      else
        let key = normalize_location location
        in case cache key of
             Some c \<Rightarrow> (Some c, cache)
           | None \<Rightarrow>
               (case nominatim (search_query location) of
                  None \<Rightarrow> (None, cache)
                | Some r \<Rightarrow> (let c = result_coord location r in (Some c, cache(key \<mapsto> c)))))"

text \<open>The cache invariant: each entry is the service's answer for a text with that key.\<close>

definition cache_sound :: "geocoder \<Rightarrow> geo_cache \<Rightarrow> bool" where
  "cache_sound nominatim cache \<longleftrightarrow>
     (\<forall>k c. cache k = Some c \<longrightarrow>
        (\<exists>loc r. normalize_location loc = k \<and> js_trim loc \<noteq> [] \<and>
                 nominatim (search_query loc) = Some r \<and> c = result_coord loc r))"

text \<open>A sample service for the examples: every query resolves to Visakhapatnam.\<close>

abbreviation vizag_coord :: coord where
  "vizag_coord \<equiv> \<lparr>lat = 17, lon = 83, address = ''Visakhapatnam, Andhra Pradesh, India''\<rparr>"

abbreviation vizag_geocoder :: geocoder where
  "vizag_geocoder \<equiv> \<lambda>q. Some \<lparr>g_lat = 17, g_lon = 83, g_display_name = ''Visakhapatnam, Andhra Pradesh, India''\<rparr>"

subsection \<open>Case lemmas\<close>

lemma geocode_blank: "js_trim location = [] \<Longrightarrow> geocodeLocation g cache location = (None, cache)"
  by (simp add: geocodeLocation_def)

lemma geocode_hit:
  "js_trim location \<noteq> [] \<Longrightarrow> cache (normalize_location location) = Some c \<Longrightarrow>
   geocodeLocation g cache location = (Some c, cache)"
  by (simp add: geocodeLocation_def)

lemma geocode_miss:
  "js_trim location \<noteq> [] \<Longrightarrow> cache (normalize_location location) = None \<Longrightarrow>
   geocodeLocation g cache location =
     (case g (search_query location) of
        None \<Rightarrow> (None, cache)
      | Some r \<Rightarrow> (Some (result_coord location r),
                   cache(normalize_location location \<mapsto> result_coord location r)))"
  by (simp add: geocodeLocation_def Let_def split: option.split)

lemmas geocode_cases = geocode_blank geocode_hit geocode_miss

lemma geocode_cache_mono: "cache \<subseteq>\<^sub>m snd (geocodeLocation g cache location)"
  by (auto simp: geocodeLocation_def Let_def map_le_def split: option.splits)

lemma geocode_Some_cached:
  "fst (geocodeLocation g cache location) = Some c \<Longrightarrow>
   snd (geocodeLocation g cache location) (normalize_location location) = Some c \<and>
   js_trim location \<noteq> []"
  by (auto simp: geocodeLocation_def Let_def split: if_splits option.splits)

lemma geocode_None_unchanged:
  "fst (geocodeLocation g cache location) = None \<Longrightarrow> snd (geocodeLocation g cache location) = cache"
  by (auto simp: geocodeLocation_def Let_def split: if_splits option.splits)

lemma length_js_lower [simp]: "length (js_lower s) = length s"
  by (simp add: js_lower_def)

lemma normalize_nonblank:
  "normalize_location loc' = normalize_location loc \<Longrightarrow> js_trim loc \<noteq> [] \<Longrightarrow> js_trim loc' \<noteq> []"
  by (metis length_js_lower length_0_conv normalize_location_def)

lemma geocode_demo: "geocodeLocation vizag_geocoder Map.empty ''Vizag'' = (Some vizag_coord, [''vizag'' \<mapsto> vizag_coord])"
  by (simp add: geocodeLocation_def normalize_location_def search_query_def result_coord_def js_string_eval Let_def)

lemma cache_sound_map_add: "cache_sound g a \<Longrightarrow> cache_sound g b \<Longrightarrow> cache_sound g (a ++ b)"
  by (auto simp: cache_sound_def map_add_Some_iff)

lemma geocodeLocation_cache_sound:
  assumes "cache_sound g cache"
  shows "cache_sound g (snd (geocodeLocation g cache loc))"
proof (cases "js_trim loc = [] \<or> cache (normalize_location loc) \<noteq> None")
  case True
  with assms show ?thesis by (cases "js_trim loc = []") (auto simp: geocode_blank geocode_hit)
next
  case False
  then have nb: "js_trim loc \<noteq> []" and miss: "cache (normalize_location loc) = None" by auto
  show ?thesis
  proof (cases "g (search_query loc)")
    case None
    with assms nb miss show ?thesis by (simp add: geocode_miss)
  next
    case (Some r)
    with assms nb miss show ?thesis
      by (auto simp: geocode_miss cache_sound_def)
  qed
qed

subsection \<open>The cache contract\<close>

text \<open>C15. Insert/lookup round trip of the geocode cache: once a location has been
  resolved, any text with the same trimmed, lower-cased key is answered from the cache
  with the same coordinate and the cache unchanged, whatever the network returns.\<close>

theorem geocode_cache_roundtrip:
  assumes "fst (geocodeLocation g cache loc) = Some c"
    and "normalize_location loc' = normalize_location loc"
  shows "geocodeLocation g' (snd (geocodeLocation g cache loc)) loc' = (Some c, snd (geocodeLocation g cache loc))"
proof -
  from geocode_Some_cached [OF assms(1)]
  have hit: "snd (geocodeLocation g cache loc) (normalize_location loc) = Some c"
    and nb: "js_trim loc \<noteq> []" by auto
  from normalize_nonblank [OF assms(2) nb] have "js_trim loc' \<noteq> []" .
  with hit assms(2) show ?thesis by (simp add: geocode_hit)
qed

theorem geocode_cache_roundtrip_witness:
  "fst (geocodeLocation vizag_geocoder Map.empty ''Vizag'') = Some vizag_coord \<and>
   normalize_location '' vizag '' = normalize_location ''Vizag'' \<and>
   geocodeLocation (\<lambda>q. None) [''vizag'' \<mapsto> vizag_coord] '' vizag '' = (Some vizag_coord, [''vizag'' \<mapsto> vizag_coord])"
proof -
  have h1: "fst (geocodeLocation vizag_geocoder Map.empty ''Vizag'') = Some vizag_coord" by (simp add: geocode_demo)
  have h2: "normalize_location '' vizag '' = normalize_location ''Vizag''"
    by (simp add: normalize_location_def js_string_eval)
  show ?thesis
    using h1 h2 geocode_cache_roundtrip [OF h1 h2, of "\<lambda>q. None"] by (simp add: geocode_demo)
qed

text \<open>C16. The cache invariant: if every cached coordinate is the geocoding service's
  answer for some non-blank text with that key, this stays so after a lookup, and the
  lookup only adds entries.\<close>

theorem geocode_cache_sound:
  assumes "cache_sound g cache"
  shows "cache_sound g (snd (geocodeLocation g cache loc)) \<and> cache \<subseteq>\<^sub>m snd (geocodeLocation g cache loc)"
  using geocodeLocation_cache_sound [OF assms] geocode_cache_mono by blast

theorem geocode_cache_sound_witness:
  "cache_sound vizag_geocoder Map.empty \<and> cache_sound vizag_geocoder [''vizag'' \<mapsto> vizag_coord] \<and>
   Map.empty \<subseteq>\<^sub>m [''vizag'' \<mapsto> vizag_coord]"
proof -
  have h: "cache_sound vizag_geocoder Map.empty" by (simp add: cache_sound_def)
  show ?thesis using h geocode_cache_sound [OF h, of "''Vizag''"] by (simp add: geocode_demo)
qed

end
