(* ===== verification/Matcher.thy ===== *)
theory Matcher
  imports Geocoder
begin

text \<open>
  The nearest-facility matcher \<open>findNearestBloodBank\<close> of DeliveryDashboard.tsx
  (lines 561-678). The directory is the list \<open>allBloodBanksRef.current\<close> of
  bank records (b.json); the matcher mutates it in place by attaching
  geocoded coordinates (\<open>(bank as any).coords = geocoded\<close>), so the model takes
  the list and the geocoding cache and returns both, with the result. Banks are
  named by their position in the list, which stands for the object identity the
  code relies on. The two distance functions are parameters of
  \<open>findNearestBloodBank_with\<close> (the interface the matcher calls);
  \<open>findNearestBloodBank\<close> instantiates them with \<open>haversineDistance\<close> and
  \<open>quickDistance\<close>. The steps follow the source: eligibility filter, split into
  banks with and without coordinates with the planar pre-filter, stable sort,
  exact scan of at most 30 with early exit at 2 km, and the cold-start batches of 5
  geocoding requests, stopping after a batch once a match within 5 km is known.
\<close>

record bloodBank =
  bb_name :: string
  bb_state :: string
  bb_district :: string
  bb_location :: string
  bb_phone :: string
  blood_groups_available :: "string list"
  availability :: string
  last_updated :: string
  coords :: "coord option"

record nearestBank =
  nb_name :: string
  nb_location :: string
  nb_coords :: coord
  nb_distance :: real

type_synonym dist_fn = "real \<Rightarrow> real \<Rightarrow> real \<Rightarrow> real \<Rightarrow> real"

definition MAX_DISTANCE :: real where "MAX_DISTANCE = 10000"
definition MAX_CANDIDATES :: nat where "MAX_CANDIDATES = 30"
definition EARLY_TERMINATION_DISTANCE :: real where "EARLY_TERMINATION_DISTANCE = 2000"
definition GEOCODE_BATCH_SIZE :: nat where "GEOCODE_BATCH_SIZE = 5"
definition GOOD_MATCH_DISTANCE :: real where "GOOD_MATCH_DISTANCE = 5000"

subsection \<open>Step 1: eligibility\<close>

definition isCandidate :: "string \<Rightarrow> bloodBank \<Rightarrow> bool" where
  "isCandidate requiredBloodGroup bank \<longleftrightarrow>
     requiredBloodGroup \<in> set (blood_groups_available bank) \<and> availability bank \<noteq> ''Critical''"

definition candidateBanks :: "bloodBank list \<Rightarrow> string \<Rightarrow> nat list" where
  "candidateBanks banks requiredBloodGroup =
     filter (\<lambda>i. isCandidate requiredBloodGroup (banks ! i)) [0..<length banks]"

subsection \<open>Step 2: pre-filter by approximate distance\<close>

text \<open>
  The \<open>for\<close> loop over the candidates: a bank with coordinates is kept with its
  approximate distance if that is within 1.5 times the cut-off, a bank without
  coordinates goes to \<open>banksNeedingGeocode\<close>.
\<close>

fun split_candidates ::
  "dist_fn \<Rightarrow> coord \<Rightarrow> bloodBank list \<Rightarrow> nat list \<Rightarrow> (nat \<times> coord \<times> real) list \<times> nat list" where
  "split_candidates quick u banks [] = ([], [])"
| "split_candidates quick u banks (i # is) =
     (let (withCoords, needing) = split_candidates quick u banks is
      in case coords (banks ! i) of
           Some c \<Rightarrow>
             (let approxDist = quick (lat u) (lon u) (lat c) (lon c)
              in if approxDist \<le> MAX_DISTANCE * 1.5 then ((i, c, approxDist) # withCoords, needing)
                 else (withCoords, needing))
         | None \<Rightarrow> (withCoords, i # needing))"

text \<open>\<open>banksWithCoords.sort((a, b) => a.approximateDistance - b.approximateDistance)\<close>
  (a stable sort) and \<open>.slice(0, MAX_CANDIDATES)\<close>.\<close>

definition examined :: "(nat \<times> coord \<times> real) list \<Rightarrow> (nat \<times> coord) list" where
  "examined withCoords =
     map (\<lambda>(i, c, d). (i, c)) (take MAX_CANDIDATES (sort_key (\<lambda>(i, c, d). d) withCoords))"

subsection \<open>Step 3: exact distances with early exit\<close>

text \<open>
  \<open>minDistance\<close> is \<open>Infinity\<close> while \<open>nearestBank\<close> is \<open>null\<close> and is the
  distance of \<open>nearestBank\<close> afterwards (the two are always assigned together), so
  the model keeps \<open>nearestBank\<close> only. \<open>Inl\<close> is the early \<open>return\<close>.
\<close>

definition below_min :: "real \<Rightarrow> nearestBank option \<Rightarrow> bool" where
  "below_min d cur = (case cur of None \<Rightarrow> True | Some n \<Rightarrow> d < nb_distance n)"

definition mk_nearest :: "bloodBank \<Rightarrow> coord \<Rightarrow> real \<Rightarrow> nearestBank" where
  "mk_nearest bank c d = \<lparr>nb_name = bb_name bank, nb_location = bb_location bank, nb_coords = c, nb_distance = d\<rparr>"

fun scan_exact ::
  "dist_fn \<Rightarrow> coord \<Rightarrow> bloodBank list \<Rightarrow> (nat \<times> coord) list \<Rightarrow> nearestBank option \<Rightarrow>
   nearestBank + nearestBank option" where
  "scan_exact hav u banks [] cur = Inr cur"
| "scan_exact hav u banks ((i, c) # rest) cur =
     (let distance = hav (lat u) (lon u) (lat c) (lon c)
      in if distance \<le> MAX_DISTANCE \<and> below_min distance cur
         then (if distance \<le> EARLY_TERMINATION_DISTANCE then Inl (mk_nearest (banks ! i) c distance)
               else scan_exact hav u banks rest (Some (mk_nearest (banks ! i) c distance)))
         else scan_exact hav u banks rest cur)"

subsection \<open>Step 4: cold start, geocoding in batches\<close>

text \<open>
  One batch: \<open>batch.map(async (bank) => ...)\<close> starts every lookup before any
  answer arrives, so each lookup reads the cache as it was when the batch started;
  the writes of the successful lookups land in list order (one of the orders
  \<open>Promise.all\<close> allows; they touch distinct new keys unless two banks of the
  batch share a normalised location). A successful lookup attaches the coordinate
  to the bank.
\<close>

fun geocode_batch ::
  "geocoder \<Rightarrow> geo_cache \<Rightarrow> bloodBank list \<Rightarrow> nat list \<Rightarrow> geo_cache \<Rightarrow>
   (nat \<times> coord) option list \<times> bloodBank list \<times> geo_cache" where
  "geocode_batch g cache0 banks [] acc = ([], banks, acc)"
| "geocode_batch g cache0 banks (i # is) acc =
     (let (geocoded, cache1) = geocodeLocation g cache0 (bb_location (banks ! i));
          banks1 = (case geocoded of None \<Rightarrow> banks
                     | Some c \<Rightarrow> banks[i := (banks ! i)\<lparr>coords := Some c\<rparr>]);
          (results, banks2, acc2) = geocode_batch g cache0 banks1 is (acc ++ cache1)
      in (map_option (\<lambda>c. (i, c)) geocoded # results, banks2, acc2))"

definition good_match :: "nearestBank option \<Rightarrow> bool" where
  "good_match cur = (case cur of None \<Rightarrow> False | Some n \<Rightarrow> nb_distance n \<le> GOOD_MATCH_DISTANCE)"

fun geocode_batches ::
  "dist_fn \<Rightarrow> geocoder \<Rightarrow> coord \<Rightarrow> nat list list \<Rightarrow> bloodBank list \<Rightarrow> geo_cache \<Rightarrow>
   nearestBank option \<Rightarrow> nearestBank option \<times> bloodBank list \<times> geo_cache" where
  "geocode_batches hav g u [] banks cache cur = (cur, banks, cache)"
| "geocode_batches hav g u (batch # rest) banks cache cur =
     (let (results, banks1, cache1) = geocode_batch g cache banks batch cache
      in case scan_exact hav u banks1 (List.map_filter (\<lambda>r. r) results) cur of
           Inl found \<Rightarrow> (Some found, banks1, cache1)
         | Inr cur1 \<Rightarrow>
             if good_match cur1 then (cur1, banks1, cache1)
             else geocode_batches hav g u rest banks1 cache1 cur1)"

subsection \<open>The matcher\<close>

text \<open>
  \<open>for (i = 0; i < Math.min(n, 30); i += 5) batches.push(needing.slice(i, i + 5))\<close>
  cuts the first 30 banks needing coordinates into batches of 5 (30 is a multiple
  of 5, so no slice reaches past the 30th).
\<close>

text \<open>The loop itself, \<open>i\<close> running from 0 in steps of the batch size while
  below the limit, \<open>slice(i, i + size)\<close> being \<open>take size (drop i xs)\<close>; with a
  batch size of 0 it would never end, so it is a partial function.\<close>

partial_function (option) batch_loop :: "nat \<Rightarrow> nat \<Rightarrow> 'a list \<Rightarrow> nat \<Rightarrow> 'a list list \<Rightarrow> 'a list list option" where
  "batch_loop bsize limit xs i acc =
     (if i < limit then batch_loop bsize limit xs (i + bsize) (acc @ [take bsize (drop i xs)]) else Some acc)"

definition round_up :: "nat \<Rightarrow> nat \<Rightarrow> nat" where
  "round_up bsize n = ((n + bsize - 1) div bsize) * bsize"

definition findNearestBloodBank_with ::
  "dist_fn \<Rightarrow> dist_fn \<Rightarrow> geocoder \<Rightarrow> bloodBank list \<Rightarrow> geo_cache \<Rightarrow> coord \<Rightarrow> string \<Rightarrow>
   nearestBank option \<times> bloodBank list \<times> geo_cache" where
  "findNearestBloodBank_with hav quick g banks cache userCoords requiredBloodGroup =
     (let candidates = candidateBanks banks requiredBloodGroup
      in if candidates = [] then (None, banks, cache)
         else
           let (withCoords, needing) = split_candidates quick userCoords banks candidates
           in case scan_exact hav userCoords banks (examined withCoords) None of
                Inl found \<Rightarrow> (Some found, banks, cache)
              | Inr nearest \<Rightarrow>
                  if nearest = None \<and> needing \<noteq> []
                  then geocode_batches hav g userCoords
                         (batches GEOCODE_BATCH_SIZE (take MAX_CANDIDATES needing)) banks cache None
                  else (nearest, banks, cache))"

definition findNearestBloodBank ::
  "geocoder \<Rightarrow> bloodBank list \<Rightarrow> geo_cache \<Rightarrow> coord \<Rightarrow> string \<Rightarrow>
   nearestBank option \<times> bloodBank list \<times> geo_cache" where
  "findNearestBloodBank = findNearestBloodBank_with haversineDistance quickDistance"

subsection \<open>The contract of a match and the frame of the directory\<close>

text \<open>
  \<open>match_ok\<close> is what a returned match promises (spec section 3, invariant of
  \<open>matchedFacility\<close>): it names a bank of the directory that offers the required
  group and is not \<open>Critical\<close>, its distance is the exact distance from the
  requester to the reported coordinate, and that distance is at most 10 km.
  \<open>same_but_coords\<close> is the frame: the directory keeps its length and every bank
  all its fields but the memoised coordinate.
\<close>

definition match_ok :: "dist_fn \<Rightarrow> bloodBank list \<Rightarrow> coord \<Rightarrow> string \<Rightarrow> nearestBank \<Rightarrow> bool" where
  "match_ok hav banks u req n \<longleftrightarrow>
     (\<exists>i<length banks.
        req \<in> set (blood_groups_available (banks ! i)) \<and> availability (banks ! i) \<noteq> ''Critical'' \<and>
        nb_name n = bb_name (banks ! i) \<and> nb_location n = bb_location (banks ! i)) \<and>
     nb_distance n = hav (lat u) (lon u) (lat (nb_coords n)) (lon (nb_coords n)) \<and>
     nb_distance n \<le> MAX_DISTANCE"

definition same_but_coords :: "bloodBank list \<Rightarrow> bloodBank list \<Rightarrow> bool" where
  "same_but_coords banks banks' \<longleftrightarrow>
     length banks' = length banks \<and>
     (\<forall>j<length banks. banks' ! j = (banks ! j)\<lparr>coords := coords (banks' ! j)\<rparr>)"

subsection \<open>Lemmas\<close>

lemmas matcher_constants = MAX_DISTANCE_def MAX_CANDIDATES_def EARLY_TERMINATION_DISTANCE_def
  GEOCODE_BATCH_SIZE_def GOOD_MATCH_DISTANCE_def

lemma same_but_coords_refl [simp]: "same_but_coords banks banks"
  by (simp add: same_but_coords_def)

lemma same_but_coords_trans:
  "same_but_coords a b \<Longrightarrow> same_but_coords b c \<Longrightarrow> same_but_coords a c"
  unfolding same_but_coords_def by (metis bloodBank.update_convs(9) bloodBank.surjective)

lemma same_but_coords_update:
  "same_but_coords banks (banks[i := (banks ! i)\<lparr>coords := x\<rparr>])"
  by (cases "i < length banks") (auto simp: same_but_coords_def nth_list_update list_update_beyond)

lemma same_but_coords_fields:
  assumes "same_but_coords banks banks'" "j < length banks"
  shows "blood_groups_available (banks' ! j) = blood_groups_available (banks ! j)"
    and "availability (banks' ! j) = availability (banks ! j)"
    and "bb_name (banks' ! j) = bb_name (banks ! j)"
    and "bb_location (banks' ! j) = bb_location (banks ! j)"
proof -
  from assms have eq: "banks' ! j = (banks ! j)\<lparr>coords := coords (banks' ! j)\<rparr>"
    by (simp add: same_but_coords_def)
  show "blood_groups_available (banks' ! j) = blood_groups_available (banks ! j)" by (subst eq) simp
  show "availability (banks' ! j) = availability (banks ! j)" by (subst eq) simp
  show "bb_name (banks' ! j) = bb_name (banks ! j)" by (subst eq) simp
  show "bb_location (banks' ! j) = bb_location (banks ! j)" by (subst eq) simp
qed

lemma match_ok_transfer:
  assumes "same_but_coords banks banks'"
  shows "match_ok hav banks' u req n = match_ok hav banks u req n"
proof -
  have len: "length banks' = length banks"
    using assms by (simp add: same_but_coords_def)
  show ?thesis
    by (auto simp: match_ok_def len same_but_coords_fields [OF assms])
qed

lemma scan_exact_ok:
  assumes "\<forall>(i, c) \<in> set L. i < length banks \<and> isCandidate req (banks ! i)"
    and "pred_option (match_ok hav banks u req) cur"
  shows "case_sum (match_ok hav banks u req) (pred_option (match_ok hav banks u req))
           (scan_exact hav u banks L cur)"
  using assms
proof (induction L arbitrary: cur)
  case Nil
  then show ?case by simp
next
  case (Cons x L)
  obtain i c where x: "x = (i, c)" by fastforce
  with Cons.prems have i: "i < length banks" "isCandidate req (banks ! i)" by auto
  let ?d = "hav (lat u) (lon u) (lat c) (lon c)"
  have new: "?d \<le> MAX_DISTANCE \<Longrightarrow> match_ok hav banks u req (mk_nearest (banks ! i) c ?d)"
    using i by (auto simp: match_ok_def mk_nearest_def isCandidate_def)
  show ?case
    using Cons.IH [of cur] Cons.IH [of "Some (mk_nearest (banks ! i) c ?d)"] Cons.prems new
    by (auto simp: x Let_def)
qed

lemma geocode_batch_frame:
  "same_but_coords banks (fst (snd (geocode_batch g cache0 banks ids acc)))"
proof (induction ids arbitrary: banks acc)
  case Nil
  then show ?case by simp
next
  case (Cons i ids)
  obtain geocoded cache1 where gc: "geocodeLocation g cache0 (bb_location (banks ! i)) = (geocoded, cache1)"
    by fastforce
  define banks1 where "banks1 = (case geocoded of None \<Rightarrow> banks
                     | Some c \<Rightarrow> banks[i := (banks ! i)\<lparr>coords := Some c\<rparr>])"
  have "same_but_coords banks banks1"
    by (simp add: banks1_def same_but_coords_update split: option.split)
  moreover have "same_but_coords banks1 (fst (snd (geocode_batch g cache0 banks1 ids (acc ++ cache1))))"
    by (rule Cons.IH)
  ultimately show ?case
    by (simp add: gc banks1_def [symmetric] split_def Let_def same_but_coords_trans)
qed

lemma geocode_batch_results:
  "Some (j, c) \<in> set (fst (geocode_batch g cache0 banks ids acc)) \<Longrightarrow> j \<in> set ids"
proof (induction ids arbitrary: banks acc)
  case Nil
  then show ?case by simp
next
  case (Cons i ids)
  then show ?case
    by (auto simp: Let_def split_def split: prod.splits option.splits)
qed

lemma candidate_transfer:
  assumes "same_but_coords banks banks'" and "i < length banks \<and> isCandidate req (banks ! i)"
  shows "i < length banks' \<and> isCandidate req (banks' ! i)"
  using assms same_but_coords_fields [OF assms(1)]
  by (auto simp: same_but_coords_def isCandidate_def)

lemma geocode_batches_ok:
  assumes "\<forall>b \<in> set bs. \<forall>i \<in> set b. i < length banks \<and> isCandidate req (banks ! i)"
    and "pred_option (match_ok hav banks u req) cur"
  shows "pred_option (match_ok hav banks u req) (fst (geocode_batches hav g u bs banks cache cur)) \<and>
         same_but_coords banks (fst (snd (geocode_batches hav g u bs banks cache cur)))"
  using assms
proof (induction bs arbitrary: banks cache cur)
  case Nil
  then show ?case by simp
next
  case (Cons batch rest)
  obtain results banks1 cache1 where gb: "geocode_batch g cache banks batch cache = (results, banks1, cache1)"
    by (metis prod.exhaust)
  have sb: "same_but_coords banks banks1"
    using geocode_batch_frame [of banks g cache batch cache] by (simp add: gb)
  have ok_iff: "match_ok hav banks1 u req = match_ok hav banks u req"
    by (rule ext) (rule match_ok_transfer [OF sb])
  have batch1: "\<forall>i \<in> set batch. i < length banks1 \<and> isCandidate req (banks1 ! i)"
  proof
    fix i assume "i \<in> set batch"
    with Cons.prems(1) have "i < length banks \<and> isCandidate req (banks ! i)" by simp
    then show "i < length banks1 \<and> isCandidate req (banks1 ! i)" by (rule candidate_transfer [OF sb])
  qed
  have res: "\<forall>(i, c) \<in> set (List.map_filter (\<lambda>r. r) results). i < length banks1 \<and> isCandidate req (banks1 ! i)"
    using batch1 geocode_batch_results [of _ _ g cache banks batch cache] by (auto simp: gb)
  have cur1: "pred_option (match_ok hav banks1 u req) cur"
    using Cons.prems(2) by (simp add: ok_iff)
  have rest1: "\<forall>b \<in> set rest. \<forall>i \<in> set b. i < length banks1 \<and> isCandidate req (banks1 ! i)"
  proof (intro ballI)
    fix b i assume "b \<in> set rest" "i \<in> set b"
    with Cons.prems(1) have "i < length banks \<and> isCandidate req (banks ! i)" by simp
    then show "i < length banks1 \<and> isCandidate req (banks1 ! i)" by (rule candidate_transfer [OF sb])
  qed
  have scan: "case_sum (match_ok hav banks1 u req) (pred_option (match_ok hav banks1 u req))
                (scan_exact hav u banks1 (List.map_filter (\<lambda>r. r) results) cur)"
    by (rule scan_exact_ok [OF res cur1])
  show ?case
  proof (cases "scan_exact hav u banks1 (List.map_filter (\<lambda>r. r) results) cur")
    case (Inl found)
    with scan sb show ?thesis by (simp add: gb ok_iff)
  next
    case (Inr cur2)
    have IH: "pred_option (match_ok hav banks1 u req) (fst (geocode_batches hav g u rest banks1 cache1 cur2)) \<and>
              same_but_coords banks1 (fst (snd (geocode_batches hav g u rest banks1 cache1 cur2)))"
      using Cons.IH [OF rest1] scan Inr by simp
    have same: "same_but_coords banks (fst (snd (geocode_batches hav g u rest banks1 cache1 cur2)))"
      using sb IH by (blast intro: same_but_coords_trans)
    have "pred_option (match_ok hav banks1 u req) cur2"
      using scan Inr by simp
    with IH same Inr sb show ?thesis
      by (simp add: gb ok_iff pred_option_def)
  qed
qed

lemma candidateBanks_ok:
  "i \<in> set (candidateBanks banks req) \<Longrightarrow> i < length banks \<and> isCandidate req (banks ! i)"
  by (simp add: candidateBanks_def)

lemma split_candidates_withCoords:
  "(i, c, d) \<in> set (fst (split_candidates quick u banks ids)) \<Longrightarrow>
   i \<in> set ids \<and> coords (banks ! i) = Some c \<and> d = quick (lat u) (lon u) (lat c) (lon c) \<and>
   d \<le> MAX_DISTANCE * 1.5"
  by (induction ids) (auto simp: Let_def split: prod.splits option.splits if_splits)

lemma split_candidates_needing:
  "i \<in> set (snd (split_candidates quick u banks ids)) \<Longrightarrow> i \<in> set ids \<and> coords (banks ! i) = None"
  by (induction ids) (auto simp: Let_def split: prod.splits option.splits if_splits)

lemma examined_sub: "(i, c) \<in> set (examined w) \<Longrightarrow> \<exists>d. (i, c, d) \<in> set w"
  unfolding examined_def by (auto dest!: in_set_takeD)

lemma in_batches_take: "b \<in> set (batches n (take k xs)) \<Longrightarrow> i \<in> set b \<Longrightarrow> i \<in> set xs"
proof (cases "n = 0")
  case True
  then show "b \<in> set (batches n (take k xs)) \<Longrightarrow> i \<in> set b \<Longrightarrow> i \<in> set xs"
    by (simp add: batches.simps)
next
  case False
  assume "b \<in> set (batches n (take k xs))" "i \<in> set b"
  then have "i \<in> set (concat (batches n (take k xs)))" by auto
  with False have "i \<in> set (take k xs)" by (simp add: concat_batches)
  then show ?thesis by (rule in_set_takeD)
qed

lemma findNearestBloodBank_with_ok:
  "pred_option (match_ok hav banks u req) (fst (findNearestBloodBank_with hav quick g banks cache u req)) \<and>
   same_but_coords banks (fst (snd (findNearestBloodBank_with hav quick g banks cache u req)))"
proof -
  obtain withCoords needing where sp:
    "split_candidates quick u banks (candidateBanks banks req) = (withCoords, needing)"
    by (metis prod.exhaust)
  have ex: "\<forall>(i, c) \<in> set (examined withCoords). i < length banks \<and> isCandidate req (banks ! i)"
  proof (intro ballI)
    fix x assume x: "x \<in> set (examined withCoords)"
    obtain i c where xc: "x = (i, c)" by fastforce
    from x xc obtain d where "(i, c, d) \<in> set withCoords" using examined_sub by blast
    then have "i \<in> set (candidateBanks banks req)"
      using split_candidates_withCoords [of i c d quick u banks "candidateBanks banks req"] sp by simp
    then show "case x of (i, c) \<Rightarrow> i < length banks \<and> isCandidate req (banks ! i)"
      by (simp add: xc candidateBanks_ok)
  qed
  have bs: "\<forall>b \<in> set (batches GEOCODE_BATCH_SIZE (take MAX_CANDIDATES needing)).
              \<forall>i \<in> set b. i < length banks \<and> isCandidate req (banks ! i)"
  proof (intro ballI)
    fix b i assume "b \<in> set (batches GEOCODE_BATCH_SIZE (take MAX_CANDIDATES needing))" "i \<in> set b"
    then have "i \<in> set needing" by (rule in_batches_take)
    then have "i \<in> set (candidateBanks banks req)"
      using split_candidates_needing [of i quick u banks "candidateBanks banks req"] sp by simp
    then show "i < length banks \<and> isCandidate req (banks ! i)" by (rule candidateBanks_ok)
  qed
  have scan: "case_sum (match_ok hav banks u req) (pred_option (match_ok hav banks u req))
                (scan_exact hav u banks (examined withCoords) None)"
    by (rule scan_exact_ok [OF ex]) simp
  have cold: "pred_option (match_ok hav banks u req)
      (fst (geocode_batches hav g u (batches GEOCODE_BATCH_SIZE (take MAX_CANDIDATES needing)) banks cache None)) \<and>
    same_but_coords banks
      (fst (snd (geocode_batches hav g u (batches GEOCODE_BATCH_SIZE (take MAX_CANDIDATES needing)) banks cache None)))"
    by (rule geocode_batches_ok [OF bs]) simp
  show ?thesis
  proof (cases "scan_exact hav u banks (examined withCoords) None")
    case (Inl found)
    with scan show ?thesis by (simp add: findNearestBloodBank_with_def Let_def sp)
  next
    case (Inr nearest)
    with scan cold show ?thesis by (simp add: findNearestBloodBank_with_def Let_def sp)
  qed
qed

lemma scan_exact_first_close:
  assumes "find (\<lambda>(i, c). hav (lat u) (lon u) (lat c) (lon c) \<le> EARLY_TERMINATION_DISTANCE) L = Some (i, c)"
    and "pred_option (\<lambda>m. EARLY_TERMINATION_DISTANCE < nb_distance m) cur"
  shows "scan_exact hav u banks L cur = Inl (mk_nearest (banks ! i) c (hav (lat u) (lon u) (lat c) (lon c)))"
  using assms
proof (induction L arbitrary: cur)
  case Nil
  then show ?case by simp
next
  case (Cons x L)
  obtain j c' where x: "x = (j, c')" by fastforce
  let ?d = "hav (lat u) (lon u) (lat c') (lon c')"
  show ?case
  proof (cases "?d \<le> EARLY_TERMINATION_DISTANCE")
    case True
    with Cons.prems have "j = i \<and> c' = c" by (simp add: x)
    moreover have "?d \<le> MAX_DISTANCE \<and> below_min ?d cur"
      using True Cons.prems(2) by (auto simp: below_min_def matcher_constants split: option.splits)
    ultimately show ?thesis using True by (simp add: x)
  next
    case False
    with Cons.prems(1) have found: "find (\<lambda>(i, c). hav (lat u) (lon u) (lat c) (lon c) \<le> EARLY_TERMINATION_DISTANCE) L = Some (i, c)"
      by (simp add: x)
    have "pred_option (\<lambda>m. EARLY_TERMINATION_DISTANCE < nb_distance m) (Some (mk_nearest (banks ! j) c' ?d))"
      using False by (simp add: mk_nearest_def)
    with found Cons.IH Cons.prems(2) False show ?thesis
      by (simp add: x Let_def)
  qed
qed

lemma geocode_batch_unchanged:
  "j \<notin> set ids \<Longrightarrow> fst (snd (geocode_batch g cache0 banks ids acc)) ! j = banks ! j"
proof (induction ids arbitrary: banks acc)
  case Nil
  then show ?case by simp
next
  case (Cons i ids)
  then show ?case
    by (auto simp: Let_def split_def nth_list_update split: option.splits)
qed

lemma geocode_batch_changed_Some:
  "fst (snd (geocode_batch g cache0 banks ids acc)) ! j \<noteq> banks ! j \<Longrightarrow>
   coords (fst (snd (geocode_batch g cache0 banks ids acc)) ! j) \<noteq> None"
proof (induction ids arbitrary: banks acc)
  case Nil
  then show ?case by simp
next
  case (Cons i ids)
  obtain geocoded cache1 where gc: "geocodeLocation g cache0 (bb_location (banks ! i)) = (geocoded, cache1)"
    by fastforce
  define banks1 where "banks1 = (case geocoded of None \<Rightarrow> banks
                     | Some c \<Rightarrow> banks[i := (banks ! i)\<lparr>coords := Some c\<rparr>])"
  define banks2 where "banks2 = fst (snd (geocode_batch g cache0 banks1 ids (acc ++ cache1)))"
  have eq: "fst (snd (geocode_batch g cache0 banks (i # ids) acc)) = banks2"
    by (simp add: gc banks1_def [symmetric] banks2_def split_def Let_def)
  have b1: "banks1 ! j \<noteq> banks ! j \<Longrightarrow> coords (banks1 ! j) \<noteq> None"
    by (cases "i < length banks")
      (auto simp: banks1_def nth_list_update list_update_beyond split: option.splits)
  have p: "banks2 ! j \<noteq> banks ! j"
    using Cons.prems by (simp only: eq not_False_eq_True)
  show ?case
    unfolding eq
  proof (cases "banks2 ! j = banks1 ! j")
    case True
    with p b1 show "coords (banks2 ! j) \<noteq> None" by simp
  next
    case False
    then show "coords (banks2 ! j) \<noteq> None"
      using Cons.IH [of banks1 "acc ++ cache1"] by (simp add: banks2_def)
  qed
qed

lemma geocode_batches_unchanged:
  "j \<notin> set (concat bs) \<Longrightarrow> fst (snd (geocode_batches hav g u bs banks cache cur)) ! j = banks ! j"
proof (induction bs arbitrary: banks cache cur)
  case Nil
  then show ?case by simp
next
  case (Cons batch rest)
  obtain results banks1 cache1 where gb: "geocode_batch g cache banks batch cache = (results, banks1, cache1)"
    by (metis prod.exhaust)
  have b1: "banks1 ! j = banks ! j"
    using geocode_batch_unchanged [of j batch g cache banks cache] Cons.prems by (simp add: gb)
  show ?case
    using Cons.IH [of banks1 cache1] Cons.prems b1
    by (simp add: gb split: sum.split)
qed

lemma geocode_batches_changed_Some:
  "fst (snd (geocode_batches hav g u bs banks cache cur)) ! j \<noteq> banks ! j \<Longrightarrow>
   coords (fst (snd (geocode_batches hav g u bs banks cache cur)) ! j) \<noteq> None"
proof (induction bs arbitrary: banks cache cur)
  case Nil
  then show ?case by simp
next
  case (Cons batch rest)
  obtain results banks1 cache1 where gb: "geocode_batch g cache banks batch cache = (results, banks1, cache1)"
    by (metis prod.exhaust)
  have b1: "banks1 ! j \<noteq> banks ! j \<Longrightarrow> coords (banks1 ! j) \<noteq> None"
    using geocode_batch_changed_Some [of g cache banks batch cache j] by (simp add: gb)
  have rest: "coords (fst (snd (geocode_batches hav g u rest banks1 cache1 cur2)) ! j) \<noteq> None"
    if "fst (snd (geocode_batches hav g u rest banks1 cache1 cur2)) ! j \<noteq> banks ! j" for cur2
  proof (cases "fst (snd (geocode_batches hav g u rest banks1 cache1 cur2)) ! j = banks1 ! j")
    case True
    with that b1 show ?thesis by simp
  next
    case False
    then show ?thesis by (rule Cons.IH)
  qed
  show ?case
    using Cons.prems b1 rest by (auto simp: gb split: sum.splits if_splits)
qed

lemma findNearestBloodBank_with_changed:
  assumes "fst (snd (findNearestBloodBank_with hav quick g banks cache u req)) ! j \<noteq> banks ! j"
  shows "j \<in> set (take MAX_CANDIDATES (snd (split_candidates quick u banks (candidateBanks banks req)))) \<and>
         coords (fst (snd (findNearestBloodBank_with hav quick g banks cache u req)) ! j) \<noteq> None"
proof -
  obtain withCoords needing where sp:
    "split_candidates quick u banks (candidateBanks banks req) = (withCoords, needing)"
    by (metis prod.exhaust)
  let ?bs = "batches GEOCODE_BATCH_SIZE (take MAX_CANDIDATES needing)"
  have R: "fst (snd (findNearestBloodBank_with hav quick g banks cache u req)) =
           fst (snd (geocode_batches hav g u ?bs banks cache None))"
    using assms
    by (auto simp: findNearestBloodBank_with_def Let_def sp split: if_splits sum.splits)
  have "j \<in> set (concat ?bs)"
    using assms geocode_batches_unchanged [of j ?bs hav g u banks cache None] by (auto simp: R)
  then have "j \<in> set (take MAX_CANDIDATES needing)"
    by (simp add: concat_batches GEOCODE_BATCH_SIZE_def)
  moreover have "coords (fst (snd (geocode_batches hav g u ?bs banks cache None)) ! j) \<noteq> None"
    using assms geocode_batches_changed_Some [of hav g u ?bs banks cache None j] by (simp add: R)
  ultimately show ?thesis by (simp add: sp R)
qed

subsection \<open>Properties of the matcher\<close>

lemma geocode_batch_cache_sound:
  assumes "cache_sound g cache0" and "cache_sound g acc"
  shows "cache_sound g (snd (snd (geocode_batch g cache0 banks ids acc)))"
  using assms(2)
proof (induction ids arbitrary: banks acc)
  case Nil
  then show ?case by simp
next
  case (Cons i ids)
  obtain geocoded cache1 where gc: "geocodeLocation g cache0 (bb_location (banks ! i)) = (geocoded, cache1)"
    by fastforce
  have "cache_sound g cache1"
    using geocodeLocation_cache_sound [OF assms(1), of "bb_location (banks ! i)"] gc by simp
  with Cons.prems have "cache_sound g (acc ++ cache1)" by (rule cache_sound_map_add)
  from Cons.IH [OF this] show ?case
    by (simp add: gc split_def Let_def)
qed

lemma geocode_batches_cache_sound:
  "cache_sound g cache \<Longrightarrow> cache_sound g (snd (snd (geocode_batches hav g u bs banks cache cur)))"
proof (induction bs arbitrary: banks cache cur)
  case Nil
  then show ?case by simp
next
  case (Cons b bs)
  obtain results banks1 cache1 where gb: "geocode_batch g cache banks b cache = (results, banks1, cache1)"
    by (metis prod.exhaust)
  have "cache_sound g cache1"
    using geocode_batch_cache_sound [OF Cons.prems Cons.prems, of banks b] gb by simp
  then show ?case
    using Cons.IH [of cache1 banks1]
    by (simp add: gb split: sum.split)
qed

lemma findNearestBloodBank_with_cache_sound:
  "cache_sound g cache \<Longrightarrow> cache_sound g (snd (snd (findNearestBloodBank_with hav quick g banks cache u req)))"
  by (auto simp: findNearestBloodBank_with_def Let_def split_def geocode_batches_cache_sound split: sum.split)

text \<open>
  C1. Whatever the distance functions, the geocoding service, the directory and the
  cache, a bank returned by the matcher offers the required blood group, is not
  \<open>Critical\<close>, is reported with its exact distance from the requester, and lies
  within 10 km (spec section 8, property 2).
\<close>

theorem findNearestBloodBank_with_sound:
  assumes "fst (findNearestBloodBank_with hav quick g banks cache userCoords req) = Some n"
  shows "match_ok hav banks userCoords req n"
  using findNearestBloodBank_with_ok [of hav banks userCoords req quick g cache] assms by simp

theorem findNearestBloodBank_with_sound_witness:
  "fst (findNearestBloodBank (\<lambda>q. None)
     [\<lparr>bb_name = ''City Blood Bank'', bb_state = ''Andhra Pradesh'', bb_district = ''Visakhapatnam'',
       bb_location = ''Visakhapatnam'', bb_phone = ''0891'', blood_groups_available = [''O+''],
       availability = ''Available'', last_updated = ''2024-01-01'',
       coords = Some \<lparr>lat = 17.7, lon = 83.25, address = ''Visakhapatnam''\<rparr>\<rparr>]
     Map.empty \<lparr>lat = 17.7, lon = 83.25, address = ''Visakhapatnam''\<rparr> ''O+'') =
     Some \<lparr>nb_name = ''City Blood Bank'', nb_location = ''Visakhapatnam'',
           nb_coords = \<lparr>lat = 17.7, lon = 83.25, address = ''Visakhapatnam''\<rparr>, nb_distance = 0\<rparr> \<and>
   match_ok haversineDistance
     [\<lparr>bb_name = ''City Blood Bank'', bb_state = ''Andhra Pradesh'', bb_district = ''Visakhapatnam'',
       bb_location = ''Visakhapatnam'', bb_phone = ''0891'', blood_groups_available = [''O+''],
       availability = ''Available'', last_updated = ''2024-01-01'',
       coords = Some \<lparr>lat = 17.7, lon = 83.25, address = ''Visakhapatnam''\<rparr>\<rparr>]
     \<lparr>lat = 17.7, lon = 83.25, address = ''Visakhapatnam''\<rparr> ''O+''
     \<lparr>nb_name = ''City Blood Bank'', nb_location = ''Visakhapatnam'',
      nb_coords = \<lparr>lat = 17.7, lon = 83.25, address = ''Visakhapatnam''\<rparr>, nb_distance = 0\<rparr>"
  using findNearestBloodBank_with_sound [of haversineDistance quickDistance "\<lambda>q. None"
     "[\<lparr>bb_name = ''City Blood Bank'', bb_state = ''Andhra Pradesh'', bb_district = ''Visakhapatnam'',
       bb_location = ''Visakhapatnam'', bb_phone = ''0891'', blood_groups_available = [''O+''],
       availability = ''Available'', last_updated = ''2024-01-01'',
       coords = Some \<lparr>lat = 17.7, lon = 83.25, address = ''Visakhapatnam''\<rparr>\<rparr>]"
     Map.empty "\<lparr>lat = 17.7, lon = 83.25, address = ''Visakhapatnam''\<rparr>" "''O+''"
     "\<lparr>nb_name = ''City Blood Bank'', nb_location = ''Visakhapatnam'',
       nb_coords = \<lparr>lat = 17.7, lon = 83.25, address = ''Visakhapatnam''\<rparr>, nb_distance = 0\<rparr>"]
  by (simp add: findNearestBloodBank_def findNearestBloodBank_with_def candidateBanks_def isCandidate_def
      examined_def matcher_constants below_min_def mk_nearest_def haversineDistance_self quickDistance_self)

text \<open>
  C2. Early termination: if some bank of the pre-ranked list (the candidates with
  known coordinates that pass the planar pre-filter, stably sorted by approximate
  distance, at most 30) lies within 2 km, the matcher returns the first such bank
  of that list with its exact distance, without any geocoding request and without
  touching the directory or the cache. With a bank at 1500 m and another at 8000 m
  it returns the one at 1500 m (spec section 8, property 3; the witness).
\<close>

theorem findNearestBloodBank_with_early_exit:
  assumes "find (\<lambda>(i, c). hav (lat u) (lon u) (lat c) (lon c) \<le> EARLY_TERMINATION_DISTANCE)
             (examined (fst (split_candidates quick u banks (candidateBanks banks req)))) = Some (i, c)"
  shows "findNearestBloodBank_with hav quick g banks cache u req =
           (Some (mk_nearest (banks ! i) c (hav (lat u) (lon u) (lat c) (lon c))), banks, cache)"
proof -
  obtain withCoords needing where sp:
    "split_candidates quick u banks (candidateBanks banks req) = (withCoords, needing)"
    by (metis prod.exhaust)
  have ne: "candidateBanks banks req \<noteq> []"
  proof
    assume "candidateBanks banks req = []"
    with assms show False by (simp add: examined_def)
  qed
  have "scan_exact hav u banks (examined withCoords) None =
          Inl (mk_nearest (banks ! i) c (hav (lat u) (lon u) (lat c) (lon c)))"
    by (rule scan_exact_first_close) (use assms sp in simp_all)
  then show ?thesis by (simp add: findNearestBloodBank_with_def Let_def sp ne)
qed

theorem findNearestBloodBank_with_early_exit_witness:
  "find (\<lambda>(i, c). (\<lambda>a b c d. abs (c - a) + abs (d - b)) (lat \<lparr>lat = 0, lon = 0, address = ''Requester''\<rparr>) (lon \<lparr>lat = 0, lon = 0, address = ''Requester''\<rparr>) (lat c) (lon c) \<le> EARLY_TERMINATION_DISTANCE)
     (examined (fst (split_candidates (\<lambda>a b c d. abs (c - a) + abs (d - b)) \<lparr>lat = 0, lon = 0, address = ''Requester''\<rparr> [\<lparr>bb_name = ''Far Bank'', bb_state = ''AP'', bb_district = ''Vizag'', bb_location = ''Gajuwaka'', bb_phone = ''1'', blood_groups_available = [''O+''], availability = ''Available'', last_updated = ''2024-01-01'', coords = Some \<lparr>lat = 8000, lon = 0, address = ''Gajuwaka''\<rparr>\<rparr>, \<lparr>bb_name = ''Near Bank'', bb_state = ''AP'', bb_district = ''Vizag'', bb_location = ''Dwaraka Nagar'', bb_phone = ''2'', blood_groups_available = [''O+'', ''A+''], availability = ''Low Stock'', last_updated = ''2024-01-01'', coords = Some \<lparr>lat = 1500, lon = 0, address = ''Dwaraka Nagar''\<rparr>\<rparr>] (candidateBanks [\<lparr>bb_name = ''Far Bank'', bb_state = ''AP'', bb_district = ''Vizag'', bb_location = ''Gajuwaka'', bb_phone = ''1'', blood_groups_available = [''O+''], availability = ''Available'', last_updated = ''2024-01-01'', coords = Some \<lparr>lat = 8000, lon = 0, address = ''Gajuwaka''\<rparr>\<rparr>, \<lparr>bb_name = ''Near Bank'', bb_state = ''AP'', bb_district = ''Vizag'', bb_location = ''Dwaraka Nagar'', bb_phone = ''2'', blood_groups_available = [''O+'', ''A+''], availability = ''Low Stock'', last_updated = ''2024-01-01'', coords = Some \<lparr>lat = 1500, lon = 0, address = ''Dwaraka Nagar''\<rparr>\<rparr>] ''O+'')))) =
     Some (1, \<lparr>lat = 1500, lon = 0, address = ''Dwaraka Nagar''\<rparr>) \<and>
   findNearestBloodBank_with (\<lambda>a b c d. abs (c - a) + abs (d - b)) (\<lambda>a b c d. abs (c - a) + abs (d - b)) (\<lambda>q. None) [\<lparr>bb_name = ''Far Bank'', bb_state = ''AP'', bb_district = ''Vizag'', bb_location = ''Gajuwaka'', bb_phone = ''1'', blood_groups_available = [''O+''], availability = ''Available'', last_updated = ''2024-01-01'', coords = Some \<lparr>lat = 8000, lon = 0, address = ''Gajuwaka''\<rparr>\<rparr>, \<lparr>bb_name = ''Near Bank'', bb_state = ''AP'', bb_district = ''Vizag'', bb_location = ''Dwaraka Nagar'', bb_phone = ''2'', blood_groups_available = [''O+'', ''A+''], availability = ''Low Stock'', last_updated = ''2024-01-01'', coords = Some \<lparr>lat = 1500, lon = 0, address = ''Dwaraka Nagar''\<rparr>\<rparr>] Map.empty \<lparr>lat = 0, lon = 0, address = ''Requester''\<rparr> ''O+'' =
     (Some (mk_nearest \<lparr>bb_name = ''Near Bank'', bb_state = ''AP'', bb_district = ''Vizag'', bb_location = ''Dwaraka Nagar'', bb_phone = ''2'', blood_groups_available = [''O+'', ''A+''], availability = ''Low Stock'', last_updated = ''2024-01-01'', coords = Some \<lparr>lat = 1500, lon = 0, address = ''Dwaraka Nagar''\<rparr>\<rparr> \<lparr>lat = 1500, lon = 0, address = ''Dwaraka Nagar''\<rparr> 1500), [\<lparr>bb_name = ''Far Bank'', bb_state = ''AP'', bb_district = ''Vizag'', bb_location = ''Gajuwaka'', bb_phone = ''1'', blood_groups_available = [''O+''], availability = ''Available'', last_updated = ''2024-01-01'', coords = Some \<lparr>lat = 8000, lon = 0, address = ''Gajuwaka''\<rparr>\<rparr>, \<lparr>bb_name = ''Near Bank'', bb_state = ''AP'', bb_district = ''Vizag'', bb_location = ''Dwaraka Nagar'', bb_phone = ''2'', blood_groups_available = [''O+'', ''A+''], availability = ''Low Stock'', last_updated = ''2024-01-01'', coords = Some \<lparr>lat = 1500, lon = 0, address = ''Dwaraka Nagar''\<rparr>\<rparr>], Map.empty)"
proof -
  have h: "find (\<lambda>(i, c). (\<lambda>a b c d. abs (c - a) + abs (d - b)) (lat \<lparr>lat = 0, lon = 0, address = ''Requester''\<rparr>) (lon \<lparr>lat = 0, lon = 0, address = ''Requester''\<rparr>) (lat c) (lon c) \<le> EARLY_TERMINATION_DISTANCE)
     (examined (fst (split_candidates (\<lambda>a b c d. abs (c - a) + abs (d - b)) \<lparr>lat = 0, lon = 0, address = ''Requester''\<rparr> [\<lparr>bb_name = ''Far Bank'', bb_state = ''AP'', bb_district = ''Vizag'', bb_location = ''Gajuwaka'', bb_phone = ''1'', blood_groups_available = [''O+''], availability = ''Available'', last_updated = ''2024-01-01'', coords = Some \<lparr>lat = 8000, lon = 0, address = ''Gajuwaka''\<rparr>\<rparr>, \<lparr>bb_name = ''Near Bank'', bb_state = ''AP'', bb_district = ''Vizag'', bb_location = ''Dwaraka Nagar'', bb_phone = ''2'', blood_groups_available = [''O+'', ''A+''], availability = ''Low Stock'', last_updated = ''2024-01-01'', coords = Some \<lparr>lat = 1500, lon = 0, address = ''Dwaraka Nagar''\<rparr>\<rparr>] (candidateBanks [\<lparr>bb_name = ''Far Bank'', bb_state = ''AP'', bb_district = ''Vizag'', bb_location = ''Gajuwaka'', bb_phone = ''1'', blood_groups_available = [''O+''], availability = ''Available'', last_updated = ''2024-01-01'', coords = Some \<lparr>lat = 8000, lon = 0, address = ''Gajuwaka''\<rparr>\<rparr>, \<lparr>bb_name = ''Near Bank'', bb_state = ''AP'', bb_district = ''Vizag'', bb_location = ''Dwaraka Nagar'', bb_phone = ''2'', blood_groups_available = [''O+'', ''A+''], availability = ''Low Stock'', last_updated = ''2024-01-01'', coords = Some \<lparr>lat = 1500, lon = 0, address = ''Dwaraka Nagar''\<rparr>\<rparr>] ''O+'')))) =
     Some (1, \<lparr>lat = 1500, lon = 0, address = ''Dwaraka Nagar''\<rparr>)"
    by (simp add: candidateBanks_def isCandidate_def examined_def matcher_constants)
  show ?thesis
    using h findNearestBloodBank_with_early_exit [of "(\<lambda>a b c d. abs (c - a) + abs (d - b))" "\<lparr>lat = 0, lon = 0, address = ''Requester''\<rparr>" "(\<lambda>a b c d. abs (c - a) + abs (d - b))" "[\<lparr>bb_name = ''Far Bank'', bb_state = ''AP'', bb_district = ''Vizag'', bb_location = ''Gajuwaka'', bb_phone = ''1'', blood_groups_available = [''O+''], availability = ''Available'', last_updated = ''2024-01-01'', coords = Some \<lparr>lat = 8000, lon = 0, address = ''Gajuwaka''\<rparr>\<rparr>, \<lparr>bb_name = ''Near Bank'', bb_state = ''AP'', bb_district = ''Vizag'', bb_location = ''Dwaraka Nagar'', bb_phone = ''2'', blood_groups_available = [''O+'', ''A+''], availability = ''Low Stock'', last_updated = ''2024-01-01'', coords = Some \<lparr>lat = 1500, lon = 0, address = ''Dwaraka Nagar''\<rparr>\<rparr>]" "''O+''" 1
      "\<lparr>lat = 1500, lon = 0, address = ''Dwaraka Nagar''\<rparr>" "\<lambda>q. None" Map.empty] by simp
qed

text \<open>
  C3. When no bank of the directory offers the required group outside the
  \<open>Critical\<close> state, the matcher returns \<open>null\<close> at once: no geocoding
  request, directory and cache unchanged (spec section 8, property 4).
\<close>

theorem findNearestBloodBank_with_no_candidate:
  assumes "\<forall>b \<in> set banks. req \<notin> set (blood_groups_available b) \<or> availability b = ''Critical''"
  shows "findNearestBloodBank_with hav quick g banks cache u req = (None, banks, cache)"
proof -
  have "candidateBanks banks req = []"
    using assms by (auto simp: candidateBanks_def isCandidate_def filter_empty_conv)
  then show ?thesis by (simp add: findNearestBloodBank_with_def)
qed

theorem findNearestBloodBank_with_no_candidate_witness:
  "findNearestBloodBank (\<lambda>q. None) [\<lparr>bb_name = ''Red Cross'', bb_state = ''AP'', bb_district = ''Vizag'', bb_location = ''MVP Colony'', bb_phone = ''3'', blood_groups_available = [''AB-''], availability = ''Critical'', last_updated = ''2024-01-01'', coords = None\<rparr>, \<lparr>bb_name = ''KGH Bank'', bb_state = ''AP'', bb_district = ''Vizag'', bb_location = ''Maharanipeta'', bb_phone = ''4'', blood_groups_available = [''O+''], availability = ''Available'', last_updated = ''2024-01-01'', coords = None\<rparr>] Map.empty \<lparr>lat = 0, lon = 0, address = ''Requester''\<rparr> ''AB-'' = (None, [\<lparr>bb_name = ''Red Cross'', bb_state = ''AP'', bb_district = ''Vizag'', bb_location = ''MVP Colony'', bb_phone = ''3'', blood_groups_available = [''AB-''], availability = ''Critical'', last_updated = ''2024-01-01'', coords = None\<rparr>, \<lparr>bb_name = ''KGH Bank'', bb_state = ''AP'', bb_district = ''Vizag'', bb_location = ''Maharanipeta'', bb_phone = ''4'', blood_groups_available = [''O+''], availability = ''Available'', last_updated = ''2024-01-01'', coords = None\<rparr>], Map.empty)"
proof -
  have h: "\<forall>b \<in> set [\<lparr>bb_name = ''Red Cross'', bb_state = ''AP'', bb_district = ''Vizag'', bb_location = ''MVP Colony'', bb_phone = ''3'', blood_groups_available = [''AB-''], availability = ''Critical'', last_updated = ''2024-01-01'', coords = None\<rparr>, \<lparr>bb_name = ''KGH Bank'', bb_state = ''AP'', bb_district = ''Vizag'', bb_location = ''Maharanipeta'', bb_phone = ''4'', blood_groups_available = [''O+''], availability = ''Available'', last_updated = ''2024-01-01'', coords = None\<rparr>]. ''AB-'' \<notin> set (blood_groups_available b) \<or> availability b = ''Critical''"
    by simp
  show ?thesis
    using h findNearestBloodBank_with_no_candidate [OF h, of haversineDistance quickDistance "\<lambda>q. None" Map.empty "\<lparr>lat = 0, lon = 0, address = ''Requester''\<rparr>"]
    by (simp add: findNearestBloodBank_def)
qed

text \<open>
  C4. One call of the matcher changes the directory only by attaching coordinates:
  every bank keeps all its other fields, at most 30 banks change, and a bank that
  changes had no coordinate before and has one after (the bound on geocoding
  requests of spec section 4.2, step 4).
\<close>

theorem findNearestBloodBank_with_frame:
  "same_but_coords banks (fst (snd (findNearestBloodBank_with hav quick g banks cache u req))) \<and>
   card {i. i < length banks \<and> fst (snd (findNearestBloodBank_with hav quick g banks cache u req)) ! i \<noteq> banks ! i}
     \<le> MAX_CANDIDATES \<and>
   (\<forall>i < length banks. fst (snd (findNearestBloodBank_with hav quick g banks cache u req)) ! i \<noteq> banks ! i \<longrightarrow>
      coords (banks ! i) = None \<and> coords (fst (snd (findNearestBloodBank_with hav quick g banks cache u req)) ! i) \<noteq> None)"
proof -
  let ?banks' = "fst (snd (findNearestBloodBank_with hav quick g banks cache u req))"
  let ?needing = "snd (split_candidates quick u banks (candidateBanks banks req))"
  have sub: "{i. i < length banks \<and> ?banks' ! i \<noteq> banks ! i} \<subseteq> set (take MAX_CANDIDATES ?needing)"
    using findNearestBloodBank_with_changed by blast
  have "card (set (take MAX_CANDIDATES ?needing)) \<le> MAX_CANDIDATES"
    using card_length [of "take MAX_CANDIDATES ?needing"] by simp
  then have card: "card {i. i < length banks \<and> ?banks' ! i \<noteq> banks ! i} \<le> MAX_CANDIDATES"
    using card_mono [OF _ sub] by simp
  have before: "coords (banks ! i) = None" if "?banks' ! i \<noteq> banks ! i" for i
  proof -
    from that have "i \<in> set ?needing"
      using findNearestBloodBank_with_changed [of hav quick g banks cache u req i] by (blast dest: in_set_takeD)
    then show ?thesis
      using split_candidates_needing [of i quick u banks "candidateBanks banks req"] by simp
  qed
  show ?thesis
    using findNearestBloodBank_with_ok [of hav banks u req quick g cache] card before
      findNearestBloodBank_with_changed [of hav quick g banks cache u req]
    by blast
qed

theorem findNearestBloodBank_with_frame_witness:
  "findNearestBloodBank_with (\<lambda>a b c d. abs (c - a) + abs (d - b)) (\<lambda>a b c d. abs (c - a) + abs (d - b)) (\<lambda>q. Some \<lparr>g_lat = 0, g_lon = 1500, g_display_name = ''Visakhapatnam, India''\<rparr>) [\<lparr>bb_name = ''Vizag Bank'', bb_state = ''AP'', bb_district = ''Vizag'', bb_location = ''Vizag'', bb_phone = ''5'', blood_groups_available = [''O+''], availability = ''Available'', last_updated = ''2024-01-01'', coords = None\<rparr>] Map.empty \<lparr>lat = 0, lon = 0, address = ''Requester''\<rparr> ''O+'' = (Some (mk_nearest \<lparr>bb_name = ''Vizag Bank'', bb_state = ''AP'', bb_district = ''Vizag'', bb_location = ''Vizag'', bb_phone = ''5'', blood_groups_available = [''O+''], availability = ''Available'', last_updated = ''2024-01-01'', coords = None\<rparr> \<lparr>lat = 0, lon = 1500, address = ''Visakhapatnam, India''\<rparr> 1500), [\<lparr>bb_name = ''Vizag Bank'', bb_state = ''AP'', bb_district = ''Vizag'', bb_location = ''Vizag'', bb_phone = ''5'', blood_groups_available = [''O+''], availability = ''Available'', last_updated = ''2024-01-01'', coords = None\<rparr>\<lparr>coords := Some \<lparr>lat = 0, lon = 1500, address = ''Visakhapatnam, India''\<rparr>\<rparr>], [''vizag'' \<mapsto> \<lparr>lat = 0, lon = 1500, address = ''Visakhapatnam, India''\<rparr>]) \<and>
   card {i. i < length [\<lparr>bb_name = ''Vizag Bank'', bb_state = ''AP'', bb_district = ''Vizag'', bb_location = ''Vizag'', bb_phone = ''5'', blood_groups_available = [''O+''], availability = ''Available'', last_updated = ''2024-01-01'', coords = None\<rparr>] \<and> fst (snd (findNearestBloodBank_with (\<lambda>a b c d. abs (c - a) + abs (d - b)) (\<lambda>a b c d. abs (c - a) + abs (d - b)) (\<lambda>q. Some \<lparr>g_lat = 0, g_lon = 1500, g_display_name = ''Visakhapatnam, India''\<rparr>) [\<lparr>bb_name = ''Vizag Bank'', bb_state = ''AP'', bb_district = ''Vizag'', bb_location = ''Vizag'', bb_phone = ''5'', blood_groups_available = [''O+''], availability = ''Available'', last_updated = ''2024-01-01'', coords = None\<rparr>] Map.empty \<lparr>lat = 0, lon = 0, address = ''Requester''\<rparr> ''O+'')) ! i \<noteq> [\<lparr>bb_name = ''Vizag Bank'', bb_state = ''AP'', bb_district = ''Vizag'', bb_location = ''Vizag'', bb_phone = ''5'', blood_groups_available = [''O+''], availability = ''Available'', last_updated = ''2024-01-01'', coords = None\<rparr>] ! i} \<le> MAX_CANDIDATES"
proof -
  have r: "findNearestBloodBank_with (\<lambda>a b c d. abs (c - a) + abs (d - b)) (\<lambda>a b c d. abs (c - a) + abs (d - b)) (\<lambda>q. Some \<lparr>g_lat = 0, g_lon = 1500, g_display_name = ''Visakhapatnam, India''\<rparr>) [\<lparr>bb_name = ''Vizag Bank'', bb_state = ''AP'', bb_district = ''Vizag'', bb_location = ''Vizag'', bb_phone = ''5'', blood_groups_available = [''O+''], availability = ''Available'', last_updated = ''2024-01-01'', coords = None\<rparr>] Map.empty \<lparr>lat = 0, lon = 0, address = ''Requester''\<rparr> ''O+'' = (Some (mk_nearest \<lparr>bb_name = ''Vizag Bank'', bb_state = ''AP'', bb_district = ''Vizag'', bb_location = ''Vizag'', bb_phone = ''5'', blood_groups_available = [''O+''], availability = ''Available'', last_updated = ''2024-01-01'', coords = None\<rparr> \<lparr>lat = 0, lon = 1500, address = ''Visakhapatnam, India''\<rparr> 1500), [\<lparr>bb_name = ''Vizag Bank'', bb_state = ''AP'', bb_district = ''Vizag'', bb_location = ''Vizag'', bb_phone = ''5'', blood_groups_available = [''O+''], availability = ''Available'', last_updated = ''2024-01-01'', coords = None\<rparr>\<lparr>coords := Some \<lparr>lat = 0, lon = 1500, address = ''Visakhapatnam, India''\<rparr>\<rparr>], [''vizag'' \<mapsto> \<lparr>lat = 0, lon = 1500, address = ''Visakhapatnam, India''\<rparr>])"
    by (simp add: findNearestBloodBank_with_def candidateBanks_def isCandidate_def examined_def matcher_constants
        batches.simps geocodeLocation_def normalize_location_def search_query_def result_coord_def
        js_trim_def js_lower_def js_lower_char_def is_js_space_def char_of_def bit_0 below_min_def
        good_match_def mk_nearest_def Let_def)
  show ?thesis
    using r findNearestBloodBank_with_frame [where banks = "[\<lparr>bb_name = ''Vizag Bank'', bb_state = ''AP'', bb_district = ''Vizag'', bb_location = ''Vizag'', bb_phone = ''5'', blood_groups_available = [''O+''], availability = ''Available'', last_updated = ''2024-01-01'', coords = None\<rparr>]" and hav = "(\<lambda>a b c d. abs (c - a) + abs (d - b))" and quick = "(\<lambda>a b c d. abs (c - a) + abs (d - b))" and g = "(\<lambda>q. Some \<lparr>g_lat = 0, g_lon = 1500, g_display_name = ''Visakhapatnam, India''\<rparr>)"
      and cache = Map.empty and u = "\<lparr>lat = 0, lon = 0, address = ''Requester''\<rparr>" and req = "''O+''"] by simp
qed


subsection \<open>The batching loop\<close>

lemma round_up_step:
  assumes "0 < bsize" "i < limit"
  shows "round_up bsize (limit - i) = bsize + round_up bsize (limit - (i + bsize))"
proof -
  have "(limit - i + bsize - 1) div bsize = Suc ((limit - (i + bsize) + bsize - 1) div bsize)"
  proof (cases "limit - i \<le> bsize")
    case True
    with assms have z0: "limit - (i + bsize) = 0" by simp
    have one: "(limit - i + bsize - 1) div bsize = 1"
    proof -
      have e: "limit - i + bsize - 1 = (limit - i - 1) + bsize" using assms by simp
      have z: "(limit - i - 1) div bsize = 0" using True assms by simp
      have "((limit - i - 1) + bsize) div bsize = (limit - i - 1) div bsize + 1"
        using div_add_self2 [of bsize "limit - i - 1"] assms by simp
      then show ?thesis unfolding e using z by simp
    qed
    have "(limit - (i + bsize) + bsize - 1) div bsize = 0" unfolding z0 using assms by simp
    then show ?thesis unfolding one by simp
  next
    case False
    then have e2: "limit - i + bsize - 1 = (limit - (i + bsize) + bsize - 1) + bsize" by simp
    show ?thesis unfolding e2 by (rule div_add_self2 [THEN trans]) (use assms in simp_all)
  qed
  then show ?thesis by (simp add: round_up_def)
qed

lemma batch_loop_Some:
  assumes "0 < bsize" "limit \<le> length xs"
  shows "batch_loop bsize limit xs i acc = Some (acc @ batches bsize (take (round_up bsize (limit - i)) (drop i xs)))"
  using assms
proof (induction "limit - i" arbitrary: i acc rule: less_induct)
  case less
  show ?case
  proof (cases "i < limit")
    case True
    have IH: "batch_loop bsize limit xs (i + bsize) (acc @ [take bsize (drop i xs)]) =
        Some ((acc @ [take bsize (drop i xs)]) @ batches bsize (take (round_up bsize (limit - (i + bsize))) (drop (i + bsize) xs)))"
      using less.hyps [of "i + bsize"] less.prems True by simp
    have ne: "take (round_up bsize (limit - i)) (drop i xs) \<noteq> []"
      using True less.prems round_up_step [OF less.prems(1) True] by simp
    have "batches bsize (take (round_up bsize (limit - i)) (drop i xs)) =
          take bsize (drop i xs) # batches bsize (take (round_up bsize (limit - (i + bsize))) (drop (i + bsize) xs))"
      using batches_Cons_eq [OF less.prems(1) ne] round_up_step [OF less.prems(1) True]
      by (simp add: drop_take add.commute)
    then show ?thesis using IH True by (simp add: batch_loop.simps)
  next
    case False
    moreover have "(bsize - 1) div bsize = 0" using less.prems by simp
    ultimately show ?thesis by (simp add: batch_loop.simps round_up_def)
  qed
qed


lemma batch_loop_returns_done:
  "\<forall>x y. (case x of ((((b, l), xs), i), acc) \<Rightarrow> batch_loop b l xs i acc) = Some y \<longrightarrow>
     (case x of ((((b, l), xs), i), acc) \<Rightarrow> b = 0 \<longrightarrow> \<not> i < l)"
proof (induction rule: batch_loop.fixp_induct)
  case 1
  show ?case unfolding curry_def split_def prod.collapse by (rule option_admissible)
next
  case 2
  show ?case by simp
next
  case (3 f)
  then show ?case by (auto split: prod.splits if_splits) blast
qed

lemma batch_loop_diverges: "i < limit \<Longrightarrow> batch_loop 0 limit xs i acc = None"
  using batch_loop_returns_done [rule_format, of "((((0, limit), xs), i), acc)"] by (cases "batch_loop 0 limit xs i acc") auto

lemma round_up_ge: "0 < bsize \<Longrightarrow> n \<le> round_up bsize n"
proof -
  assume b: "0 < bsize"
  have "n + bsize - 1 = (n + bsize - 1) div bsize * bsize + (n + bsize - 1) mod bsize"
    by (rule div_mult_mod_eq [symmetric])
  moreover have "(n + bsize - 1) mod bsize < bsize" using b by simp
  ultimately show ?thesis unfolding round_up_def using b by linarith
qed

lemma batch_loop_all: "0 < bsize \<Longrightarrow> batch_loop bsize (length xs) xs 0 [] = Some (batches bsize xs)"
  using batch_loop_Some [of bsize "length xs" xs 0 "[]"] round_up_ge [of bsize "length xs"] by simp

text \<open>
  C17. The cold-start loop of the matcher terminates, and what it builds is the
  batching the model of findNearestBloodBank uses: the first 30 banks needing
  coordinates in batches of 5, for any number of such banks.
\<close>

theorem geocode_batch_loop_terminates:
  "batch_loop GEOCODE_BATCH_SIZE (min (length needing) MAX_CANDIDATES) needing 0 [] =
     Some (batches GEOCODE_BATCH_SIZE (take MAX_CANDIDATES needing))"
proof (cases "MAX_CANDIDATES \<le> length needing")
  case True
  have "round_up GEOCODE_BATCH_SIZE MAX_CANDIDATES = MAX_CANDIDATES"
    by (simp add: round_up_def GEOCODE_BATCH_SIZE_def MAX_CANDIDATES_def)
  with True show ?thesis
    using batch_loop_Some [of GEOCODE_BATCH_SIZE MAX_CANDIDATES needing 0 "[]"]
    by (simp add: GEOCODE_BATCH_SIZE_def min_def)
next
  case False
  then have "length needing \<le> round_up GEOCODE_BATCH_SIZE (length needing)"
    using round_up_ge [of GEOCODE_BATCH_SIZE] by (simp add: GEOCODE_BATCH_SIZE_def)
  with False show ?thesis
    using batch_loop_Some [of GEOCODE_BATCH_SIZE "length needing" needing 0 "[]"]
    by (simp add: GEOCODE_BATCH_SIZE_def min_def)
qed

end
