(* ===== verification/Route.thy ===== *)
theory Route
  imports Geo "HOL-Library.Signed_Division"
begin

text \<open>
  The route planner of DeliveryDashboard.tsx: \<open>calculateRouteWithInfo\<close> (lines
  684-777, used when a delivery starts) and \<open>calculateRouteFromBloodBankToUser\<close>
  (lines 1046-1147, fired after an acceptance). Both ask the routing service for a
  car route and a bike route and synthesise the air figures; their only output
  that the model keeps is the \<open>routeInfo\<close> state they set (the markers and
  polylines they draw are not modelled). A routing answer is the \<open>paths\<close> field of
  the JSON, \<open>None\<close> when it is missing, or a failed request; a path's
  \<open>distance\<close>, \<open>time\<close> and \<open>points\<close> may each be missing. A result
  \<open>Inl\<close> is a return without \<open>setRouteInfo\<close>; \<open>Inr\<close> is the state set.
  The lemmas give each branch (no map, no car path, a thrown error, success), the
  bike fallback of 15 km/h and the air estimate of 800 km/h, and show that the two
  handlers compute the same figures.
\<close>

record path =
  p_distance :: "real option"
  p_time :: "real option"
  p_points :: "(real \<times> real) list option"

datatype route_response = FetchFailed | RouteJson "path list option"

record 'a leg =
  leg_distance :: 'a
  leg_duration :: 'a

record routeInfo =
  car :: "real option leg"
  bike :: "real leg"
  air :: "real leg"

datatype route_error = MapNotReady | NoRouteFound | RouteFailed

definition bikeAvgKmh :: real where "bikeAvgKmh = 15"
definition airAvgKmh :: real where "airAvgKmh = 800"

text \<open>The bike request: its path's figures, or nothing when it failed or found no path.\<close>

definition bike_leg :: "route_response \<Rightarrow> real option \<times> real option" where
  "bike_leg bikeResp =
     (case bikeResp of
        RouteJson (Some (p # _)) \<Rightarrow> (p_distance p, p_time p)
      | _ \<Rightarrow> (None, None))"

text \<open>Speeds in km/h turned into milliseconds for a distance in metres.\<close>

definition duration_at :: "real \<Rightarrow> real \<Rightarrow> real" where
  "duration_at kmh distance = distance / 1000 / kmh * 3600 * 1000"

definition calculateRouteWithInfo ::
  "bool \<Rightarrow> coord \<Rightarrow> coord \<Rightarrow> route_response \<Rightarrow> route_response \<Rightarrow> route_error + routeInfo" where
  "calculateRouteWithInfo mapReady start end carResp bikeResp =
     (if \<not> mapReady then Inl MapNotReady
      else case carResp of
        FetchFailed \<Rightarrow> Inl RouteFailed
      | RouteJson None \<Rightarrow> Inl NoRouteFound
      | RouteJson (Some []) \<Rightarrow> Inl NoRouteFound
      | RouteJson (Some (carPath # _)) \<Rightarrow>
          (case p_points carPath of
             None \<Rightarrow> Inl RouteFailed
           | Some _ \<Rightarrow>
               (let carDistance = p_distance carPath;
                    carDuration = p_time carPath;
                    (bikeDistance, bikeDuration) = bike_leg bikeResp;
                    airDistance = haversineDistance (lat start) (lon start) (lat end) (lon end);
                    finalBikeDistance = js_nullish bikeDistance (js_nullish carDistance airDistance);
                    finalBikeDuration = js_nullish bikeDuration (duration_at bikeAvgKmh finalBikeDistance);
                    airDuration = duration_at airAvgKmh airDistance
                in Inr \<lparr>car = \<lparr>leg_distance = carDistance, leg_duration = carDuration\<rparr>,
                        bike = \<lparr>leg_distance = finalBikeDistance, leg_duration = finalBikeDuration\<rparr>,
                        air = \<lparr>leg_distance = airDistance, leg_duration = airDuration\<rparr>\<rparr>)))"

text \<open>
  The second handler is written separately, as the source duplicates it; its
  arguments are the bank's and the requester's coordinates.
\<close>

definition calculateRouteFromBloodBankToUser ::
  "bool \<Rightarrow> coord \<Rightarrow> coord \<Rightarrow> route_response \<Rightarrow> route_response \<Rightarrow> route_error + routeInfo" where
  "calculateRouteFromBloodBankToUser mapReady bloodBankCoords userCoords carResp bikeResp =
     (if \<not> mapReady then Inl MapNotReady
      else case carResp of
        FetchFailed \<Rightarrow> Inl RouteFailed
      | RouteJson paths \<Rightarrow>
          (case paths of
             None \<Rightarrow> Inl NoRouteFound
           | Some [] \<Rightarrow> Inl NoRouteFound
           | Some (carPath # _) \<Rightarrow>
               (case p_points carPath of
                  None \<Rightarrow> Inl RouteFailed
                | Some _ \<Rightarrow>
                    (let carDistance = p_distance carPath;
                         carDuration = p_time carPath;
                         bikeDistance = fst (bike_leg bikeResp);
                         bikeDuration = snd (bike_leg bikeResp);
                         airDistance = haversineDistance (lat bloodBankCoords) (lon bloodBankCoords)
                                         (lat userCoords) (lon userCoords);
                         finalBikeDistance = js_nullish bikeDistance (js_nullish carDistance airDistance);
                         finalBikeDuration = js_nullish bikeDuration (duration_at bikeAvgKmh finalBikeDistance);
                         airDuration = duration_at airAvgKmh airDistance
                     in Inr \<lparr>car = \<lparr>leg_distance = carDistance, leg_duration = carDuration\<rparr>,
                             bike = \<lparr>leg_distance = finalBikeDistance, leg_duration = finalBikeDuration\<rparr>,
                             air = \<lparr>leg_distance = airDistance, leg_duration = airDuration\<rparr>\<rparr>))))"

subsection \<open>Display of distances and durations\<close>

text \<open>
  \<open>formatDistance\<close> and \<open>formatDuration\<close> (lines 782-800). \<open>null\<close> and
  \<open>undefined\<close> are \<open>None\<close> and print an em dash (its UTF-8 bytes); NaN and
  Infinity have no counterpart among the reals. \<open>km.toFixed(1)\<close> rounds to
  the nearest tenth, halves away from zero as ECMAScript picks the larger
  candidate (numbers below \<open>10^21\<close>). JavaScript's \<open>%\<close> keeps the sign of the
  dividend: \<open>smod\<close>.
\<close>

definition js_toFixed1 :: "real \<Rightarrow> string" where
  "js_toFixed1 x =
     (let n = nat \<lfloor>\<bar>x\<bar> * 10 + 1 / 2\<rfloor>
      in (if x < 0 then ''-'' else []) @ js_nat_string (n div 10) @ ''.'' @ js_nat_string (n mod 10))"

definition em_dash :: string where
  "em_dash = map char_of [226, 128, 148 :: nat]"

definition formatDistance :: "real option \<Rightarrow> string" where
  "formatDistance meters =
     (case meters of
        None \<Rightarrow> em_dash
      | Some m \<Rightarrow>
          (let km = m / 1000
           in if km < 1 then js_int_string (js_round m) @ '' m'' else js_toFixed1 km @ '' km''))"

definition duration_parts :: "real \<Rightarrow> int \<times> int \<times> int" where
  "duration_parts ms =
     (let totalSec = js_round (ms / 1000)
      in (\<lfloor>real_of_int totalSec / 3600\<rfloor>, \<lfloor>real_of_int (totalSec smod 3600) / 60\<rfloor>, totalSec smod 60))"

definition formatDuration :: "real option \<Rightarrow> string" where
  "formatDuration ms =
     (case ms of
        None \<Rightarrow> em_dash
      | Some t \<Rightarrow>
          (let (h, m, s) = duration_parts t
           in if 0 < h then js_int_string h @ ''h '' @ js_int_string m @ ''m''
              else if 0 < m then js_int_string m @ ''m '' @ js_int_string s @ ''s''
              else js_int_string s @ ''s''))"

subsection \<open>Lemmas\<close>

lemma duration_at_bike: "duration_at bikeAvgKmh d = 240 * d"
  by (simp add: duration_at_def bikeAvgKmh_def)

lemma duration_at_air: "duration_at airAvgKmh d = 9 / 2 * d"
  by (simp add: duration_at_def airAvgKmh_def)

lemma bike_leg_no_path:
  "bikeResp = FetchFailed \<or> bikeResp = RouteJson None \<or> bikeResp = RouteJson (Some []) \<Longrightarrow>
   bike_leg bikeResp = (None, None)"
  by (auto simp: bike_leg_def)

lemma calculateRouteWithInfo_success:
  assumes "p_points carPath = Some pts"
  shows "calculateRouteWithInfo True start end (RouteJson (Some (carPath # others))) bikeResp =
    Inr \<lparr>car = \<lparr>leg_distance = p_distance carPath, leg_duration = p_time carPath\<rparr>,
         bike = \<lparr>leg_distance = js_nullish (fst (bike_leg bikeResp))
                   (js_nullish (p_distance carPath) (haversineDistance (lat start) (lon start) (lat end) (lon end))),
                 leg_duration = js_nullish (snd (bike_leg bikeResp))
                   (240 * js_nullish (fst (bike_leg bikeResp))
                     (js_nullish (p_distance carPath) (haversineDistance (lat start) (lon start) (lat end) (lon end))))\<rparr>,
         air = \<lparr>leg_distance = haversineDistance (lat start) (lon start) (lat end) (lon end),
                leg_duration = 9 / 2 * haversineDistance (lat start) (lon start) (lat end) (lon end)\<rparr>\<rparr>"
  using assms
  by (simp add: calculateRouteWithInfo_def Let_def split_def duration_at_bike duration_at_air)

lemma floor_int_div: "0 < b \<Longrightarrow> \<lfloor>real_of_int a / real_of_int b\<rfloor> = a div b"
  by (simp add: floor_divide_of_int_eq)

lemma smod_nonneg_eq_mod: "0 \<le> (a::int) \<Longrightarrow> 0 < b \<Longrightarrow> a smod b = a mod b"
  by (cases "a = 0") (simp_all add: smod_int_alt_def)

lemma duration_parts_nonneg:
  assumes "0 \<le> ms"
  shows "duration_parts ms =
           (js_round (ms / 1000) div 3600, js_round (ms / 1000) mod 3600 div 60, js_round (ms / 1000) mod 60)
         \<and> 0 \<le> js_round (ms / 1000)"
proof -
  have nn: "0 \<le> js_round (ms / 1000)" using assms by (simp add: js_round_def)
  have "\<lfloor>real_of_int (js_round (ms / 1000)) / 3600\<rfloor> = js_round (ms / 1000) div 3600"
    using floor_int_div [of 3600] by simp
  moreover have "\<lfloor>real_of_int (js_round (ms / 1000) smod 3600) / 60\<rfloor> = js_round (ms / 1000) mod 3600 div 60"
    using floor_int_div [of 60] nn by (simp add: smod_nonneg_eq_mod)
  ultimately show ?thesis using nn by (simp add: duration_parts_def Let_def smod_nonneg_eq_mod)
qed

lemma formatDuration_demo: "formatDuration (Some 3725000) = ''1h 2m''"
proof -
  have "duration_parts 3725000 = (1, 2, 5)"
    using duration_parts_nonneg [of 3725000] by (simp add: js_round_def floor_eq_iff)
  then show ?thesis
    by (simp add: formatDuration_def js_int_string_def js_nat_string.simps char_of_def bit_0)
qed

subsection \<open>Properties\<close>

text \<open>
  C6. When the routing service gives no car path (the \<open>paths\<close> field missing or
  empty) the planner stops with "No route found" and sets no route figures; a failed
  car request and a missing map also end without figures: there is never a partial
  result (spec section 8, property 5).
\<close>

theorem calculateRouteWithInfo_no_car_route:
  "calculateRouteWithInfo True start end (RouteJson None) bikeResp = Inl NoRouteFound \<and>
   calculateRouteWithInfo True start end (RouteJson (Some [])) bikeResp = Inl NoRouteFound \<and>
   calculateRouteWithInfo True start end FetchFailed bikeResp = Inl RouteFailed \<and>
   calculateRouteWithInfo False start end carResp bikeResp = Inl MapNotReady"
  by (simp add: calculateRouteWithInfo_def)

text \<open>
  C7. When the car route succeeds with a distance \<open>d\<close> metres but the bike
  request fails or finds no path, the bike estimate is synthesised: distance
  \<open>d\<close> and duration \<open>d / 1000 / 15 * 3600 * 1000 = 240 d\<close> milliseconds,
  15 km/h (spec section 8, property 6); the car figures are the path's.
\<close>

theorem calculateRouteWithInfo_bike_fallback:
  assumes "p_points carPath = Some pts" and "p_distance carPath = Some d"
    and "bikeResp = FetchFailed \<or> bikeResp = RouteJson None \<or> bikeResp = RouteJson (Some [])"
  shows "\<exists>info. calculateRouteWithInfo True start end (RouteJson (Some (carPath # others))) bikeResp = Inr info \<and>
           bike info = \<lparr>leg_distance = d, leg_duration = 240 * d\<rparr> \<and>
           car info = \<lparr>leg_distance = Some d, leg_duration = p_time carPath\<rparr>"
  using calculateRouteWithInfo_success [OF assms(1), of start "end" others bikeResp] assms(2)
    bike_leg_no_path [OF assms(3)]
  by simp

theorem calculateRouteWithInfo_bike_fallback_witness:
  "\<exists>info. calculateRouteWithInfo True \<lparr>lat = 17.72, lon = 83.3, address = ''KGH Blood Bank''\<rparr> \<lparr>lat = 17.7, lon = 83.25, address = ''Requester''\<rparr> (RouteJson (Some [\<lparr>p_distance = Some 3000, p_time = Some 420000, p_points = Some [(83.25, 17.7), (83.3, 17.72)]\<rparr>])) FetchFailed = Inr info \<and>
     bike info = \<lparr>leg_distance = 3000, leg_duration = 720000\<rparr> \<and>
     car info = \<lparr>leg_distance = Some 3000, leg_duration = Some 420000\<rparr>"
  using calculateRouteWithInfo_bike_fallback [of "\<lparr>p_distance = Some 3000, p_time = Some 420000, p_points = Some [(83.25, 17.7), (83.3, 17.72)]\<rparr>" "[(83.25, 17.7), (83.3, 17.72)]" 3000 FetchFailed
      "\<lparr>lat = 17.72, lon = 83.3, address = ''KGH Blood Bank''\<rparr>" "\<lparr>lat = 17.7, lon = 83.25, address = ''Requester''\<rparr>" "[]"]
  by simp


text \<open>
  Once a car path with geometry is found, the planner always sets all three
  modes: the car figures are the path's and the air figures are the great-circle
  distance and that distance at 800 km/h, \<open>4.5\<close> milliseconds per metre
  (spec section 4.4).
\<close>

theorem calculateRouteWithInfo_car_success:
  assumes "p_points carPath = Some pts"
  shows "\<exists>info. calculateRouteWithInfo True start end (RouteJson (Some (carPath # others))) bikeResp = Inr info \<and>
           car info = \<lparr>leg_distance = p_distance carPath, leg_duration = p_time carPath\<rparr> \<and>
           air info = \<lparr>leg_distance = haversineDistance (lat start) (lon start) (lat end) (lon end),
                       leg_duration = 9 / 2 * haversineDistance (lat start) (lon start) (lat end) (lon end)\<rparr>"
  using calculateRouteWithInfo_success [OF assms, of start "end" others bikeResp] by simp

theorem calculateRouteWithInfo_car_success_witness:
  "\<exists>info. calculateRouteWithInfo True \<lparr>lat = 17.7, lon = 83.25, address = ''Requester''\<rparr> \<lparr>lat = 17.7, lon = 83.25, address = ''Requester''\<rparr> (RouteJson (Some [\<lparr>p_distance = Some 3000, p_time = Some 420000, p_points = Some [(83.25, 17.7), (83.3, 17.72)]\<rparr>])) FetchFailed = Inr info \<and>
     car info = \<lparr>leg_distance = Some 3000, leg_duration = Some 420000\<rparr> \<and>
     air info = \<lparr>leg_distance = 0, leg_duration = 0\<rparr>"
  using calculateRouteWithInfo_car_success [of "\<lparr>p_distance = Some 3000, p_time = Some 420000, p_points = Some [(83.25, 17.7), (83.3, 17.72)]\<rparr>" "[(83.25, 17.7), (83.3, 17.72)]" "\<lparr>lat = 17.7, lon = 83.25, address = ''Requester''\<rparr>" "\<lparr>lat = 17.7, lon = 83.25, address = ''Requester''\<rparr>" "[]" FetchFailed]
  by (simp add: haversineDistance_self)

text \<open>
  For a non-negative duration \<open>formatDuration\<close> prints hours and minutes,
  or minutes and seconds, or seconds, of a decomposition \<open>3600 h + 60 m + s\<close> of
  the duration rounded to whole seconds, with \<open>m, s < 60\<close>.
\<close>

theorem formatDuration_parts:
  assumes "0 \<le> ms"
  shows "\<exists>h m s. formatDuration (Some ms) =
             (if 0 < h then js_nat_string h @ ''h '' @ js_nat_string m @ ''m''
              else if 0 < m then js_nat_string m @ ''m '' @ js_nat_string s @ ''s''
              else js_nat_string s @ ''s'') \<and>
           int (3600 * h + 60 * m + s) = js_round (ms / 1000) \<and> m < 60 \<and> s < 60"
proof -
  define T where "T = js_round (ms / 1000)"
  from duration_parts_nonneg [OF assms] have dp: "duration_parts ms = (T div 3600, T mod 3600 div 60, T mod 60)"
    and nn: "0 \<le> T" by (simp_all add: T_def)
  have eq: "js_round (ms / 1000) = T" by (simp add: T_def)
  have n1: "0 \<le> T div 3600" and n2: "0 \<le> T mod 3600 div 60" and n3: "0 \<le> T mod 60"
    using nn by simp_all
  have dec: "T = 3600 * (T div 3600) + 60 * (T mod 3600 div 60) + T mod 60"
  proof -
    have "T mod 3600 = 60 * (T mod 3600 div 60) + T mod 3600 mod 60" by simp
    moreover have "T mod 3600 mod 60 = T mod 60" by (simp add: mod_mod_cancel)
    ultimately show ?thesis by (metis add.assoc div_mult_mod_eq mult.commute)
  qed
  show ?thesis unfolding eq
  proof (intro exI conjI)
    show "formatDuration (Some ms) =
      (if 0 < nat (T div 3600) then js_nat_string (nat (T div 3600)) @ ''h '' @ js_nat_string (nat (T mod 3600 div 60)) @ ''m''
       else if 0 < nat (T mod 3600 div 60) then js_nat_string (nat (T mod 3600 div 60)) @ ''m '' @ js_nat_string (nat (T mod 60)) @ ''s''
       else js_nat_string (nat (T mod 60)) @ ''s'')"
      using n1 n2 n3 by (simp add: formatDuration_def dp js_int_string_nonneg)
    show "int (3600 * nat (T div 3600) + 60 * nat (T mod 3600 div 60) + nat (T mod 60)) = T"
      using n1 n2 n3 dec by simp
    show "nat (T mod 3600 div 60) < 60" using nn by simp
    show "nat (T mod 60) < 60" by simp
  qed
qed


theorem formatDuration_parts_witness:
  "0 \<le> (3725000::real) \<and> formatDuration (Some 3725000) = ''1h 2m'' \<and>
   (\<exists>h m s. formatDuration (Some 3725000) =
             (if 0 < h then js_nat_string h @ ''h '' @ js_nat_string m @ ''m''
              else if 0 < m then js_nat_string m @ ''m '' @ js_nat_string s @ ''s''
              else js_nat_string s @ ''s'') \<and>
           int (3600 * h + 60 * m + s) = js_round (3725000 / 1000) \<and> m < 60 \<and> s < 60)"
  using formatDuration_parts [of 3725000] formatDuration_demo by simp

end
