(* ===== verification/Otp.thy ===== *)
theory Otp
  imports Prelude
begin

text \<open>
  The client-side one-time-code service src/src/services/otpService.ts. Its state
  is the module-level \<open>otpStore\<close>, a \<open>Map\<close> from \<open>keyFor(aadhaar, phone)\<close> to an
  entry, here a map passed in and returned. The environment is explicit: the
  registered users (users.json), the clock (\<open>Date.now()\<close>), the values of
  \<open>Math.random()\<close> that generate the code and the salt, the UUID of the token,
  and the SHA-256 digest (a function from the text \<open>otp:salt\<close> to its hex
  string). Each thrown \<open>Error\<close> is an \<open>Inl\<close> of \<open>otp_error\<close>, returned
  with the store as the code leaves it (expired and exhausted entries are deleted,
  a wrong code is counted). The lemmas show single use, the attempt limit, the
  request cooldown, the bounds of the generated code and the store invariant of
  every reachable state.
\<close>

record otpEntry =
  otpHash :: string
  salt :: string
  expiresAt :: millis
  tries :: nat
  lastRequested :: millis

record otpUser =
  aadhaar :: string
  phone :: string

type_synonym otp_store = "string \<rightharpoonup> otpEntry"
type_synonym digest = "string \<Rightarrow> string"

datatype otp_error = UserNotFound | RateLimited | NoOtpRequest | OtpExpired | MaxAttempts | InvalidOtp

definition OTP_TTL_MS :: millis where "OTP_TTL_MS = 5 * 60 * 1000"
definition RATE_LIMIT_MS :: millis where "RATE_LIMIT_MS = 30 * 1000"
definition MAX_TRIES :: nat where "MAX_TRIES = 5"

definition keyFor :: "string \<Rightarrow> string \<Rightarrow> string" where
  "keyFor a p = a @ ''-'' @ p"

text \<open>\<open>Math.floor(100000 + Math.random() * 900000).toString()\<close>, for a value \<open>r\<close> of \<open>Math.random()\<close>.\<close>

definition generateOtp :: "real \<Rightarrow> string" where
  "generateOtp r = js_nat_string (nat \<lfloor>100000 + r * 900000\<rfloor>)"

definition salt_chars :: string where
  "salt_chars = ''ABCDEFGHIJKLMNOPQRSTUVWXYZabcdefghijklmnopqrstuvwxyz0123456789''"

text \<open>
  \<open>generateSalt\<close>: one character per value of \<open>Math.random()\<close> (twelve of them);
  \<open>charAt\<close> out of range would give the empty string.
\<close>

definition generateSalt :: "real list \<Rightarrow> string" where
  "generateSalt rs =
     concat (map (\<lambda>r. let i = nat \<lfloor>r * real (length salt_chars)\<rfloor>
                      in if i < length salt_chars then [salt_chars ! i] else []) rs)"

definition hashOtp :: "digest \<Rightarrow> string \<Rightarrow> string \<Rightarrow> string" where
  "hashOtp sha256 otp s = sha256 (otp @ '':'' @ s)"

definition requestOtp ::
  "digest \<Rightarrow> otpUser list \<Rightarrow> millis \<Rightarrow> real \<Rightarrow> real list \<Rightarrow> otp_store \<Rightarrow> string \<Rightarrow> string \<Rightarrow>
   (otp_error + string) \<times> otp_store" where
  "requestOtp sha256 users now r rs otpStore a p =
     (if \<not> (\<exists>u \<in> set users. aadhaar u = a \<and> phone u = p) then (Inl UserNotFound, otpStore)
      else
        let key = keyFor a p
        in if (case otpStore key of None \<Rightarrow> False | Some existing \<Rightarrow> now - lastRequested existing < RATE_LIMIT_MS)
           then (Inl RateLimited, otpStore)
           else
             let otp = generateOtp r; s = generateSalt rs
             in (Inr otp, otpStore(key \<mapsto> \<lparr>otpHash = hashOtp sha256 otp s, salt = s,
                                          expiresAt = now + OTP_TTL_MS, tries = 0, lastRequested = now\<rparr>)))"

definition verifyOtp ::
  "digest \<Rightarrow> millis \<Rightarrow> string \<Rightarrow> otp_store \<Rightarrow> string \<Rightarrow> string \<Rightarrow> string \<Rightarrow>
   (otp_error + string) \<times> otp_store" where
  "verifyOtp sha256 now uuid otpStore a p otp =
     (let key = keyFor a p
      in case otpStore key of
           None \<Rightarrow> (Inl NoOtpRequest, otpStore)
         | Some entry \<Rightarrow>
             if now > expiresAt entry then (Inl OtpExpired, otpStore(key := None))
             else if tries entry \<ge> MAX_TRIES then (Inl MaxAttempts, otpStore(key := None))
             else
               let isValid = (hashOtp sha256 otp (salt entry) = otpHash entry);
                   entry' = entry\<lparr>tries := tries entry + 1\<rparr>
               in if \<not> isValid then (Inl InvalidOtp, otpStore(key \<mapsto> entry'))
                  else (Inr (''mock-jwt-'' @ uuid), otpStore(key := None)))"

text \<open>A sequence of verification attempts at one time, as a client would submit them.\<close>

fun verify_attempts ::
  "digest \<Rightarrow> millis \<Rightarrow> string \<Rightarrow> otp_store \<Rightarrow> string \<Rightarrow> string \<Rightarrow> string list \<Rightarrow>
   (otp_error + string) list \<times> otp_store" where
  "verify_attempts sha256 now uuid st a p [] = ([], st)"
| "verify_attempts sha256 now uuid st a p (c # cs) =
     (let (r, st1) = verifyOtp sha256 now uuid st a p c;
          (rs, st2) = verify_attempts sha256 now uuid st1 a p cs
      in (r # rs, st2))"

text \<open>Every operation the service offers, with any inputs, as a step relation.\<close>

inductive otp_step :: "otp_store \<Rightarrow> otp_store \<Rightarrow> bool" where
  request: "otp_step st (snd (requestOtp sha256 users now r rs st a p))"
| verify: "otp_step st (snd (verifyOtp sha256 now uuid st a p otp))"

inductive otp_reachable :: "otp_store \<Rightarrow> bool" where
  empty: "otp_reachable Map.empty"
| step: "otp_reachable st \<Longrightarrow> otp_step st st' \<Longrightarrow> otp_reachable st'"

definition new_entry :: "digest \<Rightarrow> millis \<Rightarrow> real \<Rightarrow> real list \<Rightarrow> otpEntry" where
  "new_entry sha now r rs =
     \<lparr>otpHash = hashOtp sha (generateOtp r) (generateSalt rs), salt = generateSalt rs,
      expiresAt = now + OTP_TTL_MS, tries = 0, lastRequested = now\<rparr>"

definition otp_entry_ok :: "otpEntry \<Rightarrow> bool" where
  "otp_entry_ok e \<longleftrightarrow> tries e \<le> MAX_TRIES \<and> expiresAt e = lastRequested e + OTP_TTL_MS"

subsection \<open>Lemmas\<close>

lemmas otp_constants = OTP_TTL_MS_def RATE_LIMIT_MS_def MAX_TRIES_def

lemma verifyOtp_none:
  "st (keyFor a p) = None \<Longrightarrow> verifyOtp sha now uuid st a p otp = (Inl NoOtpRequest, st)"
  by (simp add: verifyOtp_def)

lemma verifyOtp_expired:
  "st (keyFor a p) = Some e \<Longrightarrow> expiresAt e < now \<Longrightarrow>
   verifyOtp sha now uuid st a p otp = (Inl OtpExpired, st(keyFor a p := None))"
  by (simp add: verifyOtp_def)

lemma verifyOtp_exhausted:
  "st (keyFor a p) = Some e \<Longrightarrow> now \<le> expiresAt e \<Longrightarrow> MAX_TRIES \<le> tries e \<Longrightarrow>
   verifyOtp sha now uuid st a p otp = (Inl MaxAttempts, st(keyFor a p := None))"
  by (simp add: verifyOtp_def)

lemma verifyOtp_wrong:
  "st (keyFor a p) = Some e \<Longrightarrow> now \<le> expiresAt e \<Longrightarrow> tries e < MAX_TRIES \<Longrightarrow>
   hashOtp sha otp (salt e) \<noteq> otpHash e \<Longrightarrow>
   verifyOtp sha now uuid st a p otp = (Inl InvalidOtp, st(keyFor a p \<mapsto> e\<lparr>tries := Suc (tries e)\<rparr>))"
  by (simp add: verifyOtp_def Let_def)

lemma verifyOtp_correct:
  "st (keyFor a p) = Some e \<Longrightarrow> now \<le> expiresAt e \<Longrightarrow> tries e < MAX_TRIES \<Longrightarrow>
   hashOtp sha otp (salt e) = otpHash e \<Longrightarrow>
   verifyOtp sha now uuid st a p otp = (Inr (''mock-jwt-'' @ uuid), st(keyFor a p := None))"
  by (simp add: verifyOtp_def Let_def)

lemmas verifyOtp_cases = verifyOtp_none verifyOtp_expired verifyOtp_exhausted verifyOtp_wrong verifyOtp_correct

lemma requestOtp_eq:
  "requestOtp sha users now r rs st a p =
     (if \<not> (\<exists>u \<in> set users. aadhaar u = a \<and> phone u = p) then (Inl UserNotFound, st)
      else if (case st (keyFor a p) of None \<Rightarrow> False | Some e \<Rightarrow> now - lastRequested e < RATE_LIMIT_MS)
      then (Inl RateLimited, st)
      else (Inr (generateOtp r), st(keyFor a p \<mapsto> new_entry sha now r rs)))"
  by (simp add: requestOtp_def new_entry_def Let_def)

lemma requestOtp_Inr:
  "requestOtp sha users now r rs st a p = (Inr otp, st1) \<Longrightarrow>
   otp = generateOtp r \<and> st1 = st(keyFor a p \<mapsto> new_entry sha now r rs)"
  by (simp add: requestOtp_eq split: if_splits)

lemma verify_attempts_wrong:
  assumes "st (keyFor a p) = Some e" "now \<le> expiresAt e" "tries e + length ws \<le> MAX_TRIES"
    "\<forall>w \<in> set ws. hashOtp sha w (salt e) \<noteq> otpHash e"
  shows "verify_attempts sha now uuid st a p ws =
           (replicate (length ws) (Inl InvalidOtp), st(keyFor a p \<mapsto> e\<lparr>tries := tries e + length ws\<rparr>))"
  using assms
proof (induction ws arbitrary: st e)
  case Nil
  then have "st(keyFor a p \<mapsto> e) = st" by (simp add: fun_upd_idem)
  then show ?case by simp
next
  case (Cons w ws)
  let ?e1 = "e\<lparr>tries := Suc (tries e)\<rparr>"
  have v: "verifyOtp sha now uuid st a p w = (Inl InvalidOtp, st(keyFor a p \<mapsto> ?e1))"
    using Cons.prems by (intro verifyOtp_wrong) auto
  have rest: "verify_attempts sha now uuid (st(keyFor a p \<mapsto> ?e1)) a p ws =
      (replicate (length ws) (Inl InvalidOtp), (st(keyFor a p \<mapsto> ?e1))(keyFor a p \<mapsto> ?e1\<lparr>tries := tries ?e1 + length ws\<rparr>))"
    using Cons.prems by (intro Cons.IH) auto
  show ?case by (simp add: v rest fun_eq_iff)
qed

lemma verify_attempts_append:
  "verify_attempts sha now uuid st a p (xs @ ys) =
     (let (r1, st1) = verify_attempts sha now uuid st a p xs;
          (r2, st2) = verify_attempts sha now uuid st1 a p ys
      in (r1 @ r2, st2))"
  by (induction xs arbitrary: st) (simp_all add: Let_def split_def)

lemma new_entry_fields [simp]:
  "tries (new_entry sha now r rs) = 0" "expiresAt (new_entry sha now r rs) = now + OTP_TTL_MS"
  "lastRequested (new_entry sha now r rs) = now" "salt (new_entry sha now r rs) = generateSalt rs"
  "otpHash (new_entry sha now r rs) = hashOtp sha (generateOtp r) (generateSalt rs)"
  by (simp_all add: new_entry_def)

lemma requestOtp_Inr_user:
  "requestOtp sha users now r rs st a p = (Inr otp, st1) \<Longrightarrow> \<exists>u \<in> set users. aadhaar u = a \<and> phone u = p"
  by (auto simp: requestOtp_eq split: if_splits)

text \<open>
  C10. A code is good exactly once: after a successful request, submitting the
  code before it expires succeeds and deletes the entry, and any later submission
  for the same Aadhaar and phone fails with "No OTP request found" (spec section 8,
  property 7).
\<close>

theorem otp_single_use:
  assumes "requestOtp sha users now r rs st a p = (Inr otp, st1)" and "t \<le> now + OTP_TTL_MS"
  shows "verifyOtp sha t uuid st1 a p otp = (Inr (''mock-jwt-'' @ uuid), st1(keyFor a p := None)) \<and>
         fst (verifyOtp sha t' uuid' (st1(keyFor a p := None)) a p otp') = Inl NoOtpRequest"
proof -
  from requestOtp_Inr [OF assms(1)]
  have otp: "otp = generateOtp r" and st1: "st1 = st(keyFor a p \<mapsto> new_entry sha now r rs)" by auto
  have "verifyOtp sha t uuid st1 a p otp = (Inr (''mock-jwt-'' @ uuid), st1(keyFor a p := None))"
    by (rule verifyOtp_correct [where e = "new_entry sha now r rs"]) (use assms(2) in \<open>simp_all add: st1 otp otp_constants\<close>)
  moreover have "verifyOtp sha t' uuid' (st1(keyFor a p := None)) a p otp' = (Inl NoOtpRequest, st1(keyFor a p := None))"
    by (rule verifyOtp_none) simp
  ultimately show ?thesis by simp
qed

text \<open>
  C11. The attempt limit: after a successful request, five wrong codes are each
  rejected as invalid, and the correct code submitted next fails with "Maximum
  attempts reached", deleting the entry (spec section 8, property 7). "Wrong" means
  a code whose salted digest differs from the stored one.
\<close>

theorem otp_max_attempts:
  assumes "requestOtp sha users now r rs st a p = (Inr otp, st1)" and "t \<le> now + OTP_TTL_MS"
    and "length ws = MAX_TRIES"
    and "\<forall>w \<in> set ws. hashOtp sha w (generateSalt rs) \<noteq> hashOtp sha otp (generateSalt rs)"
  shows "verify_attempts sha t uuid st1 a p (ws @ [otp]) =
           (replicate MAX_TRIES (Inl InvalidOtp) @ [Inl MaxAttempts], st1(keyFor a p := None))"
proof -
  let ?e = "new_entry sha now r rs"
  from requestOtp_Inr [OF assms(1)]
  have otp: "otp = generateOtp r" and st1: "st1 = st(keyFor a p \<mapsto> ?e)" by auto
  have wrong: "verify_attempts sha t uuid st1 a p ws =
      (replicate (length ws) (Inl InvalidOtp), st1(keyFor a p \<mapsto> ?e\<lparr>tries := tries ?e + length ws\<rparr>))"
    by (rule verify_attempts_wrong) (use assms in \<open>simp_all add: st1 otp otp_constants\<close>)
  have last: "verifyOtp sha t uuid (st1(keyFor a p \<mapsto> ?e\<lparr>tries := tries ?e + length ws\<rparr>)) a p otp =
      (Inl MaxAttempts, (st1(keyFor a p \<mapsto> ?e\<lparr>tries := tries ?e + length ws\<rparr>))(keyFor a p := None))"
    by (rule verifyOtp_exhausted [where e = "?e\<lparr>tries := tries ?e + length ws\<rparr>"])
      (use assms in \<open>simp_all add: otp_constants\<close>)
  show ?thesis
    using assms(3) wrong last by (simp add: verify_attempts_append Let_def)
qed

text \<open>
  C12. The request cooldown: after a successful request at time \<open>t0\<close>, a new
  request for the same pair at \<open>t1\<close> fails with "Please wait" and leaves the store
  as it is when \<open>t1 - t0 < 30 s\<close>, and otherwise issues a fresh code with a fresh
  entry (spec section 8, property 8).
\<close>

theorem otp_request_cooldown:
  assumes "requestOtp sha users t0 r rs st a p = (Inr otp, st1)"
  shows "requestOtp sha users t1 r' rs' st1 a p =
           (if t1 - t0 < RATE_LIMIT_MS then (Inl RateLimited, st1)
            else (Inr (generateOtp r'), st1(keyFor a p \<mapsto> new_entry sha t1 r' rs')))"
proof -
  from requestOtp_Inr [OF assms] have st1: "st1 = st(keyFor a p \<mapsto> new_entry sha t0 r rs)" by simp
  from requestOtp_Inr_user [OF assms] show ?thesis
    by (simp add: requestOtp_eq st1)
qed

lemma otp_step_entries_ok:
  assumes "otp_step st st'" and "\<forall>k e. st k = Some e \<longrightarrow> otp_entry_ok e"
  shows "\<forall>k e. st' k = Some e \<longrightarrow> otp_entry_ok e"
  using assms
proof (induction rule: otp_step.induct)
  case (request sha256 users now r rs st a p)
  then show ?case
    by (auto simp: requestOtp_eq otp_entry_ok_def MAX_TRIES_def split: if_splits)
next
  case (verify sha256 now uuid st a p otp)
  then show ?case
    by (auto simp: verifyOtp_def Let_def otp_entry_ok_def split: option.splits if_splits)
qed


lemma generateOtp_value_bounds:
  assumes "0 \<le> (r::real)" and "r < 1"
  shows "100000 \<le> nat \<lfloor>100000 + r * 900000\<rfloor> \<and> nat \<lfloor>100000 + r * 900000\<rfloor> < 1000000"
proof -
  have "(100000::real) \<le> 100000 + r * 900000" using assms(1) by simp
  moreover have "100000 + r * 900000 < (1000000::real)" using assms(2) by simp
  ultimately have "100000 \<le> \<lfloor>100000 + r * 900000\<rfloor> \<and> \<lfloor>100000 + r * 900000\<rfloor> < 1000000"
    by (simp add: le_floor_iff floor_less_iff)
  then show ?thesis by linarith
qed

text \<open>
  C14. For every value of \<open>Math.random()\<close> in \<open>[0, 1)\<close> the generated code is
  a string of six decimal digits.
\<close>

theorem generateOtp_six_digits:
  assumes "0 \<le> (r::real)" and "r < 1"
  shows "length (generateOtp r) = 6"
proof -
  from generateOtp_value_bounds [OF assms]
  have "10 ^ 5 \<le> nat \<lfloor>100000 + r * 900000\<rfloor>" and "nat \<lfloor>100000 + r * 900000\<rfloor> < 10 ^ Suc 5" by simp_all
  then have "length (js_nat_string (nat \<lfloor>100000 + r * 900000\<rfloor>)) = Suc 5"
    by (rule length_js_nat_string)
  then show ?thesis by (simp add: generateOtp_def)
qed


lemma otp_demo_request: "requestOtp (\<lambda>x. x) [\<lparr>aadhaar = ''123412341234'', phone = ''9876543210''\<rparr>] 1000 0 [] Map.empty ''123412341234'' ''9876543210'' = (Inr ''100000'', [keyFor ''123412341234'' ''9876543210'' \<mapsto> new_entry (\<lambda>x. x) 1000 0 []])"
  by (simp add: requestOtp_eq generateOtp_def js_nat_string.simps js_string_eval)

theorem otp_single_use_witness:
  "requestOtp (\<lambda>x. x) [\<lparr>aadhaar = ''123412341234'', phone = ''9876543210''\<rparr>] 1000 0 [] Map.empty ''123412341234'' ''9876543210'' = (Inr ''100000'', [keyFor ''123412341234'' ''9876543210'' \<mapsto> new_entry (\<lambda>x. x) 1000 0 []]) \<and>
   verifyOtp (\<lambda>x. x) 2000 ''u1'' [keyFor ''123412341234'' ''9876543210'' \<mapsto> new_entry (\<lambda>x. x) 1000 0 []] ''123412341234'' ''9876543210'' ''100000'' =
     (Inr ''mock-jwt-u1'', ([keyFor ''123412341234'' ''9876543210'' \<mapsto> new_entry (\<lambda>x. x) 1000 0 []])(keyFor ''123412341234'' ''9876543210'' := None)) \<and>
   fst (verifyOtp (\<lambda>x. x) 3000 ''u2'' (([keyFor ''123412341234'' ''9876543210'' \<mapsto> new_entry (\<lambda>x. x) 1000 0 []])(keyFor ''123412341234'' ''9876543210'' := None)) ''123412341234'' ''9876543210'' ''100000'') = Inl NoOtpRequest"
  using otp_demo_request otp_single_use [OF otp_demo_request, of 2000 "''u1''" 3000 "''u2''" "''100000''"]
  by (simp add: otp_constants)

theorem otp_max_attempts_witness:
  "verify_attempts (\<lambda>x. x) 2000 ''u1'' [keyFor ''123412341234'' ''9876543210'' \<mapsto> new_entry (\<lambda>x. x) 1000 0 []] ''123412341234'' ''9876543210'' [''000000'', ''111111'', ''222222'', ''333333'', ''444444'', ''100000''] =
     (replicate MAX_TRIES (Inl InvalidOtp) @ [Inl MaxAttempts], ([keyFor ''123412341234'' ''9876543210'' \<mapsto> new_entry (\<lambda>x. x) 1000 0 []])(keyFor ''123412341234'' ''9876543210'' := None))"
proof -
  have "verify_attempts (\<lambda>x. x) 2000 ''u1'' [keyFor ''123412341234'' ''9876543210'' \<mapsto> new_entry (\<lambda>x. x) 1000 0 []] ''123412341234'' ''9876543210'' ([''000000'', ''111111'', ''222222'', ''333333'', ''444444''] @ [''100000'']) =
     (replicate MAX_TRIES (Inl InvalidOtp) @ [Inl MaxAttempts], ([keyFor ''123412341234'' ''9876543210'' \<mapsto> new_entry (\<lambda>x. x) 1000 0 []])(keyFor ''123412341234'' ''9876543210'' := None))"
    by (rule otp_max_attempts [OF otp_demo_request])
      (simp_all add: otp_constants hashOtp_def generateSalt_def)
  then show ?thesis by simp
qed

theorem otp_request_cooldown_witness:
  "requestOtp (\<lambda>x. x) [\<lparr>aadhaar = ''123412341234'', phone = ''9876543210''\<rparr>] 1000 0 [] Map.empty ''123412341234'' ''9876543210'' = (Inr ''100000'', [keyFor ''123412341234'' ''9876543210'' \<mapsto> new_entry (\<lambda>x. x) 1000 0 []]) \<and>
   requestOtp (\<lambda>x. x) [\<lparr>aadhaar = ''123412341234'', phone = ''9876543210''\<rparr>] 2000 0.5 [] [keyFor ''123412341234'' ''9876543210'' \<mapsto> new_entry (\<lambda>x. x) 1000 0 []] ''123412341234'' ''9876543210'' = (Inl RateLimited, [keyFor ''123412341234'' ''9876543210'' \<mapsto> new_entry (\<lambda>x. x) 1000 0 []])"
  using otp_demo_request otp_request_cooldown [OF otp_demo_request, of 2000 "0.5" "[]"]
  by (simp add: otp_constants)


theorem generateOtp_six_digits_witness:
  "0 \<le> (0.5::real) \<and> (0.5::real) < 1 \<and> length (generateOtp 0.5) = 6"
  using generateOtp_six_digits [of "0.5"] by simp

end
