(* ===== verification/OtpServer.thy ===== *)
theory OtpServer
  imports Prelude
begin

text \<open>
  The standalone one-time-code service otp-service/server.js: its configuration
  (lines 12-37), the API-key check (79-86), the identifier check (88-93), code
  generation (95-99), storage (101-110), delivery (112-148) and the two routes
  \<open>/request-otp\<close> (151-178) and \<open>/verify-otp\<close> (180-212). The store is the
  module's \<open>Map\<close>, passed in and returned with the HTTP response. The environment
  supplies \<open>Date.now()\<close>, \<open>Math.random()\<close>, \<open>crypto.randomUUID()\<close>, the
  argon2 salt and hash function, and the outcome of the mail or SMS call.
  \<open>Number(s)\<close> is taken as given (\<open>None\<close> for NaN), so \<open>Number(s) || d\<close> is
  \<open>js_or_default\<close>. The express-rate-limit middlewares (lines 53-76) keep counters
  inside a library and are not modelled: the model is the service as seen by a
  client within those limits.
\<close>

subsection \<open>Configuration\<close>

record raw_env =
  NODE_ENV :: string
  num_OTP_LENGTH :: "real option"
  num_OTP_TTL_SEC :: "real option"
  num_OTP_REQUEST_COOLDOWN_SEC :: "real option"
  num_MAX_OTP_ATTEMPTS :: "real option"
  SYSTEM_API_KEY :: "string option"
  SMTP_HOST :: "string option"
  SMTP_USER :: "string option"
  SMTP_PASS :: "string option"
  TWILIO_SID :: "string option"
  TWILIO_TOKEN :: "string option"
  TWILIO_FROM :: "string option"

record server_config =
  isProduction :: bool
  otpLength :: real
  otpTtlMs :: real
  otpCooldownMs :: real
  maxOtpAttempts :: real
  apiKey :: "string option"
  smtpConfigured :: bool
  twilioConfigured :: bool

text \<open>\<open>Number(s) || d\<close>: NaN and 0 are falsy.\<close>

definition js_or_default :: "real option \<Rightarrow> real \<Rightarrow> real" where
  "js_or_default x d = (case x of None \<Rightarrow> d | Some v \<Rightarrow> if v = 0 then d else v)"

definition load_config :: "raw_env \<Rightarrow> server_config" where
  "load_config e =
     \<lparr>isProduction = (NODE_ENV e = ''production''),
      otpLength = js_or_default (num_OTP_LENGTH e) 6,
      otpTtlMs = js_or_default (num_OTP_TTL_SEC e) 300 * 1000,
      otpCooldownMs = js_or_default (num_OTP_REQUEST_COOLDOWN_SEC e) 30 * 1000,
      maxOtpAttempts = js_or_default (num_MAX_OTP_ATTEMPTS e) 5,
      apiKey = SYSTEM_API_KEY e,
      smtpConfigured = (js_truthy_str (SMTP_HOST e) \<and> js_truthy_str (SMTP_USER e) \<and> js_truthy_str (SMTP_PASS e)),
      twilioConfigured = (js_truthy_str (TWILIO_SID e) \<and> js_truthy_str (TWILIO_TOKEN e) \<and> js_truthy_str (TWILIO_FROM e))\<rparr>"

subsection \<open>Responses and the store\<close>

datatype body = ErrorMsg string | OtpSent "string option" | TokenIssued string

record response =
  http_status :: nat
  resp_body :: body

definition error_response :: "nat \<Rightarrow> string \<Rightarrow> response" where
  "error_response st msg = \<lparr>http_status = st, resp_body = ErrorMsg msg\<rparr>"

text \<open>An argon2 hash carries its random salt; \<open>argon2.verify\<close> recomputes the digest
  with that salt.\<close>

type_synonym argon2_fn = "string \<Rightarrow> string \<Rightarrow> string"

record srv_entry =
  s_hash :: "string \<times> string"
  s_expiresAt :: real
  s_attempts :: nat
  s_lastRequested :: real

type_synonym srv_store = "string \<rightharpoonup> srv_entry"

definition argon2_hash :: "argon2_fn \<Rightarrow> string \<Rightarrow> string \<Rightarrow> string \<times> string" where
  "argon2_hash argon2 salt otp = (salt, argon2 salt otp)"

definition argon2_verify :: "argon2_fn \<Rightarrow> string \<times> string \<Rightarrow> string \<Rightarrow> bool" where
  "argon2_verify argon2 h otp \<longleftrightarrow> argon2 (fst h) otp = snd h"

subsection \<open>Helpers\<close>

text \<open>\<open>requireApiKey\<close>: \<open>Some\<close> response when the request is refused.\<close>

definition requireApiKey :: "server_config \<Rightarrow> string option \<Rightarrow> response option" where
  "requireApiKey cfg authorization =
     (let header = (case authorization of None \<Rightarrow> [] | Some h \<Rightarrow> h);
          token = (if starts_with header ''Bearer '' then drop 7 header else [])
      in if \<not> js_truthy_str (apiKey cfg) \<or> Some token \<noteq> apiKey cfg
         then Some (error_response 401 ''Unauthorized'') else None)"

text \<open>The two regular expressions: \<open>/^[^@\s]+@[^@\s]+\.[^@\s]+$/\<close> and
  \<open>/^[0-9]{8,15}$/\<close> (\<open>\s\<close> on the ASCII white space).\<close>

definition is_digit :: "char \<Rightarrow> bool" where
  "is_digit c \<longleftrightarrow> (48::nat) \<le> of_char c \<and> of_char c \<le> (57::nat)"

definition email_ok :: "string \<Rightarrow> bool" where
  "email_ok s \<longleftrightarrow>
     (\<forall>c \<in> set s. \<not> is_js_space c) \<and> length (filter (\<lambda>c. c = CHR ''@'') s) = 1 \<and>
     takeWhile (\<lambda>c. c \<noteq> CHR ''@'') s \<noteq> [] \<and>
     CHR ''.'' \<in> set (tl (butlast (tl (dropWhile (\<lambda>c. c \<noteq> CHR ''@'') s))))"

definition phone_ok :: "string \<Rightarrow> bool" where
  "phone_ok s \<longleftrightarrow> (\<forall>c \<in> set s. is_digit c) \<and> 8 \<le> length s \<and> length s \<le> 15"

text \<open>\<open>typeof identifier !== "string"\<close> is \<open>None\<close>.\<close>

definition validateIdentifier :: "string option \<Rightarrow> bool" where
  "validateIdentifier identifier = (case identifier of None \<Rightarrow> False | Some s \<Rightarrow> email_ok s \<or> phone_ok s)"

text \<open>\<open>Math.floor(Math.random() * (max - min + 1) + min).toString()\<close> with
  \<open>min = 10 ** (length - 1)\<close>, \<open>max = 10 ** length - 1\<close>.\<close>

definition generateOtp_srv :: "real \<Rightarrow> real \<Rightarrow> string" where
  "generateOtp_srv len r =
     (let min = 10 powr (len - 1); max = 10 powr len - 1
      in js_int_string \<lfloor>r * (max - min + 1) + min\<rfloor>)"

definition setOtp :: "server_config \<Rightarrow> argon2_fn \<Rightarrow> string \<Rightarrow> real \<Rightarrow> string \<Rightarrow> string \<Rightarrow> srv_store \<Rightarrow> srv_store" where
  "setOtp cfg argon2 salt now identifier otp store =
     store(identifier \<mapsto> \<lparr>s_hash = argon2_hash argon2 salt otp, s_expiresAt = now + otpTtlMs cfg,
                          s_attempts = 0, s_lastRequested = now\<rparr>)"

text \<open>\<open>sendOtp\<close>: the channel name, or the code itself as the development
  fallback; \<open>Inl\<close> is a thrown error with its message (\<open>failure\<close> is the
  provider's error, \<open>None\<close> when the call succeeds).\<close>

definition sendOtp :: "server_config \<Rightarrow> string option \<Rightarrow> string \<Rightarrow> string + string" where
  "sendOtp cfg failure otp =
     (if smtpConfigured cfg then (case failure of None \<Rightarrow> Inr ''email'' | Some m \<Rightarrow> Inl m)
      else if twilioConfigured cfg then (case failure of None \<Rightarrow> Inr ''sms'' | Some m \<Rightarrow> Inl m)
      else if \<not> isProduction cfg then Inr otp
      else Inl ''No delivery provider configured'')"

subsection \<open>The routes\<close>

definition requestOtpRoute ::
  "server_config \<Rightarrow> argon2_fn \<Rightarrow> string \<Rightarrow> real \<Rightarrow> real \<Rightarrow> string option \<Rightarrow>
   string option \<Rightarrow> string option \<Rightarrow> srv_store \<Rightarrow> response \<times> srv_store" where
  "requestOtpRoute cfg argon2 salt now r failure authorization identifier store =
     (case requireApiKey cfg authorization of
        Some resp \<Rightarrow> (resp, store)
      | None \<Rightarrow>
          (case identifier of
             None \<Rightarrow> (error_response 400 ''Invalid identifier'', store)
           | Some i \<Rightarrow>
               if \<not> validateIdentifier identifier then (error_response 400 ''Invalid identifier'', store)
               else if (case store i of None \<Rightarrow> False | Some e \<Rightarrow> now - s_lastRequested e < otpCooldownMs cfg)
               then (error_response 429 ''Please wait before requesting another OTP.'', store)
               else
                 let otp = generateOtp_srv (otpLength cfg) r;
                     store1 = setOtp cfg argon2 salt now i otp store
                 in case sendOtp cfg failure otp of
                      Inl msg \<Rightarrow> (error_response 500 (if msg = [] then ''Failed to send OTP'' else msg), store1)
                    | Inr channel \<Rightarrow>
                        (\<lparr>http_status = 200,
                          resp_body = OtpSent (if \<not> isProduction cfg \<and> channel = otp then Some otp else None)\<rparr>,
                         store1)))"

definition verifyOtpRoute ::
  "server_config \<Rightarrow> argon2_fn \<Rightarrow> real \<Rightarrow> string \<Rightarrow> string option \<Rightarrow>
   string option \<Rightarrow> string option \<Rightarrow> srv_store \<Rightarrow> response \<times> srv_store" where
  "verifyOtpRoute cfg argon2 now uuid authorization identifier otp store =
     (case requireApiKey cfg authorization of
        Some resp \<Rightarrow> (resp, store)
      | None \<Rightarrow>
          (case (identifier, otp) of
             (Some i, Some code) \<Rightarrow>
               if \<not> validateIdentifier identifier \<or> real (length code) \<noteq> otpLength cfg
               then (error_response 400 ''Invalid payload'', store)
               else
                 (case store i of
                    None \<Rightarrow> (error_response 400 ''No OTP found. Request a new one.'', store)
                  | Some entry \<Rightarrow>
                      if now > s_expiresAt entry
                      then (error_response 400 ''OTP expired. Request a new one.'', store(i := None))
                      else if real (s_attempts entry) \<ge> maxOtpAttempts cfg
                      then (error_response 429 ''Too many attempts. Request a new OTP.'', store(i := None))
                      else
                        let entry' = entry\<lparr>s_attempts := s_attempts entry + 1\<rparr>
                        in if \<not> argon2_verify argon2 (s_hash entry) code
                           then (error_response 400 ''Invalid OTP'', store(i \<mapsto> entry'))
                           else (\<lparr>http_status = 200, resp_body = TokenIssued (''mock-jwt-'' @ uuid)\<rparr>, store(i := None)))
           | _ \<Rightarrow> (error_response 400 ''Invalid payload'', store)))"

subsection \<open>Sample configurations for the examples\<close>

abbreviation dev_env :: raw_env where
  "dev_env \<equiv> \<lparr>NODE_ENV = ''development'', num_OTP_LENGTH = Some 6, num_OTP_TTL_SEC = Some 300,
      num_OTP_REQUEST_COOLDOWN_SEC = Some 30, num_MAX_OTP_ATTEMPTS = Some 5, SYSTEM_API_KEY = Some ''k1'',
      SMTP_HOST = None, SMTP_USER = None, SMTP_PASS = None, TWILIO_SID = None, TWILIO_TOKEN = None,
      TWILIO_FROM = None\<rparr>"

abbreviation prod_env :: raw_env where
  "prod_env \<equiv> \<lparr>NODE_ENV = ''production'', num_OTP_LENGTH = Some 6, num_OTP_TTL_SEC = Some 300,
      num_OTP_REQUEST_COOLDOWN_SEC = Some 30, num_MAX_OTP_ATTEMPTS = Some 5, SYSTEM_API_KEY = Some ''k1'',
      SMTP_HOST = None, SMTP_USER = None, SMTP_PASS = None, TWILIO_SID = None, TWILIO_TOKEN = None,
      TWILIO_FROM = None\<rparr>"

abbreviation demo_argon2 :: argon2_fn where
  "demo_argon2 \<equiv> \<lambda>salt otp. salt @ otp"

subsection \<open>Lemmas and properties\<close>

lemma requireApiKey_no_key: "\<not> js_truthy_str (apiKey cfg) \<Longrightarrow> requireApiKey cfg auth = Some (error_response 401 ''Unauthorized'')"
  by (simp add: requireApiKey_def Let_def)

lemma requireApiKey_Some: "requireApiKey cfg auth = Some resp \<Longrightarrow> resp = error_response 401 ''Unauthorized''"
  by (simp add: requireApiKey_def Let_def split: if_splits)

text \<open>
  C26. The service fails closed: when SYSTEM_API_KEY is unset or empty, both
  routes answer 401 "Unauthorized" to every request and leave the store unchanged.
\<close>

theorem server_fail_closed:
  assumes "\<not> js_truthy_str (apiKey cfg)"
  shows "requestOtpRoute cfg hashfn salt now r failure auth identifier store = (error_response 401 ''Unauthorized'', store) \<and>
         verifyOtpRoute cfg hashfn now uuid auth identifier otp store = (error_response 401 ''Unauthorized'', store)"
  using requireApiKey_no_key [OF assms] by (simp add: requestOtpRoute_def verifyOtpRoute_def)

text \<open>
  C27. In production \<open>/request-otp\<close> never returns the code in its response,
  whatever the configuration of the providers and the outcome of the delivery.
\<close>

theorem requestOtp_production_no_leak:
  assumes "isProduction cfg"
  shows "resp_body (fst (requestOtpRoute cfg hashfn salt now r failure auth identifier store)) \<noteq> OtpSent (Some code)"
proof
  assume a: "resp_body (fst (requestOtpRoute cfg hashfn salt now r failure auth identifier store)) = OtpSent (Some code)"
  show False
  proof (cases "requireApiKey cfg auth")
    case (Some resp)
    with a show False using requireApiKey_Some [OF Some] by (simp add: requestOtpRoute_def error_response_def)
  next
    case None
    with a assms show False
      by (simp add: requestOtpRoute_def Let_def error_response_def split: option.splits if_splits sum.splits)
  qed
qed



lemma powr_nat_minus_one: "1 \<le> n \<Longrightarrow> (10::real) powr (real n - 1) = 10 ^ (n - 1)"
  by (simp add: powr_realpow [symmetric] of_nat_diff)

lemma floor_digits_bounds:
  assumes "0 \<le> r" and "r < 1"
  shows "(10::int) ^ k \<le> \<lfloor>r * (9 * 10 ^ k) + 10 ^ k\<rfloor> \<and> \<lfloor>r * (9 * 10 ^ k) + (10::real) ^ k\<rfloor> < 10 ^ Suc k"
proof -
  have m0: "(0::real) < 10 ^ k" by simp
  have lo: "(10::real) ^ k \<le> r * (9 * 10 ^ k) + 10 ^ k" using assms(1) m0 by simp
  have hi: "r * (9 * 10 ^ k) + 10 ^ k < (10::real) ^ Suc k"
  proof -
    have "r * (9 * 10 ^ k) < 1 * (9 * (10::real) ^ k)" using assms(2) m0 by (intro mult_strict_right_mono) simp_all
    then show ?thesis by simp
  qed
  show ?thesis using lo hi by (simp add: le_floor_iff floor_less_iff)
qed

lemma generateOtp_srv_nat:
  assumes "1 \<le> n"
  shows "generateOtp_srv (real n) r = js_int_string \<lfloor>r * (9 * 10 ^ (n - 1)) + (10::real) ^ (n - 1)\<rfloor>"
proof -
  have "(10::real) powr real n = 10 * 10 ^ (n - 1)"
    using assms by (simp add: powr_realpow power_Suc [symmetric])
  then show ?thesis using powr_nat_minus_one [OF assms] by (simp add: generateOtp_srv_def Let_def algebra_simps)
qed



lemma requestOtpRoute_accepts:
  assumes "requireApiKey cfg auth = None" and "validateIdentifier (Some i)"
    and "case store i of None \<Rightarrow> True | Some e \<Rightarrow> \<not> now - s_lastRequested e < otpCooldownMs cfg"
  shows "requestOtpRoute cfg hashfn salt now r failure auth (Some i) store =
           (case sendOtp cfg failure (generateOtp_srv (otpLength cfg) r) of
              Inl msg \<Rightarrow> (error_response 500 (if msg = [] then ''Failed to send OTP'' else msg),
                          setOtp cfg hashfn salt now i (generateOtp_srv (otpLength cfg) r) store)
            | Inr channel \<Rightarrow>
                (\<lparr>http_status = 200,
                  resp_body = OtpSent (if \<not> isProduction cfg \<and> channel = generateOtp_srv (otpLength cfg) r
                                       then Some (generateOtp_srv (otpLength cfg) r) else None)\<rparr>,
                 setOtp cfg hashfn salt now i (generateOtp_srv (otpLength cfg) r) store))"
  using assms by (auto simp: requestOtpRoute_def Let_def split: option.splits)

lemma requestOtpRoute_cooldown:
  assumes "requireApiKey cfg auth = None" and "validateIdentifier (Some i)"
    and "store i = Some e" and "now - s_lastRequested e < otpCooldownMs cfg"
  shows "requestOtpRoute cfg hashfn salt now r failure auth (Some i) store =
           (error_response 429 ''Please wait before requesting another OTP.'', store)"
  using assms by (simp add: requestOtpRoute_def)

text \<open>
  C29. A failed delivery still consumes the request: the service stores the new
  code before sending it, so when sending fails (500) the entry stays and a retry
  within the cooldown is refused with 429, although no code was delivered.
\<close>

theorem requestOtp_failed_delivery_blocks:
  assumes "requireApiKey cfg auth = None" and "validateIdentifier (Some i)" and "store i = None"
    and "sendOtp cfg failure (generateOtp_srv (otpLength cfg) r) = Inl msg"
    and "t - now < otpCooldownMs cfg"
  shows "http_status (fst (requestOtpRoute cfg hashfn salt now r failure auth (Some i) store)) = 500 \<and>
         snd (requestOtpRoute cfg hashfn salt now r failure auth (Some i) store) i \<noteq> None \<and>
         requestOtpRoute cfg hashfn salt' t r' failure' auth (Some i) (snd (requestOtpRoute cfg hashfn salt now r failure auth (Some i) store)) =
           (error_response 429 ''Please wait before requesting another OTP.'',
            snd (requestOtpRoute cfg hashfn salt now r failure auth (Some i) store))"
proof -
  have eq: "requestOtpRoute cfg hashfn salt now r failure auth (Some i) store =
      (error_response 500 (if msg = [] then ''Failed to send OTP'' else msg),
       setOtp cfg hashfn salt now i (generateOtp_srv (otpLength cfg) r) store)"
    using requestOtpRoute_accepts [OF assms(1,2)] assms(3,4) by simp
  let ?e = "\<lparr>s_hash = argon2_hash hashfn salt (generateOtp_srv (otpLength cfg) r), s_expiresAt = now + otpTtlMs cfg,
              s_attempts = 0, s_lastRequested = now\<rparr>"
  have si: "setOtp cfg hashfn salt now i (generateOtp_srv (otpLength cfg) r) store i = Some ?e"
    by (simp add: setOtp_def)
  have lt: "t - s_lastRequested ?e < otpCooldownMs cfg" using assms(5) by simp
  have "requestOtpRoute cfg hashfn salt' t r' failure' auth (Some i) (setOtp cfg hashfn salt now i (generateOtp_srv (otpLength cfg) r) store) =
          (error_response 429 ''Please wait before requesting another OTP.'', setOtp cfg hashfn salt now i (generateOtp_srv (otpLength cfg) r) store)"
    by (rule requestOtpRoute_cooldown [where store = "setOtp cfg hashfn salt now i (generateOtp_srv (otpLength cfg) r) store"
          and i = i, OF assms(1,2) si lt])
  then show ?thesis using eq by (simp add: error_response_def setOtp_def)
qed



lemma at_dot_not_space [simp]: "\<not> is_js_space (CHR ''@'')" "\<not> is_js_space (CHR ''.'')"
  by (simp_all add: is_js_space_def)

lemma email_ok_intro:
  assumes "a \<noteq> []" and "b \<noteq> []" and "c \<noteq> []"
    and "\<forall>x \<in> set (a @ b @ c). x \<noteq> CHR ''@'' \<and> \<not> is_js_space x"
  shows "email_ok (a @ CHR ''@'' # b @ CHR ''.'' # c)"
proof -
  have na: "\<forall>x \<in> set a. x \<noteq> CHR ''@''" and nb: "\<forall>x \<in> set b. x \<noteq> CHR ''@''"
    and nc: "\<forall>x \<in> set c. x \<noteq> CHR ''@''" using assms(4) by auto
  have tw: "takeWhile (\<lambda>x. x \<noteq> CHR ''@'') (a @ CHR ''@'' # b @ CHR ''.'' # c) = a"
    using na by (simp add: takeWhile_append2)
  have dw: "dropWhile (\<lambda>x. x \<noteq> CHR ''@'') (a @ CHR ''@'' # b @ CHR ''.'' # c) = CHR ''@'' # b @ CHR ''.'' # c"
    using na by (simp add: dropWhile_append2)
  have bl: "butlast (b @ CHR ''.'' # c) = b @ CHR ''.'' # butlast c"
    using assms(3) by (simp add: butlast_append)
  have dot: "CHR ''.'' \<in> set (tl (b @ CHR ''.'' # butlast c))"
    using assms(2) by (cases b) simp_all
  have cnt: "filter (\<lambda>x. x = CHR ''@'') (a @ CHR ''@'' # b @ CHR ''.'' # c) = [CHR ''@'']"
    using na nb nc by (simp add: filter_empty_conv)
  show ?thesis
    using assms(1,4) tw dw bl dot cnt by (auto simp: email_ok_def)
qed



lemma demo_config:
  "load_config dev_env = \<lparr>isProduction = False, otpLength = 6, otpTtlMs = 300000, otpCooldownMs = 30000,
     maxOtpAttempts = 5, apiKey = Some ''k1'', smtpConfigured = False, twilioConfigured = False\<rparr>"
  "load_config (prod_env) = \<lparr>isProduction = True, otpLength = 6, otpTtlMs = 300000,
     otpCooldownMs = 30000, maxOtpAttempts = 5, apiKey = Some ''k1'', smtpConfigured = False, twilioConfigured = False\<rparr>"
  by (simp_all add: load_config_def js_or_default_def js_truthy_str_def)

lemma demo_key: "requireApiKey (load_config dev_env) (Some ''Bearer k1'') = None"
  "requireApiKey (load_config (prod_env)) (Some ''Bearer k1'') = None"
  by (simp_all add: load_config_def requireApiKey_def js_truthy_str_def)

lemma demo_phone: "validateIdentifier (Some ''9876543210'')"
  by (simp add: validateIdentifier_def phone_ok_def is_digit_def)



theorem server_fail_closed_witness:
  "\<not> js_truthy_str (apiKey (load_config (dev_env\<lparr>SYSTEM_API_KEY := None\<rparr>))) \<and>
   requestOtpRoute (load_config (dev_env\<lparr>SYSTEM_API_KEY := None\<rparr>)) demo_argon2 ''s1'' 1000 (1/2) None
     (Some ''Bearer k1'') (Some ''9876543210'') Map.empty = (error_response 401 ''Unauthorized'', Map.empty) \<and>
   verifyOtpRoute (load_config (dev_env\<lparr>SYSTEM_API_KEY := None\<rparr>)) demo_argon2 1000 ''u1''
     (Some ''Bearer k1'') (Some ''9876543210'') (Some ''123456'') Map.empty = (error_response 401 ''Unauthorized'', Map.empty)"
proof -
  have k: "\<not> js_truthy_str (apiKey (load_config (dev_env\<lparr>SYSTEM_API_KEY := None\<rparr>)))"
    by (simp add: load_config_def js_truthy_str_def)
  show ?thesis using k server_fail_closed [OF k] by simp
qed

theorem requestOtp_production_no_leak_witness:
  "isProduction (load_config prod_env) \<and>
   resp_body (fst (requestOtpRoute (load_config prod_env) demo_argon2 ''s1'' 1000 (1/2) None
     (Some ''Bearer k1'') (Some ''9876543210'') Map.empty)) \<noteq> OtpSent (Some ''550000'')"
proof -
  have p: "isProduction (load_config prod_env)" by (simp add: load_config_def)
  show ?thesis using p requestOtp_production_no_leak [OF p] by simp
qed

lemma demo_no_provider:
  "sendOtp (load_config prod_env) None otp = Inl ''No delivery provider configured''"
  "sendOtp (load_config dev_env) None otp = Inr otp"
  by (simp_all add: sendOtp_def load_config_def js_truthy_str_def)

theorem requestOtp_failed_delivery_blocks_witness:
  "http_status (fst (requestOtpRoute (load_config prod_env) demo_argon2 ''s1'' 1000 (1/2) None
     (Some ''Bearer k1'') (Some ''9876543210'') Map.empty)) = 500 \<and>
   snd (requestOtpRoute (load_config prod_env) demo_argon2 ''s1'' 1000 (1/2) None
     (Some ''Bearer k1'') (Some ''9876543210'') Map.empty) ''9876543210'' \<noteq> None \<and>
   fst (requestOtpRoute (load_config prod_env) demo_argon2 ''s2'' 2000 (1/4) None (Some ''Bearer k1'') (Some ''9876543210'')
     (snd (requestOtpRoute (load_config prod_env) demo_argon2 ''s1'' 1000 (1/2) None
       (Some ''Bearer k1'') (Some ''9876543210'') Map.empty))) =
   error_response 429 ''Please wait before requesting another OTP.''"
proof -
  have c: "(2000::real) - 1000 < otpCooldownMs (load_config prod_env)" by (simp add: load_config_def js_or_default_def)
  show ?thesis
    using requestOtp_failed_delivery_blocks [where store = Map.empty and r = "1/2" and hashfn = demo_argon2
        and salt = "''s1''" and salt' = "''s2''" and r' = "1/4" and failure' = None,
        OF demo_key(2) demo_phone _ demo_no_provider(1) c]
    by simp
qed



end
