(* ===== verification/Requests.thy ===== *)
theory Requests
  imports Prelude
begin

text \<open>
  The request records that the blood-bank dashboard and the delivery dashboard
  exchange through the browser's \<open>localStorage\<close> key \<open>acceptedRequests\<close>
  (BloodBankDashboard.tsx lines 21-50 and 144-152, DeliveryDashboard.tsx lines
  338-388). A user or hospital request from \<open>requests.json\<close> carries no
  \<open>accepted_at\<close> until the bank accepts it (\<open>{...request, accepted_at}\<close>); the
  field is \<open>None\<close> before. The stored value is the JSON of the three accepted
  lists; a reader sees it as \<open>None\<close> when the key is absent, \<open>Malformed\<close> when
  \<open>JSON.parse\<close> throws, and a list field as \<open>None\<close> when it is missing or not an
  array. \<open>JSON.parse (JSON.stringify x)\<close> is the identity on these records.
\<close>

record userRequest =
  ur_name :: string
  ur_phone :: string
  ur_aadhar :: string
  ur_blood_required :: string
  ur_urgency :: string
  ur_quantity_units :: real
  ur_reason :: string
  ur_location :: "string option"
  ur_request_date :: "string option"
  ur_accepted_at :: "string option"

record hospitalRequest =
  hr_hospital_name :: string
  hr_location :: string
  hr_phone :: string
  hr_blood_required :: string
  hr_units_needed :: real
  hr_urgency :: string
  hr_department :: string
  hr_accepted_at :: "string option"

record donorRequest =
  dn_name :: string
  dn_phone :: string
  dn_aadhar :: string
  dn_blood_group :: string
  dn_donation_time :: string
  dn_location :: string
  dn_status :: string
  dn_accepted_at :: "string option"

datatype accepted_json =
    Malformed
  | AcceptedJson "userRequest list option" "hospitalRequest list option" "donorRequest list option"

type_synonym accepted_storage = "accepted_json option"

end
