(* ===== verification/Delivery.thy ===== *)
theory Delivery
  imports Matcher Route Requests
begin

text \<open>
  The delivery workflow of DeliveryDashboard.tsx: the requests loaded from the
  bank's accepted lists (\<open>loadAcceptedRequests\<close>, lines 338-388), the directory
  (\<open>loadBloodBanks\<close>, lines 115-126) and its background geocoding
  (\<open>preGeocodeCommonBanks\<close>, lines 132-164), the three handlers
  \<open>handleAcceptDelivery\<close> (806-939), \<open>handleStartDelivery\<close> (1152-1198) and
  \<open>updateDeliveryStatus\<close> (1203-1207), and the buttons the page shows for each
  request (1227-1229 and 1316-1406), which are the only way to run a handler.
  The component's state is the record \<open>dashboard\<close>: its React state
  (\<open>deliveryRequests\<close>, \<open>selectedRequest\<close>, \<open>routeInfo\<close>, \<open>mapEnabled\<close>,
  \<open>directionsEnabled\<close>) and its refs (\<open>currentDeliveryRequestRef\<close>,
  \<open>geocodeCacheRef\<close>, \<open>allBloodBanksRef\<close>). What a handler reads from outside
  (the session's delivery id, whether the map is ready, \<open>requests.json\<close>, the
  routing service's answers) is an \<open>env\<close> value; the geocoding service is fixed.
  Each handler runs to completion before the next event (its awaits are not
  interleaved with other handlers), and the route computed in the background after
  an acceptance is applied at the end of that acceptance. Markers, popups and the
  loading overlay's styling are not modelled; the overlay's presence is, because
  removing it twice throws.
\<close>

datatype request_type = User | Hospital

datatype delivery_status = Pending | Accepted | In_transit | Delivered

record deliveryRequest =
  dr_id :: "string option"
  dr_name :: string
  dr_phone :: string
  dr_aadhar :: "string option"
  dr_blood_required :: string
  dr_urgency :: string
  dr_quantity_units :: "real option"
  dr_units_needed :: "real option"
  dr_reason :: "string option"
  dr_location :: "string option"
  dr_hospital_name :: "string option"
  dr_department :: "string option"
  dr_accepted_at :: "string option"
  dr_type :: request_type
  dr_userLocation :: "coord option"
  dr_deliveryStatus :: "delivery_status option"
  dr_deliveryBoyId :: "string option"
  dr_nearestBloodBank :: "nearestBank option"

subsection \<open>Loading the accepted requests\<close>

text \<open>
  \<open>data.accepted_users.map((user, index) => ({id: `user-${index}-${Date.now()}`,
  ...}))\<close>: \<open>now index\<close> is the value \<open>Date.now()\<close> returns for that element.
  A hospital's name goes to \<open>name\<close>; \<open>hospital_name\<close> is not copied.
\<close>

definition user_delivery_request :: "nat \<Rightarrow> nat \<Rightarrow> userRequest \<Rightarrow> deliveryRequest" where
  "user_delivery_request index now user =
     \<lparr>dr_id = Some (''user-'' @ js_nat_string index @ ''-'' @ js_nat_string now),
      dr_name = ur_name user, dr_phone = ur_phone user, dr_aadhar = Some (ur_aadhar user),
      dr_blood_required = ur_blood_required user, dr_urgency = ur_urgency user,
      dr_quantity_units = Some (ur_quantity_units user), dr_units_needed = None,
      dr_reason = Some (ur_reason user), dr_location = ur_location user,
      dr_hospital_name = None, dr_department = None, dr_accepted_at = ur_accepted_at user,
      dr_type = User, dr_userLocation = None, dr_deliveryStatus = Some Pending,
      dr_deliveryBoyId = None, dr_nearestBloodBank = None\<rparr>"

definition hospital_delivery_request :: "nat \<Rightarrow> nat \<Rightarrow> hospitalRequest \<Rightarrow> deliveryRequest" where
  "hospital_delivery_request index now hospital =
     \<lparr>dr_id = Some (''hospital-'' @ js_nat_string index @ ''-'' @ js_nat_string now),
      dr_name = hr_hospital_name hospital, dr_phone = hr_phone hospital, dr_aadhar = None,
      dr_blood_required = hr_blood_required hospital, dr_urgency = hr_urgency hospital,
      dr_quantity_units = None, dr_units_needed = Some (hr_units_needed hospital),
      dr_reason = None, dr_location = Some (hr_location hospital),
      dr_hospital_name = None, dr_department = Some (hr_department hospital),
      dr_accepted_at = hr_accepted_at hospital,
      dr_type = Hospital, dr_userLocation = None, dr_deliveryStatus = Some Pending,
      dr_deliveryBoyId = None, dr_nearestBloodBank = None\<rparr>"

text \<open>No stored value, or one \<open>JSON.parse\<close> rejects (caught), leaves the list as it was.\<close>

definition loadAcceptedRequests ::
  "(nat \<Rightarrow> nat) \<Rightarrow> (nat \<Rightarrow> nat) \<Rightarrow> accepted_storage \<Rightarrow> deliveryRequest list \<Rightarrow> deliveryRequest list" where
  "loadAcceptedRequests nowU nowH saved current =
     (case saved of
        None \<Rightarrow> current
      | Some Malformed \<Rightarrow> current
      | Some (AcceptedJson users hospitals donors) \<Rightarrow>
          (case users of
             None \<Rightarrow> []
           | Some us \<Rightarrow> map (\<lambda>index. user_delivery_request index (nowU index) (us ! index)) [0..<length us]) @
          (case hospitals of
             None \<Rightarrow> []
           | Some hs \<Rightarrow> map (\<lambda>index. hospital_delivery_request index (nowH index) (hs ! index)) [0..<length hs]))"

text \<open>\<open>loadBloodBanks\<close>: the arrays among the values of \<open>b.json\<close>, concatenated.\<close>

datatype directory_entry = BankArray "bloodBank list" | NotArray

definition loadBloodBanks :: "directory_entry list \<Rightarrow> bloodBank list" where
  "loadBloodBanks entries = concat (map (\<lambda>e. case e of BankArray bs \<Rightarrow> bs | NotArray \<Rightarrow> []) entries)"

text \<open>
  \<open>preGeocodeCommonBanks\<close>: the first 30 banks without coordinates, in batches
  of 5; \<open>batches.forEach(async ...)\<close> starts every batch at once, so every lookup
  reads the cache as it was at the start.
\<close>

definition preGeocodeCommonBanks :: "geocoder \<Rightarrow> bloodBank list \<Rightarrow> geo_cache \<Rightarrow> bloodBank list \<times> geo_cache" where
  "preGeocodeCommonBanks g banks cache =
     (if banks = [] then (banks, cache)
      else
        let banksToGeocode = take 30 (filter (\<lambda>i. coords (banks ! i) = None) [0..<length banks])
        in if banksToGeocode = [] then (banks, cache)
           else
             let (results, banks1, cache1) = geocode_batch g cache banks (concat (batches 5 banksToGeocode)) cache
             in (banks1, cache1))"

subsection \<open>The page: lists, names and buttons\<close>

definition pendingRequests :: "deliveryRequest list \<Rightarrow> deliveryRequest list" where
  "pendingRequests rs = filter (\<lambda>r. dr_deliveryStatus r = Some Pending) rs"

definition acceptedRequests :: "deliveryRequest list \<Rightarrow> deliveryRequest list" where
  "acceptedRequests rs =
     filter (\<lambda>r. dr_deliveryStatus r = Some Accepted \<or> dr_deliveryStatus r = Some In_transit) rs"

definition deliveredRequests :: "deliveryRequest list \<Rightarrow> deliveryRequest list" where
  "deliveredRequests rs = filter (\<lambda>r. dr_deliveryStatus r = Some Delivered) rs"

text \<open>\<open>{request.type === "user" ? request.name : request.hospital_name}\<close>; React
  renders \<open>undefined\<close> as nothing.\<close>

definition display_name :: "deliveryRequest \<Rightarrow> string option" where
  "display_name r = (if dr_type r = User then Some (dr_name r) else dr_hospital_name r)"

datatype button = AcceptDelivery | ViewOnMap | GetDirections | StartDelivery | MarkDelivered

definition buttons :: "bool \<Rightarrow> deliveryRequest \<Rightarrow> button list" where
  "buttons directionsEnabled r =
     (if dr_deliveryStatus r = Some Pending then [AcceptDelivery]
      else if dr_deliveryStatus r = Some Accepted \<or> dr_deliveryStatus r = Some In_transit then
        [ViewOnMap] @
        (if dr_deliveryStatus r = Some Accepted \<and> dr_nearestBloodBank r \<noteq> None \<and> directionsEnabled
         then [GetDirections] else []) @
        (if dr_deliveryStatus r = Some Accepted then [StartDelivery] else []) @
        [MarkDelivered]
      else [])"

subsection \<open>The dashboard state and its environment\<close>

record dashboard =
  deliveryRequests :: "deliveryRequest list"
  selectedRequest :: "deliveryRequest option"
  d_routeInfo :: "routeInfo option"
  mapEnabled :: bool
  directionsEnabled :: bool
  currentDeliveryRequest :: "deliveryRequest option"
  geocodeCache :: geo_cache
  allBloodBanks :: "bloodBank list"

record env =
  session_deliveryId :: "string option"
  map_ready :: bool
  requests_users :: "userRequest list"
  car_response :: route_response
  bike_response :: route_response

datatype alert =
    PleaseLoginAgain
  | UserLocationNotAvailable
  | NoBloodBankWithin10km
  | BloodBankFound string string
  | NoRouteFoundAlert
  | CouldNotCalculateRoute

datatype js_exception = NotFoundError

text \<open>\<open>prev.map((r) => (r.id === request.id ? updatedRequest : r))\<close>.\<close>

definition replace_by_id :: "string option \<Rightarrow> deliveryRequest \<Rightarrow> deliveryRequest list \<Rightarrow> deliveryRequest list" where
  "replace_by_id i updated rs = map (\<lambda>r. if dr_id r = i then updated else r) rs"

text \<open>The alerts of \<open>calculateRouteWithInfo\<close>'s early exits.\<close>

definition route_alerts :: "route_error \<Rightarrow> alert list" where
  "route_alerts err =
     (case err of MapNotReady \<Rightarrow> [] | NoRouteFound \<Rightarrow> [NoRouteFoundAlert] | RouteFailed \<Rightarrow> [CouldNotCalculateRoute])"

subsection \<open>Accepting a delivery\<close>

definition find_requester :: "userRequest list \<Rightarrow> deliveryRequest \<Rightarrow> userRequest option" where
  "find_requester users request = find (\<lambda>u. ur_name u = dr_name request \<and> ur_phone u = dr_phone request) users"

text \<open>Step 1: the location text, from the request, else from \<open>requests.json\<close>,
  else the name, else \<open>Hyderabad, India\<close> (a falsy string is skipped).\<close>

definition user_location_string :: "userRequest list \<Rightarrow> deliveryRequest \<Rightarrow> string" where
  "user_location_string users request =
     (let s1 = (if \<not> js_truthy_str (dr_location request) \<and> dr_type request = User
                then (case find_requester users request of
                        Some u \<Rightarrow> if js_truthy_str (ur_location u) then ur_location u else dr_location request
                      | None \<Rightarrow> dr_location request)
                else dr_location request);
          s2 = (if \<not> js_truthy_str s1 \<and> dr_type request = Hospital then dr_location request else s1);
          fallback = (if dr_name request \<noteq> [] then dr_name request else ''Hyderabad, India'')
      in case s2 of Some s \<Rightarrow> if s \<noteq> [] then s else fallback | None \<Rightarrow> fallback)"

text \<open>\<open>userFromRequests.location.split(",")[0].trim()\<close>.\<close>

definition city_name :: "string \<Rightarrow> string" where
  "city_name l = js_trim (takeWhile (\<lambda>c. c \<noteq> CHR '','') l)"

definition default_coord :: "string \<Rightarrow> coord" where
  "default_coord loc = \<lparr>lat = 17.3850, lon = 78.4867, address = loc @ '' (approximate location)''\<rparr>"

text \<open>Step 2: geocode the text; failing that the text with \<open>, India\<close> (unless it
  has \<open>India\<close>); failing that, for a user, the city of the \<open>requests.json\<close> entry
  with \<open>, Andhra Pradesh, India\<close>; failing that the default coordinate.\<close>

definition resolve_user_location ::
  "geocoder \<Rightarrow> userRequest list \<Rightarrow> deliveryRequest \<Rightarrow> string \<Rightarrow> geo_cache \<Rightarrow> coord \<times> geo_cache" where
  "resolve_user_location g users request loc cache =
     (let (c1, cache1) = geocodeLocation g cache loc;
          (c2, cache2) = (if c1 = None \<and> \<not> js_includes loc ''India''
                          then geocodeLocation g cache1 (loc @ '', India'') else (c1, cache1));
          (c3, cache3) = (if c2 = None \<and> dr_type request = User then
                            (case find_requester users request of
                               Some u \<Rightarrow>
                                 (case ur_location u of
                                    Some l \<Rightarrow> if l \<noteq> [] then geocodeLocation g cache2 (city_name l @ '', Andhra Pradesh, India'')
                                              else (c2, cache2)
                                  | None \<Rightarrow> (c2, cache2))
                             | None \<Rightarrow> (c2, cache2))
                          else (c2, cache2))
      in (case c3 of Some c \<Rightarrow> c | None \<Rightarrow> default_coord loc, cache3))"

text \<open>
  Steps 3-6. The route from the bank to the requester is computed in the background
  by \<open>calculateRouteFromBloodBankToUser\<close>, which never raises an alert; its
  \<open>setRouteInfo\<close> is applied last.
\<close>

definition handleAcceptDelivery :: "geocoder \<Rightarrow> env \<Rightarrow> deliveryRequest \<Rightarrow> dashboard \<Rightarrow> alert list \<times> dashboard" where
  "handleAcceptDelivery g e request s =
     (case session_deliveryId e of
        None \<Rightarrow> ([PleaseLoginAgain], s)
      | Some deliveryId \<Rightarrow>
          (let loc = user_location_string (requests_users e) request;
               (coords, cache1) = resolve_user_location g (requests_users e) request loc (geocodeCache s);
               (nearestBank, banks1, cache2) =
                  findNearestBloodBank g (allBloodBanks s) cache1 coords (dr_blood_required request);
               updatedRequest = request\<lparr>dr_deliveryStatus := Some Accepted, dr_deliveryBoyId := Some deliveryId,
                                        dr_userLocation := Some coords, dr_nearestBloodBank := nearestBank\<rparr>;
               s1 = s\<lparr>mapEnabled := True, geocodeCache := cache2, allBloodBanks := banks1,
                      deliveryRequests := replace_by_id (dr_id request) updatedRequest (deliveryRequests s),
                      selectedRequest := Some updatedRequest\<rparr>
           in case nearestBank of
                None \<Rightarrow> ([], s1\<lparr>directionsEnabled := False\<rparr>)
              | Some nb \<Rightarrow>
                  (let s2 = s1\<lparr>directionsEnabled := True, currentDeliveryRequest := Some updatedRequest\<rparr>
                   in case calculateRouteFromBloodBankToUser (map_ready e) (nb_coords nb) coords
                             (car_response e) (bike_response e) of
                        Inl err \<Rightarrow> ([], s2)
                      | Inr info \<Rightarrow> ([], s2\<lparr>d_routeInfo := Some info\<rparr>))))"

subsection \<open>Starting a delivery, directions, delivered\<close>

text \<open>
  When no bank is found the handler removes the loading overlay, returns, and
  the \<open>finally\<close> block removes it a second time: \<open>removeChild\<close> throws
  \<open>NotFoundError\<close> and the handler's promise rejects.
\<close>

definition handleStartDelivery ::
  "geocoder \<Rightarrow> env \<Rightarrow> deliveryRequest \<Rightarrow> dashboard \<Rightarrow> (alert list \<times> js_exception option) \<times> dashboard" where
  "handleStartDelivery g e request s =
     (case dr_userLocation request of
        None \<Rightarrow> (([UserLocationNotAvailable], None), s)
      | Some u \<Rightarrow>
          (let (nearestBank, banks1, cache1) =
                  findNearestBloodBank g (allBloodBanks s) (geocodeCache s) u (dr_blood_required request);
               s0 = s\<lparr>allBloodBanks := banks1, geocodeCache := cache1\<rparr>
           in case nearestBank of
                None \<Rightarrow> (([NoBloodBankWithin10km], Some NotFoundError), s0)
              | Some nb \<Rightarrow>
                  (let updatedRequest = request\<lparr>dr_nearestBloodBank := Some nb, dr_deliveryStatus := Some In_transit\<rparr>;
                       s1 = s0\<lparr>deliveryRequests := replace_by_id (dr_id request) updatedRequest (deliveryRequests s),
                               selectedRequest := Some updatedRequest\<rparr>;
                       found = BloodBankFound (nb_name nb) (formatDistance (Some (nb_distance nb)))
                   in case calculateRouteWithInfo (map_ready e) (nb_coords nb) u (car_response e) (bike_response e) of
                        Inl err \<Rightarrow> ((route_alerts err @ [found], None), s1)
                      | Inr info \<Rightarrow> (([found], None), s1\<lparr>d_routeInfo := Some info\<rparr>))))"

text \<open>The "Get Directions" button (lines 1376-1380); \<open>setRouteInfo(prev => prev)\<close>
  changes nothing.\<close>

definition handleGetDirections :: "env \<Rightarrow> deliveryRequest \<Rightarrow> dashboard \<Rightarrow> alert list \<times> dashboard" where
  "handleGetDirections e request s =
     (case (dr_nearestBloodBank request, dr_userLocation request) of
        (Some nb, Some u) \<Rightarrow>
          (case calculateRouteWithInfo (map_ready e) (nb_coords nb) u (car_response e) (bike_response e) of
             Inl err \<Rightarrow> (route_alerts err, s)
           | Inr info \<Rightarrow> ([], s\<lparr>d_routeInfo := Some info\<rparr>))
      | _ \<Rightarrow> ([], s))"

definition updateDeliveryStatus :: "string \<Rightarrow> delivery_status option \<Rightarrow> dashboard \<Rightarrow> dashboard" where
  "updateDeliveryStatus requestId status s =
     s\<lparr>deliveryRequests :=
         map (\<lambda>r. if dr_id r = Some requestId then r\<lparr>dr_deliveryStatus := status\<rparr> else r) (deliveryRequests s)\<rparr>"

text \<open>"Mark Delivered": \<open>updateDeliveryStatus(request.id || "", "delivered")\<close>.\<close>

definition markDelivered :: "deliveryRequest \<Rightarrow> dashboard \<Rightarrow> dashboard" where
  "markDelivered request s = updateDeliveryStatus (js_nullish (dr_id request) []) (Some Delivered) s"

subsection \<open>The page as a transition system\<close>

text \<open>
  The page mounts with the accepted requests loaded and the directory flattened;
  afterwards an event is the background geocoding or a click on a button the page
  shows for a request of the list.
\<close>

definition dash_init ::
  "(nat \<Rightarrow> nat) \<Rightarrow> (nat \<Rightarrow> nat) \<Rightarrow> accepted_storage \<Rightarrow> directory_entry list \<Rightarrow> dashboard" where
  "dash_init nowU nowH saved directory =
     \<lparr>deliveryRequests = loadAcceptedRequests nowU nowH saved [], selectedRequest = None,
      d_routeInfo = None, mapEnabled = False, directionsEnabled = False,
      currentDeliveryRequest = None, geocodeCache = Map.empty,
      allBloodBanks = loadBloodBanks directory\<rparr>"

inductive dash_step :: "geocoder \<Rightarrow> dashboard \<Rightarrow> dashboard \<Rightarrow> bool" where
  pregeocode: "dash_step g s
     (s\<lparr>allBloodBanks := fst (preGeocodeCommonBanks g (allBloodBanks s) (geocodeCache s)),
        geocodeCache := snd (preGeocodeCommonBanks g (allBloodBanks s) (geocodeCache s))\<rparr>)"
| accept: "r \<in> set (deliveryRequests s) \<Longrightarrow> AcceptDelivery \<in> set (buttons (directionsEnabled s) r) \<Longrightarrow>
     dash_step g s (snd (handleAcceptDelivery g e r s))"
| directions: "r \<in> set (deliveryRequests s) \<Longrightarrow> GetDirections \<in> set (buttons (directionsEnabled s) r) \<Longrightarrow>
     dash_step g s (snd (handleGetDirections e r s))"
| start: "r \<in> set (deliveryRequests s) \<Longrightarrow> StartDelivery \<in> set (buttons (directionsEnabled s) r) \<Longrightarrow>
     dash_step g s (snd (handleStartDelivery g e r s))"
| deliver: "r \<in> set (deliveryRequests s) \<Longrightarrow> MarkDelivered \<in> set (buttons (directionsEnabled s) r) \<Longrightarrow>
     dash_step g s (markDelivered r s)"

inductive dash_reachable :: "geocoder \<Rightarrow> bloodBank list \<Rightarrow> dashboard \<Rightarrow> bool" where
  init: "dash_reachable g (loadBloodBanks directory) (dash_init nowU nowH saved directory)"
| step: "dash_reachable g banks0 s \<Longrightarrow> dash_step g s s' \<Longrightarrow> dash_reachable g banks0 s'"

subsection \<open>The invariant and the specification's state machine\<close>

text \<open>
  A request is well formed when it has an id and a status, a request past
  \<open>pending\<close> has a resolved location, one in transit has a matched bank, and a
  matched bank satisfies the data model's invariant (spec section 3) against the
  directory as loaded: it offers the required group, is not \<open>Critical\<close>, and
  lies within 10 km of the resolved location.
\<close>

definition request_ok :: "bloodBank list \<Rightarrow> deliveryRequest \<Rightarrow> bool" where
  "request_ok banks0 r \<longleftrightarrow>
     dr_id r \<noteq> None \<and> dr_deliveryStatus r \<noteq> None \<and>
     (dr_deliveryStatus r \<noteq> Some Pending \<longrightarrow> dr_userLocation r \<noteq> None) \<and>
     (dr_deliveryStatus r = Some In_transit \<longrightarrow> dr_nearestBloodBank r \<noteq> None) \<and>
     (\<forall>n. dr_nearestBloodBank r = Some n \<longrightarrow>
        (\<exists>u. dr_userLocation r = Some u \<and> match_ok haversineDistance banks0 u (dr_blood_required r) n))"

definition dash_inv :: "geocoder \<Rightarrow> bloodBank list \<Rightarrow> dashboard \<Rightarrow> bool" where
  "dash_inv g banks0 s \<longleftrightarrow>
     same_but_coords banks0 (allBloodBanks s) \<and> cache_sound g (geocodeCache s) \<and>
     distinct (map dr_id (deliveryRequests s)) \<and> (\<forall>r \<in> set (deliveryRequests s). request_ok banks0 r)"

text \<open>The transitions of spec section 4.3, \<open>accepted -> delivered\<close> included.\<close>

fun status_edge :: "delivery_status \<Rightarrow> delivery_status \<Rightarrow> bool" where
  "status_edge Pending Accepted = True"
| "status_edge Accepted In_transit = True"
| "status_edge Accepted Delivered = True"
| "status_edge In_transit Delivered = True"
| "status_edge _ _ = False"

text \<open>A status of the list moves along an edge of the machine or stays.\<close>

definition status_advance :: "delivery_status option \<Rightarrow> delivery_status option \<Rightarrow> bool" where
  "status_advance a b \<longleftrightarrow> a = b \<or> (\<exists>x y. a = Some x \<and> b = Some y \<and> status_edge x y)"

subsection \<open>Sample data for the examples\<close>

abbreviation demo_coord :: coord where
  "demo_coord \<equiv> \<lparr>lat = 17, lon = 83, address = ''Visakhapatnam''\<rparr>"

abbreviation demo_bank :: bloodBank where
  "demo_bank \<equiv> \<lparr>bb_name = ''City Blood Bank'', bb_state = ''Andhra Pradesh'', bb_district = ''Visakhapatnam'',
      bb_location = ''Visakhapatnam'', bb_phone = ''0891'', blood_groups_available = [''O+''],
      availability = ''Available'', last_updated = ''2024-01-01'', coords = Some demo_coord\<rparr>"

abbreviation demo_geocoder :: geocoder where
  "demo_geocoder \<equiv> \<lambda>q. Some \<lparr>g_lat = 17, g_lon = 83, g_display_name = ''Visakhapatnam''\<rparr>"

abbreviation demo_user :: userRequest where
  "demo_user \<equiv> \<lparr>ur_name = ''Ravi'', ur_phone = ''9000000001'', ur_aadhar = ''123412341234'',
      ur_blood_required = ''O+'', ur_urgency = ''High'', ur_quantity_units = 2, ur_reason = ''Surgery'',
      ur_location = Some ''Vizag'', ur_request_date = None, ur_accepted_at = Some ''2025-01-01''\<rparr>"

abbreviation demo_hospital :: hospitalRequest where
  "demo_hospital \<equiv> \<lparr>hr_hospital_name = ''KGH'', hr_location = ''Visakhapatnam'', hr_phone = ''0891000'',
      hr_blood_required = ''A+'', hr_units_needed = 3, hr_urgency = ''Medium'', hr_department = ''ICU'',
      hr_accepted_at = Some ''2025-01-01''\<rparr>"

abbreviation demo_env :: env where
  "demo_env \<equiv> \<lparr>session_deliveryId = Some ''D1'', map_ready = False, requests_users = [],
      car_response = FetchFailed, bike_response = FetchFailed\<rparr>"

abbreviation demo_s0 :: dashboard where
  "demo_s0 \<equiv> dash_init (\<lambda>i. 0) (\<lambda>i. 0) (Some (AcceptedJson (Some [demo_user]) (Some [demo_hospital]) None))
      [BankArray [demo_bank]]"

subsection \<open>Lemmas\<close>

lemma nat_dash_inj:
  "js_nat_string i @ CHR ''-'' # x = js_nat_string j @ CHR ''-'' # y \<Longrightarrow> i = j"
  using append_sep_cancel [of "js_nat_string i" "js_nat_string j" x y] by (simp add: js_nat_string_inj)

lemma distinct_user_ids:
  "distinct (map dr_id (map (\<lambda>index. user_delivery_request index (nowU index) (us ! index)) [0..<n]))"
  by (auto simp: distinct_map inj_on_def user_delivery_request_def dest: nat_dash_inj)

lemma distinct_hospital_ids:
  "distinct (map dr_id (map (\<lambda>index. hospital_delivery_request index (nowH index) (hs ! index)) [0..<n]))"
  by (auto simp: distinct_map inj_on_def hospital_delivery_request_def dest: nat_dash_inj)

lemma loadAcceptedRequests_cases:
  "loadAcceptedRequests nowU nowH saved current = current \<or>
   (\<exists>users hospitals.
      loadAcceptedRequests nowU nowH saved current =
        map (\<lambda>index. user_delivery_request index (nowU index) (users ! index)) [0..<length users] @
        map (\<lambda>index. hospital_delivery_request index (nowH index) (hospitals ! index)) [0..<length hospitals])"
proof (cases saved)
  case None
  then show ?thesis by (simp add: loadAcceptedRequests_def)
next
  case (Some j)
  show ?thesis
  proof (cases j)
    case Malformed
    with Some show ?thesis by (simp add: loadAcceptedRequests_def)
  next
    case (AcceptedJson us hs ds)
    let ?us = "case us of None \<Rightarrow> [] | Some x \<Rightarrow> x"
    let ?hs = "case hs of None \<Rightarrow> [] | Some x \<Rightarrow> x"
    have "loadAcceptedRequests nowU nowH saved current =
        map (\<lambda>index. user_delivery_request index (nowU index) (?us ! index)) [0..<length ?us] @
        map (\<lambda>index. hospital_delivery_request index (nowH index) (?hs ! index)) [0..<length ?hs]"
      using Some AcceptedJson by (simp add: loadAcceptedRequests_def split: option.split)
    then show ?thesis by blast
  qed
qed

lemma loaded_request_fields:
  "r \<in> set (map (\<lambda>index. user_delivery_request index (nowU index) (us ! index)) [0..<n] @
            map (\<lambda>index. hospital_delivery_request index (nowH index) (hs ! index)) [0..<m]) \<Longrightarrow>
   dr_id r \<noteq> None \<and> dr_deliveryStatus r = Some Pending \<and> dr_userLocation r = None \<and>
   dr_nearestBloodBank r = None \<and> dr_hospital_name r = None"
  by (auto simp: user_delivery_request_def hospital_delivery_request_def)

lemma distinct_loaded_ids:
  "distinct (map dr_id (map (\<lambda>index. user_delivery_request index (nowU index) (us ! index)) [0..<n] @
            map (\<lambda>index. hospital_delivery_request index (nowH index) (hs ! index)) [0..<m]))"
proof -
  have "set (map dr_id (map (\<lambda>index. user_delivery_request index (nowU index) (us ! index)) [0..<n])) \<inter>
        set (map dr_id (map (\<lambda>index. hospital_delivery_request index (nowH index) (hs ! index)) [0..<m])) = {}"
    by (auto simp: user_delivery_request_def hospital_delivery_request_def)
  then show ?thesis
    using distinct_user_ids [of nowU us n] distinct_hospital_ids [of nowH hs m] by simp
qed


lemma set_replace_by_id: "set (replace_by_id i u rs) \<subseteq> insert u (set rs)"
  by (auto simp: replace_by_id_def)

lemma length_replace_by_id [simp]: "length (replace_by_id i u rs) = length rs"
  by (simp add: replace_by_id_def)

lemma ids_replace_by_id [simp]: "dr_id u = i \<Longrightarrow> map dr_id (replace_by_id i u rs) = map dr_id rs"
  by (simp add: replace_by_id_def)

lemma nth_replace_by_id:
  "j < length rs \<Longrightarrow> replace_by_id i u rs ! j = (if dr_id (rs ! j) = i then u else rs ! j)"
  by (simp add: replace_by_id_def)

lemma distinct_ids_eq:
  "distinct (map dr_id rs) \<Longrightarrow> x \<in> set rs \<Longrightarrow> y \<in> set rs \<Longrightarrow> dr_id x = dr_id y \<Longrightarrow> x = y"
  by (metis distinct_map inj_onD)

lemma geocodeLocation_cache_sound_eq:
  "cache_sound g cache \<Longrightarrow> geocodeLocation g cache loc = (c, cache') \<Longrightarrow> cache_sound g cache'"
  using geocodeLocation_cache_sound [of g cache loc] by simp

lemma resolve_user_location_cache_sound:
  assumes "cache_sound g cache"
  shows "cache_sound g (snd (resolve_user_location g users r loc cache))"
proof -
  obtain c1 cache1 where g1: "geocodeLocation g cache loc = (c1, cache1)" by fastforce
  have s1: "cache_sound g cache1" using geocodeLocation_cache_sound [OF assms, of loc] g1 by simp
  obtain c2 cache2 where g2: "(if c1 = None \<and> \<not> js_includes loc ''India''
                          then geocodeLocation g cache1 (loc @ '', India'') else (c1, cache1)) = (c2, cache2)"
    by fastforce
  have s2: "cache_sound g cache2"
    using g2 s1 geocodeLocation_cache_sound [OF s1, of "loc @ '', India''"] by (auto split: if_splits)
  obtain c3 cache3 where g3: "(if c2 = None \<and> dr_type r = User then
                            (case find_requester users r of
                               Some u \<Rightarrow>
                                 (case ur_location u of
                                    Some l \<Rightarrow> if l \<noteq> [] then geocodeLocation g cache2 (city_name l @ '', Andhra Pradesh, India'')
                                              else (c2, cache2)
                                  | None \<Rightarrow> (c2, cache2))
                             | None \<Rightarrow> (c2, cache2))
                          else (c2, cache2)) = (c3, cache3)"
    by fastforce
  have s3: "cache_sound g cache3"
    using g3 s2 by (auto split: if_splits option.splits dest: geocodeLocation_cache_sound_eq [OF s2])
  show ?thesis
    unfolding resolve_user_location_def Let_def g1 prod.case g2 g3 using s3 by simp
qed


lemma handleAcceptDelivery_no_session: "session_deliveryId e = None \<Longrightarrow> snd (handleAcceptDelivery g e r s) = s"
  by (simp add: handleAcceptDelivery_def)

lemma handleAcceptDelivery_effect:
  assumes "session_deliveryId e = Some d"
    and "resolve_user_location g (requests_users e) r (user_location_string (requests_users e) r) (geocodeCache s) = (uc, cache1)"
    and "findNearestBloodBank g (allBloodBanks s) cache1 uc (dr_blood_required r) = (nb, banks1, cache2)"
  shows "deliveryRequests (snd (handleAcceptDelivery g e r s)) =
           replace_by_id (dr_id r) (r\<lparr>dr_deliveryStatus := Some Accepted, dr_deliveryBoyId := Some d,
                                      dr_userLocation := Some uc, dr_nearestBloodBank := nb\<rparr>) (deliveryRequests s) \<and>
         allBloodBanks (snd (handleAcceptDelivery g e r s)) = banks1 \<and>
         geocodeCache (snd (handleAcceptDelivery g e r s)) = cache2"
  using assms by (simp add: handleAcceptDelivery_def Let_def split: option.split sum.split)

lemma handleStartDelivery_no_location:
  "dr_userLocation r = None \<Longrightarrow> handleStartDelivery g e r s = (([UserLocationNotAvailable], None), s)"
  by (simp add: handleStartDelivery_def)

lemma handleStartDelivery_effect:
  assumes "dr_userLocation r = Some u"
    and "findNearestBloodBank g (allBloodBanks s) (geocodeCache s) u (dr_blood_required r) = (nb, banks1, cache1)"
  shows "deliveryRequests (snd (handleStartDelivery g e r s)) =
           (case nb of None \<Rightarrow> deliveryRequests s
            | Some n \<Rightarrow> replace_by_id (dr_id r) (r\<lparr>dr_nearestBloodBank := Some n, dr_deliveryStatus := Some In_transit\<rparr>)
                         (deliveryRequests s)) \<and>
         allBloodBanks (snd (handleStartDelivery g e r s)) = banks1 \<and>
         geocodeCache (snd (handleStartDelivery g e r s)) = cache1"
  using assms by (simp add: handleStartDelivery_def Let_def split: option.split sum.split)

lemma handleGetDirections_frame:
  "deliveryRequests (snd (handleGetDirections e r s)) = deliveryRequests s \<and>
   allBloodBanks (snd (handleGetDirections e r s)) = allBloodBanks s \<and>
   geocodeCache (snd (handleGetDirections e r s)) = geocodeCache s"
  by (simp add: handleGetDirections_def split: option.split sum.split)

lemma preGeocodeCommonBanks_ok:
  "same_but_coords banks (fst (preGeocodeCommonBanks g banks cache)) \<and>
   (cache_sound g cache \<longrightarrow> cache_sound g (snd (preGeocodeCommonBanks g banks cache)))"
  using geocode_batch_frame [of banks g cache _ cache] geocode_batch_cache_sound [of g cache cache banks]
  by (simp add: preGeocodeCommonBanks_def Let_def split_def)

lemma findNearestBloodBank_ok:
  "pred_option (match_ok haversineDistance banks u req) (fst (findNearestBloodBank g banks cache u req)) \<and>
   same_but_coords banks (fst (snd (findNearestBloodBank g banks cache u req))) \<and>
   (cache_sound g cache \<longrightarrow> cache_sound g (snd (snd (findNearestBloodBank g banks cache u req))))"
  using findNearestBloodBank_with_ok [of haversineDistance banks u req quickDistance g cache]
    findNearestBloodBank_with_cache_sound [of g cache haversineDistance quickDistance banks u req]
  by (simp add: findNearestBloodBank_def)


lemma buttons_iff:
  "AcceptDelivery \<in> set (buttons d r) \<longleftrightarrow> dr_deliveryStatus r = Some Pending"
  "StartDelivery \<in> set (buttons d r) \<longleftrightarrow> dr_deliveryStatus r = Some Accepted"
  "GetDirections \<in> set (buttons d r) \<longleftrightarrow> dr_deliveryStatus r = Some Accepted \<and> dr_nearestBloodBank r \<noteq> None \<and> d"
  "MarkDelivered \<in> set (buttons d r) \<longleftrightarrow> dr_deliveryStatus r = Some Accepted \<or> dr_deliveryStatus r = Some In_transit"
  by (auto simp: buttons_def)

lemma request_ok_accepted:
  assumes "request_ok banks0 r" and "same_but_coords banks0 banks"
    and "pred_option (match_ok haversineDistance banks uc (dr_blood_required r)) nb"
  shows "request_ok banks0 (r\<lparr>dr_deliveryStatus := Some Accepted, dr_deliveryBoyId := Some d,
                               dr_userLocation := Some uc, dr_nearestBloodBank := nb\<rparr>)"
  using assms match_ok_transfer [OF assms(2)] by (cases nb) (auto simp: request_ok_def)

lemma request_ok_in_transit:
  assumes "request_ok banks0 r" and "dr_userLocation r = Some u" and "same_but_coords banks0 banks"
    and "match_ok haversineDistance banks u (dr_blood_required r) n"
  shows "request_ok banks0 (r\<lparr>dr_nearestBloodBank := Some n, dr_deliveryStatus := Some In_transit\<rparr>)"
  using assms match_ok_transfer [OF assms(3)] by (auto simp: request_ok_def)

lemma request_ok_delivered:
  "request_ok banks0 r \<Longrightarrow> dr_deliveryStatus r \<noteq> Some Pending \<Longrightarrow>
   request_ok banks0 (r\<lparr>dr_deliveryStatus := Some Delivered\<rparr>)"
  by (auto simp: request_ok_def)

lemma replace_by_id_all:
  "\<forall>x \<in> set rs. P x \<Longrightarrow> P u \<Longrightarrow> \<forall>x \<in> set (replace_by_id i u rs). P x"
  using set_replace_by_id by blast

lemma markDelivered_requests:
  "deliveryRequests (markDelivered r s) =
     map (\<lambda>x. if dr_id x = Some (js_nullish (dr_id r) []) then x\<lparr>dr_deliveryStatus := Some Delivered\<rparr> else x)
       (deliveryRequests s)"
  "allBloodBanks (markDelivered r s) = allBloodBanks s" "geocodeCache (markDelivered r s) = geocodeCache s"
  by (simp_all add: markDelivered_def updateDeliveryStatus_def)

lemma markDelivered_target:
  assumes "distinct (map dr_id rs)" and "r \<in> set rs" and "x \<in> set rs" and "dr_id r \<noteq> None"
    and "dr_id x = Some (js_nullish (dr_id r) [])"
  shows "x = r"
  using assms distinct_ids_eq [OF assms(1) assms(3) assms(2)] by (auto simp: js_nullish_def split: option.splits)

lemma dash_inv_accept:
  assumes inv: "dash_inv g banks0 s" and r: "r \<in> set (deliveryRequests s)"
  shows "dash_inv g banks0 (snd (handleAcceptDelivery g e r s))"
proof (cases "session_deliveryId e")
  case None
  with inv show ?thesis by (simp add: handleAcceptDelivery_no_session)
next
  case (Some d)
  obtain uc cache1 where R: "resolve_user_location g (requests_users e) r
      (user_location_string (requests_users e) r) (geocodeCache s) = (uc, cache1)" by fastforce
  obtain nb banks1 cache2 where F: "findNearestBloodBank g (allBloodBanks s) cache1 uc (dr_blood_required r) = (nb, banks1, cache2)"
    by (metis prod.exhaust)
  note eff = handleAcceptDelivery_effect [OF Some R F]
  from inv have sb: "same_but_coords banks0 (allBloodBanks s)" and cs: "cache_sound g (geocodeCache s)"
    and ok: "\<forall>x \<in> set (deliveryRequests s). request_ok banks0 x" and ds: "distinct (map dr_id (deliveryRequests s))"
    by (simp_all add: dash_inv_def)
  have cs1: "cache_sound g cache1" using resolve_user_location_cache_sound [OF cs] R by (metis snd_conv)
  from findNearestBloodBank_ok [where banks = "allBloodBanks s" and u = uc and req = "dr_blood_required r" and g = g and cache = cache1] F cs1
  have m: "pred_option (match_ok haversineDistance (allBloodBanks s) uc (dr_blood_required r)) nb"
    and sb1: "same_but_coords (allBloodBanks s) banks1" and cs2: "cache_sound g cache2" by simp_all
  have "request_ok banks0 (r\<lparr>dr_deliveryStatus := Some Accepted, dr_deliveryBoyId := Some d,
                               dr_userLocation := Some uc, dr_nearestBloodBank := nb\<rparr>)"
    using request_ok_accepted [OF _ sb m] ok r by blast
  with ok have "\<forall>x \<in> set (deliveryRequests (snd (handleAcceptDelivery g e r s))). request_ok banks0 x"
    using eff replace_by_id_all by metis
  moreover have "distinct (map dr_id (deliveryRequests (snd (handleAcceptDelivery g e r s))))"
    using eff ds by simp
  ultimately show ?thesis
    using eff sb sb1 cs2 by (simp add: dash_inv_def same_but_coords_trans)
qed


lemma dash_inv_start:
  assumes inv: "dash_inv g banks0 s" and r: "r \<in> set (deliveryRequests s)"
  shows "dash_inv g banks0 (snd (handleStartDelivery g e r s))"
proof (cases "dr_userLocation r")
  case None
  with inv show ?thesis by (simp add: handleStartDelivery_no_location)
next
  case (Some u)
  obtain nb banks1 cache1 where F: "findNearestBloodBank g (allBloodBanks s) (geocodeCache s) u (dr_blood_required r) = (nb, banks1, cache1)"
    by (metis prod.exhaust)
  note eff = handleStartDelivery_effect [OF Some F]
  from inv have sb: "same_but_coords banks0 (allBloodBanks s)" and cs: "cache_sound g (geocodeCache s)"
    and ok: "\<forall>x \<in> set (deliveryRequests s). request_ok banks0 x" and ds: "distinct (map dr_id (deliveryRequests s))"
    by (simp_all add: dash_inv_def)
  from findNearestBloodBank_ok [where banks = "allBloodBanks s" and u = u and req = "dr_blood_required r" and g = g
      and cache = "geocodeCache s"] F cs
  have m: "pred_option (match_ok haversineDistance (allBloodBanks s) u (dr_blood_required r)) nb"
    and sb1: "same_but_coords (allBloodBanks s) banks1" and cs1: "cache_sound g cache1" by simp_all
  have reqs: "(\<forall>x \<in> set (deliveryRequests (snd (handleStartDelivery g e r s))). request_ok banks0 x) \<and>
              distinct (map dr_id (deliveryRequests (snd (handleStartDelivery g e r s))))"
  proof (cases nb)
    case None
    with eff ok ds show ?thesis by simp
  next
    case (Some n)
    have "request_ok banks0 (r\<lparr>dr_nearestBloodBank := Some n, dr_deliveryStatus := Some In_transit\<rparr>)"
      using request_ok_in_transit [OF _ \<open>dr_userLocation r = Some u\<close> sb] m Some ok r by auto
    then show ?thesis
      using eff Some replace_by_id_all [OF ok] ds by simp
  qed
  with eff sb sb1 cs1 show ?thesis by (simp add: dash_inv_def same_but_coords_trans)
qed


lemma ball_set_map_iff: "(\<forall>y \<in> set (map f xs). P y) \<longleftrightarrow> (\<forall>x \<in> set xs. P (f x))"
  by auto

lemma dash_inv_deliver:
  assumes inv: "dash_inv g banks0 s" and r: "r \<in> set (deliveryRequests s)"
    and b: "MarkDelivered \<in> set (buttons (directionsEnabled s) r)"
  shows "dash_inv g banks0 (markDelivered r s)"
proof -
  from inv have ok: "\<forall>x \<in> set (deliveryRequests s). request_ok banks0 x"
    and ds: "distinct (map dr_id (deliveryRequests s))" by (simp_all add: dash_inv_def)
  have idr: "dr_id r \<noteq> None" using ok r by (simp add: request_ok_def)
  have np: "dr_deliveryStatus r \<noteq> Some Pending" using b by (auto simp: buttons_iff)
  have "request_ok banks0 (if dr_id x = Some (js_nullish (dr_id r) []) then x\<lparr>dr_deliveryStatus := Some Delivered\<rparr> else x)"
    if x: "x \<in> set (deliveryRequests s)" for x
  proof (cases "dr_id x = Some (js_nullish (dr_id r) [])")
    case True
    then have "x = r" using markDelivered_target [OF ds r x idr] by simp
    with True ok r np show ?thesis by (simp add: request_ok_delivered)
  next
    case False
    with ok x show ?thesis by simp
  qed
  then have A: "\<forall>x \<in> set (deliveryRequests (markDelivered r s)). request_ok banks0 x"
    unfolding markDelivered_requests(1) ball_set_map_iff by blast
  have ids: "map dr_id (deliveryRequests (markDelivered r s)) = map dr_id (deliveryRequests s)"
    by (simp add: markDelivered_requests)
  have B: "distinct (map dr_id (deliveryRequests (markDelivered r s)))"
    unfolding ids by (rule ds)
  show ?thesis using inv A B by (simp add: dash_inv_def markDelivered_requests(2,3))
qed

lemma dash_inv_pregeocode:
  "dash_inv g banks0 s \<Longrightarrow>
   dash_inv g banks0 (s\<lparr>allBloodBanks := fst (preGeocodeCommonBanks g (allBloodBanks s) (geocodeCache s)),
                       geocodeCache := snd (preGeocodeCommonBanks g (allBloodBanks s) (geocodeCache s))\<rparr>)"
  using preGeocodeCommonBanks_ok [of "allBloodBanks s" g "geocodeCache s"]
  by (auto simp: dash_inv_def intro: same_but_coords_trans)

lemma dash_step_inv: "dash_step g s s' \<Longrightarrow> dash_inv g banks0 s \<Longrightarrow> dash_inv g banks0 s'"
proof (induction rule: dash_step.induct)
  case pregeocode
  then show ?case by (rule dash_inv_pregeocode)
next
  case accept
  then show ?case by (simp add: dash_inv_accept)
next
  case directions
  then show ?case using handleGetDirections_frame by (simp add: dash_inv_def)
next
  case start
  then show ?case by (simp add: dash_inv_start)
next
  case deliver
  then show ?case by (simp add: dash_inv_deliver)
qed

lemma dash_inv_init: "dash_inv g (loadBloodBanks directory) (dash_init nowU nowH saved directory)"
proof -
  let ?L = "loadAcceptedRequests nowU nowH saved []"
  have "distinct (map dr_id ?L) \<and> (\<forall>r \<in> set ?L. request_ok (loadBloodBanks directory) r)"
  proof (cases "?L = []")
    case True
    then show ?thesis by simp
  next
    case False
    then obtain users hospitals where L: "?L =
          map (\<lambda>index. user_delivery_request index (nowU index) (users ! index)) [0..<length users] @
          map (\<lambda>index. hospital_delivery_request index (nowH index) (hospitals ! index)) [0..<length hospitals]"
      using loadAcceptedRequests_cases [of nowU nowH saved "[]"] by auto
    have "request_ok (loadBloodBanks directory) r" if "r \<in> set ?L" for r
      using loaded_request_fields [of r nowU users "length users" nowH hospitals "length hospitals"] that L
      by (simp add: request_ok_def)
    then show ?thesis using distinct_loaded_ids L by simp
  qed
  then show ?thesis by (simp add: dash_inv_def dash_init_def cache_sound_def)
qed

lemma dash_reachable_inv: "dash_reachable g banks0 s \<Longrightarrow> dash_inv g banks0 s"
proof (induction rule: dash_reachable.induct)
  case (init g directory nowU nowH saved)
  then show ?case by (rule dash_inv_init)
next
  case (step g banks0 s s')
  then show ?case using dash_step_inv by blast
qed



lemma status_advance_refl [simp]: "status_advance a a"
  by (simp add: status_advance_def)

lemma status_advance_Some [simp]: "status_advance (Some a) (Some b) \<longleftrightarrow> a = b \<or> status_edge a b"
  by (auto simp: status_advance_def)

lemma list_all2_status_refl: "list_all2 status_advance (map dr_deliveryStatus rs) (map dr_deliveryStatus rs)"
  by (simp add: list_all2_conv_all_nth)

lemma replace_by_id_advance:
  assumes "distinct (map dr_id rs)" and "r \<in> set rs" and "dr_id u = dr_id r"
    and "status_advance (dr_deliveryStatus r) (dr_deliveryStatus u)"
  shows "list_all2 status_advance (map dr_deliveryStatus rs) (map dr_deliveryStatus (replace_by_id (dr_id r) u rs))"
proof -
  have "status_advance (dr_deliveryStatus (rs ! i)) (dr_deliveryStatus (replace_by_id (dr_id r) u rs ! i))"
    if i: "i < length rs" for i
  proof (cases "dr_id (rs ! i) = dr_id r")
    case True
    then have "rs ! i = r" using distinct_ids_eq [OF assms(1) nth_mem [OF i] assms(2)] by simp
    with True i assms(4) show ?thesis by (simp add: nth_replace_by_id)
  next
    case False
    with i show ?thesis by (simp add: nth_replace_by_id)
  qed
  then show ?thesis by (simp add: list_all2_conv_all_nth)
qed

lemma markDelivered_advance:
  assumes "distinct (map dr_id rs)" and "r \<in> set rs" and "dr_id r \<noteq> None"
    and "dr_deliveryStatus r = Some Accepted \<or> dr_deliveryStatus r = Some In_transit"
  shows "list_all2 status_advance (map dr_deliveryStatus rs)
           (map dr_deliveryStatus (map (\<lambda>x. if dr_id x = Some (js_nullish (dr_id r) [])
                                             then x\<lparr>dr_deliveryStatus := Some Delivered\<rparr> else x) rs))"
proof -
  have "status_advance (dr_deliveryStatus x)
          (dr_deliveryStatus (if dr_id x = Some (js_nullish (dr_id r) []) then x\<lparr>dr_deliveryStatus := Some Delivered\<rparr> else x))"
    if x: "x \<in> set rs" for x
  proof (cases "dr_id x = Some (js_nullish (dr_id r) [])")
    case True
    then have "x = r" using markDelivered_target [OF assms(1) assms(2) x assms(3)] by simp
    with True assms(4) show ?thesis by (auto simp: status_advance_def)
  qed simp
  then show ?thesis by (simp add: list_all2_conv_all_nth)
qed

lemma dash_step_advance:
  assumes "dash_step g s s'" and "dash_inv g banks0 s"
  shows "list_all2 status_advance (map dr_deliveryStatus (deliveryRequests s)) (map dr_deliveryStatus (deliveryRequests s'))"
  using assms
proof (induction rule: dash_step.induct)
  case pregeocode
  then show ?case by (simp add: list_all2_status_refl)
next
  case (accept r s g e)
  then have ds: "distinct (map dr_id (deliveryRequests s))" and pend: "dr_deliveryStatus r = Some Pending"
    by (auto simp: dash_inv_def buttons_iff)
  show ?case
  proof (cases "session_deliveryId e")
    case None
    then show ?thesis by (simp add: handleAcceptDelivery_no_session list_all2_status_refl)
  next
    case (Some d)
    obtain uc cache1 where R: "resolve_user_location g (requests_users e) r
        (user_location_string (requests_users e) r) (geocodeCache s) = (uc, cache1)" by fastforce
    obtain nb banks1 cache2 where F: "findNearestBloodBank g (allBloodBanks s) cache1 uc (dr_blood_required r) = (nb, banks1, cache2)"
      by (metis prod.exhaust)
    show ?thesis
      using handleAcceptDelivery_effect [OF Some R F] pend
        replace_by_id_advance [OF ds accept.hyps(1), of "r\<lparr>dr_deliveryStatus := Some Accepted,
           dr_deliveryBoyId := Some d, dr_userLocation := Some uc, dr_nearestBloodBank := nb\<rparr>"]
      by simp
  qed
next
  case directions
  then show ?case using handleGetDirections_frame by (simp add: list_all2_status_refl)
next
  case (start r s g e)
  then have ds: "distinct (map dr_id (deliveryRequests s))" and acc: "dr_deliveryStatus r = Some Accepted"
    by (auto simp: dash_inv_def buttons_iff)
  show ?case
  proof (cases "dr_userLocation r")
    case None
    then show ?thesis by (simp add: handleStartDelivery_no_location list_all2_status_refl)
  next
    case (Some u)
    obtain nb banks1 cache1 where F: "findNearestBloodBank g (allBloodBanks s) (geocodeCache s) u (dr_blood_required r) = (nb, banks1, cache1)"
      by (metis prod.exhaust)
    show ?thesis
      using handleStartDelivery_effect [OF Some F] acc
        replace_by_id_advance [OF ds start.hyps(1), of "r\<lparr>dr_nearestBloodBank := Some (the nb),
           dr_deliveryStatus := Some In_transit\<rparr>"]
      by (cases nb) (simp_all add: list_all2_status_refl)
  qed
next
  case (deliver r s)
  then have "distinct (map dr_id (deliveryRequests s))" and "dr_id r \<noteq> None"
    by (auto simp: dash_inv_def request_ok_def)
  with deliver show ?case
    using markDelivered_advance [of "deliveryRequests s" r] by (simp add: markDelivered_requests buttons_iff)
qed


lemma demo_s0_requests:
  "deliveryRequests demo_s0 = [user_delivery_request 0 0 demo_user, hospital_delivery_request 0 0 demo_hospital]"
  "allBloodBanks demo_s0 = [demo_bank]" "geocodeCache demo_s0 = Map.empty"
  by (simp_all add: dash_init_def loadAcceptedRequests_def loadBloodBanks_def)

lemma demo_resolve:
  "resolve_user_location demo_geocoder [] (user_delivery_request 0 0 demo_user)
     (user_location_string [] (user_delivery_request 0 0 demo_user)) Map.empty = (demo_coord, [''vizag'' \<mapsto> demo_coord])"
  by (simp add: resolve_user_location_def user_location_string_def user_delivery_request_def js_truthy_str_def
      geocodeLocation_def normalize_location_def search_query_def result_coord_def js_string_eval Let_def)

lemma demo_match:
  "findNearestBloodBank demo_geocoder [demo_bank] cache demo_coord ''O+'' =
     (Some \<lparr>nb_name = ''City Blood Bank'', nb_location = ''Visakhapatnam'', nb_coords = demo_coord, nb_distance = 0\<rparr>,
      [demo_bank], cache)"
  by (simp add: findNearestBloodBank_def findNearestBloodBank_with_def candidateBanks_def isCandidate_def
      examined_def matcher_constants below_min_def mk_nearest_def haversineDistance_self quickDistance_self)


lemma demo_accept:
  "deliveryRequests (snd (handleAcceptDelivery demo_geocoder demo_env (user_delivery_request 0 0 demo_user) demo_s0)) =
     [(user_delivery_request 0 0 demo_user)\<lparr>dr_deliveryStatus := Some Accepted, dr_deliveryBoyId := Some ''D1'',
        dr_userLocation := Some demo_coord,
        dr_nearestBloodBank := Some \<lparr>nb_name = ''City Blood Bank'', nb_location = ''Visakhapatnam'',
                                     nb_coords = demo_coord, nb_distance = 0\<rparr>\<rparr>,
      hospital_delivery_request 0 0 demo_hospital]"
proof -
  have R: "resolve_user_location demo_geocoder (requests_users demo_env) (user_delivery_request 0 0 demo_user)
     (user_location_string (requests_users demo_env) (user_delivery_request 0 0 demo_user)) (geocodeCache demo_s0) =
     (demo_coord, [''vizag'' \<mapsto> demo_coord])"
    using demo_resolve by (simp add: demo_s0_requests)
  have F: "findNearestBloodBank demo_geocoder (allBloodBanks demo_s0) [''vizag'' \<mapsto> demo_coord] demo_coord
     (dr_blood_required (user_delivery_request 0 0 demo_user)) =
     (Some \<lparr>nb_name = ''City Blood Bank'', nb_location = ''Visakhapatnam'', nb_coords = demo_coord, nb_distance = 0\<rparr>,
      [demo_bank], [''vizag'' \<mapsto> demo_coord])"
    using demo_match by (simp add: demo_s0_requests user_delivery_request_def)
  show ?thesis
    using handleAcceptDelivery_effect [OF _ R F, of "''D1''"]
    by (simp add: demo_s0_requests replace_by_id_def user_delivery_request_def hospital_delivery_request_def)
qed

lemma demo_reach_accept:
  "dash_reachable demo_geocoder [demo_bank]
     (snd (handleAcceptDelivery demo_geocoder demo_env (user_delivery_request 0 0 demo_user) demo_s0))"
proof -
  have r0: "dash_reachable demo_geocoder (loadBloodBanks [BankArray [demo_bank]]) demo_s0"
    by (rule dash_reachable.init)
  have "dash_step demo_geocoder demo_s0
          (snd (handleAcceptDelivery demo_geocoder demo_env (user_delivery_request 0 0 demo_user) demo_s0))"
    by (rule dash_step.accept) (simp_all add: demo_s0_requests buttons_def user_delivery_request_def)
  with r0 show ?thesis by (simp add: loadBloodBanks_def dash_reachable.step)
qed

text \<open>
  C18. The data model's invariant (spec section 3) holds in every state the page
  reaches from its mount by any sequence of clicks and background geocoding: a
  request with a matched bank has a resolved location, and the bank (as loaded from
  the directory) offers the required group, is not Critical, and lies within 10 km
  of that location by the haversine distance.
\<close>

theorem dash_matched_bank_ok:
  assumes "dash_reachable g banks0 s" and "r \<in> set (deliveryRequests s)" and "dr_nearestBloodBank r = Some n"
  shows "\<exists>u. dr_userLocation r = Some u \<and> match_ok haversineDistance banks0 u (dr_blood_required r) n"
  using dash_reachable_inv [OF assms(1)] assms(2,3) by (auto simp: dash_inv_def request_ok_def)

theorem dash_matched_bank_ok_witness:
  "dash_reachable demo_geocoder [demo_bank]
     (snd (handleAcceptDelivery demo_geocoder demo_env (user_delivery_request 0 0 demo_user) demo_s0)) \<and>
   (user_delivery_request 0 0 demo_user)\<lparr>dr_deliveryStatus := Some Accepted, dr_deliveryBoyId := Some ''D1'',
        dr_userLocation := Some demo_coord,
        dr_nearestBloodBank := Some \<lparr>nb_name = ''City Blood Bank'', nb_location = ''Visakhapatnam'',
                                     nb_coords = demo_coord, nb_distance = 0\<rparr>\<rparr>
     \<in> set (deliveryRequests (snd (handleAcceptDelivery demo_geocoder demo_env (user_delivery_request 0 0 demo_user) demo_s0))) \<and>
   match_ok haversineDistance [demo_bank] demo_coord ''O+''
     \<lparr>nb_name = ''City Blood Bank'', nb_location = ''Visakhapatnam'', nb_coords = demo_coord, nb_distance = 0\<rparr>"
proof -
  let ?s = "snd (handleAcceptDelivery demo_geocoder demo_env (user_delivery_request 0 0 demo_user) demo_s0)"
  let ?r = "(user_delivery_request 0 0 demo_user)\<lparr>dr_deliveryStatus := Some Accepted, dr_deliveryBoyId := Some ''D1'',
        dr_userLocation := Some demo_coord,
        dr_nearestBloodBank := Some \<lparr>nb_name = ''City Blood Bank'', nb_location = ''Visakhapatnam'',
                                     nb_coords = demo_coord, nb_distance = 0\<rparr>\<rparr>"
  have mem: "?r \<in> set (deliveryRequests ?s)" by (simp add: demo_accept)
  have "\<exists>u. dr_userLocation ?r = Some u \<and> match_ok haversineDistance [demo_bank] u (dr_blood_required ?r)
          \<lparr>nb_name = ''City Blood Bank'', nb_location = ''Visakhapatnam'', nb_coords = demo_coord, nb_distance = 0\<rparr>"
    by (rule dash_matched_bank_ok [OF demo_reach_accept mem]) simp
  then show ?thesis using demo_reach_accept mem by (simp add: user_delivery_request_def)
qed



lemma demo_step_accept:
  "dash_step demo_geocoder demo_s0
     (snd (handleAcceptDelivery demo_geocoder demo_env (user_delivery_request 0 0 demo_user) demo_s0))"
  by (rule dash_step.accept) (simp_all add: demo_s0_requests buttons_def user_delivery_request_def)


text \<open>
  In every reachable state each request has an id, a request past pending
  has a resolved location, and a request in transit has a matched bank (the
  transition to in_transit requires the resolved origin, spec section 4.3).
\<close>

theorem dash_progress_fields:
  assumes "dash_reachable g banks0 s" and "r \<in> set (deliveryRequests s)"
  shows "dr_id r \<noteq> None \<and> (dr_deliveryStatus r \<noteq> Some Pending \<longrightarrow> dr_userLocation r \<noteq> None) \<and>
         (dr_deliveryStatus r = Some In_transit \<longrightarrow> dr_nearestBloodBank r \<noteq> None)"
  using dash_reachable_inv [OF assms(1)] assms(2) by (simp add: dash_inv_def request_ok_def)

theorem dash_progress_fields_witness:
  "dash_reachable demo_geocoder [demo_bank]
     (snd (handleAcceptDelivery demo_geocoder demo_env (user_delivery_request 0 0 demo_user) demo_s0)) \<and>
   hospital_delivery_request 0 0 demo_hospital
     \<in> set (deliveryRequests (snd (handleAcceptDelivery demo_geocoder demo_env (user_delivery_request 0 0 demo_user) demo_s0))) \<and>
   dr_id (hospital_delivery_request 0 0 demo_hospital) \<noteq> None"
  using demo_reach_accept
    dash_progress_fields [OF demo_reach_accept, of "hospital_delivery_request 0 0 demo_hospital"]
  by (simp add: demo_accept)


text \<open>
  Loading the bank's accepted lists gives one pending request per accepted
  user and hospital, without location or match, with pairwise distinct ids:
  \<open>user-i-t\<close> and \<open>hospital-i-t\<close> differ in their prefix or in the index
  before the second dash, whatever the clock returns.
\<close>

theorem loadAcceptedRequests_fresh:
  "distinct (map dr_id (loadAcceptedRequests nowU nowH (Some (AcceptedJson us hs ds)) cur)) \<and>
   list_all (\<lambda>r. dr_id r \<noteq> None \<and> dr_deliveryStatus r = Some Pending \<and> dr_userLocation r = None \<and>
                   dr_nearestBloodBank r = None)
     (loadAcceptedRequests nowU nowH (Some (AcceptedJson us hs ds)) cur) \<and>
   length (loadAcceptedRequests nowU nowH (Some (AcceptedJson us hs ds)) cur) =
     length (js_nullish us []) + length (js_nullish hs [])"
proof -
  let ?us = "js_nullish us []" and ?hs = "js_nullish hs []"
  have L: "loadAcceptedRequests nowU nowH (Some (AcceptedJson us hs ds)) cur =
        map (\<lambda>index. user_delivery_request index (nowU index) (?us ! index)) [0..<length ?us] @
        map (\<lambda>index. hospital_delivery_request index (nowH index) (?hs ! index)) [0..<length ?hs]"
    by (simp add: loadAcceptedRequests_def js_nullish_def split: option.split)
  show ?thesis
    unfolding L using distinct_loaded_ids loaded_request_fields by (simp add: list_all_iff)
qed

text \<open>
  A loaded hospital request carries the hospital's name in \<open>name\<close> but
  the page prints \<open>request.hospital_name\<close> for hospital requests, which the
  loader never sets: every card of a hospital request shows no name.
\<close>

theorem loaded_hospital_name_hidden:
  assumes "i < length hs"
  shows "\<exists>r \<in> set (loadAcceptedRequests nowU nowH (Some (AcceptedJson us (Some hs) ds)) cur).
           dr_type r = Hospital \<and> dr_name r = hr_hospital_name (hs ! i) \<and> display_name r = None"
proof
  show "hospital_delivery_request i (nowH i) (hs ! i) \<in> set (loadAcceptedRequests nowU nowH (Some (AcceptedJson us (Some hs) ds)) cur)"
    using assms by (simp add: loadAcceptedRequests_def)
  show "dr_type (hospital_delivery_request i (nowH i) (hs ! i)) = Hospital \<and>
        dr_name (hospital_delivery_request i (nowH i) (hs ! i)) = hr_hospital_name (hs ! i) \<and>
        display_name (hospital_delivery_request i (nowH i) (hs ! i)) = None"
    by (simp add: hospital_delivery_request_def display_name_def)
qed

theorem loaded_hospital_name_hidden_witness:
  "0 < length [demo_hospital] \<and>
   (\<exists>r \<in> set (loadAcceptedRequests (\<lambda>i. 0) (\<lambda>i. 0) (Some (AcceptedJson None (Some [demo_hospital]) None)) []).
      dr_type r = Hospital \<and> dr_name r = ''KGH'' \<and> display_name r = None)"
  using loaded_hospital_name_hidden [of 0 "[demo_hospital]" "\<lambda>i. 0" "\<lambda>i. 0" None None "[]"] by simp


lemma demo_no_bank:
  "findNearestBloodBank (\<lambda>q. None) [] Map.empty demo_coord ''O+'' = (None, [], Map.empty)"
  by (simp add: findNearestBloodBank_def findNearestBloodBank_with_def candidateBanks_def)



lemma geocode_offline: "(\<forall>q. g q = None) \<Longrightarrow> geocodeLocation g Map.empty loc = (None, Map.empty)"
  by (simp add: geocodeLocation_def Let_def)

lemma resolve_offline:
  "(\<forall>q. g q = None) \<Longrightarrow> resolve_user_location g users r loc Map.empty = (default_coord loc, Map.empty)"
  by (simp add: resolve_user_location_def geocode_offline split: option.split)

text \<open>
  C24. When no geocoding lookup succeeds (and nothing is cached), accepting a
  delivery still accepts it, with the fixed Hyderabad coordinate labelled as an
  approximate location of the request's text (spec section 4.3's fallback).
\<close>

theorem handleAcceptDelivery_default_location:
  assumes "session_deliveryId e = Some d" and "\<forall>q. g q = None" and "geocodeCache s = Map.empty"
  shows "selectedRequest (snd (handleAcceptDelivery g e r s)) =
           Some (r\<lparr>dr_deliveryStatus := Some Accepted, dr_deliveryBoyId := Some d,
                   dr_userLocation := Some (default_coord (user_location_string (requests_users e) r)),
                   dr_nearestBloodBank := fst (findNearestBloodBank g (allBloodBanks s) Map.empty
                      (default_coord (user_location_string (requests_users e) r)) (dr_blood_required r))\<rparr>)"
proof -
  let ?loc = "user_location_string (requests_users e) r"
  have R: "resolve_user_location g (requests_users e) r ?loc (geocodeCache s) = (default_coord ?loc, Map.empty)"
    using resolve_offline [OF assms(2)] assms(3) by simp
  obtain nb banks1 cache2 where F: "findNearestBloodBank g (allBloodBanks s) Map.empty (default_coord ?loc) (dr_blood_required r) =
      (nb, banks1, cache2)" by (metis prod.exhaust)
  show ?thesis
    using assms(1) R F by (simp add: handleAcceptDelivery_def Let_def split: option.split sum.split)
qed

theorem handleAcceptDelivery_default_location_witness:
  "session_deliveryId demo_env = Some ''D1'' \<and> (\<forall>q. (\<lambda>q. None :: geo_result option) q = None) \<and>
   geocodeCache (dash_init (\<lambda>i. 0) (\<lambda>i. 0) None []) = Map.empty \<and>
   map_option dr_userLocation (selectedRequest (snd (handleAcceptDelivery (\<lambda>q. None) demo_env
       (user_delivery_request 0 0 demo_user) (dash_init (\<lambda>i. 0) (\<lambda>i. 0) None [])))) =
     Some (Some \<lparr>lat = 17.3850, lon = 78.4867, address = ''Vizag (approximate location)''\<rparr>)"
proof -
  have c: "geocodeCache (dash_init (\<lambda>i. 0) (\<lambda>i. 0) None []) = Map.empty" by (simp add: dash_init_def)
  have "user_location_string [] (user_delivery_request 0 0 demo_user) = ''Vizag''"
    by (simp add: user_location_string_def user_delivery_request_def js_truthy_str_def)
  then show ?thesis
    using c handleAcceptDelivery_default_location [of demo_env "''D1''" "\<lambda>q. None"
        "dash_init (\<lambda>i. 0) (\<lambda>i. 0) None []" "user_delivery_request 0 0 demo_user"]
    by (simp add: default_coord_def)
qed

end
