(* ===== verification/BloodBank.thy ===== *)
theory BloodBank
  imports Delivery "HOL-Library.AList"
begin

text \<open>
  The blood-bank dashboard BloodBankDashboard.tsx. Its state is the record
  \<open>bankDashboard\<close>: the React state (lines 57-67) and the browser's
  \<open>localStorage\<close> entry \<open>acceptedRequests\<close> it writes. The inventory object
  \<open>{[group]: units}\<close> is an association list, updated in place for a known key
  and extended at the end for a new one, as JavaScript orders string keys. The
  mount effect (lines 69-139) loads the bank, draws the initial stock and the credit
  points from \<open>Math.random()\<close> (the environment's values), loads the pending
  requests and the accepted lists; the save effect (lines 142-152) writes the
  accepted lists whenever they change, modelled as \<open>persist\<close> after every event.
  The handlers (154-218) act on the request or donor at a position of its list
  (\<open>filter((r) => r !== request)\<close> removes exactly that object); an event is a
  click on a button the page renders enabled (lines 381-436, 466-600).
\<close>

definition allBloodGroups :: "string list" where
  "allBloodGroups = [''A+'', ''A-'', ''B+'', ''B-'', ''AB+'', ''AB-'', ''O+'', ''O-'']"

type_synonym inventory_map = "(string \<times> real) list"

text \<open>\<open>inventory[bg] || 0\<close>.\<close>

definition inv_count :: "inventory_map \<Rightarrow> string \<Rightarrow> real" where
  "inv_count stock bg = (case map_of stock bg of None \<Rightarrow> 0 | Some v \<Rightarrow> v)"

record bankDashboard =
  bankData :: "bloodBank option"
  inventory :: inventory_map
  creditPoints :: real
  userRequests :: "userRequest list"
  hospitalRequests :: "hospitalRequest list"
  donorRequests :: "donorRequest list"
  acceptedUsers :: "userRequest list"
  acceptedHospitals :: "hospitalRequest list"
  acceptedDonors :: "donorRequest list"
  bank_loading :: bool
  stored :: accepted_storage

text \<open>What the mount effect reads: the session, \<open>b.json\<close>, \<open>requests.json\<close>,
  \<open>new Date().toISOString()\<close> and the values of \<open>Math.random()\<close> (the
  \<open>k\<close>-th for the \<open>k\<close>-th blood group).\<close>

record bank_env =
  session_bankName :: "string option"
  bank_directory :: "directory_entry list"
  rand_inventory :: "nat \<Rightarrow> real"
  rand_credit :: real
  iso_now :: string
  req_users :: "userRequest list"
  req_hospitals :: "hospitalRequest list"
  req_donors :: "donorRequest list"

subsection \<open>Mounting the page\<close>

text \<open>\<open>Math.floor(Math.random() * 41) + 10\<close> for an offered group, 0 otherwise.\<close>

definition initial_inventory :: "string list \<Rightarrow> (nat \<Rightarrow> real) \<Rightarrow> inventory_map" where
  "initial_inventory available rand =
     map (\<lambda>k. (allBloodGroups ! k,
               if allBloodGroups ! k \<in> set available then of_int (\<lfloor>rand k * 41\<rfloor> + 10) else 0))
       [0..<length allBloodGroups]"

definition default_bank :: "string \<Rightarrow> string \<Rightarrow> bloodBank" where
  "default_bank name now =
     \<lparr>bb_name = name, bb_state = [], bb_district = [], bb_location = [], bb_phone = [],
      blood_groups_available = [], availability = ''Available'', last_updated = now, coords = None\<rparr>"

definition find_bank :: "bloodBank list \<Rightarrow> string \<Rightarrow> bloodBank option" where
  "find_bank banks bankName = find (\<lambda>b. js_lower (bb_name b) = js_lower bankName) banks"

definition bank_init :: "accepted_storage \<Rightarrow> bankDashboard" where
  "bank_init saved =
     \<lparr>bankData = None, inventory = [], creditPoints = 0, userRequests = [], hospitalRequests = [],
      donorRequests = [], acceptedUsers = [], acceptedHospitals = [], acceptedDonors = [],
      bank_loading = True, stored = saved\<rparr>"

definition bank_mount :: "bank_env \<Rightarrow> bankDashboard \<Rightarrow> bankDashboard" where
  "bank_mount e s =
     (case session_bankName e of
        None \<Rightarrow> s
      | Some bankName \<Rightarrow> if bankName = [] then s else
          (let (bank, stock) =
              (case find_bank (loadBloodBanks (bank_directory e)) bankName of
                 Some b \<Rightarrow> (b, initial_inventory (blood_groups_available b) (rand_inventory e))
               | None \<Rightarrow> (default_bank bankName (iso_now e), initial_inventory allBloodGroups (rand_inventory e)));
               (au, ah, ad) =
              (case stored s of
                 Some (AcceptedJson us hs ds) \<Rightarrow> (js_nullish us [], js_nullish hs [], js_nullish ds [])
               | _ \<Rightarrow> (acceptedUsers s, acceptedHospitals s, acceptedDonors s))
           in s\<lparr>bankData := Some bank, inventory := stock, userRequests := req_users e,
                hospitalRequests := req_hospitals e, donorRequests := req_donors e,
                acceptedUsers := au, acceptedHospitals := ah, acceptedDonors := ad,
                creditPoints := of_int (\<lfloor>rand_credit e * 500\<rfloor> + 100), bank_loading := False\<rparr>))"

text \<open>The save effect: once loaded, the storage holds the three accepted lists.\<close>

definition persist :: "bankDashboard \<Rightarrow> bankDashboard" where
  "persist s =
     (if bank_loading s then s
      else s\<lparr>stored := Some (AcceptedJson (Some (acceptedUsers s)) (Some (acceptedHospitals s)) (Some (acceptedDonors s)))\<rparr>)"

subsection \<open>The handlers\<close>

definition updateInventory :: "string \<Rightarrow> real \<Rightarrow> bankDashboard \<Rightarrow> bankDashboard" where
  "updateInventory bloodGroup delta s =
     s\<lparr>inventory := AList.update bloodGroup (max 0 (inv_count (inventory s) bloodGroup + delta)) (inventory s)\<rparr>"

definition handleAcceptUser :: "string \<Rightarrow> nat \<Rightarrow> bankDashboard \<Rightarrow> bankDashboard" where
  "handleAcceptUser now i s =
     (let request = userRequests s ! i;
          units = ur_quantity_units request;
          s1 = updateInventory (ur_blood_required request) (- units) s
      in s1\<lparr>creditPoints := creditPoints s1 + units,
            acceptedUsers := acceptedUsers s1 @ [request\<lparr>ur_accepted_at := Some now\<rparr>],
            userRequests := remove_at i (userRequests s1)\<rparr>)"

definition handleAcceptHospital :: "string \<Rightarrow> nat \<Rightarrow> bankDashboard \<Rightarrow> bankDashboard" where
  "handleAcceptHospital now i s =
     (let request = hospitalRequests s ! i;
          units = hr_units_needed request;
          s1 = updateInventory (hr_blood_required request) (- units) s
      in s1\<lparr>creditPoints := creditPoints s1 + units,
            acceptedHospitals := acceptedHospitals s1 @ [request\<lparr>hr_accepted_at := Some now\<rparr>],
            hospitalRequests := remove_at i (hospitalRequests s1)\<rparr>)"

definition handleRejectUser :: "nat \<Rightarrow> bankDashboard \<Rightarrow> bankDashboard" where
  "handleRejectUser i s = s\<lparr>userRequests := remove_at i (userRequests s)\<rparr>"

definition handleRejectHospital :: "nat \<Rightarrow> bankDashboard \<Rightarrow> bankDashboard" where
  "handleRejectHospital i s = s\<lparr>hospitalRequests := remove_at i (hospitalRequests s)\<rparr>"

definition handleAcceptDonor :: "string \<Rightarrow> nat \<Rightarrow> bankDashboard \<Rightarrow> bankDashboard" where
  "handleAcceptDonor now i s =
     (let donor = donorRequests s ! i;
          s1 = updateInventory (dn_blood_group donor) 1 s
      in s1\<lparr>creditPoints := creditPoints s1 + 2,
            acceptedDonors := acceptedDonors s1 @ [donor\<lparr>dn_accepted_at := Some now\<rparr>],
            donorRequests := remove_at i (donorRequests s1)\<rparr>)"

definition handleRejectDonor :: "nat \<Rightarrow> bankDashboard \<Rightarrow> bankDashboard" where
  "handleRejectDonor i s = s\<lparr>donorRequests := remove_at i (donorRequests s)\<rparr>"

subsection \<open>Recommendations and the inventory cards\<close>

datatype recommendation =
    RecCritical "string list" | RecLowStock "string list" | RecBelowLevels | RecExcellent | RecHealthy

definition getRecommendations :: "inventory_map \<Rightarrow> recommendation list" where
  "getRecommendations stock =
     (let totalUnits = sum_list (map snd stock);
          lowStockGroups = filter (\<lambda>bg. inv_count stock bg < 10) allBloodGroups;
          criticalGroups = filter (\<lambda>bg. inv_count stock bg < 5) allBloodGroups;
          r1 = (if criticalGroups \<noteq> [] then [RecCritical criticalGroups] else []);
          r2 = (if lowStockGroups \<noteq> [] \<and> criticalGroups = [] then [RecLowStock lowStockGroups] else []);
          r3 = (if totalUnits < 50 then [RecBelowLevels] else []);
          r4 = (if totalUnits > 200 then [RecExcellent] else []);
          rs = r1 @ r2 @ r3 @ r4
      in if rs = [] then [RecHealthy] else rs)"

datatype stock_status = StatusCritical | StatusLow | StatusOK

definition card_status :: "inventory_map \<Rightarrow> string \<Rightarrow> stock_status" where
  "card_status stock bg =
     (let count = inv_count stock bg
      in if count < 5 then StatusCritical else if count < 10 then StatusLow else StatusOK)"

text \<open>The summary under the cards: total units and groups with stock.\<close>

definition total_units :: "inventory_map \<Rightarrow> real" where
  "total_units stock = sum_list (map snd stock)"

definition available_groups :: "inventory_map \<Rightarrow> nat" where
  "available_groups stock = length (filter (\<lambda>bg. inv_count stock bg > 0) allBloodGroups)"

definition getUrgencyColor :: "string \<Rightarrow> string" where
  "getUrgencyColor urgency =
     (let u = js_lower urgency
      in if u = ''high'' then ''#ef4444'' else if u = ''medium'' then ''#f59e0b''
         else if u = ''low'' then ''#22c55e'' else ''#6b7280'')"

text \<open>The clicks the page offers once loaded; \<open>disabled\<close> buttons are absent.\<close>

datatype bank_event =
    Adjust string real
  | AcceptUser nat | RejectUser nat | AcceptHospital nat | RejectHospital nat
  | AcceptDonor nat | RejectDonor nat

definition bank_enabled :: "bankDashboard \<Rightarrow> bank_event \<Rightarrow> bool" where
  "bank_enabled s ev \<longleftrightarrow> bankData s \<noteq> None \<and> \<not> bank_loading s \<and>
     (case ev of
        Adjust bg delta \<Rightarrow> bg \<in> set allBloodGroups \<and>
          (delta = 1 \<or> delta = 5 \<or> (delta = -1 \<and> inv_count (inventory s) bg \<noteq> 0) \<or>
           (delta = -5 \<and> \<not> inv_count (inventory s) bg < 5))
      | AcceptUser i \<Rightarrow> i < length (userRequests s) \<and>
          \<not> inv_count (inventory s) (ur_blood_required (userRequests s ! i)) < ur_quantity_units (userRequests s ! i)
      | RejectUser i \<Rightarrow> i < length (userRequests s)
      | AcceptHospital i \<Rightarrow> i < length (hospitalRequests s) \<and>
          \<not> inv_count (inventory s) (hr_blood_required (hospitalRequests s ! i)) < hr_units_needed (hospitalRequests s ! i)
      | RejectHospital i \<Rightarrow> i < length (hospitalRequests s)
      | AcceptDonor i \<Rightarrow> i < length (donorRequests s)
      | RejectDonor i \<Rightarrow> i < length (donorRequests s))"

definition bank_handle :: "string \<Rightarrow> bank_event \<Rightarrow> bankDashboard \<Rightarrow> bankDashboard" where
  "bank_handle now ev s =
     persist (case ev of
        Adjust bg delta \<Rightarrow> updateInventory bg delta s
      | AcceptUser i \<Rightarrow> handleAcceptUser now i s
      | RejectUser i \<Rightarrow> handleRejectUser i s
      | AcceptHospital i \<Rightarrow> handleAcceptHospital now i s
      | RejectHospital i \<Rightarrow> handleRejectHospital i s
      | AcceptDonor i \<Rightarrow> handleAcceptDonor now i s
      | RejectDonor i \<Rightarrow> handleRejectDonor i s)"

text \<open>Runs of the page: the mount with random values in \<open>[0, 1)\<close>, then clicks.\<close>

definition rand_ok :: "bank_env \<Rightarrow> bool" where
  "rand_ok e \<longleftrightarrow> (\<forall>k < length allBloodGroups. 0 \<le> rand_inventory e k \<and> rand_inventory e k < 1) \<and>
                 0 \<le> rand_credit e \<and> rand_credit e < 1"

inductive bank_reachable :: "bankDashboard \<Rightarrow> bankDashboard \<Rightarrow> bool" where
  mount: "rand_ok e \<Longrightarrow> s0 = persist (bank_mount e (bank_init saved)) \<Longrightarrow> bank_reachable s0 s0"
| click: "bank_reachable s0 s \<Longrightarrow> bank_enabled s ev \<Longrightarrow> bank_reachable s0 (bank_handle now ev s)"


subsection \<open>The rendered page\<close>

text \<open>What the page renders besides its controls: the loading and error screens,
  the header with the bank's name and credits, the recommendations, the bank's
  information panel (only when its state is known) and the three lists of accepted
  requests, each a count in its title and either its cards or an empty message. A
  card's fields are the strings the JSX interpolates, the parts of its meta line
  (joined by bullets on screen) kept apart; \<open>fmt\<close> is \<open>toLocaleString\<close> of a
  parsed date and \<open>num\<close> is \<open>String\<close> of a number, inputs of the view.\<close>

record acceptedCard =
  ac_title :: string
  ac_meta :: "string list"
  ac_detail :: string
  ac_accepted :: "string option"

definition accepted_line :: "(string \<Rightarrow> string) \<Rightarrow> string option \<Rightarrow> string option" where
  "accepted_line fmt t = (if js_truthy_str t then Some (''Accepted: '' @ fmt (the t)) else None)"

definition user_card :: "(string \<Rightarrow> string) \<Rightarrow> (real \<Rightarrow> string) \<Rightarrow> userRequest \<Rightarrow> acceptedCard" where
  "user_card fmt num request =
     \<lparr>ac_title = ur_name request,
      ac_meta = [ur_phone request, ur_blood_required request, num (ur_quantity_units request) @ '' units''],
      ac_detail = ur_reason request, ac_accepted = accepted_line fmt (ur_accepted_at request)\<rparr>"

definition hospital_card :: "(string \<Rightarrow> string) \<Rightarrow> (real \<Rightarrow> string) \<Rightarrow> hospitalRequest \<Rightarrow> acceptedCard" where
  "hospital_card fmt num request =
     \<lparr>ac_title = hr_hospital_name request,
      ac_meta = [hr_location request, hr_phone request, hr_blood_required request, num (hr_units_needed request) @ '' units''],
      ac_detail = hr_department request, ac_accepted = accepted_line fmt (hr_accepted_at request)\<rparr>"

definition donor_card :: "(string \<Rightarrow> string) \<Rightarrow> donorRequest \<Rightarrow> acceptedCard" where
  "donor_card fmt donor =
     \<lparr>ac_title = dn_name donor, ac_meta = [dn_phone donor, dn_blood_group donor, dn_location donor],
      ac_detail = ''Donation Time: '' @ fmt (dn_donation_time donor), ac_accepted = accepted_line fmt (dn_accepted_at donor)\<rparr>"

definition accepted_section :: "string \<Rightarrow> string \<Rightarrow> acceptedCard list \<Rightarrow> string \<times> (string + acceptedCard list)" where
  "accepted_section title empty_msg cards =
     (title @ '' ('' @ js_nat_string (length cards) @ '')'', if cards = [] then Inl empty_msg else Inr cards)"

definition availability_color :: "string \<Rightarrow> string" where
  "availability_color a = (if a = ''Available'' then ''#22c55e'' else if a = ''Low Stock'' then ''#f59e0b'' else ''#ef4444'')"

definition bank_info :: "(string \<Rightarrow> string) \<Rightarrow> bloodBank \<Rightarrow> ((string \<times> string) list \<times> string) option" where
  "bank_info fmt b =
     (if bb_state b = [] then None
      else Some ([(''State:'', bb_state b), (''District:'', bb_district b), (''Location:'', bb_location b),
                  (''Phone:'', bb_phone b), (''Status:'', availability b), (''Last Updated:'', fmt (last_updated b))],
                 availability_color (availability b)))"

record bankPage =
  bp_name :: string
  bp_credits :: real
  bp_recommendations :: "recommendation list"
  bp_info :: "((string \<times> string) list \<times> string) option"
  bp_users :: "string \<times> (string + acceptedCard list)"
  bp_hospitals :: "string \<times> (string + acceptedCard list)"
  bp_donors :: "string \<times> (string + acceptedCard list)"

datatype bank_view = BankLoadingView | BankUnableView | BankPageView bankPage

definition bank_view :: "(string \<Rightarrow> string) \<Rightarrow> (real \<Rightarrow> string) \<Rightarrow> bankDashboard \<Rightarrow> bank_view" where
  "bank_view fmt num s =
     (if bank_loading s then BankLoadingView
      else case bankData s of
        None \<Rightarrow> BankUnableView
      | Some b \<Rightarrow> BankPageView
          \<lparr>bp_name = bb_name b, bp_credits = creditPoints s, bp_recommendations = getRecommendations (inventory s),
           bp_info = bank_info fmt b,
           bp_users = accepted_section ''Accepted Users'' ''No accepted user requests'' (map (user_card fmt num) (acceptedUsers s)),
           bp_hospitals = accepted_section ''Accepted Hospitals'' ''No accepted hospital requests''
                            (map (hospital_card fmt num) (acceptedHospitals s)),
           bp_donors = accepted_section ''Accepted Donors'' ''No accepted donors'' (map (donor_card fmt) (acceptedDonors s))\<rparr>)"

subsection \<open>Invariants and sample data\<close>

definition stock_nonneg :: "inventory_map \<Rightarrow> bool" where
  "stock_nonneg stock \<longleftrightarrow> (\<forall>p \<in> set stock. 0 \<le> snd p)"

definition mirrored :: "bankDashboard \<Rightarrow> bool" where
  "mirrored s \<longleftrightarrow> stored s = Some (AcceptedJson (Some (acceptedUsers s)) (Some (acceptedHospitals s)) (Some (acceptedDonors s)))"

definition bank_inv :: "bankDashboard \<Rightarrow> bool" where
  "bank_inv s \<longleftrightarrow> (bank_loading s \<longleftrightarrow> bankData s = None) \<and> (\<not> bank_loading s \<longrightarrow> mirrored s) \<and>
     stock_nonneg (inventory s) \<and> distinct (map fst (inventory s))"

definition ledger :: "bankDashboard \<Rightarrow> bankDashboard \<Rightarrow> bool" where
  "ledger s s' \<longleftrightarrow> (\<exists>nu nh nd. acceptedUsers s' = acceptedUsers s @ nu \<and>
     acceptedHospitals s' = acceptedHospitals s @ nh \<and> acceptedDonors s' = acceptedDonors s @ nd \<and>
     creditPoints s' = creditPoints s + sum_list (map ur_quantity_units nu) +
       sum_list (map hr_units_needed nh) + 2 * of_nat (length nd))"

abbreviation demo_bank_env :: bank_env where
  "demo_bank_env \<equiv> \<lparr>session_bankName = Some ''City Blood Bank'', bank_directory = [],
      rand_inventory = \<lambda>k. 0, rand_credit = 0, iso_now = ''2025-01-01T00:00:00Z'',
      req_users = [demo_user], req_hospitals = [demo_hospital], req_donors = []\<rparr>"

abbreviation demo_bank_s0 :: bankDashboard where
  "demo_bank_s0 \<equiv> persist (bank_mount demo_bank_env (bank_init None))"

subsection \<open>Lemmas\<close>

lemma set_update_subset: "set (AList.update k v al) \<subseteq> insert (k, v) (set al)"
  by (induction al) auto

lemma inv_count_update: "inv_count (AList.update k v al) bg = (if bg = k then v else inv_count al bg)"
  by (simp add: inv_count_def update_conv')

lemma updateInventory_count:
  "inv_count (inventory (updateInventory bg d s)) x =
     (if x = bg then max 0 (inv_count (inventory s) bg + d) else inv_count (inventory s) x)"
  by (simp add: updateInventory_def inv_count_update)

lemma stock_nonneg_update: "stock_nonneg stock \<Longrightarrow> 0 \<le> v \<Longrightarrow> stock_nonneg (AList.update k v stock)"
  unfolding stock_nonneg_def using set_update_subset by fastforce

lemma updateInventory_nonneg: "stock_nonneg (inventory s) \<Longrightarrow> stock_nonneg (inventory (updateInventory bg d s))"
  by (simp add: updateInventory_def stock_nonneg_update)

lemmas bank_handler_defs = handleAcceptUser_def handleAcceptHospital_def handleRejectUser_def
  handleRejectHospital_def handleAcceptDonor_def handleRejectDonor_def

lemma updateInventory_frame [simp]:
  "bankData (updateInventory bg d s) = bankData s" "bank_loading (updateInventory bg d s) = bank_loading s"
  "creditPoints (updateInventory bg d s) = creditPoints s"
  "userRequests (updateInventory bg d s) = userRequests s" "hospitalRequests (updateInventory bg d s) = hospitalRequests s"
  "donorRequests (updateInventory bg d s) = donorRequests s"
  "acceptedUsers (updateInventory bg d s) = acceptedUsers s" "acceptedHospitals (updateInventory bg d s) = acceptedHospitals s"
  "acceptedDonors (updateInventory bg d s) = acceptedDonors s"
  by (simp_all add: updateInventory_def)

lemma persist_frame [simp]:
  "bankData (persist s) = bankData s" "bank_loading (persist s) = bank_loading s"
  "inventory (persist s) = inventory s" "creditPoints (persist s) = creditPoints s"
  "userRequests (persist s) = userRequests s" "hospitalRequests (persist s) = hospitalRequests s"
  "donorRequests (persist s) = donorRequests s"
  "acceptedUsers (persist s) = acceptedUsers s" "acceptedHospitals (persist s) = acceptedHospitals s"
  "acceptedDonors (persist s) = acceptedDonors s"
  by (simp_all add: persist_def)

lemma persist_mirrored: "\<not> bank_loading s \<Longrightarrow> mirrored (persist s)"
  by (simp add: persist_def mirrored_def)

lemma bank_handle_status [simp]:
  "bankData (bank_handle now ev s) = bankData s" "bank_loading (bank_handle now ev s) = bank_loading s"
  by (simp_all add: bank_handle_def bank_handler_defs Let_def split: bank_event.split)

lemma bank_handle_nonneg:
  "stock_nonneg (inventory s) \<Longrightarrow> stock_nonneg (inventory (bank_handle now ev s))"
  by (simp add: bank_handle_def bank_handler_defs Let_def updateInventory_nonneg split: bank_event.split)

lemma initial_inventory_nonneg:
  assumes "\<forall>k < length allBloodGroups. 0 \<le> rand k"
  shows "stock_nonneg (initial_inventory available rand)"
proof -
  have "0 \<le> (of_int (\<lfloor>rand k * 41\<rfloor> + 10) :: real)" if "k < length allBloodGroups" for k
    using assms that by simp
  then show ?thesis by (auto simp: stock_nonneg_def initial_inventory_def)
qed

lemma keys_initial_inventory: "map fst (initial_inventory available rand) = allBloodGroups"
  by (simp add: initial_inventory_def comp_def map_nth)

lemma distinct_allBloodGroups: "distinct allBloodGroups"
  by (simp add: allBloodGroups_def)

lemma bank_mount_idle: "session_bankName e = None \<or> session_bankName e = Some [] \<Longrightarrow> bank_mount e s = s"
  by (auto simp: bank_mount_def)

lemma bank_mount_loaded:
  assumes "session_bankName e = Some name" "name \<noteq> []"
  shows "bankData (bank_mount e s) \<noteq> None \<and> \<not> bank_loading (bank_mount e s) \<and>
         (\<exists>avail. inventory (bank_mount e s) = initial_inventory avail (rand_inventory e)) \<and>
         creditPoints (bank_mount e s) = of_int (\<lfloor>rand_credit e * 500\<rfloor> + 100) \<and>
         userRequests (bank_mount e s) = req_users e"
  using assms by (auto simp: bank_mount_def Let_def split: option.split prod.split accepted_json.split)

lemma bank_inv_mount: "rand_ok e \<Longrightarrow> bank_inv (persist (bank_mount e (bank_init saved)))"
proof (cases "session_bankName e = None \<or> session_bankName e = Some []")
  case True
  then show ?thesis by (simp add: bank_mount_idle bank_inv_def bank_init_def stock_nonneg_def)
next
  case False
  then obtain name where "session_bankName e = Some name" "name \<noteq> []" by auto
  from bank_mount_loaded [OF this, of "bank_init saved"] obtain avail where
    "bankData (bank_mount e (bank_init saved)) \<noteq> None" "\<not> bank_loading (bank_mount e (bank_init saved))"
    "inventory (bank_mount e (bank_init saved)) = initial_inventory avail (rand_inventory e)" by blast
  moreover assume "rand_ok e"
  ultimately show ?thesis
    by (simp add: bank_inv_def persist_mirrored initial_inventory_nonneg rand_ok_def keys_initial_inventory distinct_allBloodGroups)
qed

lemma distinct_updateInventory: "distinct (map fst (inventory s)) \<Longrightarrow> distinct (map fst (inventory (updateInventory bg d s)))"
  by (simp add: updateInventory_def distinct_update)

lemma bank_handle_distinct:
  "distinct (map fst (inventory s)) \<Longrightarrow> distinct (map fst (inventory (bank_handle now ev s)))"
  by (simp add: bank_handle_def bank_handler_defs Let_def distinct_updateInventory split: bank_event.split)

lemma bank_handle_mirrored: "\<not> bank_loading s \<Longrightarrow> mirrored (bank_handle now ev s)"
  unfolding bank_handle_def
  by (rule persist_mirrored) (simp add: bank_handler_defs Let_def split: bank_event.split)

lemma bank_inv_handle: "bank_inv s \<Longrightarrow> bank_enabled s ev \<Longrightarrow> bank_inv (bank_handle now ev s)"
  unfolding bank_inv_def
  by (simp add: bank_enabled_def bank_handle_nonneg bank_handle_distinct bank_handle_mirrored)

lemma bank_reachable_inv: "bank_reachable s0 s \<Longrightarrow> bank_inv s"
  by (induction rule: bank_reachable.induct) (auto simp: bank_inv_mount bank_inv_handle)

lemma ledger_intro:
  "acceptedUsers s' = acceptedUsers s @ nu \<Longrightarrow> acceptedHospitals s' = acceptedHospitals s @ nh \<Longrightarrow>
   acceptedDonors s' = acceptedDonors s @ nd \<Longrightarrow>
   creditPoints s' = creditPoints s + sum_list (map ur_quantity_units nu) +
       sum_list (map hr_units_needed nh) + 2 * of_nat (length nd) \<Longrightarrow> ledger s s'"
  unfolding ledger_def by blast

lemma ledger_refl: "ledger s s"
  by (rule ledger_intro [where nu = "[]" and nh = "[]" and nd = "[]"]) simp_all

lemma ledger_trans: "ledger s0 s \<Longrightarrow> ledger s s' \<Longrightarrow> ledger s0 s'"
proof -
  assume "ledger s0 s" "ledger s s'"
  then obtain nu nh nd nu' nh' nd' where
    "acceptedUsers s = acceptedUsers s0 @ nu" "acceptedHospitals s = acceptedHospitals s0 @ nh"
    "acceptedDonors s = acceptedDonors s0 @ nd"
    "creditPoints s = creditPoints s0 + sum_list (map ur_quantity_units nu) + sum_list (map hr_units_needed nh) + 2 * of_nat (length nd)"
    "acceptedUsers s' = acceptedUsers s @ nu'" "acceptedHospitals s' = acceptedHospitals s @ nh'"
    "acceptedDonors s' = acceptedDonors s @ nd'"
    "creditPoints s' = creditPoints s + sum_list (map ur_quantity_units nu') + sum_list (map hr_units_needed nh') + 2 * of_nat (length nd')"
    unfolding ledger_def by blast
  then show ?thesis
    by (intro ledger_intro [where nu = "nu @ nu'" and nh = "nh @ nh'" and nd = "nd @ nd'"]) (simp_all add: algebra_simps)
qed

lemma bank_handle_ledger: "ledger s (bank_handle now ev s)"
proof (cases ev)
  case (AcceptUser i)
  then show ?thesis
    by (intro ledger_intro [where nu = "[(userRequests s ! i)\<lparr>ur_accepted_at := Some now\<rparr>]" and nh = "[]" and nd = "[]"])
       (simp_all add: bank_handle_def handleAcceptUser_def Let_def)
next
  case (AcceptHospital i)
  then show ?thesis
    by (intro ledger_intro [where nu = "[]" and nh = "[(hospitalRequests s ! i)\<lparr>hr_accepted_at := Some now\<rparr>]" and nd = "[]"])
       (simp_all add: bank_handle_def handleAcceptHospital_def Let_def)
next
  case (AcceptDonor i)
  then show ?thesis
    by (intro ledger_intro [where nu = "[]" and nh = "[]" and nd = "[(donorRequests s ! i)\<lparr>dn_accepted_at := Some now\<rparr>]"])
       (simp_all add: bank_handle_def handleAcceptDonor_def Let_def)
qed (intro ledger_intro [where nu = "[]" and nh = "[]" and nd = "[]"];
     simp add: bank_handle_def bank_handler_defs updateInventory_def)+

lemma bank_reachable_ledger: "bank_reachable s0 s \<Longrightarrow> ledger s0 s"
  by (induction rule: bank_reachable.induct) (auto intro: ledger_refl ledger_trans bank_handle_ledger)

lemma inv_count_nonneg: "stock_nonneg stock \<Longrightarrow> 0 \<le> inv_count stock bg"
  unfolding inv_count_def stock_nonneg_def by (fastforce split: option.split dest: map_of_SomeD)

lemma filter_empty_mono: "(\<And>x. P x \<Longrightarrow> Q x) \<Longrightarrow> filter Q xs = [] \<Longrightarrow> filter P xs = []"
  by (auto simp: filter_empty_conv)

lemma demo_bank_mount_facts:
  "bankData (bank_mount demo_bank_env (bank_init None)) \<noteq> None"
  "\<not> bank_loading (bank_mount demo_bank_env (bank_init None))"
  "userRequests (bank_mount demo_bank_env (bank_init None)) = [demo_user]"
  "inv_count (inventory (bank_mount demo_bank_env (bank_init None))) ''O+'' = 10"
  "acceptedUsers (bank_mount demo_bank_env (bank_init None)) = []"
  "acceptedHospitals (bank_mount demo_bank_env (bank_init None)) = []"
  "acceptedDonors (bank_mount demo_bank_env (bank_init None)) = []"
  "creditPoints (bank_mount demo_bank_env (bank_init None)) = 100"
  by (simp_all add: bank_mount_def find_bank_def loadBloodBanks_def initial_inventory_def allBloodGroups_def
      inv_count_def bank_init_def)

lemma demo_bank_reach: "bank_reachable demo_bank_s0 demo_bank_s0"
  by (rule bank_reachable.mount [where saved = None]) (simp_all add: rand_ok_def)

lemma demo_bank_enabled: "bank_enabled demo_bank_s0 (AcceptUser 0)"
  by (simp add: bank_enabled_def demo_bank_mount_facts)

lemma demo_bank_reach_accept:
  "bank_reachable demo_bank_s0 (bank_handle ''2025-01-02'' (AcceptUser 0) demo_bank_s0)"
  by (rule bank_reachable.click [OF demo_bank_reach demo_bank_enabled])
lemma loadAcceptedRequests_user_at:
  "k < length us \<Longrightarrow>
   user_delivery_request k (nowU k) (us ! k) \<in> set (loadAcceptedRequests nowU nowH (Some (AcceptedJson (Some us) hs ds)) cur)"
  by (auto simp: loadAcceptedRequests_def)

lemma keys_update: "fst ` set (AList.update k v al) = insert k (fst ` set al)"
  by (induction al) auto

lemma bank_handle_keys:
  "set (map fst (inventory s)) \<subseteq> set (map fst (inventory (bank_handle now ev s)))"
  by (auto simp: bank_handle_def bank_handler_defs Let_def updateInventory_def keys_update split: bank_event.split)

lemma bank_mount_keys:
  "bankData (persist (bank_mount e (bank_init saved))) \<noteq> None \<Longrightarrow>
   set (map fst (inventory (persist (bank_mount e (bank_init saved))))) = set allBloodGroups"
proof (cases "session_bankName e = None \<or> session_bankName e = Some []")
  case True
  then show "bankData (persist (bank_mount e (bank_init saved))) \<noteq> None \<Longrightarrow> ?thesis"
    by (simp add: bank_mount_idle bank_init_def)
next
  case False
  then obtain name where "session_bankName e = Some name" "name \<noteq> []" by auto
  from bank_mount_loaded [OF this, of "bank_init saved"] obtain avail where
    "inventory (bank_mount e (bank_init saved)) = initial_inventory avail (rand_inventory e)" by blast
  then show ?thesis by (simp add: keys_initial_inventory)
qed



text \<open>C32: Every state of a run of the blood-bank page keeps every blood group's
  stock non-negative: the mount draws at least 10 units or sets 0, and every change goes
  through updateInventory's clamp at 0.\<close>

theorem bank_stock_nonneg: "bank_reachable s0 s \<Longrightarrow> 0 \<le> inv_count (inventory s) bg"
  using bank_reachable_inv inv_count_nonneg unfolding bank_inv_def by blast

theorem bank_stock_nonneg_witness:
  "0 \<le> inv_count (inventory (bank_handle ''2025-01-02'' (AcceptUser 0) demo_bank_s0)) ''O+''"
  using bank_stock_nonneg [OF demo_bank_reach_accept] by simp

lemma bank_accept_user_effect:
  "acceptedUsers (bank_handle now (AcceptUser i) s) = acceptedUsers s @ [(userRequests s ! i)\<lparr>ur_accepted_at := Some now\<rparr>]"
  "userRequests (bank_handle now (AcceptUser i) s) = remove_at i (userRequests s)"
  "creditPoints (bank_handle now (AcceptUser i) s) = creditPoints s + ur_quantity_units (userRequests s ! i)"
  "inventory (bank_handle now (AcceptUser i) s) =
     inventory (updateInventory (ur_blood_required (userRequests s ! i)) (- ur_quantity_units (userRequests s ! i)) s)"
  by (simp_all add: bank_handle_def handleAcceptUser_def Let_def)

lemma bank_enabled_accept_user:
  "bank_enabled s (AcceptUser i) \<longleftrightarrow> bankData s \<noteq> None \<and> \<not> bank_loading s \<and> i < length (userRequests s) \<and>
     ur_quantity_units (userRequests s ! i) \<le> inv_count (inventory s) (ur_blood_required (userRequests s ! i))"
  by (auto simp: bank_enabled_def)

lemma stored_bank_handle:
  "\<not> bank_loading s \<Longrightarrow> stored (bank_handle now ev s) =
     Some (AcceptedJson (Some (acceptedUsers (bank_handle now ev s))) (Some (acceptedHospitals (bank_handle now ev s)))
       (Some (acceptedDonors (bank_handle now ev s))))"
  using bank_handle_mirrored unfolding mirrored_def by blast

text \<open>C33: Accepting a user request through its enabled button takes exactly the
  requested units from that blood group (the clamp never fires), leaves the other groups
  alone, credits one point per unit, appends the request stamped with the acceptance time
  to the accepted users and removes it from the pending list.\<close>

theorem bank_accept_user_exact:
  assumes "bank_enabled s (AcceptUser i)" and "r = userRequests s ! i" and "s' = bank_handle now (AcceptUser i) s"
  shows "inv_count (inventory s') (ur_blood_required r) = inv_count (inventory s) (ur_blood_required r) - ur_quantity_units r \<and>
    (\<forall>bg. bg \<noteq> ur_blood_required r \<longrightarrow> inv_count (inventory s') bg = inv_count (inventory s) bg) \<and>
    creditPoints s' = creditPoints s + ur_quantity_units r \<and>
    acceptedUsers s' = acceptedUsers s @ [r\<lparr>ur_accepted_at := Some now\<rparr>] \<and>
    userRequests s' = remove_at i (userRequests s)"
  using assms by (simp add: bank_accept_user_effect bank_enabled_accept_user updateInventory_count)

theorem bank_accept_user_exact_witness:
  "inv_count (inventory (bank_handle ''2025-01-02'' (AcceptUser 0) demo_bank_s0)) ''O+'' = 8 \<and>
   creditPoints (bank_handle ''2025-01-02'' (AcceptUser 0) demo_bank_s0) = 102"
  using bank_accept_user_exact [OF demo_bank_enabled refl refl] by (simp add: demo_bank_mount_facts)

text \<open>C34: Along any run from the mount, the accepted lists only grow, and the
  credit points rise by exactly one per unit of each accepted user or hospital request and
  two per accepted donor.\<close>

theorem bank_credit_ledger:
  assumes "bank_reachable s0 s"
  shows "\<exists>nu nh nd. acceptedUsers s = acceptedUsers s0 @ nu \<and>
     acceptedHospitals s = acceptedHospitals s0 @ nh \<and> acceptedDonors s = acceptedDonors s0 @ nd \<and>
     creditPoints s = creditPoints s0 + sum_list (map ur_quantity_units nu) +
       sum_list (map hr_units_needed nh) + 2 * of_nat (length nd)"
  using bank_reachable_ledger [OF assms] unfolding ledger_def .

theorem bank_credit_ledger_witness:
  "\<exists>nu nh nd. acceptedUsers (bank_handle ''2025-01-02'' (AcceptUser 0) demo_bank_s0) = acceptedUsers demo_bank_s0 @ nu \<and>
     acceptedHospitals (bank_handle ''2025-01-02'' (AcceptUser 0) demo_bank_s0) = acceptedHospitals demo_bank_s0 @ nh \<and>
     acceptedDonors (bank_handle ''2025-01-02'' (AcceptUser 0) demo_bank_s0) = acceptedDonors demo_bank_s0 @ nd \<and>
     creditPoints (bank_handle ''2025-01-02'' (AcceptUser 0) demo_bank_s0) = creditPoints demo_bank_s0 +
       sum_list (map ur_quantity_units nu) + sum_list (map hr_units_needed nh) + 2 * of_nat (length nd)"
  using bank_credit_ledger [OF demo_bank_reach_accept] .

text \<open>getRecommendations gives only the healthy-levels message exactly when
  every blood group has at least 10 units and the total stock is between 50 and 200
  units.\<close>

theorem getRecommendations_healthy:
  "getRecommendations stock = [RecHealthy] \<longleftrightarrow>
     (\<forall>bg \<in> set allBloodGroups. 10 \<le> inv_count stock bg) \<and>
     50 \<le> sum_list (map snd stock) \<and> sum_list (map snd stock) \<le> 200"
proof -
  have crit: "filter (\<lambda>bg. inv_count stock bg < 5) allBloodGroups = []"
    if "filter (\<lambda>bg. inv_count stock bg < 10) allBloodGroups = []"
    using filter_empty_mono [of "\<lambda>bg. inv_count stock bg < 5" "\<lambda>bg. inv_count stock bg < 10"] that
    by simp
  show ?thesis
    unfolding getRecommendations_def Let_def
    using crit by (auto simp: filter_empty_conv not_less)
qed

theorem getRecommendations_healthy_witness:
  "getRecommendations (map (\<lambda>bg. (bg, 10)) allBloodGroups) = [RecHealthy]"
  using getRecommendations_healthy [of "map (\<lambda>bg. (bg, 10)) allBloodGroups"]
  by (simp add: allBloodGroups_def inv_count_def)

text \<open>C36: When the page is mounted again, the pending user requests are reloaded
  from requests.json whatever the storage says, while the accepted list comes from the
  storage, and the credit points are drawn afresh: a request already accepted is offered
  again, and the earned credit is lost.\<close>

theorem bank_remount_reoffers_accepted:
  assumes "session_bankName e = Some name" "name \<noteq> []" "stored s = Some (AcceptedJson (Some us) hs ds)"
  shows "userRequests (bank_mount e (bank_init (stored s))) = req_users e \<and>
    acceptedUsers (bank_mount e (bank_init (stored s))) = us \<and>
    creditPoints (bank_mount e (bank_init (stored s))) = of_int (\<lfloor>rand_credit e * 500\<rfloor> + 100)"
  using assms by (simp add: bank_mount_def bank_init_def Let_def split: option.split prod.split)

lemma demo_bank_stored:
  "stored (bank_handle ''2025-01-02'' (AcceptUser 0) demo_bank_s0) =
     Some (AcceptedJson (Some [demo_user\<lparr>ur_accepted_at := Some ''2025-01-02''\<rparr>]) (Some []) (Some []))"
  by (simp add: stored_bank_handle demo_bank_mount_facts bank_accept_user_effect)
     (simp add: bank_handle_def handleAcceptUser_def Let_def demo_bank_mount_facts)

theorem bank_remount_reoffers_accepted_witness:
  "userRequests (bank_mount demo_bank_env (bank_init (stored (bank_handle ''2025-01-02'' (AcceptUser 0) demo_bank_s0)))) = [demo_user] \<and>
   acceptedUsers (bank_mount demo_bank_env (bank_init (stored (bank_handle ''2025-01-02'' (AcceptUser 0) demo_bank_s0)))) =
     [demo_user\<lparr>ur_accepted_at := Some ''2025-01-02''\<rparr>]"
  using bank_remount_reoffers_accepted [where e = demo_bank_env and name = "''City Blood Bank''", OF _ _ demo_bank_stored]
  by simp

text \<open>The page never shows its error screen (after the mount the bank is found or a
  default one is made), a default bank has no information panel, and an acceptance
  shows its card last in the accepted users' list with the acceptance time.\<close>

lemma bank_view_never_unable: "bank_reachable s0 s \<Longrightarrow> bank_view fmt num s \<noteq> BankUnableView"
  using bank_reachable_inv [of s0 s] by (auto simp: bank_view_def bank_inv_def split: option.splits)

lemma bank_view_default_no_info:
  "bank_info fmt (default_bank name now) = None"
  by (simp add: bank_info_def default_bank_def)

lemma bank_accept_user_card:
  assumes "bank_enabled s (AcceptUser i)" "now \<noteq> []"
  shows "\<exists>p cs. bank_view fmt num (bank_handle now (AcceptUser i) s) = BankPageView p \<and>
           snd (bp_users p) = Inr cs \<and>
           last cs = user_card fmt num ((userRequests s ! i)\<lparr>ur_accepted_at := Some now\<rparr>) \<and>
           ac_accepted (last cs) = Some (''Accepted: '' @ fmt now)"
proof -
  obtain b where b: "bankData s = Some b" "\<not> bank_loading s" using assms(1) by (auto simp: bank_enabled_def)
  then have "bankData (bank_handle now (AcceptUser i) s) = Some b \<and> \<not> bank_loading (bank_handle now (AcceptUser i) s)"
    using bank_handle_status [of now "AcceptUser i" s] by simp
  then show ?thesis
    using assms(2) by (simp add: bank_view_def bank_accept_user_effect accepted_section_def user_card_def
        accepted_line_def js_truthy_str_def)
qed

end
