(* ===== verification/Wizard.thy ===== *)
theory Wizard
  imports Prelude "HOL-Library.AList"
begin

text \<open>
  The multi-step form dialog WizardModal.tsx, generic in its data as the component is.
  A form is the record of its string fields (\<open>Record<string, string>\<close>), an
  association list; \<open>data[f]\<close> of a missing field is \<open>undefined\<close>, falsy like
  the empty string. Each step renders inputs for some fields (its \<open>onChange\<close>
  handlers are \<open>setD({...d, f: value})\<close>) and may validate; the validators the
  pages pass are of two shapes, defunctionalised as the datatype \<open>validator\<close>.
  The dialog's state joins the host's state (\<open>isOpen\<close>, \<open>data\<close>,
  \<open>currentStep\<close>) and its own (\<open>errors\<close>, \<open>isSubmitting\<close>); the host's
  \<open>onSubmit\<close> passes the data to the mock API (\<open>w_outbox\<close>) and awaits it, so a
  submission is two events, the click and the resolution of the promise, and the
  user's other clicks may fall between them.
\<close>

type_synonym form = "(string \<times> string) list"
type_synonym errors = "(string \<times> string) list"

definition field :: "form \<Rightarrow> string \<Rightarrow> string" where
  "field d f = (case map_of d f of None \<Rightarrow> [] | Some v \<Rightarrow> v)"

definition set_field :: "string \<Rightarrow> string \<Rightarrow> form \<Rightarrow> form" where
  "set_field f v d = AList.update f v d"

text \<open>HospitalDashboard.tsx \<open>validateRequired\<close>: \<open>errs[f] = "Required"\<close> for each empty field.\<close>

definition validateRequired :: "string list \<Rightarrow> form \<Rightarrow> errors" where
  "validateRequired fields d =
     fold (\<lambda>f errs. if field d f = [] then AList.update f ''Required'' errs else errs) fields []"

datatype validator = Required "string list" | RequireOneOf string string string

fun run_validator :: "validator \<Rightarrow> form \<Rightarrow> errors" where
  "run_validator (Required fs) d = validateRequired fs d"
| "run_validator (RequireOneOf a b msg) d = (if field d a = [] \<and> field d b = [] then [(a, msg)] else [])"

fun validator_reads :: "validator \<Rightarrow> string list" where
  "validator_reads (Required fs) = fs"
| "validator_reads (RequireOneOf a b msg) = [a, b]"

record wizard_step =
  ws_label :: string
  ws_inputs :: "string list"
  ws_validate :: "validator option"

text \<open>\<open>validate ? validate(data) : {}\<close>.\<close>

definition step_errors :: "wizard_step \<Rightarrow> form \<Rightarrow> errors" where
  "step_errors st d = (case ws_validate st of None \<Rightarrow> [] | Some v \<Rightarrow> run_validator v d)"

text \<open>What the host page passes: the steps, its initial data and its toast text.\<close>

record wizard_host =
  wh_steps :: "wizard_step list"
  wh_initial :: form
  wh_toast :: string

record wizard =
  w_open :: bool
  w_data :: form
  w_step :: nat
  w_errors :: errors
  w_submitting :: bool
  w_pending :: "form option"
  w_outbox :: "form list"
  w_toasts :: "string list"

definition wz_init :: "wizard_host \<Rightarrow> wizard" where
  "wz_init h = \<lparr>w_open = False, w_data = wh_initial h, w_step = 0, w_errors = [], w_submitting = False,
     w_pending = None, w_outbox = [], w_toasts = []\<rparr>"

definition handleNext :: "wizard_host \<Rightarrow> wizard \<Rightarrow> wizard" where
  "handleNext h s =
     (let nextErrors = step_errors (wh_steps h ! w_step s) (w_data s)
      in if nextErrors = [] then s\<lparr>w_errors := nextErrors, w_step := min (w_step s + 1) (length (wh_steps h) - 1)\<rparr>
         else s\<lparr>w_errors := nextErrors\<rparr>)"

definition handleBack :: "wizard \<Rightarrow> wizard" where
  "handleBack s = s\<lparr>w_errors := [], w_step := w_step s - 1\<rparr>"

text \<open>The host's \<open>onClose\<close>: close, back to the first step, initial data.\<close>

definition wz_onClose :: "wizard_host \<Rightarrow> wizard \<Rightarrow> wizard" where
  "wz_onClose h s = s\<lparr>w_open := False, w_step := 0, w_data := wh_initial h\<rparr>"

text \<open>\<open>handleSubmit\<close> up to the await of \<open>onSubmit()\<close>, which hands the data to the mock API.\<close>

definition handleSubmit :: "wizard_host \<Rightarrow> wizard \<Rightarrow> wizard" where
  "handleSubmit h s =
     (let nextErrors = step_errors (wh_steps h ! w_step s) (w_data s)
      in if nextErrors \<noteq> [] then s\<lparr>w_errors := nextErrors\<rparr>
         else s\<lparr>w_errors := nextErrors, w_submitting := True, w_pending := Some (w_data s),
                w_outbox := w_outbox s @ [w_data s]\<rparr>)"

text \<open>The rest of \<open>handleSubmit\<close> once the promise resolves: the host's toast and
  reset, \<open>setIsSubmitting(false)\<close>, \<open>onClose()\<close>, \<open>setCurrentStep(0)\<close>.\<close>

definition submitResolved :: "wizard_host \<Rightarrow> wizard \<Rightarrow> wizard" where
  "submitResolved h s =
     wz_onClose h (s\<lparr>w_toasts := w_toasts s @ [wh_toast h], w_data := wh_initial h,
                     w_submitting := False, w_pending := None\<rparr>)"

datatype wz_event = OpenWizard | Edit string string | Next | Back | Submit | Resolve | Cancel

text \<open>The events the page offers: the feature card's button, the current step's
  inputs, the footer's buttons as rendered (Back disabled on the first step, Next
  before the last step, Submit on it and disabled while submitting), and the
  resolution of a pending call.\<close>

definition wz_enabled :: "wizard_host \<Rightarrow> wizard \<Rightarrow> wz_event \<Rightarrow> bool" where
  "wz_enabled h s ev =
     (case ev of
        OpenWizard \<Rightarrow> \<not> w_open s
      | Edit f v \<Rightarrow> w_open s \<and> f \<in> set (ws_inputs (wh_steps h ! w_step s))
      | Next \<Rightarrow> w_open s \<and> w_step s < length (wh_steps h) - 1
      | Back \<Rightarrow> w_open s \<and> w_step s \<noteq> 0
      | Submit \<Rightarrow> w_open s \<and> \<not> w_step s < length (wh_steps h) - 1 \<and> \<not> w_submitting s
      | Resolve \<Rightarrow> w_pending s \<noteq> None
      | Cancel \<Rightarrow> w_open s)"

definition wz_handle :: "wizard_host \<Rightarrow> wz_event \<Rightarrow> wizard \<Rightarrow> wizard" where
  "wz_handle h ev s =
     (case ev of
        OpenWizard \<Rightarrow> s\<lparr>w_open := True\<rparr>
      | Edit f v \<Rightarrow> s\<lparr>w_data := set_field f v (w_data s)\<rparr>
      | Next \<Rightarrow> handleNext h s
      | Back \<Rightarrow> handleBack s
      | Submit \<Rightarrow> handleSubmit h s
      | Resolve \<Rightarrow> submitResolved h s
      | Cancel \<Rightarrow> wz_onClose h s)"

inductive wz_reachable :: "wizard_host \<Rightarrow> wizard \<Rightarrow> bool" where
  init: "wz_reachable h (wz_init h)"
| step: "wz_reachable h s \<Longrightarrow> wz_enabled h s ev \<Longrightarrow> wz_reachable h (wz_handle h ev s)"

text \<open>A host's steps are well formed when no step's inputs are read by the
  validator of an earlier step, and the form is complete when every step validates.\<close>

definition wf_steps :: "wizard_step list \<Rightarrow> bool" where
  "wf_steps steps \<longleftrightarrow> steps \<noteq> [] \<and>
     (\<forall>j < length steps. \<forall>k < j. \<forall>f \<in> set (ws_inputs (steps ! j)).
        case ws_validate (steps ! k) of None \<Rightarrow> True | Some v \<Rightarrow> f \<notin> set (validator_reads v))"

definition form_complete :: "wizard_step list \<Rightarrow> form \<Rightarrow> bool" where
  "form_complete steps d \<longleftrightarrow> (\<forall>k < length steps. step_errors (steps ! k) d = [])"

definition wz_inv :: "wizard_host \<Rightarrow> wizard \<Rightarrow> bool" where
  "wz_inv h s \<longleftrightarrow> w_step s < length (wh_steps h) \<and>
     (\<forall>k < w_step s. step_errors (wh_steps h ! k) (w_data s) = []) \<and>
     (\<forall>p \<in> set (w_outbox s). form_complete (wh_steps h) p) \<and>
     (w_submitting s \<longleftrightarrow> w_pending s \<noteq> None)"


text \<open>A run of events, each enabled in the state the previous ones leave.\<close>

fun wz_run_ok :: "wizard_host \<Rightarrow> wz_event list \<Rightarrow> wizard \<Rightarrow> bool" where
  "wz_run_ok h [] s = True"
| "wz_run_ok h (ev # evs) s = (wz_enabled h s ev \<and> wz_run_ok h evs (wz_handle h ev s))"

subsection \<open>Lemmas\<close>

lemma field_set_field: "field (set_field f v d) g = (if g = f then v else field d g)"
  by (simp add: field_def set_field_def update_conv')

lemma update_not_Nil: "AList.update k v al \<noteq> []"
  by (induction al) auto

lemma fold_required_Nil:
  "fold (\<lambda>f errs. if field d f = [] then AList.update f ''Required'' errs else errs) fs errs = [] \<longleftrightarrow>
     errs = [] \<and> (\<forall>f \<in> set fs. field d f \<noteq> [])"
  by (induction fs arbitrary: errs) (auto simp: update_not_Nil)

lemma validateRequired_Nil_iff: "validateRequired fs d = [] \<longleftrightarrow> (\<forall>f \<in> set fs. field d f \<noteq> [])"
  by (simp add: validateRequired_def fold_required_Nil)

lemma validateRequired_cong:
  "(\<And>f. f \<in> set fs \<Longrightarrow> field d f = field d' f) \<Longrightarrow> validateRequired fs d = validateRequired fs d'"
  unfolding validateRequired_def by (rule fold_cong) auto

lemma run_validator_set_field:
  "f \<notin> set (validator_reads v) \<Longrightarrow> run_validator v (set_field f x d) = run_validator v d"
  by (cases v) (auto simp: field_set_field intro!: validateRequired_cong)

lemma step_errors_set_field:
  "wf_steps steps \<Longrightarrow> j < length steps \<Longrightarrow> k < j \<Longrightarrow> f \<in> set (ws_inputs (steps ! j)) \<Longrightarrow>
   step_errors (steps ! k) (set_field f x d) = step_errors (steps ! k) d"
  unfolding wf_steps_def step_errors_def
  by (fastforce split: option.split intro: run_validator_set_field)

lemma wz_inv_init: "wf_steps (wh_steps h) \<Longrightarrow> wz_inv h (wz_init h)"
  by (simp add: wz_inv_def wz_init_def wf_steps_def)

lemma form_complete_last:
  assumes "\<forall>k < w. step_errors (steps ! k) d = []" "step_errors (steps ! w) d = []"
    "\<not> w < length steps - 1" "w < length steps"
  shows "form_complete steps d"
  unfolding form_complete_def
proof (intro allI impI)
  fix k assume "k < length steps"
  with assms(3,4) have "k < w \<or> k = w" by linarith
  with assms(1,2) show "step_errors (steps ! k) d = []" by blast
qed

lemma wz_inv_next: "wz_inv h s \<Longrightarrow> wz_inv h (handleNext h s)"
proof -
  assume inv: "wz_inv h s"
  show ?thesis
  proof (cases "step_errors (wh_steps h ! w_step s) (w_data s) = []")
    case True
    have "step_errors (wh_steps h ! k) (w_data s) = []" if "k < min (w_step s + 1) (length (wh_steps h) - 1)" for k
    proof (cases "k < w_step s")
      case True
      with inv show ?thesis unfolding wz_inv_def by blast
    next
      case False
      with that have "k = w_step s" by linarith
      with True show ?thesis by simp
    qed
    moreover have "min (w_step s + 1) (length (wh_steps h) - 1) < length (wh_steps h)"
      using inv unfolding wz_inv_def by linarith
    ultimately show ?thesis using inv True by (simp add: handleNext_def wz_inv_def)
  next
    case False
    with inv show ?thesis by (simp add: handleNext_def wz_inv_def)
  qed
qed

lemma wz_inv_submit:
  "wz_inv h s \<Longrightarrow> \<not> w_step s < length (wh_steps h) - 1 \<Longrightarrow> \<not> w_submitting s \<Longrightarrow> wz_inv h (handleSubmit h s)"
  unfolding wz_inv_def handleSubmit_def Let_def
  by (auto intro: form_complete_last)

lemma wz_inv_edit:
  "wf_steps (wh_steps h) \<Longrightarrow> wz_inv h s \<Longrightarrow> f \<in> set (ws_inputs (wh_steps h ! w_step s)) \<Longrightarrow>
   wz_inv h (s\<lparr>w_data := set_field f v (w_data s)\<rparr>)"
  unfolding wz_inv_def by (auto simp: step_errors_set_field)

lemma wz_inv_step: "wf_steps (wh_steps h) \<Longrightarrow> wz_inv h s \<Longrightarrow> wz_enabled h s ev \<Longrightarrow> wz_inv h (wz_handle h ev s)"
proof (cases ev)
  case (Edit f v)
  assume "wf_steps (wh_steps h)" "wz_inv h s" "wz_enabled h s ev"
  with Edit show ?thesis by (simp add: wz_handle_def wz_enabled_def wz_inv_edit)
next
  case Next
  assume "wz_inv h s"
  with Next show ?thesis by (simp add: wz_handle_def wz_inv_next)
next
  case Submit
  assume "wz_inv h s" "wz_enabled h s ev"
  with Submit show ?thesis by (simp add: wz_handle_def wz_enabled_def wz_inv_submit)
next
  case Back
  assume "wz_inv h s"
  with Back show ?thesis by (auto simp: wz_handle_def handleBack_def wz_inv_def)
qed (auto simp: wz_handle_def submitResolved_def wz_onClose_def wz_inv_def wf_steps_def)

lemma wz_reachable_inv: "wz_reachable h s \<Longrightarrow> wf_steps (wh_steps h) \<Longrightarrow> wz_inv h s"
  by (induction rule: wz_reachable.induct) (auto simp: wz_inv_init wz_inv_step)

lemma wz_reachable_run:
  "wz_reachable h s \<Longrightarrow> wz_run_ok h evs s \<Longrightarrow> wz_reachable h (fold (wz_handle h) evs s)"
  by (induction evs arbitrary: s) (auto intro: wz_reachable.step)

text \<open>
  C38. Whatever the user does between the clicks, including going back to edit an
  earlier step or cancelling while a call is pending, every form the wizard hands to
  the host's \<open>onSubmit\<close> passes the validator of every step, not only of the last
  one, which is the only one \<open>handleSubmit\<close> checks; this needs the host's steps to
  be well formed (no step's inputs are read by an earlier step's validator).
\<close>

theorem wizard_submits_complete:
  assumes "wz_reachable h s" "wf_steps (wh_steps h)" "p \<in> set (w_outbox s)"
  shows "form_complete (wh_steps h) p"
  using wz_reachable_inv [OF assms(1,2)] assms(3) unfolding wz_inv_def by blast

end
