(* ===== verification/Hospital.thy ===== *)
theory Hospital
  imports Wizard
begin

text \<open>
  The hospital dashboard HospitalDashboard.tsx: four feature cards, each opening a
  WizardModal on its own data (add a patient, raise an emergency request, generate a
  monthly report, track a request). Each wizard is a \<open>wizard_host\<close> of Wizard.thy:
  the initial data of lines 55-96, the steps of lines 125-440 with the fields each
  step's inputs set and its validator, and the toast of its \<open>onSubmit\<close>. The page's
  state is the four dialogs' states; an event goes to one of them.
\<close>

definition initialPatient :: form where
  "initialPatient =
     [(''name'', ''''), (''age'', ''''), (''gender'', ''''), (''mobile'', ''''), (''hospitalId'', ''''),
      (''bloodGroup'', ''''), (''conditions'', ''''), (''doctor'', ''''), (''department'', ''''),
      (''ward'', ''''), (''admissionDate'', ''''), (''urgency'', ''Normal'')]"

definition initialEmergency :: form where
  "initialEmergency =
     [(''patientName'', ''''), (''hospitalId'', ''''), (''bloodGroup'', ''''), (''units'', ''''),
      (''urgency'', ''High''), (''timeNeeded'', ''''), (''location'', ''''), (''contactPerson'', ''''),
      (''contactNumber'', '''')]"

definition initialReport :: form where
  "initialReport =
     [(''month'', ''''), (''year'', ''''), (''bloodGroup'', ''''), (''department'', ''''), (''caseType'', '''')]"

definition initialTrack :: form where
  "initialTrack =
     [(''requestId'', ''''), (''patientId'', ''''), (''dateFrom'', ''''), (''dateTo'', ''''), (''status'', '''')]"

definition patientSteps :: "wizard_step list" where
  "patientSteps =
     [\<lparr>ws_label = ''Basic details'', ws_inputs = [''name'', ''age'', ''gender'', ''mobile'', ''hospitalId''],
       ws_validate = Some (Required [''name'', ''age'', ''gender'', ''mobile'', ''hospitalId''])\<rparr>,
      \<lparr>ws_label = ''Medical details'', ws_inputs = [''bloodGroup'', ''conditions'', ''doctor'', ''department''],
       ws_validate = Some (Required [''bloodGroup'', ''doctor'', ''department''])\<rparr>,
      \<lparr>ws_label = ''Admission details'', ws_inputs = [''ward'', ''admissionDate'', ''urgency''],
       ws_validate = Some (Required [''ward'', ''admissionDate'', ''urgency''])\<rparr>]"

definition emergencySteps :: "wizard_step list" where
  "emergencySteps =
     [\<lparr>ws_label = ''Patient & Hospital'', ws_inputs = [''patientName'', ''hospitalId''],
       ws_validate = Some (Required [''patientName'', ''hospitalId''])\<rparr>,
      \<lparr>ws_label = ''Blood requirements'', ws_inputs = [''bloodGroup'', ''units'', ''urgency'', ''timeNeeded''],
       ws_validate = Some (Required [''bloodGroup'', ''units'', ''urgency'', ''timeNeeded''])\<rparr>,
      \<lparr>ws_label = ''Location & Contact'', ws_inputs = [''location'', ''contactPerson'', ''contactNumber''],
       ws_validate = Some (Required [''location'', ''contactPerson'', ''contactNumber''])\<rparr>]"

definition reportSteps :: "wizard_step list" where
  "reportSteps =
     [\<lparr>ws_label = ''Select period'', ws_inputs = [''month'', ''year''],
       ws_validate = Some (Required [''month'', ''year''])\<rparr>,
      \<lparr>ws_label = ''Filters'', ws_inputs = [''bloodGroup'', ''department'', ''caseType''], ws_validate = None\<rparr>,
      \<lparr>ws_label = ''Summary'', ws_inputs = [], ws_validate = None\<rparr>]"

definition trackSteps :: "wizard_step list" where
  "trackSteps =
     [\<lparr>ws_label = ''Identifiers'', ws_inputs = [''requestId'', ''patientId''],
       ws_validate = Some (RequireOneOf ''requestId'' ''patientId'' ''Provide Request ID or Patient ID'')\<rparr>,
      \<lparr>ws_label = ''Filters'', ws_inputs = [''dateFrom'', ''dateTo'', ''status''], ws_validate = None\<rparr>,
      \<lparr>ws_label = ''Results'', ws_inputs = [], ws_validate = None\<rparr>]"

definition patientHost :: wizard_host where
  "patientHost = \<lparr>wh_steps = patientSteps, wh_initial = initialPatient, wh_toast = ''Patient added successfully''\<rparr>"

definition emergencyHost :: wizard_host where
  "emergencyHost = \<lparr>wh_steps = emergencySteps, wh_initial = initialEmergency, wh_toast = ''Emergency request submitted''\<rparr>"

definition reportHost :: wizard_host where
  "reportHost = \<lparr>wh_steps = reportSteps, wh_initial = initialReport, wh_toast = ''Monthly report generated''\<rparr>"

definition trackHost :: wizard_host where
  "trackHost = \<lparr>wh_steps = trackSteps, wh_initial = initialTrack, wh_toast = ''Tracking results refreshed''\<rparr>"

record hospitalDashboard =
  patientWz :: wizard
  emergencyWz :: wizard
  reportWz :: wizard
  trackWz :: wizard

datatype hospital_wizard = PatientWizard | EmergencyWizard | ReportWizard | TrackWizard

definition hospital_host :: "hospital_wizard \<Rightarrow> wizard_host" where
  "hospital_host w = (case w of PatientWizard \<Rightarrow> patientHost | EmergencyWizard \<Rightarrow> emergencyHost
     | ReportWizard \<Rightarrow> reportHost | TrackWizard \<Rightarrow> trackHost)"

definition hospital_wz :: "hospital_wizard \<Rightarrow> hospitalDashboard \<Rightarrow> wizard" where
  "hospital_wz w s = (case w of PatientWizard \<Rightarrow> patientWz s | EmergencyWizard \<Rightarrow> emergencyWz s
     | ReportWizard \<Rightarrow> reportWz s | TrackWizard \<Rightarrow> trackWz s)"

definition hospital_set_wz :: "hospital_wizard \<Rightarrow> wizard \<Rightarrow> hospitalDashboard \<Rightarrow> hospitalDashboard" where
  "hospital_set_wz w x s = (case w of PatientWizard \<Rightarrow> s\<lparr>patientWz := x\<rparr> | EmergencyWizard \<Rightarrow> s\<lparr>emergencyWz := x\<rparr>
     | ReportWizard \<Rightarrow> s\<lparr>reportWz := x\<rparr> | TrackWizard \<Rightarrow> s\<lparr>trackWz := x\<rparr>)"

definition hospital_init :: hospitalDashboard where
  "hospital_init = \<lparr>patientWz = wz_init patientHost, emergencyWz = wz_init emergencyHost,
     reportWz = wz_init reportHost, trackWz = wz_init trackHost\<rparr>"

inductive hospital_reachable :: "hospitalDashboard \<Rightarrow> bool" where
  init: "hospital_reachable hospital_init"
| step: "hospital_reachable s \<Longrightarrow> wz_enabled (hospital_host w) (hospital_wz w s) ev \<Longrightarrow>
     hospital_reachable (hospital_set_wz w (wz_handle (hospital_host w) ev (hospital_wz w s)) s)"


text \<open>The mock API of services/mockApi.ts that the four \<open>onSubmit\<close>s await: each
  endpoint logs its label with the payload and resolves after 400 ms. What the
  console shows for a dialog is its outbox, each payload under its endpoint's label.\<close>

datatype mock_endpoint = SubmitPatient | CreateEmergencyRequest | GenerateMonthlyReport | TrackRequestStatus

definition mock_log_label :: "mock_endpoint \<Rightarrow> string" where
  "mock_log_label e =
     (case e of SubmitPatient \<Rightarrow> ''Submitting patient'' | CreateEmergencyRequest \<Rightarrow> ''Creating emergency request''
      | GenerateMonthlyReport \<Rightarrow> ''Generating monthly report'' | TrackRequestStatus \<Rightarrow> ''Tracking request status'')"

definition mock_delay :: nat where
  "mock_delay = 400"

definition mockApi :: "mock_endpoint \<Rightarrow> form \<Rightarrow> (string \<times> form) \<times> nat" where
  "mockApi e data = ((mock_log_label e, data), mock_delay)"

definition hospital_endpoint :: "hospital_wizard \<Rightarrow> mock_endpoint" where
  "hospital_endpoint w =
     (case w of PatientWizard \<Rightarrow> SubmitPatient | EmergencyWizard \<Rightarrow> CreateEmergencyRequest
      | ReportWizard \<Rightarrow> GenerateMonthlyReport | TrackWizard \<Rightarrow> TrackRequestStatus)"

definition api_console :: "hospitalDashboard \<Rightarrow> hospital_wizard \<Rightarrow> (string \<times> form) list" where
  "api_console s w = map (\<lambda>p. fst (mockApi (hospital_endpoint w) p)) (w_outbox (hospital_wz w s))"

text \<open>A run of the tracking wizard used in the examples.\<close>

abbreviation demo_track_run :: "wz_event list" where
  "demo_track_run \<equiv> [OpenWizard, Edit ''requestId'' ''R1'', Next, Next, Submit]"

subsection \<open>Lemmas\<close>

lemma hospital_wz_set [simp]:
  "hospital_wz w (hospital_set_wz w x s) = x"
  "w' \<noteq> w \<Longrightarrow> hospital_wz w' (hospital_set_wz w x s) = hospital_wz w' s"
  "hospital_set_wz w x (hospital_set_wz w y s) = hospital_set_wz w x s"
  by (cases w; cases w'; simp add: hospital_wz_def hospital_set_wz_def)+

lemma hospital_reachable_wz: "hospital_reachable s \<Longrightarrow> wz_reachable (hospital_host w) (hospital_wz w s)"
proof (induction rule: hospital_reachable.induct)
  case init
  show ?case by (cases w) (simp_all add: hospital_init_def hospital_wz_def hospital_host_def wz_reachable.init)
next
  case (step s w' ev)
  then show ?case by (cases "w = w'") (auto intro: wz_reachable.step)
qed

lemma hospital_reachable_run:
  "hospital_reachable s \<Longrightarrow> wz_run_ok (hospital_host w) evs (hospital_wz w s) \<Longrightarrow>
   hospital_reachable (hospital_set_wz w (fold (wz_handle (hospital_host w)) evs (hospital_wz w s)) s)"
proof (induction evs arbitrary: s)
  case Nil
  have "hospital_set_wz w (hospital_wz w s) s = s" by (cases w) (simp_all add: hospital_wz_def hospital_set_wz_def)
  with Nil show ?case by simp
next
  case (Cons ev evs)
  then have "hospital_reachable (hospital_set_wz w (wz_handle (hospital_host w) ev (hospital_wz w s)) s)"
    by (auto intro: hospital_reachable.step)
  with Cons.IH [OF this] Cons.prems show ?case by simp
qed

lemma wf_hospital_steps: "wf_steps (wh_steps (hospital_host w))"
  by (cases w) (simp_all add: hospital_host_def patientHost_def emergencyHost_def reportHost_def trackHost_def
      wf_steps_def patientSteps_def emergencySteps_def reportSteps_def trackSteps_def less_Suc_eq all_conj_distrib)

lemma demo_track_run_ok: "wz_run_ok trackHost demo_track_run (wz_init trackHost)"
  by (simp add: wz_enabled_def wz_handle_def trackHost_def trackSteps_def wz_init_def handleNext_def
      step_errors_def field_def set_field_def initialTrack_def)

lemma demo_track_outbox:
  "w_outbox (fold (wz_handle trackHost) demo_track_run (wz_init trackHost)) = [set_field ''requestId'' ''R1'' initialTrack]"
  by (simp add: wz_handle_def trackHost_def trackSteps_def wz_init_def handleNext_def handleSubmit_def
      step_errors_def field_def set_field_def initialTrack_def)

theorem wizard_submits_complete_witness:
  "form_complete trackSteps (set_field ''requestId'' ''R1'' initialTrack)"
proof -
  have wf: "wf_steps (wh_steps trackHost)"
    using wf_hospital_steps [of TrackWizard] by (simp add: hospital_host_def)
  have "set_field ''requestId'' ''R1'' initialTrack \<in> set (w_outbox (fold (wz_handle trackHost) demo_track_run (wz_init trackHost)))"
    by (simp only: demo_track_outbox) simp
  from wizard_submits_complete [OF wz_reachable_run [OF wz_reachable.init demo_track_run_ok] wf this]
  show ?thesis by (simp add: trackHost_def)
qed

lemma hospital_outbox_complete:
  "hospital_reachable s \<Longrightarrow> p \<in> set (w_outbox (hospital_wz w s)) \<Longrightarrow> form_complete (wh_steps (hospital_host w)) p"
  using hospital_reachable_wz wz_reachable_inv wf_hospital_steps unfolding wz_inv_def by blast

lemma form_complete_hospital:
  "form_complete patientSteps p \<longleftrightarrow> (\<forall>f \<in> set [''name'', ''age'', ''gender'', ''mobile'', ''hospitalId'',
      ''bloodGroup'', ''doctor'', ''department'', ''ward'', ''admissionDate'', ''urgency'']. field p f \<noteq> [])"
  "form_complete emergencySteps p \<longleftrightarrow> (\<forall>f \<in> set [''patientName'', ''hospitalId'', ''bloodGroup'', ''units'',
      ''urgency'', ''timeNeeded'', ''location'', ''contactPerson'', ''contactNumber'']. field p f \<noteq> [])"
  "form_complete reportSteps p \<longleftrightarrow> field p ''month'' \<noteq> [] \<and> field p ''year'' \<noteq> []"
  "form_complete trackSteps p \<longleftrightarrow> field p ''requestId'' \<noteq> [] \<or> field p ''patientId'' \<noteq> []"
  by (auto simp: form_complete_def patientSteps_def emergencySteps_def reportSteps_def trackSteps_def
      step_errors_def validateRequired_Nil_iff less_Suc_eq all_conj_distrib)

text \<open>
  C39. Every record the hospital dashboard hands to the mock API is complete: each
  patient has name, age, gender, mobile, hospital id, blood group, doctor, department,
  ward, admission date and urgency filled in, each emergency request all nine of its
  fields, each report request its month and year, and each tracking query a request
  id or a patient id.
\<close>

theorem hospital_payloads_complete:
  assumes "hospital_reachable s"
  shows "(\<forall>p \<in> set (w_outbox (patientWz s)). \<forall>f \<in> set [''name'', ''age'', ''gender'', ''mobile'', ''hospitalId'',
           ''bloodGroup'', ''doctor'', ''department'', ''ward'', ''admissionDate'', ''urgency'']. field p f \<noteq> []) \<and>
         (\<forall>p \<in> set (w_outbox (emergencyWz s)). \<forall>f \<in> set [''patientName'', ''hospitalId'', ''bloodGroup'', ''units'',
           ''urgency'', ''timeNeeded'', ''location'', ''contactPerson'', ''contactNumber'']. field p f \<noteq> []) \<and>
         (\<forall>p \<in> set (w_outbox (reportWz s)). field p ''month'' \<noteq> [] \<and> field p ''year'' \<noteq> []) \<and>
         (\<forall>p \<in> set (w_outbox (trackWz s)). field p ''requestId'' \<noteq> [] \<or> field p ''patientId'' \<noteq> [])"
proof -
  have c: "form_complete (wh_steps (hospital_host w)) p" if "p \<in> set (w_outbox (hospital_wz w s))" for w p
    using hospital_outbox_complete [OF assms that] .
  show ?thesis
    using c [where w = PatientWizard] c [where w = EmergencyWizard] c [where w = ReportWizard] c [where w = TrackWizard]
    by (simp add: hospital_wz_def hospital_host_def patientHost_def emergencyHost_def reportHost_def
        trackHost_def form_complete_hospital)
qed

lemma demo_hospital_reach:
  "hospital_reachable (hospital_set_wz TrackWizard (fold (wz_handle trackHost) demo_track_run (wz_init trackHost)) hospital_init)"
  using hospital_reachable_run [OF hospital_reachable.init, of TrackWizard demo_track_run] demo_track_run_ok
  by (simp add: hospital_host_def hospital_wz_def hospital_init_def)

theorem hospital_payloads_complete_witness:
  "field (set_field ''requestId'' ''R1'' initialTrack) ''requestId'' @
   field (set_field ''requestId'' ''R1'' initialTrack) ''patientId'' \<noteq> []"
proof -
  have e: "trackWz (hospital_set_wz TrackWizard x t) = x" for x t by (simp add: hospital_set_wz_def)
  have "set_field ''requestId'' ''R1'' initialTrack \<in> set (w_outbox (trackWz
          (hospital_set_wz TrackWizard (fold (wz_handle trackHost) demo_track_run (wz_init trackHost)) hospital_init)))"
    by (simp only: e demo_track_outbox) simp
  with hospital_payloads_complete [OF demo_hospital_reach] show ?thesis by auto
qed

text \<open>The console identifies the dialog of every logged call, and every logged
  payload is complete for that dialog's steps.\<close>

lemma mock_log_label_inj: "mock_log_label (hospital_endpoint w) = mock_log_label (hospital_endpoint w') \<longleftrightarrow> w = w'"
  by (cases w; cases w') (simp_all add: mock_log_label_def hospital_endpoint_def)

lemma api_console_complete:
  assumes "hospital_reachable s" "(lbl, p) \<in> set (api_console s w)"
  shows "lbl = mock_log_label (hospital_endpoint w) \<and> form_complete (wh_steps (hospital_host w)) p"
  using assms(2) hospital_outbox_complete [OF assms(1)] by (auto simp: api_console_def mockApi_def)

end
