(* ===== verification/Spoilage.thy ===== *)
theory Spoilage
  imports Requests "HOL-Library.Product_Lexorder" "HOL-Library.Multiset"
begin

text \<open>
  The spoilage tracker BloodSpoilageModule.tsx. Each donor of \<open>requests.json\<close> is
  classified by the whole days since its donation time (\<open>Math.floor\<close> of the
  millisecond difference over a day; both times are integers of milliseconds below
  \<open>2^53\<close>, where the floating-point quotient floors to the integer quotient), then
  the list is sorted with the page's comparator and summarised. The clock
  (\<open>new Date()\<close>) and the parse of a donation time (\<open>new Date(s).getTime()\<close>)
  are inputs; an unparsable time, which makes every comparison false and the sort
  order implementation-defined, is not modelled. The page's own copy of a donor
  carries the status of its class; its locale date string is computed when a row is
  rendered, from the donation time. The last part models the rendered page and
  proves that its tables agree with the summary and their badges with the sections.
\<close>

definition SPOILAGE_DAYS :: int where
  "SPOILAGE_DAYS = 42"

record spoilageEntry =
  se_donor :: donorRequest
  daysSinceDonation :: int
  daysUntilSpoilage :: int
  isSpoiled :: bool
  isExpiringSoon :: bool
  isFutureDonation :: bool
  se_status :: string

definition classify_donation :: "int \<Rightarrow> (string \<Rightarrow> int) \<Rightarrow> donorRequest \<Rightarrow> spoilageEntry" where
  "classify_donation now parse donor =
     (let days = (now - parse (dn_donation_time donor)) div (1000 * 60 * 60 * 24)
      in if days < 0 then
           \<lparr>se_donor = donor, daysSinceDonation = 0, daysUntilSpoilage = SPOILAGE_DAYS, isSpoiled = False,
            isExpiringSoon = False, isFutureDonation = True, se_status = ''Scheduled''\<rparr>
         else
           (let daysUntil = SPOILAGE_DAYS - days;
                spoiled = daysUntil \<le> 0;
                expiring = daysUntil \<le> 7 \<and> daysUntil > 0
            in \<lparr>se_donor = donor, daysSinceDonation = days, daysUntilSpoilage = (if spoiled then 0 else daysUntil),
                isSpoiled = spoiled, isExpiringSoon = expiring, isFutureDonation = False,
                se_status = (if spoiled then ''Spoiled'' else if expiring then ''Expiring Soon'' else ''Fresh'')\<rparr>))"

text \<open>The comparator orders future donations first, then by days until spoilage;
  its sign is that of the comparison of this key, and \<open>Array.prototype.sort\<close> is
  stable, as \<open>sort_key\<close> is.\<close>

definition spoilage_key :: "spoilageEntry \<Rightarrow> int \<times> int" where
  "spoilage_key e = (if isFutureDonation e then 0 else 1, daysUntilSpoilage e)"

definition spoilage_cmp :: "spoilageEntry \<Rightarrow> spoilageEntry \<Rightarrow> int" where
  "spoilage_cmp a b =
     (if isFutureDonation a \<and> \<not> isFutureDonation b then -1
      else if \<not> isFutureDonation a \<and> isFutureDonation b then 1
      else daysUntilSpoilage a - daysUntilSpoilage b)"

definition spoilageData :: "int \<Rightarrow> (string \<Rightarrow> int) \<Rightarrow> donorRequest list \<Rightarrow> spoilageEntry list" where
  "spoilageData now parse donors = sort_key spoilage_key (map (classify_donation now parse) donors)"

record spoilageSummary =
  sm_total :: int
  sm_spoiled :: int
  sm_expiringSoon :: int
  sm_fresh :: int
  sm_futureDonations :: int
  freshDonations :: "spoilageEntry list"
  expiringDonations :: "spoilageEntry list"
  spoiledDonations :: "spoilageEntry list"
  futureDonationsList :: "spoilageEntry list"

definition summary :: "spoilageEntry list \<Rightarrow> spoilageSummary" where
  "summary ds =
     (let total = int (length ds);
          spoiled = int (length (filter isSpoiled ds));
          expiringSoon = int (length (filter isExpiringSoon ds));
          futureDonations = int (length (filter isFutureDonation ds))
      in \<lparr>sm_total = total, sm_spoiled = spoiled, sm_expiringSoon = expiringSoon,
          sm_fresh = total - spoiled - expiringSoon - futureDonations, sm_futureDonations = futureDonations,
          freshDonations = filter (\<lambda>d. \<not> isSpoiled d \<and> \<not> isExpiringSoon d \<and> \<not> isFutureDonation d) ds,
          expiringDonations = filter isExpiringSoon ds, spoiledDonations = filter isSpoiled ds,
          futureDonationsList = filter isFutureDonation ds\<rparr>)"

definition getStatusClass :: "string \<Rightarrow> string" where
  "getStatusClass status =
     (if status = ''Spoiled'' then ''status-badge--spoiled''
      else if status = ''Expiring Soon'' then ''status-badge--expiring''
      else if status = ''Scheduled'' then ''status-badge--scheduled''
      else ''status-badge--fresh'')"

definition getDaysClass :: "int \<Rightarrow> bool \<Rightarrow> bool \<Rightarrow> string" where
  "getDaysClass days spoiled future =
     (if future then ''days-badge--scheduled'' else if spoiled then ''days-badge--spoiled''
      else if days \<le> 7 then ''days-badge--expiring'' else ''days-badge--fresh'')"


text \<open>The classes and bounds every classified entry satisfies.\<close>

definition entry_ok :: "spoilageEntry \<Rightarrow> bool" where
  "entry_ok e \<longleftrightarrow> \<not> (isSpoiled e \<and> isExpiringSoon e) \<and> (isFutureDonation e \<longrightarrow> \<not> isSpoiled e \<and> \<not> isExpiringSoon e) \<and>
     0 \<le> daysUntilSpoilage e \<and> daysUntilSpoilage e \<le> SPOILAGE_DAYS \<and>
     (isFutureDonation e \<longrightarrow> daysUntilSpoilage e = SPOILAGE_DAYS)"

abbreviation demo_donor :: "string \<Rightarrow> donorRequest" where
  "demo_donor t \<equiv> \<lparr>dn_name = ''Asha'', dn_phone = ''9000000002'', dn_aadhar = ''432143214321'',
      dn_blood_group = ''B+'', dn_donation_time = t, dn_location = ''Vizag'', dn_status = ''Pending'',
      dn_accepted_at = None\<rparr>"

subsection \<open>The rendered page\<close>

text \<open>What the page renders from the summary: the four cards, the three sections
  (a table with one row per listed donation while the section's count is positive,
  its empty-state message otherwise) and the warning and alert boxes. A row's cells
  are the strings the JSX interpolates; \<open>fmt\<close> is \<open>toLocaleDateString\<close> of the
  parsed donation time, an input as the parse is. The section titles' emoji are
  left out of the strings.\<close>

record spoilageRow =
  row_key :: string
  row_name :: string
  row_blood_group :: string
  row_location :: string
  row_date :: string
  row_since :: string
  row_days_class :: string
  row_days_text :: string
  row_status_class :: string
  row_status :: string

definition spoilage_row :: "string \<Rightarrow> bool \<Rightarrow> (string \<Rightarrow> string) \<Rightarrow> nat \<Rightarrow> spoilageEntry \<Rightarrow> spoilageRow" where
  "spoilage_row prefix spoiled_text fmt index d =
     \<lparr>row_key = prefix @ ''-'' @ dn_aadhar (se_donor d) @ ''-'' @ js_nat_string index,
      row_name = dn_name (se_donor d), row_blood_group = dn_blood_group (se_donor d),
      row_location = dn_location (se_donor d), row_date = fmt (dn_donation_time (se_donor d)),
      row_since = js_int_string (daysSinceDonation d) @ '' days'',
      row_days_class = ''days-badge '' @ getDaysClass (daysUntilSpoilage d) (isSpoiled d) (isFutureDonation d),
      row_days_text = (if spoiled_text then ''Spoiled'' else js_int_string (daysUntilSpoilage d) @ '' days''),
      row_status_class = ''status-badge '' @ getStatusClass (se_status d),
      row_status = se_status d\<rparr>"

datatype section_body = SectionTable "spoilageRow list" | EmptyState string

record spoilageSection =
  sec_title :: string
  sec_body :: section_body

definition spoilage_section ::
  "string \<Rightarrow> string \<Rightarrow> string \<Rightarrow> bool \<Rightarrow> (string \<Rightarrow> string) \<Rightarrow> int \<Rightarrow> spoilageEntry list \<Rightarrow> spoilageSection" where
  "spoilage_section title prefix empty_msg spoiled_text fmt n ds =
     \<lparr>sec_title = title @ '' ('' @ js_int_string n @ '')'',
      sec_body = (if n > 0 then SectionTable (map2 (spoilage_row prefix spoiled_text fmt) [0..<length ds] ds)
                  else EmptyState empty_msg)\<rparr>"

definition plural_s :: "int \<Rightarrow> string" where
  "plural_s n = (if n \<noteq> 1 then ''s'' else '''')"

definition warning_box :: "int \<Rightarrow> string option" where
  "warning_box n =
     (if n > 0 then Some (js_int_string n @ '' blood donation'' @ plural_s n @
        '' will expire within 7 days. Please prioritize usage of these units.'') else None)"

definition alert_box :: "int \<Rightarrow> string option" where
  "alert_box n =
     (if n > 0 then Some (js_int_string n @ '' blood donation'' @ plural_s n @
        '' has/have already expired and should be disposed of immediately.'') else None)"

record spoilagePage =
  card_total :: int
  card_fresh :: int
  card_expiring :: int
  card_spoiled :: int
  sec_fresh :: spoilageSection
  sec_expiring :: spoilageSection
  sec_spoiled :: spoilageSection
  warning :: "string option"
  alert :: "string option"

definition spoilage_page :: "(string \<Rightarrow> string) \<Rightarrow> spoilageEntry list \<Rightarrow> spoilagePage" where
  "spoilage_page fmt ds =
     (let s = summary ds
      in \<lparr>card_total = sm_total s, card_fresh = sm_fresh s, card_expiring = sm_expiringSoon s,
          card_spoiled = sm_spoiled s,
          sec_fresh = spoilage_section ''Fresh Donations'' ''fresh'' ''No fresh donations available.'' False fmt
                        (sm_fresh s) (freshDonations s),
          sec_expiring = spoilage_section ''Expiring Soon'' ''expiring'' ''No donations expiring soon.'' False fmt
                        (sm_expiringSoon s) (expiringDonations s),
          sec_spoiled = spoilage_section ''Spoiled Donations'' ''spoiled'' ''No spoiled donations.'' True fmt
                        (sm_spoiled s) (spoiledDonations s),
          warning = warning_box (sm_expiringSoon s), alert = alert_box (sm_spoiled s)\<rparr>)"

text \<open>The badge kind of an entry, and the rows of a section's body.\<close>

definition badge_kind :: "spoilageEntry \<Rightarrow> string" where
  "badge_kind e = (if isFutureDonation e then ''scheduled'' else if isSpoiled e then ''spoiled''
     else if isExpiringSoon e then ''expiring'' else ''fresh'')"

fun section_rows :: "section_body \<Rightarrow> spoilageRow list" where
  "section_rows (SectionTable rs) = rs"
| "section_rows (EmptyState m) = []"

subsection \<open>Lemmas\<close>

lemma classify_entry_ok: "entry_ok (classify_donation now parse donor)"
  by (auto simp: entry_ok_def classify_donation_def Let_def SPOILAGE_DAYS_def)

lemma spoilageData_entries: "e \<in> set (spoilageData now parse donors) \<Longrightarrow> entry_ok e"
  by (auto simp: spoilageData_def classify_entry_ok)

lemma mset_spoilageData: "mset (spoilageData now parse donors) = mset (map (classify_donation now parse) donors)"
  by (simp add: spoilageData_def)

lemma sorted_spoilageData: "sorted (map spoilage_key (spoilageData now parse donors))"
  by (simp add: spoilageData_def)

lemma spoilage_cmp_key:
  assumes "entry_ok a" "entry_ok b"
  shows "(spoilage_cmp a b < 0 \<longleftrightarrow> spoilage_key a < spoilage_key b) \<and>
         (spoilage_cmp a b = 0 \<longleftrightarrow> spoilage_key a = spoilage_key b)"
  using assms by (auto simp: spoilage_cmp_def spoilage_key_def entry_ok_def less_prod_def)

lemma partition_entries:
  assumes "\<forall>e \<in> set ds. entry_ok e"
  shows "mset ds = mset (filter (\<lambda>d. \<not> isSpoiled d \<and> \<not> isExpiringSoon d \<and> \<not> isFutureDonation d) ds) +
           mset (filter isExpiringSoon ds) + mset (filter isSpoiled ds) + mset (filter isFutureDonation ds)"
  using assms by (induction ds) (auto simp: entry_ok_def)

lemma length_partition_entries:
  assumes "\<forall>e \<in> set ds. entry_ok e"
  shows "length ds = length (filter (\<lambda>d. \<not> isSpoiled d \<and> \<not> isExpiringSoon d \<and> \<not> isFutureDonation d) ds) +
           length (filter isExpiringSoon ds) + length (filter isSpoiled ds) + length (filter isFutureDonation ds)"
  using assms by (induction ds) (auto simp: entry_ok_def)

lemma summary_fresh_count:
  assumes "\<forall>e \<in> set ds. entry_ok e"
  shows "sm_fresh (summary ds) = int (length (freshDonations (summary ds)))"
  using length_partition_entries [OF assms] by (simp add: summary_def Let_def)

text \<open>
  C40. The summary cards add up: the fresh count, computed as the total minus the
  spoiled, expiring and scheduled counts, is the number of donations listed as fresh;
  the four lists partition the donations; and every donation's days until spoilage
  lies between 0 and the 42-day shelf life.
\<close>

theorem spoilage_summary_partition:
  "sm_fresh (summary (spoilageData now parse donors)) = int (length (freshDonations (summary (spoilageData now parse donors)))) \<and>
   mset (spoilageData now parse donors) =
     mset (freshDonations (summary (spoilageData now parse donors))) + mset (expiringDonations (summary (spoilageData now parse donors))) +
     mset (spoiledDonations (summary (spoilageData now parse donors))) + mset (futureDonationsList (summary (spoilageData now parse donors))) \<and>
   (\<forall>e \<in> set (spoilageData now parse donors). 0 \<le> daysUntilSpoilage e \<and> daysUntilSpoilage e \<le> SPOILAGE_DAYS)"
proof -
  have ok: "\<forall>e \<in> set (spoilageData now parse donors). entry_ok e" using spoilageData_entries by blast
  show ?thesis
    using summary_fresh_count [OF ok] partition_entries [OF ok] ok by (simp add: summary_def Let_def entry_ok_def)
qed

theorem spoilage_summary_partition_witness:
  "sm_fresh (summary (spoilageData (50 * 86400000) (\<lambda>t. if t = ''old'' then 0 else 45 * 86400000)
      [demo_donor ''old'', demo_donor ''new''])) = 1"
  using spoilage_summary_partition [of "50 * 86400000" "\<lambda>t. if t = ''old'' then 0 else 45 * 86400000"
      "[demo_donor ''old'', demo_donor ''new'']"]
  by (simp add: summary_def spoilageData_def classify_donation_def spoilage_key_def SPOILAGE_DAYS_def)

subsection \<open>The rendered sections\<close>

text \<open>Each section's table lists exactly the summary's list for it, every row's two
  badges agree with the section it sits in (so no rendered row carries the scheduled
  classes), and the tables show every donation but the scheduled ones.\<close>

lemma section_rows_count:
  "section_rows (sec_body (spoilage_section t p m b fmt (int (length ds)) ds)) = map2 (spoilage_row p b fmt) [0..<length ds] ds"
  by (cases ds) (simp_all add: spoilage_section_def)

lemma section_rows_sub:
  assumes "r \<in> set (section_rows (sec_body (spoilage_section t p m b fmt n ds)))"
  shows "\<exists>i d. d \<in> set ds \<and> r = spoilage_row p b fmt i d"
proof -
  have "r \<in> set (map2 (spoilage_row p b fmt) [0..<length ds] ds)"
    using assms by (simp add: spoilage_section_def split: if_splits)
  then show ?thesis by (rule set_map2_upt)
qed

lemma spoilage_page_rows:
  assumes "\<forall>e \<in> set ds. entry_ok e"
  shows "section_rows (sec_body (sec_fresh (spoilage_page fmt ds))) = map2 (spoilage_row ''fresh'' False fmt) [0..<length (freshDonations (summary ds))] (freshDonations (summary ds))"
    and "section_rows (sec_body (sec_expiring (spoilage_page fmt ds))) = map2 (spoilage_row ''expiring'' False fmt) [0..<length (expiringDonations (summary ds))] (expiringDonations (summary ds))"
    and "section_rows (sec_body (sec_spoiled (spoilage_page fmt ds))) = map2 (spoilage_row ''spoiled'' True fmt) [0..<length (spoiledDonations (summary ds))] (spoiledDonations (summary ds))"
  using section_rows_count summary_fresh_count [OF assms]
  by (simp_all add: spoilage_page_def Let_def) (simp_all add: summary_def Let_def)

lemma classify_badges:
  "getDaysClass (daysUntilSpoilage (classify_donation now parse donor)) (isSpoiled (classify_donation now parse donor))
      (isFutureDonation (classify_donation now parse donor)) = ''days-badge--'' @ badge_kind (classify_donation now parse donor) \<and>
   getStatusClass (se_status (classify_donation now parse donor)) = ''status-badge--'' @ badge_kind (classify_donation now parse donor)"
  by (simp add: classify_donation_def Let_def getDaysClass_def getStatusClass_def badge_kind_def SPOILAGE_DAYS_def)

lemma spoilageData_classified: "e \<in> set (spoilageData now parse donors) \<Longrightarrow> \<exists>donor. e = classify_donation now parse donor"
  by (auto simp: spoilageData_def)

lemma spoilageData_badges:
  "e \<in> set (spoilageData now parse donors) \<Longrightarrow>
     row_days_class (spoilage_row p b fmt i e) = ''days-badge days-badge--'' @ badge_kind e \<and>
     row_status_class (spoilage_row p b fmt i e) = ''status-badge status-badge--'' @ badge_kind e"
proof -
  assume "e \<in> set (spoilageData now parse donors)"
  then obtain donor where "e = classify_donation now parse donor" using spoilageData_classified by blast
  then show ?thesis using classify_badges [of now parse donor] by (simp add: spoilage_row_def)
qed

lemma summary_kinds:
  assumes "\<forall>e \<in> set ds. entry_ok e"
  shows "d \<in> set (freshDonations (summary ds)) \<Longrightarrow> d \<in> set ds \<and> badge_kind d = ''fresh''"
    and "d \<in> set (expiringDonations (summary ds)) \<Longrightarrow> d \<in> set ds \<and> badge_kind d = ''expiring''"
    and "d \<in> set (spoiledDonations (summary ds)) \<Longrightarrow> d \<in> set ds \<and> badge_kind d = ''spoiled''"
  using assms by (auto simp: summary_def Let_def badge_kind_def entry_ok_def)

lemma section_badges:
  assumes "r \<in> set (section_rows (sec_body (spoilage_section t p m b fmt n ls)))"
      and "\<And>d. d \<in> set ls \<Longrightarrow> d \<in> set (spoilageData now parse donors) \<and> badge_kind d = k"
  shows "row_days_class r = ''days-badge days-badge--'' @ k \<and> row_status_class r = ''status-badge status-badge--'' @ k"
proof -
  obtain i d where "d \<in> set ls" "r = spoilage_row p b fmt i d" using section_rows_sub [OF assms(1)] by blast
  then show ?thesis using assms(2) [of d] spoilageData_badges [of d now parse donors p b fmt i] by simp
qed

lemma spoilage_page_badges:
  fixes now parse donors fmt
  defines "P \<equiv> spoilage_page fmt (spoilageData now parse donors)"
  shows "r \<in> set (section_rows (sec_body (sec_fresh P))) \<Longrightarrow>
           row_days_class r = ''days-badge days-badge--fresh'' \<and> row_status_class r = ''status-badge status-badge--fresh''"
    and "r \<in> set (section_rows (sec_body (sec_expiring P))) \<Longrightarrow>
           row_days_class r = ''days-badge days-badge--expiring'' \<and> row_status_class r = ''status-badge status-badge--expiring''"
    and "r \<in> set (section_rows (sec_body (sec_spoiled P))) \<Longrightarrow>
           row_days_class r = ''days-badge days-badge--spoiled'' \<and> row_status_class r = ''status-badge status-badge--spoiled''"
proof -
  have ok: "\<forall>e \<in> set (spoilageData now parse donors). entry_ok e" using spoilageData_entries by blast
  show "r \<in> set (section_rows (sec_body (sec_fresh P))) \<Longrightarrow>
           row_days_class r = ''days-badge days-badge--fresh'' \<and> row_status_class r = ''status-badge status-badge--fresh''"
    unfolding P_def spoilage_page_def Let_def using section_badges [OF _ summary_kinds(1) [OF ok]] by simp
  show "r \<in> set (section_rows (sec_body (sec_expiring P))) \<Longrightarrow>
           row_days_class r = ''days-badge days-badge--expiring'' \<and> row_status_class r = ''status-badge status-badge--expiring''"
    unfolding P_def spoilage_page_def Let_def using section_badges [OF _ summary_kinds(2) [OF ok]] by simp
  show "r \<in> set (section_rows (sec_body (sec_spoiled P))) \<Longrightarrow>
           row_days_class r = ''days-badge days-badge--spoiled'' \<and> row_status_class r = ''status-badge status-badge--spoiled''"
    unfolding P_def spoilage_page_def Let_def using section_badges [OF _ summary_kinds(3) [OF ok]] by simp
qed

lemma spoilage_page_shown:
  "length (section_rows (sec_body (sec_fresh (spoilage_page fmt (spoilageData now parse donors))))) +
   length (section_rows (sec_body (sec_expiring (spoilage_page fmt (spoilageData now parse donors))))) +
   length (section_rows (sec_body (sec_spoiled (spoilage_page fmt (spoilageData now parse donors))))) =
   length donors - length (futureDonationsList (summary (spoilageData now parse donors)))"
proof -
  have ok: "\<forall>e \<in> set (spoilageData now parse donors). entry_ok e" using spoilageData_entries by blast
  have "length (spoilageData now parse donors) = length donors" by (simp add: spoilageData_def)
  then show ?thesis
    using spoilage_page_rows [OF ok, of fmt] length_partition_entries [OF ok] by (simp add: summary_def Let_def)
qed

lemma spoilage_page_demo:
  "alert (spoilage_page id (spoilageData (50 * 86400000) (\<lambda>t. if t = ''old'' then 0 else 45 * 86400000)
      [demo_donor ''old'', demo_donor ''new''])) =
     Some ''1 blood donation has/have already expired and should be disposed of immediately.'' \<and>
   sec_body (sec_expiring (spoilage_page id (spoilageData (50 * 86400000) (\<lambda>t. if t = ''old'' then 0 else 45 * 86400000)
      [demo_donor ''old'', demo_donor ''new'']))) = EmptyState ''No donations expiring soon.''"
  by (simp add: spoilage_page_def summary_def spoilageData_def classify_donation_def spoilage_key_def
      SPOILAGE_DAYS_def alert_box_def plural_s_def spoilage_section_def js_int_string_def js_nat_string.simps js_string_eval)

end
