(* ===== verification/Search.thy ===== *)
theory Search
  imports Matcher "HOL-Library.Multiset"
begin

text \<open>
  The state and district lists (services/stateService.ts and the copies at the top
  of BloodAvailabilityModule.tsx) and the blood-availability search of
  BloodAvailabilityModule.tsx. \<open>states.json\<close> is its \<open>India\<close> object, an
  association list from state to districts with distinct keys (\<open>None\<close> when the
  key is missing). \<open>localeCompare\<close> orders strings by the locale's collation,
  which ICU computes as a comparison of sort keys: the collation is a parameter
  \<open>coll\<close> from a string to its key, and \<open>sort\<close> with that comparator, which is
  stable, is \<open>sort_key\<close>. The search's state is the component's React state;
  its events are the form's controls and its submit.
\<close>

type_synonym states_json = "(string \<times> string list) list option"

definition getStates :: "(string \<Rightarrow> 'k::linorder) \<Rightarrow> states_json \<Rightarrow> string list" where
  "getStates coll india = sort_key coll (map fst (case india of None \<Rightarrow> [] | Some m \<Rightarrow> m))"

definition getDistricts :: "(string \<Rightarrow> 'k::linorder) \<Rightarrow> states_json \<Rightarrow> string \<Rightarrow> string list" where
  "getDistricts coll india st =
     sort_key coll (case india of None \<Rightarrow> [] | Some m \<Rightarrow> (case map_of m st of None \<Rightarrow> [] | Some ds \<Rightarrow> ds))"

record availability =
  av_state :: string
  av_district :: string
  av_bloodGroup :: string
  av_patientName :: string
  av_results :: "bloodBank list"
  av_submitted :: bool

definition av_init :: availability where
  "av_init = \<lparr>av_state = [], av_district = [], av_bloodGroup = ''A+'', av_patientName = [],
     av_results = [], av_submitted = False\<rparr>"

text \<open>\<open>Object.values(banksRaw).flat()\<close>: the arrays of \<open>b.json\<close>, concatenated.\<close>

definition av_banks :: "bloodBank list list \<Rightarrow> bloodBank list" where
  "av_banks entries = concat entries"

definition av_districts :: "(string \<Rightarrow> 'k::linorder) \<Rightarrow> states_json \<Rightarrow> availability \<Rightarrow> string list" where
  "av_districts coll india s = (if av_state s = [] then [] else getDistricts coll india (av_state s))"

definition bank_matches :: "availability \<Rightarrow> bloodBank \<Rightarrow> bool" where
  "bank_matches s b \<longleftrightarrow>
     (av_state s = [] \<or> bb_state b = av_state s) \<and> (av_district s = [] \<or> bb_district b = av_district s) \<and>
     av_bloodGroup s \<in> set (blood_groups_available b)"

definition av_handleSubmit :: "(string \<Rightarrow> 'k::linorder) \<Rightarrow> bloodBank list \<Rightarrow> availability \<Rightarrow> availability" where
  "av_handleSubmit coll banks s =
     (if av_state s = [] \<or> av_district s = [] then s\<lparr>av_submitted := True, av_results := []\<rparr>
      else s\<lparr>av_results := sort_key (\<lambda>b. coll (bb_name b)) (filter (bank_matches s) banks), av_submitted := True\<rparr>)"

text \<open>The state select clears the district; the other controls set their field.\<close>

definition av_selectState :: "string \<Rightarrow> availability \<Rightarrow> availability" where
  "av_selectState v s = s\<lparr>av_state := v, av_district := []\<rparr>"

text \<open>The card's status class: \<open>availability.toLowerCase().replace(/\s+/g, "-")\<close>.\<close>

function replace_ws :: "string \<Rightarrow> string" where
  "replace_ws [] = []"
| "replace_ws (c # cs) =
     (if is_js_space c then CHR ''-'' # replace_ws (dropWhile is_js_space cs) else c # replace_ws cs)"
  by pat_completeness auto
termination
  by (relation "measure length") (auto simp: le_imp_less_Suc length_dropWhile_le)

definition status_class :: "string \<Rightarrow> string" where
  "status_class avail = ''availability-status--'' @ replace_ws (js_lower avail)"

text \<open>The empty-state message shows exactly when a submitted search found nothing.\<close>

definition av_show_empty :: "availability \<Rightarrow> bool" where
  "av_show_empty s \<longleftrightarrow> av_submitted s \<and> av_results s = []"


text \<open>The form's controls as events (the district select is disabled until a state
  is chosen; the required patient name blocks the submission while empty), the
  page's runs, and what it renders: the results header, which reads the current
  filters, and one card per result.\<close>

definition av_bloodGroups :: "string list" where
  "av_bloodGroups = [''A+'', ''A-'', ''B+'', ''B-'', ''AB+'', ''AB-'', ''O+'', ''O-'']"

datatype av_event = AvPatientName string | AvBloodGroup string | AvState string | AvDistrict string
  | AvSubmit | AvBecomeDonor

definition av_enabled :: "(string \<Rightarrow> 'k::linorder) \<Rightarrow> states_json \<Rightarrow> availability \<Rightarrow> av_event \<Rightarrow> bool" where
  "av_enabled coll india s e =
     (case e of
        AvPatientName v \<Rightarrow> True
      | AvBloodGroup v \<Rightarrow> v \<in> set av_bloodGroups
      | AvState v \<Rightarrow> v \<in> set ([] # getStates coll india)
      | AvDistrict v \<Rightarrow> av_state s \<noteq> [] \<and> v \<in> set ([] # av_districts coll india s)
      | AvSubmit \<Rightarrow> av_patientName s \<noteq> []
      | AvBecomeDonor \<Rightarrow> True)"

definition av_step ::
  "(string \<Rightarrow> 'k::linorder) \<Rightarrow> bloodBank list \<Rightarrow> av_event \<Rightarrow> availability \<Rightarrow> availability \<times> string option" where
  "av_step coll banks e s =
     (case e of
        AvPatientName v \<Rightarrow> (s\<lparr>av_patientName := v\<rparr>, None)
      | AvBloodGroup v \<Rightarrow> (s\<lparr>av_bloodGroup := v\<rparr>, None)
      | AvState v \<Rightarrow> (av_selectState v s, None)
      | AvDistrict v \<Rightarrow> (s\<lparr>av_district := v\<rparr>, None)
      | AvSubmit \<Rightarrow> (av_handleSubmit coll banks s, None)
      | AvBecomeDonor \<Rightarrow> (s, Some ''/user/donor-registration''))"

inductive av_reachable :: "(string \<Rightarrow> 'k::linorder) \<Rightarrow> states_json \<Rightarrow> bloodBank list \<Rightarrow> availability \<Rightarrow> bool"
  for coll india banks where
  av_start: "av_reachable coll india banks av_init"
| av_event: "av_reachable coll india banks s \<Longrightarrow> av_enabled coll india s e \<Longrightarrow>
     av_reachable coll india banks (fst (av_step coll banks e s))"

definition av_header :: "availability \<Rightarrow> string" where
  "av_header s =
     (if av_state s \<noteq> [] \<and> av_district s \<noteq> []
      then ''Showing banks offering '' @ av_bloodGroup s @ '' in '' @ av_district s @ '', '' @ av_state s
      else ''Select state and district to view matches.'')"

record availabilityCard =
  avc_key :: string
  avc_name :: string
  avc_location :: string
  avc_badge :: string
  avc_meta :: "string list"
  avc_statusClass :: string
  avc_chips :: "string list"

definition av_card :: "(string \<Rightarrow> string) \<Rightarrow> bloodBank \<Rightarrow> availabilityCard" where
  "av_card fmt bank =
     \<lparr>avc_key = bb_name bank @ ''-'' @ bb_phone bank, avc_name = bb_name bank, avc_location = bb_location bank,
      avc_badge = bb_district bank, avc_meta = [bb_state bank, bb_phone bank, availability bank, fmt (last_updated bank)],
      avc_statusClass = ''availability-status '' @ status_class (availability bank),
      avc_chips = blood_groups_available bank\<rparr>"

definition av_district_placeholder :: "availability \<Rightarrow> string" where
  "av_district_placeholder s = (if av_state s \<noteq> [] then ''Select district'' else ''Choose state first'')"

definition av_district_ok :: "(string \<Rightarrow> 'k::linorder) \<Rightarrow> states_json \<Rightarrow> availability \<Rightarrow> bool" where
  "av_district_ok coll india s \<longleftrightarrow> av_district s = [] \<or> av_district s \<in> set (av_districts coll india s)"

subsection \<open>Lemmas\<close>

lemma getStates_sorted: "sorted (map coll (getStates coll india))" "mset (getStates coll india) = mset (map fst (case india of None \<Rightarrow> [] | Some m \<Rightarrow> m))"
  by (simp_all add: getStates_def)

lemma av_handleSubmit_results:
  assumes "av_state s \<noteq> []" "av_district s \<noteq> []"
  shows "mset (av_results (av_handleSubmit coll banks s)) = mset (filter (bank_matches s) banks) \<and>
         sorted (map (\<lambda>b. coll (bb_name b)) (av_results (av_handleSubmit coll banks s)))"
  using assms by (simp add: av_handleSubmit_def)

lemma av_handleSubmit_sound:
  "b \<in> set (av_results (av_handleSubmit coll banks s)) \<Longrightarrow>
   b \<in> set banks \<and> bb_state b = av_state s \<and> bb_district b = av_district s \<and> av_bloodGroup s \<in> set (blood_groups_available b)"
  by (auto simp: av_handleSubmit_def bank_matches_def split: if_splits)

lemma av_handleSubmit_incomplete:
  "av_state s = [] \<or> av_district s = [] \<Longrightarrow> av_show_empty (av_handleSubmit coll banks s)"
  by (auto simp: av_handleSubmit_def av_show_empty_def)

lemma replace_ws_no_space: "c \<in> set (replace_ws s) \<Longrightarrow> \<not> is_js_space c"
  by (induction s rule: replace_ws.induct) (auto split: if_splits simp: is_js_space_def)

lemma status_class_demo: "status_class ''Critical  Low'' = ''availability-status--critical-low''"
  by (simp add: status_class_def js_string_eval)

text \<open>A selected district always belongs to the selected state. The results are
  those of the last submission while the header describes the current filters, so
  after a search a change of blood group announces banks offering the new group
  above cards that do not offer it.\<close>

lemma av_reachable_district_ok: "av_reachable coll india banks s \<Longrightarrow> av_district_ok coll india s"
proof (induction rule: av_reachable.induct)
  case av_start
  then show ?case by (simp add: av_district_ok_def av_init_def)
next
  case (av_event s e)
  then show ?case
    by (cases e) (auto simp: av_step_def av_enabled_def av_district_ok_def av_districts_def av_selectState_def
        av_handleSubmit_def)
qed

lemma av_results_stale:
  defines "india \<equiv> Some [(''Goa'', [''North Goa''])]"
    and "bank \<equiv> \<lparr>bb_name = ''Goa Bank'', bb_state = ''Goa'', bb_district = ''North Goa'', bb_location = ''Panaji'',
                 bb_phone = ''1'', blood_groups_available = [''A+''], availability = ''Available'',
                 last_updated = ''2025-01-01'', coords = None\<rparr>"
  shows "\<exists>s. av_reachable String.implode india [bank] s \<and>
           av_header s = ''Showing banks offering B+ in North Goa, Goa'' \<and>
           av_results s = [bank] \<and> ''B+'' \<notin> set (blood_groups_available bank)"
proof -
  let ?s1 = "fst (av_step String.implode [bank] (AvPatientName ''Ravi'') av_init)"
  let ?s2 = "fst (av_step String.implode [bank] (AvState ''Goa'') ?s1)"
  let ?s3 = "fst (av_step String.implode [bank] (AvDistrict ''North Goa'') ?s2)"
  let ?s4 = "fst (av_step String.implode [bank] AvSubmit ?s3)"
  let ?s5 = "fst (av_step String.implode [bank] (AvBloodGroup ''B+'') ?s4)"
  have r1: "av_reachable String.implode india [bank] ?s1"
    by (rule av_event [OF av_start]) (simp add: av_enabled_def)
  have r2: "av_reachable String.implode india [bank] ?s2"
    by (rule av_event [OF r1]) (simp add: av_enabled_def getStates_def india_def)
  have r3: "av_reachable String.implode india [bank] ?s3"
    by (rule av_event [OF r2])
       (simp add: av_enabled_def av_districts_def getDistricts_def india_def av_step_def av_selectState_def av_init_def)
  have r4: "av_reachable String.implode india [bank] ?s4"
    by (rule av_event [OF r3]) (simp add: av_enabled_def av_step_def av_selectState_def av_init_def)
  have r5: "av_reachable String.implode india [bank] ?s5"
    by (rule av_event [OF r4]) (simp add: av_enabled_def av_bloodGroups_def)
  show ?thesis
  proof (intro exI conjI)
    show "av_reachable String.implode india [bank] ?s5" by (fact r5)
    show "av_header ?s5 = ''Showing banks offering B+ in North Goa, Goa''"
      by (simp add: av_header_def av_step_def av_selectState_def av_init_def av_handleSubmit_def)
    show "av_results ?s5 = [bank]"
      by (simp add: av_step_def av_selectState_def av_init_def av_handleSubmit_def bank_matches_def bank_def)
    show "''B+'' \<notin> set (blood_groups_available bank)" by (simp add: bank_def)
  qed
qed

end
