(* ===== verification/Donor.thy ===== *)
theory Donor
  imports Wizard "HOL-Library.List_Lexorder" "HOL-Library.Char_ord"
begin

text \<open>
  The donor registration page DonorRegistrationModule.tsx. Its directory is
  \<open>blood-banks.json\<close> (types/bloodBank.ts); the state and district choices are the
  distinct values sorted by \<open>sort()\<close> without comparator, which compares UTF-16
  code units: on the model's strings (UTF-8 bytes) this is the lexicographic order
  of List_Lexorder, the same for every character of the Basic Multilingual Plane.
  The form is a record of string fields (Wizard.thy's \<open>form\<close>). Submitting is
  possible only when the browser's constraint validation passes the \<open>required\<close>
  inputs (name, e-mail, phone, date and time) and the e-mail input's syntax, a
  predicate of the browser passed as a parameter. The two \<open>setTimeout\<close> calls of
  a submission are timers on an explicit millisecond clock; an \<open>Elapse\<close> event
  advances the clock and runs every timer that has fallen due.
\<close>

record registryBank =
  rb_id :: string
  rb_name :: string
  rb_state :: string
  rb_district :: string
  rb_address :: string
  rb_contact :: string
  rb_bloodGroups :: "(string \<times> nat) list"

definition rareGroups :: "string list" where
  "rareGroups = [''AB-'', ''O-'', ''B-'', ''A-'']"

definition donor_states :: "registryBank list \<Rightarrow> string list" where
  "donor_states banks = sort (remdups (map rb_state banks))"

definition donor_districts :: "registryBank list \<Rightarrow> string \<Rightarrow> string list" where
  "donor_districts banks st =
     (if st = [] then [] else sort (remdups (map rb_district (filter (\<lambda>b. rb_state b = st) banks))))"

definition initialDonorForm :: form where
  "initialDonorForm =
     [(''name'', ''''), (''email'', ''''), (''phone'', ''''), (''bloodGroup'', ''A+''), (''state'', ''''),
      (''district'', ''''), (''date'', ''''), (''time'', '''')]"

datatype donor_timer = ClearMessage | ClearRare

record donorPage =
  dp_form :: form
  dp_state :: string
  dp_credits :: int
  dp_rareNotice :: string
  dp_message :: string
  dp_clock :: nat
  dp_timers :: "(nat \<times> donor_timer) list"

definition donor_init :: donorPage where
  "donor_init = \<lparr>dp_form = initialDonorForm, dp_state = [], dp_credits = 120, dp_rareNotice = [],
     dp_message = [], dp_clock = 0, dp_timers = []\<rparr>"

definition donor_handleChange :: "string \<Rightarrow> string \<Rightarrow> donorPage \<Rightarrow> donorPage" where
  "donor_handleChange key v s = s\<lparr>dp_form := set_field key v (dp_form s)\<rparr>"

text \<open>The state select: \<open>handleChange("state", v); setState(v); handleChange("district", "")\<close>.\<close>

definition donor_selectState :: "string \<Rightarrow> donorPage \<Rightarrow> donorPage" where
  "donor_selectState v s = donor_handleChange ''district'' [] ((donor_handleChange ''state'' v s)\<lparr>dp_state := v\<rparr>)"

definition registration_message :: string where
  "registration_message = ''Registration received. Thank you for donating!''"

definition rare_notice :: string where
  "rare_notice = ''Your blood group is rare. Please store your donation at the nearest bank as soon as possible.''"

definition donor_handleSubmit :: "donorPage \<Rightarrow> donorPage" where
  "donor_handleSubmit s =
     s\<lparr>dp_credits := dp_credits s + 10, dp_message := registration_message,
       dp_rareNotice := (if field (dp_form s) ''bloodGroup'' \<in> set rareGroups then rare_notice else []),
       dp_timers := dp_timers s @ [(dp_clock s + 3500, ClearMessage), (dp_clock s + 6000, ClearRare)]\<rparr>"

text \<open>Time passes: the due timers run (each clears its message; their order does
  not matter) and leave the queue.\<close>

definition donor_elapse :: "nat \<Rightarrow> donorPage \<Rightarrow> donorPage" where
  "donor_elapse d s =
     (let now = dp_clock s + d;
          fired = map snd (filter (\<lambda>t. fst t \<le> now) (dp_timers s))
      in s\<lparr>dp_clock := now,
           dp_message := (if ClearMessage \<in> set fired then [] else dp_message s),
           dp_rareNotice := (if ClearRare \<in> set fired then [] else dp_rareNotice s),
           dp_timers := filter (\<lambda>t. \<not> fst t \<le> now) (dp_timers s)\<rparr>)"

definition donor_required :: "string list" where
  "donor_required = [''name'', ''email'', ''phone'', ''date'', ''time'']"

definition donor_can_submit :: "(string \<Rightarrow> bool) \<Rightarrow> donorPage \<Rightarrow> bool" where
  "donor_can_submit email_valid s \<longleftrightarrow>
     (\<forall>f \<in> set donor_required. field (dp_form s) f \<noteq> []) \<and> email_valid (field (dp_form s) ''email'')"

datatype donor_event = Change string string | SelectState string | SubmitRegistration | Elapse nat

definition donor_handle :: "donor_event \<Rightarrow> donorPage \<Rightarrow> donorPage" where
  "donor_handle ev s =
     (case ev of
        Change key v \<Rightarrow> donor_handleChange key v s
      | SelectState v \<Rightarrow> donor_selectState v s
      | SubmitRegistration \<Rightarrow> donor_handleSubmit s
      | Elapse d \<Rightarrow> donor_elapse d s)"

inductive donor_reachable :: "(string \<Rightarrow> bool) \<Rightarrow> donorPage \<Rightarrow> bool" where
  init: "donor_reachable email_valid donor_init"
| change: "donor_reachable email_valid s \<Longrightarrow> key \<in> set (map fst initialDonorForm) - {''state''} \<Longrightarrow>
     donor_reachable email_valid (donor_handle (Change key v) s)"
| select: "donor_reachable email_valid s \<Longrightarrow> donor_reachable email_valid (donor_handle (SelectState v) s)"
| submit: "donor_reachable email_valid s \<Longrightarrow> donor_can_submit email_valid s \<Longrightarrow>
     donor_reachable email_valid (donor_handle SubmitRegistration s)"
| elapse: "donor_reachable email_valid s \<Longrightarrow> donor_reachable email_valid (donor_handle (Elapse d) s)"


text \<open>The invariant of a run.\<close>

definition donor_inv :: "donorPage \<Rightarrow> bool" where
  "donor_inv s \<longleftrightarrow> 120 \<le> dp_credits s \<and> 10 dvd dp_credits s \<and>
     (\<forall>t \<in> set (dp_timers s). dp_clock s < fst t \<and>
        fst t \<le> dp_clock s + (case snd t of ClearMessage \<Rightarrow> 3500 | ClearRare \<Rightarrow> 6000)) \<and>
     (dp_message s \<noteq> [] \<longrightarrow> (\<exists>t \<in> set (dp_timers s). snd t = ClearMessage)) \<and>
     (dp_rareNotice s \<noteq> [] \<longrightarrow> (\<exists>t \<in> set (dp_timers s). snd t = ClearRare))"

text \<open>A filled-in form for the examples.\<close>

abbreviation demo_donor_filled :: donorPage where
  "demo_donor_filled \<equiv> donor_handle (Change ''time'' ''10:00'') (donor_handle (Change ''date'' ''2025-01-10'')
     (donor_handle (Change ''phone'' ''9000000003'') (donor_handle (Change ''email'' ''a@b.in'')
     (donor_handle (Change ''name'' ''Kiran'') donor_init))))"

subsection \<open>Lemmas\<close>

lemma donor_inv_init: "donor_inv donor_init"
  by (simp add: donor_inv_def donor_init_def)

lemma donor_inv_change: "donor_inv s \<Longrightarrow> donor_inv (donor_handleChange key v s)"
  by (simp add: donor_inv_def donor_handleChange_def)

lemma donor_inv_select: "donor_inv s \<Longrightarrow> donor_inv (donor_selectState v s)"
  by (simp add: donor_inv_def donor_selectState_def donor_handleChange_def)

lemma donor_inv_submit: "donor_inv s \<Longrightarrow> donor_inv (donor_handleSubmit s)"
  unfolding donor_inv_def donor_handleSubmit_def by (auto simp: registration_message_def)

lemma timer_survives:
  assumes "(if k \<in> set (map snd (filter (\<lambda>t. fst t \<le> now) ts)) then [] else m) \<noteq> []"
    and "m \<noteq> [] \<longrightarrow> (\<exists>t \<in> set ts. snd t = k)"
  shows "\<exists>t' \<in> set (filter (\<lambda>t. \<not> fst t \<le> now) ts). snd t' = k"
proof -
  from assms(1) have nf: "k \<notin> set (map snd (filter (\<lambda>t. fst t \<le> now) ts))" and "m \<noteq> []"
    by (auto split: if_splits)
  with assms(2) obtain t where t: "t \<in> set ts" "snd t = k" by blast
  with nf have "\<not> fst t \<le> now" by force
  with t show ?thesis by (intro bexI [of _ t]) auto
qed

lemma donor_inv_elapse: "donor_inv s \<Longrightarrow> donor_inv (donor_elapse d s)"
proof -
  assume inv: "donor_inv s"
  let ?now = "dp_clock s + d"
  let ?fired = "map snd (filter (\<lambda>t. fst t \<le> ?now) (dp_timers s))"
  let ?rest = "filter (\<lambda>t. \<not> fst t \<le> ?now) (dp_timers s)"
  have timers: "\<forall>t \<in> set ?rest. ?now < fst t \<and>
        fst t \<le> ?now + (case snd t of ClearMessage \<Rightarrow> 3500 | ClearRare \<Rightarrow> 6000)"
    using inv unfolding donor_inv_def by fastforce
  have msg: "(if ClearMessage \<in> set ?fired then [] else dp_message s) \<noteq> [] \<longrightarrow> (\<exists>t \<in> set ?rest. snd t = ClearMessage)"
    using timer_survives [of ClearMessage ?now "dp_timers s" "dp_message s"] inv unfolding donor_inv_def by blast
  have rare: "(if ClearRare \<in> set ?fired then [] else dp_rareNotice s) \<noteq> [] \<longrightarrow> (\<exists>t \<in> set ?rest. snd t = ClearRare)"
    using timer_survives [of ClearRare ?now "dp_timers s" "dp_rareNotice s"] inv unfolding donor_inv_def by blast
  show ?thesis
    using inv timers msg rare unfolding donor_inv_def donor_elapse_def Let_def by simp
qed

lemma donor_reachable_inv: "donor_reachable ev s \<Longrightarrow> donor_inv s"
  by (induction rule: donor_reachable.induct)
     (simp_all add: donor_handle_def donor_inv_init donor_inv_change donor_inv_select donor_inv_submit donor_inv_elapse)

text \<open>
  C21. Whatever was done before, the confirmation toast and the rare-group notice do
  not stay: from any state of a run, 3.5 s later there is no confirmation shown and
  6 s later no notice, as every notice on screen has a pending timer due by then.
\<close>

theorem donor_message_expires:
  assumes "donor_reachable email_valid s"
  shows "dp_message (donor_elapse 3500 s) = [] \<and> dp_rareNotice (donor_elapse 6000 s) = []"
proof -
  have inv: "donor_inv s" using donor_reachable_inv [OF assms] .
  have m: "ClearMessage \<in> set (map snd (filter (\<lambda>t. fst t \<le> dp_clock s + 3500) (dp_timers s)))"
    if "dp_message s \<noteq> []"
  proof -
    from inv that obtain t where "t \<in> set (dp_timers s)" "snd t = ClearMessage" unfolding donor_inv_def by blast
    moreover with inv have "fst t \<le> dp_clock s + 3500" unfolding donor_inv_def by fastforce
    ultimately show ?thesis by force
  qed
  have r: "ClearRare \<in> set (map snd (filter (\<lambda>t. fst t \<le> dp_clock s + 6000) (dp_timers s)))"
    if "dp_rareNotice s \<noteq> []"
  proof -
    from inv that obtain t where "t \<in> set (dp_timers s)" "snd t = ClearRare" unfolding donor_inv_def by blast
    moreover with inv have "fst t \<le> dp_clock s + 6000" unfolding donor_inv_def by fastforce
    ultimately show ?thesis by force
  qed
  show ?thesis using m r by (auto simp: donor_elapse_def Let_def)
qed

lemma donor_message_cut_short:
  "dp_message (donor_handle (Elapse 1500) (donor_handle SubmitRegistration
     (donor_handle (Elapse 2000) (donor_handle SubmitRegistration donor_init)))) = []"
  by (simp add: donor_handle_def donor_handleSubmit_def donor_elapse_def donor_init_def Let_def)

lemma donor_states_sorted: "sorted (donor_states banks) \<and> distinct (donor_states banks) \<and> set (donor_states banks) = rb_state ` set banks"
  by (simp add: donor_states_def)

lemma demo_donor_reach:
  "donor_reachable (\<lambda>e. True) (donor_handle SubmitRegistration demo_donor_filled)"
proof -
  have "donor_reachable (\<lambda>e. True) demo_donor_filled"
    by (intro donor_reachable.change donor_reachable.init) (simp_all add: initialDonorForm_def)
  moreover have "donor_can_submit (\<lambda>e. True) demo_donor_filled"
    by (simp add: donor_can_submit_def donor_required_def donor_handle_def donor_handleChange_def
        donor_init_def initialDonorForm_def field_def set_field_def)
  ultimately show ?thesis by (rule donor_reachable.submit)
qed

theorem donor_message_expires_witness:
  "dp_message (donor_handle SubmitRegistration demo_donor_filled) = registration_message \<and>
   dp_message (donor_elapse 3500 (donor_handle SubmitRegistration demo_donor_filled)) = []"
  using donor_message_expires [OF demo_donor_reach]
  by (simp add: donor_handle_def donor_handleSubmit_def)

end
