(* ===== verification/Auth.thy ===== *)
theory Auth
  imports OtpServer Wizard Matcher
begin

text \<open>
  The login and registration pages: UserLoginPage.tsx and UserRegistrationPage.tsx,
  which use the identity provider (firebase.ts), and the three role logins
  BloodBankLoginPage.tsx, DeliveryLoginPage.tsx and HospitalLoginPage.tsx, which
  check only the form. The browser's session and local storage are string maps
  (Wizard.thy's \<open>form\<close>: \<open>getItem\<close> of a missing key is \<open>null\<close>, falsy like
  the empty string). The identity provider is the external interface of spec
  section 6: an account store keyed by e-mail address, signing up and signing in
  with email and password, answering with a user or an error code. Its behaviour
  beyond that contract (the message text of an unknown error, the id token) is an
  input. Each \<open>await\<close> of a handler is taken to complete before the next event;
  the redirect timers only navigate away.
\<close>

subsection \<open>The identity provider\<close>

record idp_account =
  acc_uid :: string
  acc_email :: string
  acc_password :: string
  acc_displayName :: string
  acc_disabled :: bool

type_synonym idp_store = "string \<Rightarrow> idp_account option"

datatype idp_error = IdpError string string

text \<open>The provider keys accounts by the lower-cased address.\<close>

definition idp_signIn :: "bool \<Rightarrow> idp_store \<Rightarrow> string \<Rightarrow> string \<Rightarrow> idp_error + idp_account" where
  "idp_signIn protect store email password =
     (case store (js_lower email) of
        None \<Rightarrow> Inl (IdpError (if protect then ''auth/invalid-credential'' else ''auth/user-not-found'') [])
      | Some a \<Rightarrow>
          if acc_disabled a then Inl (IdpError ''auth/user-disabled'' [])
          else if acc_password a \<noteq> password
          then Inl (IdpError (if protect then ''auth/invalid-credential'' else ''auth/wrong-password'') [])
          else Inr a)"

definition idp_createUser ::
  "string \<Rightarrow> idp_store \<Rightarrow> string \<Rightarrow> string \<Rightarrow> idp_error + (idp_account \<times> idp_store)" where
  "idp_createUser uid store email password =
     (if \<not> email_ok email then Inl (IdpError ''auth/invalid-email'' [])
      else if store (js_lower email) \<noteq> None then Inl (IdpError ''auth/email-already-in-use'' [])
      else if length password < 6 then Inl (IdpError ''auth/weak-password'' [])
      else let a = \<lparr>acc_uid = uid, acc_email = js_lower email, acc_password = password,
                    acc_displayName = [], acc_disabled = False\<rparr>
           in Inr (a, store(js_lower email \<mapsto> a)))"

definition idp_updateProfile :: "idp_store \<Rightarrow> idp_account \<Rightarrow> string \<Rightarrow> idp_store" where
  "idp_updateProfile store a name = store(acc_email a \<mapsto> a\<lparr>acc_displayName := name\<rparr>)"

subsection \<open>The browser's storage\<close>

record browser =
  session :: form
  local :: form

definition store_user :: "string \<Rightarrow> idp_account \<Rightarrow> form \<Rightarrow> form" where
  "store_user token a st =
     set_field ''userId'' (acc_uid a) (set_field ''userEmail'' (acc_email a) (set_field ''userToken'' token st))"

subsection \<open>UserLoginPage\<close>

record loginPage =
  lp_email :: string
  lp_password :: string
  lp_showPassword :: bool
  lp_rememberMe :: bool
  lp_error :: string
  lp_success :: string
  lp_loading :: bool

definition login_init :: loginPage where
  "login_init = \<lparr>lp_email = [], lp_password = [], lp_showPassword = False, lp_rememberMe = False,
     lp_error = [], lp_success = [], lp_loading = False\<rparr>"

text \<open>The checks of \<open>handleSubmit\<close> before the provider is called, in their order.\<close>

definition login_validate :: "string \<Rightarrow> string \<Rightarrow> string option" where
  "login_validate email password =
     (let trimmedEmail = js_trim email; trimmedPassword = js_trim password
      in if trimmedEmail = [] then Some ''Email address is required.''
         else if \<not> email_ok (js_trim trimmedEmail) then Some ''Please enter a valid email address.''
         else if trimmedPassword = [] then Some ''Password is required.''
         else if length trimmedPassword < 6 then Some ''Password must be at least 6 characters long.''
         else None)"

definition login_error_message :: "idp_error \<Rightarrow> string" where
  "login_error_message err =
     (case err of IdpError code msg \<Rightarrow>
        if code = ''auth/user-not-found'' then ''No account found with this email address.''
        else if code = ''auth/wrong-password'' then ''Incorrect password. Please try again.''
        else if code = ''auth/invalid-email'' then ''Invalid email address format.''
        else if code = ''auth/user-disabled'' then ''This account has been disabled. Please contact support.''
        else if code = ''auth/too-many-requests'' then ''Too many failed login attempts. Please try again later.''
        else if code = ''auth/network-request-failed'' then ''Network error. Please check your internet connection.''
        else if code = ''auth/invalid-credential'' then ''Invalid email or password. Please check your credentials.''
        else if msg \<noteq> [] then msg else ''An error occurred during login. Please try again.'')"

definition login_handleSubmit ::
  "bool \<Rightarrow> idp_store \<Rightarrow> string \<Rightarrow> loginPage \<times> browser \<Rightarrow> loginPage \<times> browser" where
  "login_handleSubmit protect store token st =
     (let (s, b) = st;
          s0 = s\<lparr>lp_error := [], lp_success := []\<rparr>
      in case login_validate (lp_email s) (lp_password s) of
           Some msg \<Rightarrow> (s0\<lparr>lp_error := msg\<rparr>, b)
         | None \<Rightarrow>
             (let trimmedEmail = js_trim (lp_email s); trimmedPassword = js_trim (lp_password s)
              in case idp_signIn protect store trimmedEmail trimmedPassword of
                   Inl err \<Rightarrow> (s0\<lparr>lp_loading := False, lp_error := login_error_message err\<rparr>, b)
                 | Inr a \<Rightarrow>
                     (s0\<lparr>lp_loading := True, lp_success := ''Login successful! Redirecting...''\<rparr>,
                      b\<lparr>session := store_user token a (session b),
                        local := (if lp_rememberMe s
                                  then set_field ''savedEmail'' trimmedEmail (set_field ''rememberMe'' ''true'' (local b))
                                  else AList.delete ''savedEmail'' (AList.delete ''rememberMe'' (local b)))\<rparr>)))"

text \<open>The mount effect that restores a remembered address.\<close>

definition login_loadSaved :: "browser \<Rightarrow> loginPage \<Rightarrow> loginPage" where
  "login_loadSaved b s =
     (if field (local b) ''rememberMe'' = ''true'' \<and> field (local b) ''savedEmail'' \<noteq> []
      then s\<lparr>lp_email := field (local b) ''savedEmail'', lp_rememberMe := True\<rparr> else s)"

definition login_setEmail :: "string \<Rightarrow> loginPage \<Rightarrow> loginPage" where
  "login_setEmail v s = s\<lparr>lp_email := v, lp_error := [], lp_success := []\<rparr>"

definition login_setPassword :: "string \<Rightarrow> loginPage \<Rightarrow> loginPage" where
  "login_setPassword v s = s\<lparr>lp_password := v, lp_error := [], lp_success := []\<rparr>"

text \<open>The page's own auth listener (a signed-in account stores its token and goes
  to the availability page, after which the page renders nothing), its controls as
  events (every control is disabled while \<open>loading\<close>; the register link
  navigates) and what the form renders.\<close>

definition login_onAuthStateChanged ::
  "idp_account option \<Rightarrow> string option \<Rightarrow> bool \<times> browser \<Rightarrow> (bool \<times> browser) \<times> string option" where
  "login_onAuthStateChanged user token st =
     (let (authd, b) = st
      in case user of
           None \<Rightarrow> ((False, b), None)
         | Some u \<Rightarrow>
             ((True, case token of Some t \<Rightarrow> b\<lparr>session := store_user t u (session b)\<rparr> | None \<Rightarrow> b),
              Some ''/user/availability''))"

datatype login_event = LoginEmail string | LoginPassword string | LoginToggleShow | LoginRemember bool
  | LoginSubmit | LoginRegisterLink

definition login_enabled :: "loginPage \<Rightarrow> login_event \<Rightarrow> bool" where
  "login_enabled s e \<longleftrightarrow> \<not> lp_loading s"

definition login_step ::
  "bool \<Rightarrow> idp_store \<Rightarrow> string \<Rightarrow> login_event \<Rightarrow> loginPage \<times> browser \<Rightarrow> (loginPage \<times> browser) \<times> string option" where
  "login_step protect store token e st =
     (let (s, b) = st
      in case e of
           LoginEmail v \<Rightarrow> ((login_setEmail v s, b), None)
         | LoginPassword v \<Rightarrow> ((login_setPassword v s, b), None)
         | LoginToggleShow \<Rightarrow> ((s\<lparr>lp_showPassword := \<not> lp_showPassword s\<rparr>, b), None)
         | LoginRemember v \<Rightarrow> ((s\<lparr>lp_rememberMe := v\<rparr>, b), None)
         | LoginSubmit \<Rightarrow> (login_handleSubmit protect store token (s, b), None)
         | LoginRegisterLink \<Rightarrow> ((s, b), Some ''/user/donor-registration''))"

record loginView =
  lv_passwordType :: string
  lv_toggle :: string
  lv_error :: "string option"
  lv_success :: "string option"
  lv_button :: string
  lv_disabled :: bool

definition login_view :: "bool \<Rightarrow> loginPage \<Rightarrow> loginView option" where
  "login_view authd s =
     (if authd then None
      else Some \<lparr>lv_passwordType = (if lp_showPassword s then ''text'' else ''password''),
                 lv_toggle = (if lp_showPassword s then ''Hide'' else ''Show''),
                 lv_error = (if lp_error s = [] then None else Some (lp_error s)),
                 lv_success = (if lp_success s = [] then None else Some (lp_success s)),
                 lv_button = (if lp_loading s then ''Signing in...'' else ''Sign In''),
                 lv_disabled = lp_loading s\<rparr>)"

subsection \<open>UserRegistrationPage\<close>

definition is_ascii_letter :: "char \<Rightarrow> bool" where
  "is_ascii_letter c \<longleftrightarrow> (97::nat) \<le> of_char c \<and> of_char c \<le> (122::nat) \<or> (65::nat) \<le> of_char c \<and> of_char c \<le> (90::nat)"

definition is_ascii_lower :: "char \<Rightarrow> bool" where
  "is_ascii_lower c \<longleftrightarrow> (97::nat) \<le> of_char c \<and> of_char c \<le> (122::nat)"

definition is_ascii_upper :: "char \<Rightarrow> bool" where
  "is_ascii_upper c \<longleftrightarrow> (65::nat) \<le> of_char c \<and> of_char c \<le> (90::nat)"

datatype strength = Strength nat string string

definition getPasswordStrength :: "string \<Rightarrow> strength" where
  "getPasswordStrength pwd =
     (if length pwd = 0 then Strength 0 [] []
      else if length pwd < 6 then Strength 1 ''Weak'' ''#ef4444''
      else
        let strength = (if length pwd \<ge> 8 then 1 else 0) + (if \<exists>c \<in> set pwd. is_ascii_lower c then 1 else 0) +
              (if \<exists>c \<in> set pwd. is_ascii_upper c then 1 else 0) + (if \<exists>c \<in> set pwd. is_digit c then 1 else 0) +
              (if \<exists>c \<in> set pwd. \<not> is_ascii_letter c \<and> \<not> is_digit c then 1 else 0) :: nat
        in if strength \<le> 2 then Strength 2 ''Weak'' ''#ef4444''
           else if strength = 3 then Strength 3 ''Fair'' ''#f59e0b''
           else if strength = 4 then Strength 4 ''Good'' ''#3b82f6''
           else Strength 5 ''Strong'' ''#10b981'')"

definition validateDisplayName :: "string \<Rightarrow> string option" where
  "validateDisplayName name =
     (let trimmed = js_trim name
      in if trimmed = [] then Some ''Full name is required.''
         else if length trimmed < 2 then Some ''Name must be at least 2 characters.''
         else if length trimmed > 50 then Some ''Name must be less than 50 characters.''
         else if \<not> (\<forall>c \<in> set trimmed. is_ascii_letter c \<or> is_js_space c \<or> c = CHR 0x27 \<or> c = CHR ''-'')
         then Some ''Name can only contain letters, spaces, hyphens, and apostrophes.''
         else None)"

definition validateEmail :: "string \<Rightarrow> string option" where
  "validateEmail emailValue =
     (let trimmed = js_trim emailValue
      in if trimmed = [] then Some ''Email address is required.''
         else if \<not> email_ok trimmed then Some ''Please enter a valid email address.''
         else None)"

definition validatePassword :: "string \<Rightarrow> string option" where
  "validatePassword pwd =
     (if pwd = [] then Some ''Password is required.''
      else if length pwd < 6 then Some ''Password must be at least 6 characters long.''
      else if length pwd > 128 then Some ''Password must be less than 128 characters.''
      else None)"

definition validateConfirmPassword :: "string \<Rightarrow> string \<Rightarrow> string option" where
  "validateConfirmPassword confirm original =
     (if confirm = [] then Some ''Please confirm your password.''
      else if confirm \<noteq> original then Some ''Passwords do not match.''
      else None)"

record regPage =
  rp_displayName :: string
  rp_email :: string
  rp_password :: string
  rp_confirmPassword :: string
  rp_acceptTerms :: bool
  rp_error :: string
  rp_success :: string
  rp_loading :: bool
  rp_validationErrors :: "(string \<times> string option) list"

definition reg_init :: regPage where
  "reg_init = \<lparr>rp_displayName = [], rp_email = [], rp_password = [], rp_confirmPassword = [],
     rp_acceptTerms = False, rp_error = [], rp_success = [], rp_loading = False, rp_validationErrors = []\<rparr>"

text \<open>The real-time validation effect: a non-empty field with an error gets a key.\<close>

definition live_errors :: "regPage \<Rightarrow> (string \<times> string option) list" where
  "live_errors s =
     (let check = (\<lambda>k v e. if v \<noteq> [] \<and> e \<noteq> None then [(k, e)] else [])
      in check ''displayName'' (rp_displayName s) (validateDisplayName (rp_displayName s)) @
         check ''email'' (rp_email s) (validateEmail (rp_email s)) @
         check ''password'' (rp_password s) (validatePassword (rp_password s)) @
         check ''confirmPassword'' (rp_confirmPassword s)
           (validateConfirmPassword (rp_confirmPassword s) (rp_password s)))"

datatype reg_field = DisplayName | Email | Password | ConfirmPassword

text \<open>Typing in a field sets it, clears the messages, and the effect recomputes the errors.\<close>

definition reg_setField :: "reg_field \<Rightarrow> string \<Rightarrow> regPage \<Rightarrow> regPage" where
  "reg_setField f v s =
     (let s1 = (case f of DisplayName \<Rightarrow> s\<lparr>rp_displayName := v\<rparr> | Email \<Rightarrow> s\<lparr>rp_email := v\<rparr>
                 | Password \<Rightarrow> s\<lparr>rp_password := v\<rparr> | ConfirmPassword \<Rightarrow> s\<lparr>rp_confirmPassword := v\<rparr>);
          s2 = s1\<lparr>rp_error := [], rp_success := []\<rparr>
      in s2\<lparr>rp_validationErrors := live_errors s2\<rparr>)"

definition reg_error_message :: "idp_error \<Rightarrow> string" where
  "reg_error_message err =
     (case err of IdpError code msg \<Rightarrow>
        if code = ''auth/email-already-in-use'' then ''An account with this email already exists. Please sign in instead.''
        else if code = ''auth/invalid-email'' then ''Invalid email address format.''
        else if code = ''auth/operation-not-allowed'' then ''Email/password accounts are not enabled. Please contact support.''
        else if code = ''auth/weak-password'' then ''Password is too weak. Please choose a stronger password.''
        else if code = ''auth/network-request-failed'' then ''Network error. Please check your internet connection.''
        else if msg \<noteq> [] then msg else ''An error occurred during registration. Please try again.'')"

definition reg_handleSubmit ::
  "string \<Rightarrow> string \<Rightarrow> idp_store \<Rightarrow> regPage \<times> browser \<Rightarrow> (regPage \<times> browser) \<times> idp_store" where
  "reg_handleSubmit uid token store st =
     (let (s, b) = st;
          s0 = s\<lparr>rp_error := [], rp_success := []\<rparr>;
          nameError = validateDisplayName (rp_displayName s);
          emailError = validateEmail (rp_email s);
          pwdError = validatePassword (rp_password s);
          confirmError = validateConfirmPassword (rp_confirmPassword s) (rp_password s)
      in if nameError \<noteq> None \<or> emailError \<noteq> None \<or> pwdError \<noteq> None \<or> confirmError \<noteq> None
         then ((s0\<lparr>rp_validationErrors := [(''displayName'', nameError), (''email'', emailError),
                    (''password'', pwdError), (''confirmPassword'', confirmError)],
                   rp_error := ''Please fix the errors in the form.''\<rparr>, b), store)
         else if \<not> rp_acceptTerms s
         then ((s0\<lparr>rp_error := ''You must accept the terms and conditions to register.''\<rparr>, b), store)
         else case idp_createUser uid store (js_trim (rp_email s)) (rp_password s) of
                Inl err \<Rightarrow> ((s0\<lparr>rp_loading := False, rp_error := reg_error_message err\<rparr>, b), store)
              | Inr (a, store1) \<Rightarrow>
                  (let store2 = idp_updateProfile store1 a (js_trim (rp_displayName s))
                   in ((s0\<lparr>rp_loading := True, rp_success := ''Account created successfully! Redirecting...''\<rparr>,
                        b\<lparr>session := set_field ''userDisplayName'' (js_trim (rp_displayName s))
                                        (store_user token a (session b))\<rparr>), store2)))"

text \<open>The submit button: \<open>disabled={loading || Object.keys(validationErrors).length > 0}\<close>.\<close>

definition reg_can_submit :: "regPage \<Rightarrow> bool" where
  "reg_can_submit s \<longleftrightarrow> \<not> rp_loading s \<and> rp_validationErrors s = []"

text \<open>What the registration form renders: the field errors the state holds (a
  falsy message shows nothing), the strength meter of a non-empty password (five
  bars, those up to the score coloured), the messages and the submit button.\<close>

definition strength_bars :: "nat \<Rightarrow> string \<Rightarrow> string list" where
  "strength_bars score color = map (\<lambda>level. if level \<le> score then color else ''#e5e7eb'') [1..<6]"

record regView =
  rgv_fieldErrors :: "(string \<times> string) list"
  rgv_strength :: "(string list \<times> string) option"
  rgv_error :: "string option"
  rgv_success :: "string option"
  rgv_button :: string
  rgv_submitDisabled :: bool

definition shown_errors :: "(string \<times> string option) list \<Rightarrow> (string \<times> string) list" where
  "shown_errors errs = concat (map (\<lambda>(k, e). case e of Some m \<Rightarrow> if m \<noteq> [] then [(k, m)] else [] | None \<Rightarrow> []) errs)"

definition reg_view :: "regPage \<Rightarrow> regView" where
  "reg_view s =
     \<lparr>rgv_fieldErrors = shown_errors (rp_validationErrors s),
      rgv_strength = (if rp_password s = [] then None
                      else case getPasswordStrength (rp_password s) of Strength n label color \<Rightarrow> Some (strength_bars n color, label)),
      rgv_error = (if rp_error s = [] then None else Some (rp_error s)),
      rgv_success = (if rp_success s = [] then None else Some (rp_success s)),
      rgv_button = (if rp_loading s then ''Creating Account...'' else ''Create Account''),
      rgv_submitDisabled = \<not> reg_can_submit s\<rparr>"

subsection \<open>The role logins\<close>

definition bankLogin_handleSubmit :: "bloodBank list \<Rightarrow> string \<Rightarrow> browser \<Rightarrow> string option \<times> browser" where
  "bankLogin_handleSubmit allBanks name b =
     (if js_trim name = [] then (Some ''Blood bank name is required.'', b)
      else case find (\<lambda>bank. js_trim (js_lower (bb_name bank)) = js_trim (js_lower name)) allBanks of
             None \<Rightarrow> (Some ''Blood bank not found in records. Please check the name.'', b)
           | Some matched \<Rightarrow> (None, b\<lparr>session := set_field ''bloodBankName'' (bb_name matched) (session b)\<rparr>))"

definition deliveryLogin_handleSubmit :: "string \<Rightarrow> string \<Rightarrow> browser \<Rightarrow> string option \<times> browser" where
  "deliveryLogin_handleSubmit deliveryId password b =
     (if js_trim deliveryId = [] then (Some ''Delivery ID is required.'', b)
      else if js_trim password = [] then (Some ''Password is required.'', b)
      else (None, b\<lparr>session := set_field ''deliveryName'' (''Delivery Agent '' @ js_trim deliveryId)
                                 (set_field ''deliveryId'' (js_trim deliveryId) (session b))\<rparr>))"

definition hospitalLogin_handleSubmit :: "string \<Rightarrow> string \<Rightarrow> string option" where
  "hospitalLogin_handleSubmit hospitalId password =
     (if js_trim hospitalId = [] \<or> js_trim password = [] then Some ''Hospital ID and password are required.''
      else None)"

text \<open>The registration form of the demonstration: valid fields and a password with a trailing space.\<close>

abbreviation demo_reg :: regPage where
  "demo_reg \<equiv> reg_init\<lparr>rp_displayName := ''Asha Rao'', rp_email := ''asha@example.com'',
     rp_password := ''secret1 '', rp_confirmPassword := ''secret1 '', rp_acceptTerms := True\<rparr>"


subsection \<open>Lemmas\<close>

lemma dropWhile_hd: "dropWhile P xs = [] \<or> \<not> P (hd (dropWhile P xs))"
  by (induction xs) auto

lemma js_trim_idem: "js_trim (js_trim s) = js_trim s"
proof -
  let ?P = is_js_space
  let ?u = "dropWhile ?P s"
  let ?v = "dropWhile ?P (rev ?u)"
  have u: "?u = rev ?v @ rev (takeWhile ?P (rev ?u))"
    by (metis rev_append rev_rev_ident takeWhile_dropWhile_id)
  show ?thesis
  proof (cases "?v = []")
    case True
    note v = this
    have "js_trim s = rev ?v" unfolding js_trim_def by (rule refl)
    also have "\<dots> = []" by (simp only: v rev.simps(1))
    finally have "js_trim s = []" .
    moreover have "js_trim [] = []" by (simp add: js_trim_def)
    ultimately show ?thesis by (simp only:)
  next
    case False
    have "?u \<noteq> []" using False by (metis dropWhile.simps(1) rev.simps(1))
    then have "\<not> ?P (hd ?u)" using dropWhile_hd [of ?P s] by auto
    moreover have "hd ?u = hd (rev ?v)" using u False by (metis hd_append2 rev_is_Nil_conv)
    ultimately have d1: "dropWhile ?P (rev ?v) = rev ?v"
      using False by (simp add: dropWhile_eq_self_iff)
    have d2: "dropWhile ?P ?v = ?v" using dropWhile_hd [of ?P "rev ?u"] by (simp add: dropWhile_eq_self_iff)
    show ?thesis unfolding js_trim_def using d1 d2 by simp
  qed
qed


lemma login_success_iff:
  "lp_success (fst (login_handleSubmit protect store token (s, b))) \<noteq> [] \<longleftrightarrow>
   login_validate (lp_email s) (lp_password s) = None \<and>
   (\<exists>a. idp_signIn protect store (js_trim (lp_email s)) (js_trim (lp_password s)) = Inr a)"
  by (auto simp: login_handleSubmit_def Let_def split: option.splits sum.splits)

lemma reg_handleSubmit_created:
  assumes "validateDisplayName (rp_displayName r) = None" "validateEmail (rp_email r) = None"
    "validatePassword (rp_password r) = None"
    "validateConfirmPassword (rp_confirmPassword r) (rp_password r) = None"
    "rp_acceptTerms r" "store (js_lower (js_trim (rp_email r))) = None"
  shows "reg_handleSubmit uid token store (r, b) =
    ((r\<lparr>rp_error := [], rp_success := ''Account created successfully! Redirecting...'', rp_loading := True\<rparr>,
      b\<lparr>session := set_field ''userDisplayName'' (js_trim (rp_displayName r))
         (store_user token \<lparr>acc_uid = uid, acc_email = js_lower (js_trim (rp_email r)), acc_password = rp_password r,
                    acc_displayName = [], acc_disabled = False\<rparr> (session b))\<rparr>),
     store(js_lower (js_trim (rp_email r)) \<mapsto> \<lparr>acc_uid = uid, acc_email = js_lower (js_trim (rp_email r)),
       acc_password = rp_password r, acc_displayName = js_trim (rp_displayName r), acc_disabled = False\<rparr>))"
proof -
  have "email_ok (js_trim (rp_email r))" "\<not> length (rp_password r) < 6"
    using assms(2,3) by (simp_all add: validateEmail_def validatePassword_def Let_def split: if_splits)
  then show ?thesis
    using assms by (simp add: reg_handleSubmit_def idp_createUser_def idp_updateProfile_def Let_def)
qed

text \<open>C22. Registration and login disagree on the password. Registration
  (UserRegistrationPage.tsx) creates the account with the password exactly as typed,
  while login (UserLoginPage.tsx) signs in with the password trimmed. After a
  successful registration with valid fields, a login with the same e-mail and
  password succeeds exactly when the password has no leading or trailing
  whitespace: an account registered with \<open>secret1 \<close> can never log in with it.\<close>

theorem register_then_login:
  assumes "validateDisplayName (rp_displayName r) = None" "validateEmail (rp_email r) = None"
    "validatePassword (rp_password r) = None"
    "validateConfirmPassword (rp_confirmPassword r) (rp_password r) = None"
    "rp_acceptTerms r" "store (js_lower (js_trim (rp_email r))) = None"
    "reg_handleSubmit uid token store (r, b) = ((r', b'), store')"
    "lp_email l = rp_email r" "lp_password l = rp_password r"
  shows "rp_success r' \<noteq> [] \<and>
    (lp_success (fst (login_handleSubmit protect store' token' (l, b''))) \<noteq> [] \<longleftrightarrow>
     js_trim (rp_password r) = rp_password r)"
proof -
  from reg_handleSubmit_created [where r=r and store=store and uid=uid and token=token and b=b, OF assms(1-6)] assms(7)
  obtain a where a: "store' (js_lower (js_trim (rp_email r))) = Some a" "acc_password a = rp_password r"
      "\<not> acc_disabled a" and ok: "rp_success r' \<noteq> []"
    by fastforce
  have signI: "(\<exists>a. idp_signIn protect store' (js_trim (rp_email r)) q = Inr a) \<longleftrightarrow> q = rp_password r" for q
    using a by (auto simp: idp_signIn_def)
  have em: "js_trim (rp_email r) \<noteq> [] \<and> email_ok (js_trim (rp_email r))"
    using assms(2) by (simp add: validateEmail_def Let_def split: if_splits)
  have pw: "6 \<le> length (rp_password r)"
    using assms(3) by (simp add: validatePassword_def split: if_splits)
  have "js_trim (rp_password r) = rp_password r \<Longrightarrow> login_validate (lp_email l) (lp_password l) = None"
    using em pw assms(8,9) by (auto simp: login_validate_def Let_def js_trim_idem)
  then show ?thesis
    using ok assms(8,9) by (auto simp: login_success_iff signI)
qed

theorem register_then_login_witness:
  "rp_success (fst (fst (reg_handleSubmit ''u1'' ''t'' Map.empty (demo_reg, \<lparr>session = [], local = []\<rparr>)))) \<noteq> [] \<and>
   lp_success (fst (login_handleSubmit True
     (snd (reg_handleSubmit ''u1'' ''t'' Map.empty (demo_reg, \<lparr>session = [], local = []\<rparr>))) ''t2''
     (login_init\<lparr>lp_email := ''asha@example.com'', lp_password := ''secret1 ''\<rparr>, \<lparr>session = [], local = []\<rparr>))) = []"
proof -
  have v: "validateDisplayName (rp_displayName demo_reg) = None" "validateEmail (rp_email demo_reg) = None"
    "validatePassword (rp_password demo_reg) = None"
    "validateConfirmPassword (rp_confirmPassword demo_reg) (rp_password demo_reg) = None"
    "rp_acceptTerms demo_reg" "js_trim (rp_password demo_reg) \<noteq> rp_password demo_reg"
    by (simp_all add: reg_init_def validateDisplayName_def validateEmail_def validatePassword_def
        validateConfirmPassword_def is_ascii_letter_def email_ok_def js_string_eval Let_def)
  have e: "reg_handleSubmit ''u1'' ''t'' Map.empty (demo_reg, \<lparr>session = [], local = []\<rparr>) =
    ((fst (fst (reg_handleSubmit ''u1'' ''t'' Map.empty (demo_reg, \<lparr>session = [], local = []\<rparr>))),
      snd (fst (reg_handleSubmit ''u1'' ''t'' Map.empty (demo_reg, \<lparr>session = [], local = []\<rparr>)))),
     snd (reg_handleSubmit ''u1'' ''t'' Map.empty (demo_reg, \<lparr>session = [], local = []\<rparr>)))"
    by simp
  show ?thesis
    using register_then_login [OF v(1-5) _ e,
        where l = "login_init\<lparr>lp_email := ''asha@example.com'', lp_password := ''secret1 ''\<rparr>"
          and protect = True and token' = "''t2''" and b'' = "\<lparr>session = [], local = []\<rparr>"] v(6)
    by (simp add: reg_init_def)
qed

text \<open>A submission through the enabled button either signs in, after which every
  control is disabled and the form shows only the success message, or leaves the
  form usable with its error; a submission with an invalid field shows the form's
  error, disables the button and marks exactly the failing fields.\<close>

lemma login_submit_outcome:
  assumes "login_enabled s LoginSubmit" "login_step protect store token LoginSubmit (s, b) = ((s', b'), nav)"
  shows "nav = None \<and>
         (lp_loading s' \<longleftrightarrow> login_validate (lp_email s) (lp_password s) = None \<and>
            (\<exists>a. idp_signIn protect store (js_trim (lp_email s)) (js_trim (lp_password s)) = Inr a)) \<and>
         (lp_loading s' \<longrightarrow> (\<forall>e. \<not> login_enabled s' e) \<and>
            login_view False s' = Some \<lparr>lv_passwordType = (if lp_showPassword s then ''text'' else ''password''),
               lv_toggle = (if lp_showPassword s then ''Hide'' else ''Show''), lv_error = None,
               lv_success = Some ''Login successful! Redirecting...'', lv_button = ''Signing in...'', lv_disabled = True\<rparr>)"
  using assms
  by (auto simp: login_step_def login_handleSubmit_def login_enabled_def login_view_def Let_def
      split: option.splits sum.splits)

lemma validator_messages_nonempty:
  "validateDisplayName v \<noteq> Some []" "validateEmail v \<noteq> Some []" "validatePassword v \<noteq> Some []"
  "validateConfirmPassword v w \<noteq> Some []"
  by (simp_all add: validateDisplayName_def validateEmail_def validatePassword_def validateConfirmPassword_def Let_def)

lemma reg_submit_invalid_view:
  assumes "validateDisplayName (rp_displayName s) \<noteq> None \<or> validateEmail (rp_email s) \<noteq> None \<or>
           validatePassword (rp_password s) \<noteq> None \<or> validateConfirmPassword (rp_confirmPassword s) (rp_password s) \<noteq> None"
  shows "rgv_error (reg_view (fst (fst (reg_handleSubmit uid token store (s, b))))) = Some ''Please fix the errors in the form.'' \<and>
         rgv_submitDisabled (reg_view (fst (fst (reg_handleSubmit uid token store (s, b))))) \<and>
         map fst (rgv_fieldErrors (reg_view (fst (fst (reg_handleSubmit uid token store (s, b)))))) =
           map fst (filter (\<lambda>(k, e). e \<noteq> None)
             [(''displayName'', validateDisplayName (rp_displayName s)), (''email'', validateEmail (rp_email s)),
              (''password'', validatePassword (rp_password s)),
              (''confirmPassword'', validateConfirmPassword (rp_confirmPassword s) (rp_password s))])"
  using assms validator_messages_nonempty
  by (auto simp: reg_handleSubmit_def reg_view_def reg_can_submit_def shown_errors_def Let_def split: option.splits)

end
