(* ===== verification/Outbreak.thy ===== *)
theory Outbreak
  imports Prelude "HOL-Library.AList" "HOL-Library.Multiset"
begin

text \<open>
  DiseaseOutbreakPredictionModule.tsx: the analysis its \<open>useMemo\<close> computes from
  data/monthlyReport.json and the lists the page renders from it. A state's
  \<open>diseases\<close> and \<open>blood_groups_affected\<close> objects are association lists in
  \<open>Object.entries\<close> order (insertion order: the keys are names, never array
  indices); a totals object written by \<open>d[k] = (d[k] || 0) + count\<close> keeps a key
  where it was first inserted, which is \<^const>\<open>AList.update\<close>. The counts are
  whole numbers. \<open>Array.prototype.sort\<close> with the comparator \<open>b.count - a.count\<close>
  is a stable sort by decreasing count, \<^const>\<open>sort_key\<close> on the negated count.
  \<open>reduce\<close> without an initial value throws a TypeError on an empty array.
\<close>

record stateData =
  sd_state_name :: string
  sd_month :: string
  sd_hospitals :: int
  sd_diseases :: "(string \<times> int) list"
  sd_total_cases :: int
  sd_blood :: "(string \<times> int) list"

datatype js_type_error = ReduceOfEmptyArray

definition most_cases_step :: "stateData \<Rightarrow> stateData \<Rightarrow> stateData" where
  "most_cases_step mx st = (if sd_total_cases st > sd_total_cases mx then st else mx)"

definition stateWithMostCases :: "stateData list \<Rightarrow> js_type_error + stateData" where
  "stateWithMostCases states =
     (case states of [] \<Rightarrow> Inl ReduceOfEmptyArray | s # ss \<Rightarrow> Inr (foldl most_cases_step s ss))"

text \<open>\<open>totals[k] = (totals[k] || 0) + count\<close>; a missing key reads \<open>undefined\<close>.\<close>

definition count_of :: "(string \<times> int) list \<Rightarrow> string \<Rightarrow> int" where
  "count_of totals k = (case map_of totals k of None \<Rightarrow> 0 | Some v \<Rightarrow> v)"

definition add_count :: "(string \<times> int) list \<Rightarrow> string \<times> int \<Rightarrow> (string \<times> int) list" where
  "add_count totals e = (case e of (k, c) \<Rightarrow> AList.update k (count_of totals k + c) totals)"

definition entry_totals :: "(stateData \<Rightarrow> (string \<times> int) list) \<Rightarrow> stateData list \<Rightarrow> (string \<times> int) list" where
  "entry_totals field states = foldl (\<lambda>totals st. foldl add_count totals (field st)) [] states"

definition sort_desc :: "('a \<Rightarrow> int) \<Rightarrow> 'a list \<Rightarrow> 'a list" where
  "sort_desc f xs = sort_key (\<lambda>x. - f x) xs"

definition sortedDiseases :: "stateData list \<Rightarrow> (string \<times> int) list" where
  "sortedDiseases states = sort_desc snd (entry_totals sd_diseases states)"

definition sortedBloodGroups :: "stateData list \<Rightarrow> (string \<times> int) list" where
  "sortedBloodGroups states = sort_desc snd (entry_totals sd_blood states)"

record stateSummary =
  ss_stateName :: string
  ss_totalCases :: int
  ss_hospitalsReporting :: int
  ss_diseases :: "(string \<times> int) list"
  ss_topDisease :: "(string \<times> int) option"
  ss_bloodGroupsAffected :: "(string \<times> int) list"

text \<open>\<open>Object.entries(state.diseases).sort((a, b) => b[1] - a[1])[0]\<close>, \<open>undefined\<close>
  for no disease.\<close>

definition topEntry :: "(string \<times> int) list \<Rightarrow> (string \<times> int) option" where
  "topEntry es = (case sort_desc snd es of [] \<Rightarrow> None | e # _ \<Rightarrow> Some e)"

definition state_summary :: "stateData \<Rightarrow> stateSummary" where
  "state_summary st =
     \<lparr>ss_stateName = sd_state_name st, ss_totalCases = sd_total_cases st,
      ss_hospitalsReporting = sd_hospitals st, ss_diseases = sd_diseases st,
      ss_topDisease = topEntry (sd_diseases st), ss_bloodGroupsAffected = sd_blood st\<rparr>"

definition statesWithDiseases :: "stateData list \<Rightarrow> stateSummary list" where
  "statesWithDiseases states = sort_desc ss_totalCases (map state_summary states)"

record analysis =
  an_stateWithMostCases :: stateData
  an_sortedDiseases :: "(string \<times> int) list"
  an_sortedBloodGroups :: "(string \<times> int) list"
  an_totalStates :: nat
  an_statesWithDiseases :: "stateSummary list"

text \<open>The \<open>useMemo\<close>: the \<open>reduce\<close> runs first, so an empty \<open>states\<close> array makes
  the whole render throw.\<close>

definition outbreak_analysis :: "stateData list \<Rightarrow> js_type_error + analysis" where
  "outbreak_analysis states =
     (case stateWithMostCases states of
        Inl e \<Rightarrow> Inl e
      | Inr mx \<Rightarrow> Inr \<lparr>an_stateWithMostCases = mx, an_sortedDiseases = sortedDiseases states,
                     an_sortedBloodGroups = sortedBloodGroups states, an_totalStates = length states,
                     an_statesWithDiseases = statesWithDiseases states\<rparr>)"

text \<open>What the page lists: the top three diseases, and per state card its diseases
  by decreasing count and its three most affected blood groups.\<close>

definition topDiseases :: "analysis \<Rightarrow> (string \<times> int) list" where
  "topDiseases a = take 3 (an_sortedDiseases a)"

definition card_diseases :: "stateSummary \<Rightarrow> (string \<times> int) list" where
  "card_diseases s = sort_desc snd (ss_diseases s)"

definition card_bloodGroups :: "stateSummary \<Rightarrow> (string \<times> int) list" where
  "card_bloodGroups s = take 3 (sort_desc snd (ss_bloodGroupsAffected s))"


text \<open>The rendered page: the highlight box, the two bar charts and the pie chart
  (each slice its share of the total and a colour of \<open>COLORS\<close> by its index, as
  recharts computes \<open>percent\<close>; a total of 0, where recharts divides by zero, is
  not meaningful), the ranked top three, and one card per state.\<close>

definition COLORS :: "string list" where
  "COLORS = [''#0088FE'', ''#00C49F'', ''#FFBB28'', ''#FF8042'', ''#8884d8'', ''#82ca9d'']"

definition pie_slices :: "(string \<times> int) list \<Rightarrow> (string \<times> real \<times> string) list" where
  "pie_slices groups =
     (let total = sum_list (map snd groups)
      in map2 (\<lambda>index (group, count). (group, of_int count / of_int total, COLORS ! (index mod length COLORS)))
           [0..<length groups] groups)"

record stateCard =
  sc_name :: string
  sc_total :: int
  sc_hospitals :: int
  sc_top :: "(string \<times> int) option"
  sc_diseases :: "(string \<times> int) list"
  sc_groups :: "(string \<times> int) list"

definition state_card :: "stateSummary \<Rightarrow> stateCard" where
  "state_card s =
     \<lparr>sc_name = ss_stateName s, sc_total = ss_totalCases s, sc_hospitals = ss_hospitalsReporting s,
      sc_top = ss_topDisease s, sc_diseases = card_diseases s, sc_groups = card_bloodGroups s\<rparr>"

record outbreakPage =
  op_highlight :: "string \<times> int \<times> int"
  op_diseaseBars :: "(string \<times> int) list"
  op_groupBars :: "(string \<times> int) list"
  op_pie :: "(string \<times> real \<times> string) list"
  op_top :: "(string \<times> string \<times> int) list"
  op_totalStates :: nat
  op_cards :: "stateCard list"

definition outbreak_page :: "stateData list \<Rightarrow> js_type_error + outbreakPage" where
  "outbreak_page states =
     (case outbreak_analysis states of
        Inl e \<Rightarrow> Inl e
      | Inr a \<Rightarrow> Inr
          \<lparr>op_highlight = (sd_state_name (an_stateWithMostCases a), sd_total_cases (an_stateWithMostCases a),
                          sd_hospitals (an_stateWithMostCases a)),
           op_diseaseBars = an_sortedDiseases a, op_groupBars = an_sortedBloodGroups a,
           op_pie = pie_slices (an_sortedBloodGroups a),
           op_top = map2 (\<lambda>index (name, count). (''#'' @ js_nat_string (index + 1), name, count))
                      [0..<length (topDiseases a)] (topDiseases a),
           op_totalStates = an_totalStates a,
           op_cards = map state_card (an_statesWithDiseases a)\<rparr>)"

text \<open>A report with a tie for the most cases, for the examples below.\<close>

abbreviation demo_goa :: stateData where
  "demo_goa \<equiv> \<lparr>sd_state_name = ''Goa'', sd_month = ''2025-01'', sd_hospitals = 9,
     sd_diseases = [(''Malaria'', 50), (''Dengue'', 30)], sd_total_cases = 80, sd_blood = [(''O+'', 25)]\<rparr>"

abbreviation demo_report :: "stateData list" where
  "demo_report \<equiv>
     [\<lparr>sd_state_name = ''Kerala'', sd_month = ''2025-01'', sd_hospitals = 12,
       sd_diseases = [(''Dengue'', 40), (''Malaria'', 10)], sd_total_cases = 50, sd_blood = [(''O+'', 20)]\<rparr>,
      demo_goa,
      \<lparr>sd_state_name = ''Assam'', sd_month = ''2025-01'', sd_hospitals = 7,
       sd_diseases = [(''Typhoid'', 80)], sd_total_cases = 80, sd_blood = [(''B+'', 30)]\<rparr>]"

subsection \<open>Lemmas\<close>

text \<open>The first maximum of a list: every element before it is smaller, none after
  it is larger. It is unique, which makes the two ways the page finds a maximum
  (the \<open>reduce\<close> with a strict comparison and the head of the stable sort) agree.\<close>

lemma first_max_unique_aux:
  assumes "xs = ys1 @ m1 # zs1" "xs = ys2 @ m2 # zs2" "length ys1 < length ys2"
  shows "m1 \<in> set ys2 \<and> m2 \<in> set zs1"
proof -
  have "m1 = xs ! length ys1" using assms(1) by simp
  moreover have "m2 = xs ! length ys2" using assms(2) by simp
  moreover have "xs ! length ys1 = ys2 ! length ys1" using assms(2,3) by (simp add: nth_append)
  moreover have "xs ! length ys2 = zs1 ! (length ys2 - Suc (length ys1))"
    using assms(1,3) by (simp add: nth_append)
  moreover have "length ys2 - Suc (length ys1) < length zs1"
  proof -
    have "length ys2 < length xs" using assms(2) by simp
    moreover have "length xs = length ys1 + Suc (length zs1)" using assms(1) by simp
    ultimately show ?thesis using assms(3) by linarith
  qed
  ultimately show ?thesis using assms(3) by simp
qed

lemma first_max_unique:
  fixes f :: "'a \<Rightarrow> int"
  assumes "xs = ys1 @ m1 # zs1" "\<forall>y\<in>set ys1. f y < f m1" "\<forall>z\<in>set zs1. f z \<le> f m1"
    and "xs = ys2 @ m2 # zs2" "\<forall>y\<in>set ys2. f y < f m2" "\<forall>z\<in>set zs2. f z \<le> f m2"
  shows "m1 = m2"
proof (cases "length ys1 = length ys2")
  case True
  then show ?thesis using assms(1,4) by (metis nth_append_length)
next
  case False
  then consider "length ys1 < length ys2" | "length ys2 < length ys1" by linarith
  then show ?thesis
  proof cases
    case 1
    then show ?thesis using first_max_unique_aux [OF assms(1,4) 1] assms by fastforce
  next
    case 2
    then show ?thesis using first_max_unique_aux [OF assms(4,1) 2] assms by fastforce
  qed
qed

lemma first_max_le:
  fixes f :: "'a \<Rightarrow> int"
  assumes "xs = ys @ m # zs" "\<forall>y\<in>set ys. f y < f m" "\<forall>z\<in>set zs. f z \<le> f m"
  shows "\<forall>x\<in>set xs. f x \<le> f m"
  using assms by fastforce

lemma foldl_most_cases_first_max:
  assumes "p = ys @ m # zs" "\<forall>y\<in>set ys. sd_total_cases y < sd_total_cases m"
    "\<forall>z\<in>set zs. sd_total_cases z \<le> sd_total_cases m"
  shows "\<exists>ys' zs'. p @ ss = ys' @ foldl most_cases_step m ss # zs' \<and>
           (\<forall>y\<in>set ys'. sd_total_cases y < sd_total_cases (foldl most_cases_step m ss)) \<and>
           (\<forall>z\<in>set zs'. sd_total_cases z \<le> sd_total_cases (foldl most_cases_step m ss))"
  using assms
proof (induction ss arbitrary: p ys m zs)
  case Nil
  then show ?case by auto
next
  case (Cons x ss)
  show ?case
  proof (cases "sd_total_cases m < sd_total_cases x")
    case True
    have le: "\<forall>y\<in>set p. sd_total_cases y < sd_total_cases x"
      using first_max_le [OF Cons.prems] True by fastforce
    have "\<exists>ys' zs'. (p @ [x]) @ ss = ys' @ foldl most_cases_step x ss # zs' \<and>
           (\<forall>y\<in>set ys'. sd_total_cases y < sd_total_cases (foldl most_cases_step x ss)) \<and>
           (\<forall>z\<in>set zs'. sd_total_cases z \<le> sd_total_cases (foldl most_cases_step x ss))"
      by (rule Cons.IH [of "p @ [x]" p x "[]"]) (use le in auto)
    moreover have "most_cases_step m x = x" using True by (simp add: most_cases_step_def)
    ultimately show ?thesis by simp
  next
    case False
    have "\<exists>ys' zs'. (p @ [x]) @ ss = ys' @ foldl most_cases_step m ss # zs' \<and>
           (\<forall>y\<in>set ys'. sd_total_cases y < sd_total_cases (foldl most_cases_step m ss)) \<and>
           (\<forall>z\<in>set zs'. sd_total_cases z \<le> sd_total_cases (foldl most_cases_step m ss))"
      by (rule Cons.IH [of "p @ [x]" ys m "zs @ [x]"]) (use Cons.prems False in auto)
    moreover have "most_cases_step m x = m" using False by (simp add: most_cases_step_def)
    ultimately show ?thesis by simp
  qed
qed

lemma stateWithMostCases_first_max:
  assumes "stateWithMostCases states = Inr mx"
  shows "\<exists>ys zs. states = ys @ mx # zs \<and> (\<forall>y\<in>set ys. sd_total_cases y < sd_total_cases mx) \<and>
           (\<forall>z\<in>set zs. sd_total_cases z \<le> sd_total_cases mx)"
proof (cases states)
  case Nil
  then show ?thesis using assms by (simp add: stateWithMostCases_def)
next
  case (Cons s ss)
  then have "mx = foldl most_cases_step s ss" using assms by (simp add: stateWithMostCases_def)
  then show ?thesis
    using foldl_most_cases_first_max [of "[s]" "[]" s "[]" ss] Cons by simp
qed

lemma sort_desc_Nil [simp]: "sort_desc f [] = []"
  by (simp add: sort_desc_def)

lemma sort_desc_Nil_iff [simp]: "sort_desc f xs = [] \<longleftrightarrow> xs = []"
  unfolding sort_desc_def by (metis length_0_conv length_sort)

lemma mset_sort_desc [simp]: "mset (sort_desc f xs) = mset xs"
  by (simp add: sort_desc_def)

lemma set_sort_desc [simp]: "set (sort_desc f xs) = set xs"
  by (simp add: sort_desc_def)

lemma sorted_sort_desc: "sorted_wrt (\<lambda>a b. f b \<le> f a) (sort_desc f xs)"
proof -
  have "sorted (map (\<lambda>x. - f x) (sort_desc f xs))" by (simp add: sort_desc_def)
  then show ?thesis by (simp add: sorted_map)
qed

lemma hd_insort_key:
  "ys \<noteq> [] \<Longrightarrow> hd (insort_key g x ys) = (if g x \<le> g (hd ys) then x else hd ys)"
  by (cases ys) auto

lemma sort_desc_hd_first_max:
  fixes f :: "'a \<Rightarrow> int"
  assumes "xs \<noteq> []"
  shows "\<exists>ys zs. xs = ys @ hd (sort_desc f xs) # zs \<and> (\<forall>y\<in>set ys. f y < f (hd (sort_desc f xs))) \<and>
           (\<forall>z\<in>set zs. f z \<le> f (hd (sort_desc f xs)))"
  using assms
proof (induction xs)
  case Nil
  then show ?case by simp
next
  case (Cons x xs)
  show ?case
  proof (cases "xs = []")
    case True
    then show ?thesis by (intro exI [of _ "[]"] exI [of _ "[]"]) (simp add: sort_desc_def)
  next
    case False
    let ?h = "hd (sort_desc f xs)"
    obtain ys zs where d: "xs = ys @ ?h # zs" "\<forall>y\<in>set ys. f y < f ?h" "\<forall>z\<in>set zs. f z \<le> f ?h"
      using Cons.IH False by blast
    have ne: "sort_key (\<lambda>x. - f x) xs \<noteq> []" using False sort_desc_Nil_iff [of f xs] by (simp add: sort_desc_def)
    have hd: "hd (sort_desc f (x # xs)) = (if f ?h \<le> f x then x else ?h)"
      using hd_insort_key [OF ne, of "\<lambda>x. - f x" x] by (simp add: sort_desc_def)
    show ?thesis
    proof (cases "f ?h \<le> f x")
      case True
      have "\<forall>z\<in>set xs. f z \<le> f x" using first_max_le [OF d] True by fastforce
      then show ?thesis using True hd by (intro exI [of _ "[]"] exI [of _ xs]) simp
    next
      case False
      then show ?thesis using hd d by (intro exI [of _ "x # ys"] exI [of _ zs]) auto
    qed
  qed
qed

lemma outbreak_analysis_Inr:
  "outbreak_analysis states = Inr a \<longleftrightarrow>
   (\<exists>mx. stateWithMostCases states = Inr mx \<and>
      a = \<lparr>an_stateWithMostCases = mx, an_sortedDiseases = sortedDiseases states,
           an_sortedBloodGroups = sortedBloodGroups states, an_totalStates = length states,
           an_statesWithDiseases = statesWithDiseases states\<rparr>)"
  by (cases "stateWithMostCases states") (auto simp: outbreak_analysis_def)

lemma outbreak_analysis_empty: "outbreak_analysis states = Inl ReduceOfEmptyArray \<longleftrightarrow> states = []"
  by (cases states) (simp_all add: outbreak_analysis_def stateWithMostCases_def)

text \<open>C35. The page shows the state with the most cases twice: in the highlight box,
  found by \<open>reduce\<close> with a strict comparison, and as the first card of the
  state-wise breakdown, found by a stable sort by decreasing total. Whenever the
  analysis is computed the two are the same state, ties included: both pick the
  first state of the report with the highest total.\<close>

theorem outbreak_highlight_first_card:
  assumes "outbreak_analysis states = Inr a"
  shows "an_statesWithDiseases a \<noteq> [] \<and> hd (an_statesWithDiseases a) = state_summary (an_stateWithMostCases a)"
proof -
  obtain mx where mx: "stateWithMostCases states = Inr mx"
    using assms by (cases "stateWithMostCases states") (simp_all add: outbreak_analysis_def)
  then have a: "an_stateWithMostCases a = mx" "an_statesWithDiseases a = statesWithDiseases states"
    using assms by (auto simp: outbreak_analysis_def)
  obtain ys zs where d: "states = ys @ mx # zs" "\<forall>y\<in>set ys. sd_total_cases y < sd_total_cases mx"
      "\<forall>z\<in>set zs. sd_total_cases z \<le> sd_total_cases mx"
    using stateWithMostCases_first_max [OF mx] by blast
  let ?xs = "map state_summary states"
  have tc: "ss_totalCases (state_summary st) = sd_total_cases st" for st by (simp add: state_summary_def)
  have d': "?xs = map state_summary ys @ state_summary mx # map state_summary zs"
      "\<forall>y\<in>set (map state_summary ys). ss_totalCases y < ss_totalCases (state_summary mx)"
      "\<forall>z\<in>set (map state_summary zs). ss_totalCases z \<le> ss_totalCases (state_summary mx)"
    using d(1) apply (simp only: map_append list.map(2))
    using d(2) apply (simp only: tc set_map ball_simps)
    using d(3) by (simp only: tc set_map ball_simps)
  have ne: "?xs \<noteq> []" using d by simp
  obtain ys' zs' where h: "?xs = ys' @ hd (sort_desc ss_totalCases ?xs) # zs'"
      "\<forall>y\<in>set ys'. ss_totalCases y < ss_totalCases (hd (sort_desc ss_totalCases ?xs))"
      "\<forall>z\<in>set zs'. ss_totalCases z \<le> ss_totalCases (hd (sort_desc ss_totalCases ?xs))"
    using sort_desc_hd_first_max [OF ne, of ss_totalCases] by blast
  have "hd (sort_desc ss_totalCases ?xs) = state_summary mx"
    by (rule first_max_unique [where f = ss_totalCases, OF h d'])
  moreover have "sort_desc ss_totalCases ?xs \<noteq> []" using ne by simp
  ultimately show ?thesis using a by (simp add: statesWithDiseases_def)
qed

lemma count_of_add_count:
  "count_of (add_count d e) k = count_of d k + (if fst e = k then snd e else 0)"
  by (cases e) (simp add: add_count_def count_of_def update_conv')

lemma count_of_foldl_add_count:
  "count_of (foldl add_count d es) k = count_of d k + sum_list (map snd (filter (\<lambda>e. fst e = k) es))"
  by (induction es arbitrary: d) (simp_all add: count_of_add_count)

lemma keys_add_count: "fst ` set (add_count d e) = insert (fst e) (fst ` set d)"
  by (cases e) (simp add: add_count_def dom_update)

lemma keys_foldl_add_count:
  "fst ` set (foldl add_count d es) = fst ` set d \<union> fst ` set es"
  by (induction es arbitrary: d) (auto simp: keys_add_count)

lemma distinct_foldl_add_count:
  "distinct (map fst d) \<Longrightarrow> distinct (map fst (foldl add_count d es))"
  by (induction es arbitrary: d) (simp_all add: add_count_def distinct_update split: prod.splits)

lemma entry_totals_foldl:
  "count_of (foldl (\<lambda>totals st. foldl add_count totals (field st)) d states) k =
     count_of d k + sum_list (map (\<lambda>st. sum_list (map snd (filter (\<lambda>e. fst e = k) (field st)))) states) \<and>
   fst ` set (foldl (\<lambda>totals st. foldl add_count totals (field st)) d states) =
     fst ` set d \<union> (\<Union>st\<in>set states. fst ` set (field st)) \<and>
   (distinct (map fst d) \<longrightarrow> distinct (map fst (foldl (\<lambda>totals st. foldl add_count totals (field st)) d states)))"
  by (induction states arbitrary: d)
     (auto simp: count_of_foldl_add_count keys_foldl_add_count distinct_foldl_add_count)

lemma count_of_entry_totals:
  "count_of (entry_totals field states) k =
     sum_list (map (\<lambda>st. sum_list (map snd (filter (\<lambda>e. fst e = k) (field st)))) states)"
  using entry_totals_foldl [of field "[]" states k] by (simp add: entry_totals_def count_of_def)

lemma keys_entry_totals:
  "fst ` set (entry_totals field states) = (\<Union>st\<in>set states. fst ` set (field st))"
  using entry_totals_foldl [of field "[]" states] by (simp add: entry_totals_def)

lemma distinct_entry_totals: "distinct (map fst (entry_totals field states))"
  using entry_totals_foldl [of field "[]" states] by (simp add: entry_totals_def)

lemma map_of_sort_desc:
  assumes "distinct (map fst xs)"
  shows "map_of (sort_desc f xs) = map_of xs" "distinct (map fst (sort_desc f xs))"
proof -
  have "mset (map fst (sort_desc f xs)) = mset (map fst xs)" by simp
  then show d: "distinct (map fst (sort_desc f xs))" using assms by (metis mset_eq_imp_distinct_iff)
  show "map_of (sort_desc f xs) = map_of xs" using map_of_inject_set [OF d assms] by simp
qed

lemma map_of_distinct_count_of:
  "distinct (map fst xs) \<Longrightarrow> map_of xs k = (if k \<in> fst ` set xs then Some (count_of xs k) else None)"
  by (auto simp: count_of_def split: option.splits dest: map_of_SomeD intro: rev_image_eqI)

lemma sorted_entry_totals:
  "distinct (map fst (sort_desc snd (entry_totals field states))) \<and>
   sorted_wrt (\<lambda>a b. snd b \<le> snd a) (sort_desc snd (entry_totals field states)) \<and>
   map_of (sort_desc snd (entry_totals field states)) k =
     (if k \<in> (\<Union>st\<in>set states. fst ` set (field st))
      then Some (sum_list (map (\<lambda>st. sum_list (map snd (filter (\<lambda>e. fst e = k) (field st)))) states))
      else None)"
  using map_of_sort_desc [OF distinct_entry_totals [of field states], where f = snd]
    map_of_distinct_count_of [OF distinct_entry_totals [of field states], where k = k]
  by (simp add: sorted_sort_desc count_of_entry_totals keys_entry_totals)

theorem sortedDiseases_totals:
  "distinct (map fst (sortedDiseases states)) \<and>
   sorted_wrt (\<lambda>a b. snd b \<le> snd a) (sortedDiseases states) \<and>
   map_of (sortedDiseases states) k =
     (if k \<in> (\<Union>st\<in>set states. fst ` set (sd_diseases st))
      then Some (sum_list (map (\<lambda>st. sum_list (map snd (filter (\<lambda>e. fst e = k) (sd_diseases st)))) states))
      else None)"
  unfolding sortedDiseases_def by (rule sorted_entry_totals)

lemma topEntry_first_max:
  assumes "topEntry es = Some e"
  shows "\<exists>ys zs. es = ys @ e # zs \<and> (\<forall>y\<in>set ys. snd y < snd e) \<and> (\<forall>z\<in>set zs. snd z \<le> snd e)"
proof -
  have ne: "es \<noteq> []" using assms by (auto simp: topEntry_def)
  then have "e = hd (sort_desc snd es)" using assms by (auto simp: topEntry_def hd_def split: list.splits)
  then show ?thesis using sort_desc_hd_first_max [OF ne, of snd] by simp
qed

lemma topEntry_None: "topEntry es = None \<longleftrightarrow> es = []"
  by (auto simp: topEntry_def split: list.splits)

theorem outbreak_highlight_first_card_witness:
  "outbreak_analysis demo_report = Inr (projr (outbreak_analysis demo_report)) \<and>
   hd (an_statesWithDiseases (projr (outbreak_analysis demo_report))) = state_summary demo_goa"
proof -
  have e: "outbreak_analysis demo_report = Inr (projr (outbreak_analysis demo_report))"
    by (simp add: outbreak_analysis_def stateWithMostCases_def most_cases_step_def)
  have m: "an_stateWithMostCases (projr (outbreak_analysis demo_report)) = demo_goa"
    by (simp add: outbreak_analysis_def stateWithMostCases_def most_cases_step_def)
  show ?thesis using outbreak_highlight_first_card [OF e] e m by simp
qed

text \<open>The pie's shares add up to the whole, its colours repeat from the seventh
  slice on (with eight blood groups two pairs of slices share a colour), and the top
  list is ranked #1 to #3.\<close>

lemma sum_list_counts_div:
  "sum_list (map (\<lambda>(g, c). of_int c / t) gs) = of_int (sum_list (map snd gs)) / (t :: real)"
  by (induction gs) (auto simp: add_divide_distrib)

lemma pie_percent_sum:
  assumes "sum_list (map snd groups) \<noteq> 0"
  shows "sum_list (map (fst \<circ> snd) (pie_slices groups)) = 1"
proof -
  let ?t = "of_int (sum_list (map snd groups)) :: real"
  have "map (fst \<circ> snd) (pie_slices groups) = map (\<lambda>(g, c). of_int c / ?t) groups"
    unfolding pie_slices_def Let_def by (rule map2_upt_index_free) (simp add: case_prod_unfold)
  then show ?thesis using assms by (simp add: sum_list_counts_div)
qed

lemma pie_colors_repeat:
  assumes "6 < length groups"
  shows "snd (snd (pie_slices groups ! 6)) = snd (snd (pie_slices groups ! 0))"
proof -
  have "0 < length groups" using assms by arith
  then show ?thesis
    using assms by (simp add: pie_slices_def Let_def COLORS_def case_prod_unfold nth_zip del: upt_Suc)
qed

lemma outbreak_page_ranks:
  assumes "outbreak_page states = Inr p"
  shows "map fst (op_top p) = take (length (op_top p)) [''#1'', ''#2'', ''#3'']"
proof -
  obtain a where a: "outbreak_analysis states = Inr a"
    and p: "op_top p = map2 (\<lambda>index (name, count). (''#'' @ js_nat_string (index + 1), name, count))
                         [0..<length (topDiseases a)] (topDiseases a)"
    using assms by (auto simp: outbreak_page_def split: sum.splits)
  let ?L = "\<lambda>i. ''#'' @ js_nat_string (i + 1)" and ?z = "zip [0..<length (topDiseases a)] (topDiseases a)"
  have "map fst (op_top p) = map (?L \<circ> fst) ?z"
    unfolding p by (simp add: case_prod_unfold comp_def)
  also have "\<dots> = map ?L (map fst ?z)" by (simp only: map_map)
  also have "\<dots> = map ?L [0..<length (topDiseases a)]" by (subst map_fst_zip) simp_all
  finally have m: "map fst (op_top p) = map ?L [0..<length (topDiseases a)]" .
  have l: "length (op_top p) = length (topDiseases a)" by (simp add: p)
  have "length (topDiseases a) \<le> 3" by (simp add: topDiseases_def)
  then consider "length (topDiseases a) = 0" | "length (topDiseases a) = 1" | "length (topDiseases a) = 2"
    | "length (topDiseases a) = 3" by linarith
  then show ?thesis
    by cases (simp_all add: m l upt_rec js_nat_string.simps js_string_eval)
qed

end
