(* ===== verification/HospitalMain.thy ===== *)
theory HospitalMain
  imports OtpServer "HOL-Library.AList"
begin

text \<open>
  The hospital main module (HospitalMainModule.tsx) and the forms and tables it
  opens: RegistrationForm.tsx, AddPatientForm.tsx, EmergencyRequestForm.tsx,
  TrackingStatusTable.tsx and MonthlyReportTable.tsx. A form's state is a plain
  JavaScript object updated by \<open>{...prev, [name]: value}\<close>: an association list
  of keys to JavaScript values, where the update keeps an existing key in place
  and appends a new one, which is \<^const>\<open>AList.update\<close>. The controls are
  described as the JSX renders them (name, type, \<open>required\<close>, \<open>min\<close>, \<open>max\<close>,
  the options of a select, \<open>readOnly\<close>); a change event carries the control and
  the browser's value, a select's value being one of its options. Submission
  happens only when the browser's constraint validation passes: a required
  control's displayed value is not empty and a number lies within \<open>min\<close> and
  \<open>max\<close>. The forms whose validity is used here have only text, telephone, date,
  select, text-area and integer-valued number controls, for which these are all
  the checks. A section's form is rendered only while the section is expanded
  (HospitalSection.tsx: \<open>{isExpanded && children}\<close>), so it is mounted afresh,
  with its initial data, each time its section opens.
\<close>

subsection \<open>parseInt\<close>

text \<open>The value of a character as a digit of radix \<open>r\<close> (\<open>0-9\<close>, then \<open>a-z\<close> or
  \<open>A-Z\<close> from 10), if it is one.\<close>

definition digit_val :: "nat \<Rightarrow> char \<Rightarrow> nat option" where
  "digit_val r c =
     (let n = (of_char c :: nat)
      in if 48 \<le> n \<and> n \<le> 57 then (if n - 48 < r then Some (n - 48) else None)
         else if 97 \<le> n \<and> n \<le> 122 then (if n - 87 < r then Some (n - 87) else None)
         else if 65 \<le> n \<and> n \<le> 90 then (if n - 55 < r then Some (n - 55) else None)
         else None)"

fun digit_prefix :: "nat \<Rightarrow> string \<Rightarrow> nat list" where
  "digit_prefix r [] = []"
| "digit_prefix r (c # cs) = (case digit_val r c of None \<Rightarrow> [] | Some d \<Rightarrow> d # digit_prefix r cs)"

definition digits_num :: "nat \<Rightarrow> nat list \<Rightarrow> nat" where
  "digits_num r ds = foldl (\<lambda>acc d. acc * r + d) 0 ds"

text \<open>\<open>parseInt(s)\<close> with no radix (ECMAScript 19.2.5): leading white space is
  skipped, a sign read, a \<open>0x\<close> or \<open>0X\<close> prefix selects radix 16, and the longest
  prefix of digits is read; none gives \<open>NaN\<close> (\<open>None\<close>). \<open>-0\<close> is 0.\<close>

definition js_parseInt :: "string \<Rightarrow> int option" where
  "js_parseInt s =
     (let t = dropWhile is_js_space s;
          sign = (if t \<noteq> [] \<and> hd t = CHR ''-'' then -1 else 1 :: int);
          u = (if t \<noteq> [] \<and> (hd t = CHR ''-'' \<or> hd t = CHR ''+'') then tl t else t);
          hex = (take 2 u = ''0x'' \<or> take 2 u = ''0X'');
          r = (if hex then 16 else 10);
          ds = digit_prefix r (if hex then drop 2 u else u)
      in if ds = [] then None else Some (sign * int (digits_num r ds)))"

text \<open>\<open>parseInt(value) || 0\<close>: \<open>NaN\<close> (and 0) give 0.\<close>

definition parseInt_or_zero :: "string \<Rightarrow> int" where
  "parseInt_or_zero v = (case js_parseInt v of None \<Rightarrow> 0 | Some n \<Rightarrow> n)"

subsection \<open>Form objects and controls\<close>

datatype jsval = JStr string | JNum int | JBool bool

type_synonym jsobj = "(string \<times> jsval) list"

text \<open>\<open>String(v)\<close>, what a control bound to \<open>value={v}\<close> displays.\<close>

fun jsval_string :: "jsval \<Rightarrow> string" where
  "jsval_string (JStr s) = s"
| "jsval_string (JNum n) = js_int_string n"
| "jsval_string (JBool b) = (if b then ''true'' else ''false'')"

text \<open>The declared field types of types/hospital.ts.\<close>

datatype jtype = TStr | TNum | TBool | TEnum "string list"

fun has_type :: "jtype \<Rightarrow> jsval \<Rightarrow> bool" where
  "has_type TStr (JStr _) = True"
| "has_type TNum (JNum _) = True"
| "has_type TBool (JBool _) = True"
| "has_type (TEnum vs) (JStr s) = (s \<in> set vs)"
| "has_type _ _ = False"

definition obj_typed :: "(string \<times> jtype) list \<Rightarrow> jsobj \<Rightarrow> bool" where
  "obj_typed schema obj \<longleftrightarrow> map fst obj = map fst schema \<and> list_all2 (\<lambda>kv kt. has_type (snd kt) (snd kv)) obj schema"

record control =
  ctl_name :: string
  ctl_type :: string
  ctl_required :: bool
  ctl_min :: "int option"
  ctl_max :: "int option"
  ctl_options :: "string list option"
  ctl_readonly :: bool

definition input_ctl :: "string \<Rightarrow> string \<Rightarrow> bool \<Rightarrow> control" where
  "input_ctl name ty req = \<lparr>ctl_name = name, ctl_type = ty, ctl_required = req, ctl_min = None,
     ctl_max = None, ctl_options = None, ctl_readonly = False\<rparr>"

definition number_ctl :: "string \<Rightarrow> int option \<Rightarrow> int option \<Rightarrow> control" where
  "number_ctl name lo hi = \<lparr>ctl_name = name, ctl_type = ''number'', ctl_required = True, ctl_min = lo,
     ctl_max = hi, ctl_options = None, ctl_readonly = False\<rparr>"

definition select_ctl :: "string \<Rightarrow> string list \<Rightarrow> control" where
  "select_ctl name opts = \<lparr>ctl_name = name, ctl_type = ''select-one'', ctl_required = True, ctl_min = None,
     ctl_max = None, ctl_options = Some opts, ctl_readonly = False\<rparr>"

text \<open>A change event the browser can fire on a control: not on a read-only one,
  and on a select only with one of its options.\<close>

definition change_ok :: "control \<Rightarrow> string \<Rightarrow> bool" where
  "change_ok c v \<longleftrightarrow> \<not> ctl_readonly c \<and> (case ctl_options c of None \<Rightarrow> True | Some os \<Rightarrow> v \<in> set os)"

text \<open>Constraint validation of one control against the form object (read-only
  controls are barred from it).\<close>

definition ctl_valid :: "jsobj \<Rightarrow> control \<Rightarrow> bool" where
  "ctl_valid obj c \<longleftrightarrow> ctl_readonly c \<or>
     (case map_of obj (ctl_name c) of
        None \<Rightarrow> \<not> ctl_required c
      | Some v \<Rightarrow> (ctl_required c \<longrightarrow> jsval_string v \<noteq> []) \<and>
          (case v of JNum n \<Rightarrow> (case ctl_min c of None \<Rightarrow> True | Some lo \<Rightarrow> lo \<le> n) \<and>
                               (case ctl_max c of None \<Rightarrow> True | Some hi \<Rightarrow> n \<le> hi)
           | _ \<Rightarrow> True))"

definition form_valid :: "control list \<Rightarrow> jsobj \<Rightarrow> bool" where
  "form_valid ctls obj \<longleftrightarrow> list_all (ctl_valid obj) ctls"

text \<open>The runs of a form: from its initial data, any sequence of change events on
  its controls, each handled by the form's \<open>handleChange\<close> (given the control's
  name and type, the value and the checked state).\<close>

inductive form_reachable ::
  "control list \<Rightarrow> (string \<Rightarrow> string \<Rightarrow> string \<Rightarrow> bool \<Rightarrow> jsobj \<Rightarrow> jsobj) \<Rightarrow> jsobj \<Rightarrow> jsobj \<Rightarrow> bool"
  for ctls change init where
  form_init: "form_reachable ctls change init init"
| form_change: "form_reachable ctls change init obj \<Longrightarrow> c \<in> set ctls \<Longrightarrow> change_ok c v \<Longrightarrow>
     form_reachable ctls change init (change (ctl_name c) v (ctl_type c) b obj)"

subsection \<open>RegistrationForm\<close>

definition hospitalTypes :: "string list" where
  "hospitalTypes = [''Government'', ''Private'', ''Trust'', ''Other'']"

definition regForm_init :: jsobj where
  "regForm_init =
     [(''hospitalName'', JStr []), (''hospitalId'', JStr []), (''address'', JStr []), (''city'', JStr []),
      (''state'', JStr []), (''pincode'', JStr []), (''contactPersonName'', JStr []),
      (''contactNumber'', JStr []), (''email'', JStr []), (''hospitalType'', JStr ''Government''),
      (''bedCapacity'', JNum 0), (''hasBloodStorage'', JBool False)]"

text \<open>The \<open>HospitalRegistration\<close> interface.\<close>

definition hospitalRegistration_schema :: "(string \<times> jtype) list" where
  "hospitalRegistration_schema =
     [(''hospitalName'', TStr), (''hospitalId'', TStr), (''address'', TStr), (''city'', TStr),
      (''state'', TStr), (''pincode'', TStr), (''contactPersonName'', TStr), (''contactNumber'', TStr),
      (''email'', TStr), (''hospitalType'', TEnum hospitalTypes), (''bedCapacity'', TNum),
      (''hasBloodStorage'', TBool)]"

definition regForm_controls :: "control list" where
  "regForm_controls =
     [input_ctl ''hospitalName'' ''text'' True, input_ctl ''hospitalId'' ''text'' True,
      input_ctl ''address'' ''textarea'' True, input_ctl ''city'' ''text'' True,
      input_ctl ''state'' ''text'' True, input_ctl ''pincode'' ''text'' True,
      input_ctl ''contactPersonName'' ''text'' True, input_ctl ''contactNumber'' ''tel'' True,
      input_ctl ''email'' ''email'' True, select_ctl ''hospitalType'' hospitalTypes,
      number_ctl ''bedCapacity'' (Some 0) None, input_ctl ''hasBloodStorage'' ''checkbox'' False]"

text \<open>\<open>[name]: type === "checkbox" ? checked : value\<close>: every other control, the
  number input included, stores its value as a string.\<close>

definition regForm_handleChange :: "string \<Rightarrow> string \<Rightarrow> string \<Rightarrow> bool \<Rightarrow> jsobj \<Rightarrow> jsobj" where
  "regForm_handleChange name value ty checked prev =
     AList.update name (if ty = ''checkbox'' then JBool checked else JStr value) prev"

text \<open>\<open>handleSubmit\<close> logs the object and alerts; nothing is stored.\<close>

definition regForm_handleSubmit :: "jsobj \<Rightarrow> jsobj \<times> string" where
  "regForm_handleSubmit formData = (formData, ''Registration form submitted! (This is a demo - no data was saved)'')"

subsection \<open>AddPatientForm\<close>

definition bloodGroupOptions :: "string list" where
  "bloodGroupOptions = [[], ''A+'', ''A-'', ''B+'', ''B-'', ''AB+'', ''AB-'', ''O+'', ''O-'']"

definition priorityLevels :: "string list" where
  "priorityLevels = [''Normal'', ''Urgent'', ''Critical'']"

definition patientForm_init :: jsobj where
  "patientForm_init =
     [(''patientName'', JStr []), (''age'', JNum 0), (''gender'', JStr []), (''ward'', JStr []),
      (''bedNumber'', JStr []), (''diagnosis'', JStr []), (''bloodGroup'', JStr []),
      (''doctorInCharge'', JStr []), (''admissionDate'', JStr []), (''priorityLevel'', JStr ''Normal'')]"

text \<open>The \<open>Patient\<close> interface; the form holds \<open>Omit<Patient, "patientId">\<close>.\<close>

definition patientForm_schema :: "(string \<times> jtype) list" where
  "patientForm_schema =
     [(''patientName'', TStr), (''age'', TNum), (''gender'', TStr), (''ward'', TStr), (''bedNumber'', TStr),
      (''diagnosis'', TStr), (''bloodGroup'', TStr), (''doctorInCharge'', TStr), (''admissionDate'', TStr),
      (''priorityLevel'', TEnum priorityLevels)]"

definition patient_schema :: "(string \<times> jtype) list" where
  "patient_schema = patientForm_schema @ [(''patientId'', TStr)]"

definition patientForm_controls :: "control list" where
  "patientForm_controls =
     [input_ctl ''patientName'' ''text'' True, number_ctl ''age'' (Some 0) (Some 150),
      select_ctl ''gender'' [[], ''Male'', ''Female'', ''Other''], input_ctl ''ward'' ''text'' True,
      input_ctl ''bedNumber'' ''text'' True, input_ctl ''diagnosis'' ''textarea'' True,
      select_ctl ''bloodGroup'' bloodGroupOptions, input_ctl ''doctorInCharge'' ''text'' True,
      input_ctl ''admissionDate'' ''date'' True, select_ctl ''priorityLevel'' priorityLevels]"

definition patientForm_handleChange :: "string \<Rightarrow> string \<Rightarrow> jsobj \<Rightarrow> jsobj" where
  "patientForm_handleChange name value prev =
     AList.update name (if name = ''age'' then JNum (parseInt_or_zero value) else JStr value) prev"

text \<open>\<open>{...formData, patientId: `PAT-${Date.now()}`}\<close>, logged with an alert.\<close>

definition patientForm_handleSubmit :: "millis \<Rightarrow> jsobj \<Rightarrow> jsobj \<times> string" where
  "patientForm_handleSubmit now formData =
     (AList.update ''patientId'' (JStr (''PAT-'' @ js_int_string now)) formData,
      ''Patient details saved! (This is a demo - no data was saved)'')"

subsection \<open>EmergencyRequestForm\<close>

definition emergencyTypes :: "string list" where
  "emergencyTypes = [''Accident'', ''Surgery'', ''ICU'', ''Other'']"

definition emergencyForm_init :: jsobj where
  "emergencyForm_init =
     [(''patientName'', JStr []), (''bloodGroup'', JStr []), (''unitsRequired'', JNum 0),
      (''neededWithin'', JStr []), (''emergencyType'', JStr ''Accident''), (''location'', JStr []),
      (''contactPerson'', JStr []), (''contactNumber'', JStr []), (''additionalNotes'', JStr [])]"

text \<open>The status text ends in ``Pending -- High Priority'' with an en dash, kept as
  its UTF-8 bytes.\<close>

definition emergency_status :: string where
  "emergency_status = ''Pending '' @ [CHR 0xE2, CHR 0x80, CHR 0x93] @ '' High Priority''"

text \<open>The \<open>EmergencyRequest\<close> interface; the form holds it without
  \<open>emergencyCaseId\<close> and \<open>status\<close>.\<close>

definition emergencyForm_schema :: "(string \<times> jtype) list" where
  "emergencyForm_schema =
     [(''patientName'', TStr), (''bloodGroup'', TStr), (''unitsRequired'', TNum), (''neededWithin'', TStr),
      (''emergencyType'', TEnum emergencyTypes), (''location'', TStr), (''contactPerson'', TStr),
      (''contactNumber'', TStr), (''additionalNotes'', TStr)]"

definition emergency_schema :: "(string \<times> jtype) list" where
  "emergency_schema = emergencyForm_schema @ [(''emergencyCaseId'', TStr), (''status'', TStr)]"

definition emergencyForm_controls :: "control list" where
  "emergencyForm_controls =
     [input_ctl ''patientName'' ''text'' True, select_ctl ''bloodGroup'' bloodGroupOptions,
      number_ctl ''unitsRequired'' (Some 1) None, input_ctl ''neededWithin'' ''text'' True,
      select_ctl ''emergencyType'' emergencyTypes, input_ctl ''location'' ''text'' True,
      input_ctl ''contactPerson'' ''text'' True, input_ctl ''contactNumber'' ''tel'' True,
      input_ctl ''additionalNotes'' ''textarea'' False,
      (input_ctl ''status'' ''text'' False)\<lparr>ctl_readonly := True\<rparr>]"

definition emergencyForm_handleChange :: "string \<Rightarrow> string \<Rightarrow> jsobj \<Rightarrow> jsobj" where
  "emergencyForm_handleChange name value prev =
     AList.update name (if name = ''unitsRequired'' then JNum (parseInt_or_zero value) else JStr value) prev"

definition emergencyForm_handleSubmit :: "millis \<Rightarrow> jsobj \<Rightarrow> jsobj \<times> string" where
  "emergencyForm_handleSubmit now formData =
     (AList.update ''status'' (JStr emergency_status)
        (AList.update ''emergencyCaseId'' (JStr (''EMG-'' @ js_int_string now)) formData),
      ''Emergency request submitted! (This is a demo - no data was saved)'')"

subsection \<open>TrackingStatusTable and MonthlyReportTable\<close>

definition getStatusBadgeClass :: "string \<Rightarrow> string" where
  "getStatusBadgeClass status =
     (if status = ''Completed'' then ''status-badge status-badge--completed''
      else if status = ''In Progress'' then ''status-badge status-badge--progress''
      else if status = ''Pending'' then ''status-badge status-badge--pending''
      else if status = ''Cancelled'' then ''status-badge status-badge--cancelled''
      else ''status-badge'')"

record monthlyReportRow =
  mr_patientId :: string
  mr_patientName :: string
  mr_age :: int
  mr_gender :: string
  mr_diagnosis :: string
  mr_caseType :: string
  mr_bloodGroup :: string
  mr_unitsUsed :: int
  mr_admissionDate :: string
  mr_dischargeDate :: string
  mr_outcome :: string

definition report_summary :: "monthlyReportRow list \<Rightarrow> nat \<times> int" where
  "report_summary reportData = (length reportData, foldl (\<lambda>sum row. sum + mr_unitsUsed row) 0 reportData)"

text \<open>The two tables' fixed rows and what they render: a row is its React key, its
  cells as the strings the JSX interpolates, and its badge classes. The \<open>_typed\<close>
  predicates are the union types of types/hospital.ts.\<close>

record trackingOrder =
  to_orderId :: string
  to_patientName :: string
  to_bloodGroup :: string
  to_units :: int
  to_status :: string
  to_requestedAt :: string
  to_lastUpdated :: string

definition trackingOrder_typed :: "trackingOrder \<Rightarrow> bool" where
  "trackingOrder_typed o' \<longleftrightarrow> to_status o' \<in> set [''Completed'', ''In Progress'', ''Pending'', ''Cancelled'']"

definition monthlyReportRow_typed :: "monthlyReportRow \<Rightarrow> bool" where
  "monthlyReportRow_typed r \<longleftrightarrow> mr_caseType r \<in> set [''Routine'', ''Emergency'', ''Critical''] \<and>
     mr_outcome r \<in> set [''Recovered'', ''Under Treatment'', ''Referred'']"

definition trackingData :: "trackingOrder list" where
  "trackingData =
     [\<lparr>to_orderId = ''ORD-1001'', to_patientName = ''Ravi Kumar'', to_bloodGroup = ''B+'', to_units = 3, to_status = ''Completed'', to_requestedAt = ''12-11-2025 10:30'', to_lastUpdated = ''12-11-2025 14:05''\<rparr>,
      \<lparr>to_orderId = ''ORD-1002'', to_patientName = ''Sita Rao'', to_bloodGroup = ''O-'', to_units = 2, to_status = ''In Progress'', to_requestedAt = ''13-11-2025 09:00'', to_lastUpdated = ''13-11-2025 10:15''\<rparr>,
      \<lparr>to_orderId = ''ORD-1003'', to_patientName = ''Imran Ali'', to_bloodGroup = ''AB+'', to_units = 1, to_status = ''Pending'', to_requestedAt = ''13-11-2025 11:20'', to_lastUpdated = ''13-11-2025 11:45''\<rparr>,
      \<lparr>to_orderId = ''ORD-1004'', to_patientName = ''Priya Sharma'', to_bloodGroup = ''A+'', to_units = 4, to_status = ''Completed'', to_requestedAt = ''11-11-2025 15:20'', to_lastUpdated = ''11-11-2025 18:30''\<rparr>,
      \<lparr>to_orderId = ''ORD-1005'', to_patientName = ''Rajesh Patel'', to_bloodGroup = ''B-'', to_units = 2, to_status = ''In Progress'', to_requestedAt = ''13-11-2025 08:15'', to_lastUpdated = ''13-11-2025 09:45''\<rparr>,
      \<lparr>to_orderId = ''ORD-1006'', to_patientName = ''Anita Desai'', to_bloodGroup = ''O+'', to_units = 1, to_status = ''Cancelled'', to_requestedAt = ''10-11-2025 14:00'', to_lastUpdated = ''10-11-2025 16:20''\<rparr>]"

record tableRow =
  tr_key :: string
  tr_cells :: "string list"
  tr_badges :: "string list"

definition tracking_row :: "trackingOrder \<Rightarrow> tableRow" where
  "tracking_row order =
     \<lparr>tr_key = to_orderId order,
      tr_cells = [to_orderId order, to_patientName order, to_bloodGroup order, js_int_string (to_units order),
                  to_status order, to_requestedAt order, to_lastUpdated order],
      tr_badges = [getStatusBadgeClass (to_status order)]\<rparr>"

definition tracking_header :: "string list" where
  "tracking_header = [''Order ID'', ''Patient Name'', ''Blood Group'', ''Units'', ''Status'', ''Requested At'', ''Last Updated'']"

definition trackingStatusTable :: "string \<times> string list \<times> tableRow list" where
  "trackingStatusTable = (''Tracking Status'', tracking_header, map tracking_row trackingData)"

definition reportData :: "monthlyReportRow list" where
  "reportData =
     [\<lparr>mr_patientId = ''PAT-2001'', mr_patientName = ''Ravi Kumar'', mr_age = 45, mr_gender = ''Male'', mr_diagnosis = ''Cardiac Surgery'', mr_caseType = ''Critical'', mr_bloodGroup = ''B+'', mr_unitsUsed = 3, mr_admissionDate = ''01-11-2025'', mr_dischargeDate = ''05-11-2025'', mr_outcome = ''Recovered''\<rparr>,
      \<lparr>mr_patientId = ''PAT-2002'', mr_patientName = ''Sita Rao'', mr_age = 32, mr_gender = ''Female'', mr_diagnosis = ''Accident - Multiple Injuries'', mr_caseType = ''Emergency'', mr_bloodGroup = ''O-'', mr_unitsUsed = 2, mr_admissionDate = ''03-11-2025'', mr_dischargeDate = ''08-11-2025'', mr_outcome = ''Recovered''\<rparr>,
      \<lparr>mr_patientId = ''PAT-2003'', mr_patientName = ''Imran Ali'', mr_age = 28, mr_gender = ''Male'', mr_diagnosis = ''Thalassemia'', mr_caseType = ''Routine'', mr_bloodGroup = ''AB+'', mr_unitsUsed = 1, mr_admissionDate = ''05-11-2025'', mr_dischargeDate = ''07-11-2025'', mr_outcome = ''Under Treatment''\<rparr>,
      \<lparr>mr_patientId = ''PAT-2004'', mr_patientName = ''Priya Sharma'', mr_age = 55, mr_gender = ''Female'', mr_diagnosis = ''Major Surgery'', mr_caseType = ''Critical'', mr_bloodGroup = ''A+'', mr_unitsUsed = 4, mr_admissionDate = ''02-11-2025'', mr_dischargeDate = ''10-11-2025'', mr_outcome = ''Recovered''\<rparr>,
      \<lparr>mr_patientId = ''PAT-2005'', mr_patientName = ''Rajesh Patel'', mr_age = 38, mr_gender = ''Male'', mr_diagnosis = ''Accident - Head Injury'', mr_caseType = ''Emergency'', mr_bloodGroup = ''B-'', mr_unitsUsed = 2, mr_admissionDate = ''04-11-2025'', mr_dischargeDate = ''09-11-2025'', mr_outcome = ''Referred''\<rparr>,
      \<lparr>mr_patientId = ''PAT-2006'', mr_patientName = ''Anita Desai'', mr_age = 42, mr_gender = ''Female'', mr_diagnosis = ''Cancer Treatment'', mr_caseType = ''Routine'', mr_bloodGroup = ''O+'', mr_unitsUsed = 1, mr_admissionDate = ''06-11-2025'', mr_dischargeDate = ''12-11-2025'', mr_outcome = ''Under Treatment''\<rparr>,
      \<lparr>mr_patientId = ''PAT-2007'', mr_patientName = ''Vikram Singh'', mr_age = 50, mr_gender = ''Male'', mr_diagnosis = ''Kidney Transplant'', mr_caseType = ''Critical'', mr_bloodGroup = ''A-'', mr_unitsUsed = 5, mr_admissionDate = ''07-11-2025'', mr_dischargeDate = ''15-11-2025'', mr_outcome = ''Under Treatment''\<rparr>,
      \<lparr>mr_patientId = ''PAT-2008'', mr_patientName = ''Meera Joshi'', mr_age = 29, mr_gender = ''Female'', mr_diagnosis = ''Childbirth Complications'', mr_caseType = ''Emergency'', mr_bloodGroup = ''B+'', mr_unitsUsed = 2, mr_admissionDate = ''08-11-2025'', mr_dischargeDate = ''11-11-2025'', mr_outcome = ''Recovered''\<rparr>]"

definition caseTypeClass :: "string \<Rightarrow> string" where
  "caseTypeClass caseType =
     (if caseType = ''Critical'' then ''case-type-badge--critical''
      else if caseType = ''Emergency'' then ''case-type-badge--emergency'' else ''case-type-badge--routine'')"

definition outcomeClass :: "string \<Rightarrow> string" where
  "outcomeClass outcome =
     (if outcome = ''Recovered'' then ''outcome-badge--recovered''
      else if outcome = ''Under Treatment'' then ''outcome-badge--treatment'' else ''outcome-badge--referred'')"

definition report_row :: "monthlyReportRow \<Rightarrow> tableRow" where
  "report_row row =
     \<lparr>tr_key = mr_patientId row,
      tr_cells = [mr_patientId row, mr_patientName row, js_int_string (mr_age row), mr_gender row, mr_diagnosis row,
                  mr_caseType row, mr_bloodGroup row, js_int_string (mr_unitsUsed row), mr_admissionDate row,
                  mr_dischargeDate row, mr_outcome row],
      tr_badges = [''case-type-badge '' @ caseTypeClass (mr_caseType row), ''outcome-badge '' @ outcomeClass (mr_outcome row)]\<rparr>"

definition report_header :: "string list" where
  "report_header = [''Patient ID'', ''Patient Name'', ''Age'', ''Gender'', ''Diagnosis'', ''Case Type'', ''Blood Group'',
     ''Units Used'', ''Admission Date'', ''Discharge Date'', ''Outcome'']"

definition monthlyReportTable :: "string \<times> (string \<times> string) \<times> string list \<times> tableRow list" where
  "monthlyReportTable =
     (let (totalPatients, totalUnitsUsed) = report_summary reportData
      in (''Report of the Month'', (js_nat_string totalPatients, js_int_string totalUnitsUsed), report_header,
          map report_row reportData))"

subsection \<open>HospitalMainModule\<close>

text \<open>The expanded section and the state of the form mounted in it (the two
  tables have none).\<close>

datatype section_form = NoForm | RegForm jsobj | PatientForm jsobj | EmergencyForm jsobj

record hospitalMain =
  hm_expandedSection :: "string option"
  hm_form :: section_form

definition sectionNames :: "string list" where
  "sectionNames = [''registration'', ''add-patient'', ''emergency'', ''tracking'', ''monthly-report'']"

definition section_mount :: "string option \<Rightarrow> section_form" where
  "section_mount e =
     (if e = Some ''registration'' then RegForm regForm_init
      else if e = Some ''add-patient'' then PatientForm patientForm_init
      else if e = Some ''emergency'' then EmergencyForm emergencyForm_init
      else NoForm)"

definition hm_init :: hospitalMain where
  "hm_init = \<lparr>hm_expandedSection = None, hm_form = NoForm\<rparr>"

text \<open>\<open>toggleSection\<close>: the section closes if it was open and opens otherwise;
  either way the previous section's form unmounts, and an opened form mounts with
  its initial data.\<close>

definition toggleSection :: "string \<Rightarrow> hospitalMain \<Rightarrow> hospitalMain" where
  "toggleSection sectionName s =
     (let e = (if hm_expandedSection s = Some sectionName then None else Some sectionName)
      in \<lparr>hm_expandedSection = e, hm_form = section_mount e\<rparr>)"

text \<open>A change event on a control of the mounted form.\<close>

definition hm_change :: "control \<Rightarrow> string \<Rightarrow> bool \<Rightarrow> hospitalMain \<Rightarrow> hospitalMain" where
  "hm_change c v b s =
     (if \<not> change_ok c v then s
      else case hm_form s of
        RegForm obj \<Rightarrow>
          if c \<in> set regForm_controls
          then s\<lparr>hm_form := RegForm (regForm_handleChange (ctl_name c) v (ctl_type c) b obj)\<rparr> else s
      | PatientForm obj \<Rightarrow>
          if c \<in> set patientForm_controls
          then s\<lparr>hm_form := PatientForm (patientForm_handleChange (ctl_name c) v obj)\<rparr> else s
      | EmergencyForm obj \<Rightarrow>
          if c \<in> set emergencyForm_controls
          then s\<lparr>hm_form := EmergencyForm (emergencyForm_handleChange (ctl_name c) v obj)\<rparr> else s
      | NoForm \<Rightarrow> s)"

inductive hm_reachable :: "hospitalMain \<Rightarrow> bool" where
  hm_start: "hm_reachable hm_init"
| hm_toggle: "hm_reachable s \<Longrightarrow> n \<in> set sectionNames \<Longrightarrow> hm_reachable (toggleSection n s)"
| hm_edit: "hm_reachable s \<Longrightarrow> hm_reachable (hm_change c v b s)"

subsection \<open>Lemmas\<close>

lemma obj_typed_iff:
  "obj_typed schema obj \<longleftrightarrow> list_all2 (\<lambda>kv kt. fst kv = fst kt \<and> has_type (snd kt) (snd kv)) obj schema"
  unfolding obj_typed_def by (auto simp: list_all2_conv_all_nth list_eq_iff_nth_eq)

lemma obj_typed_update:
  assumes "obj_typed schema obj" "map_of schema k = Some t" "has_type t v"
  shows "obj_typed schema (AList.update k v obj)"
proof -
  have "list_all2 (\<lambda>kv kt. fst kv = fst kt \<and> has_type (snd kt) (snd kv)) obj schema"
    using assms(1) by (simp add: obj_typed_iff)
  then have "list_all2 (\<lambda>kv kt. fst kv = fst kt \<and> has_type (snd kt) (snd kv)) (AList.update k v obj) schema"
    using assms(2,3)
  proof (induction obj schema rule: list_all2_induct)
    case Nil
    then show ?case by simp
  next
    case (Cons x xs y ys)
    then show ?case by (cases x; cases y) auto
  qed
  then show ?thesis by (simp add: obj_typed_iff)
qed

lemma obj_typed_map_of:
  assumes "obj_typed schema obj" "map_of schema k = Some t"
  shows "\<exists>v. map_of obj k = Some v \<and> has_type t v"
proof -
  have "list_all2 (\<lambda>kv kt. fst kv = fst kt \<and> has_type (snd kt) (snd kv)) obj schema"
    using assms(1) by (simp add: obj_typed_iff)
  then show ?thesis using assms(2)
  proof (induction obj schema rule: list_all2_induct)
    case Nil
    then show ?case by simp
  next
    case (Cons x xs y ys)
    then show ?case by (cases x; cases y) auto
  qed
qed

lemma patientForm_change_typed:
  "c \<in> set patientForm_controls \<Longrightarrow> change_ok c v \<Longrightarrow>
   \<exists>t. map_of patientForm_schema (ctl_name c) = Some t \<and>
       has_type t (if ctl_name c = ''age'' then JNum (parseInt_or_zero v) else JStr v)"
  by (auto simp: patientForm_controls_def patientForm_schema_def input_ctl_def number_ctl_def
      select_ctl_def change_ok_def)

lemma patientForm_reachable_typed:
  "form_reachable patientForm_controls (\<lambda>n v t b. patientForm_handleChange n v) patientForm_init obj \<Longrightarrow>
   obj_typed patientForm_schema obj"
proof (induction rule: form_reachable.induct)
  case form_init
  then show ?case by (simp add: obj_typed_def patientForm_init_def patientForm_schema_def priorityLevels_def)
next
  case (form_change obj c v b)
  then show ?case
    using patientForm_change_typed [OF form_change.hyps(2,3)]
    by (auto simp: patientForm_handleChange_def intro: obj_typed_update)
qed

lemma emergencyForm_change_typed:
  "c \<in> set emergencyForm_controls \<Longrightarrow> change_ok c v \<Longrightarrow>
   \<exists>t. map_of emergencyForm_schema (ctl_name c) = Some t \<and>
       has_type t (if ctl_name c = ''unitsRequired'' then JNum (parseInt_or_zero v) else JStr v)"
  by (auto simp: emergencyForm_controls_def emergencyForm_schema_def input_ctl_def number_ctl_def
      select_ctl_def change_ok_def)

lemma emergencyForm_reachable_typed:
  "form_reachable emergencyForm_controls (\<lambda>n v t b. emergencyForm_handleChange n v) emergencyForm_init obj \<Longrightarrow>
   obj_typed emergencyForm_schema obj"
proof (induction rule: form_reachable.induct)
  case form_init
  then show ?case by (simp add: obj_typed_def emergencyForm_init_def emergencyForm_schema_def emergencyTypes_def)
next
  case (form_change obj c v b)
  then show ?case
    using emergencyForm_change_typed [OF form_change.hyps(2,3)]
    by (auto simp: emergencyForm_handleChange_def intro: obj_typed_update)
qed

lemma js_nat_string_digits: "c \<in> set (js_nat_string n) \<Longrightarrow> 48 \<le> (of_char c :: nat) \<and> (of_char c :: nat) \<le> 57"
proof (induction n rule: js_nat_string.induct)
  case (1 n)
  have d: "48 \<le> (of_char (char_of (48 + d) :: char) :: nat) \<and> of_char (char_of (48 + d) :: char) \<le> (57 :: nat)"
    if "d < 10" for d :: nat
    using that by (simp add: of_char_digit)
  show ?case
    using 1 d [of n] d [of "n mod 10"] by (auto simp: js_nat_string.simps [of n] split: if_splits)
qed

lemma js_nat_string_ne [simp]: "js_nat_string n \<noteq> []"
  by (simp add: js_nat_string.simps)

lemma digit_prefix_digits:
  "\<forall>c\<in>set s. 48 \<le> (of_char c :: nat) \<and> (of_char c :: nat) \<le> 57 \<Longrightarrow>
   digit_prefix 10 s = map (\<lambda>c. of_char c - 48) s"
  by (induction s) (auto simp: digit_val_def Let_def)

lemma digits_num_digits_value: "digits_num 10 (map (\<lambda>c. of_char c - 48) s) = digits_value s"
proof -
  have "foldl (\<lambda>acc d. acc * 10 + d) a (map (\<lambda>c. of_char c - 48) s) =
        foldl (\<lambda>acc c. acc * 10 + (of_char c - 48)) a s" for a :: nat
    by (induction s arbitrary: a) simp_all
  then show ?thesis by (simp add: digits_num_def digits_value_def)
qed

lemma js_parseInt_plain:
  assumes "s \<noteq> []" "\<not> is_js_space (hd s)" "hd s \<noteq> CHR ''-''" "hd s \<noteq> CHR ''+''"
    "take 2 s \<noteq> ''0x''" "take 2 s \<noteq> ''0X''"
  shows "js_parseInt s = (if digit_prefix 10 s = [] then None else Some (int (digits_num 10 (digit_prefix 10 s))))"
proof -
  have "dropWhile is_js_space s = s" using assms(1,2) by (cases s) auto
  then show ?thesis using assms by (simp add: js_parseInt_def Let_def)
qed

lemma js_parseInt_neg:
  assumes "s \<noteq> []" "\<not> is_js_space (hd s)" "hd s \<noteq> CHR ''-''" "hd s \<noteq> CHR ''+''"
    "take 2 s \<noteq> ''0x''" "take 2 s \<noteq> ''0X''"
  shows "js_parseInt (CHR ''-'' # s) = map_option uminus (js_parseInt s)"
proof -
  have "\<not> is_js_space (CHR ''-'')" by (simp add: is_js_space_def)
  then have "dropWhile is_js_space (CHR ''-'' # s) = CHR ''-'' # s" by simp
  then show ?thesis using assms js_parseInt_plain [OF assms] by (simp add: js_parseInt_def Let_def)
qed

lemma js_nat_string_plain:
  "js_nat_string n \<noteq> [] \<and> \<not> is_js_space (hd (js_nat_string n)) \<and>
   hd (js_nat_string n) \<noteq> CHR ''-'' \<and> hd (js_nat_string n) \<noteq> CHR ''+'' \<and>
   take 2 (js_nat_string n) \<noteq> ''0x'' \<and> take 2 (js_nat_string n) \<noteq> ''0X''"
proof -
  let ?s = "js_nat_string n"
  have dig: "\<forall>c\<in>set ?s. 48 \<le> (of_char c :: nat) \<and> (of_char c :: nat) \<le> 57" using js_nat_string_digits by blast
  obtain c cs where cs: "?s = c # cs" by (cases ?s) auto
  have c: "48 \<le> (of_char c :: nat)" "(of_char c :: nat) \<le> 57" using dig cs by auto
  have "\<not> is_js_space c" "c \<noteq> CHR ''-''" "c \<noteq> CHR ''+''" using c by (auto simp: is_js_space_def)
  moreover have "take 2 ?s \<noteq> ''0x'' \<and> take 2 ?s \<noteq> ''0X''"
  proof (cases cs)
    case Nil
    then show ?thesis using cs by simp
  next
    case (Cons d ds)
    then have "48 \<le> (of_char d :: nat)" "(of_char d :: nat) \<le> 57" using dig cs by auto
    then have "d \<noteq> CHR ''x''" "d \<noteq> CHR ''X''" by auto
    then show ?thesis using cs Cons by simp
  qed
  ultimately show ?thesis using cs by simp
qed

lemma parseInt_nat_string: "js_parseInt (js_nat_string n) = Some (int n)"
proof -
  let ?s = "js_nat_string n"
  have dig: "\<forall>c\<in>set ?s. 48 \<le> (of_char c :: nat) \<and> (of_char c :: nat) \<le> 57" using js_nat_string_digits by blast
  have "digit_prefix 10 ?s \<noteq> []" using digit_prefix_digits [OF dig] by simp
  then show ?thesis
    using js_parseInt_plain [of ?s] js_nat_string_plain [of n] digit_prefix_digits [OF dig]
      digits_num_digits_value [of ?s]
    by simp
qed

theorem parseInt_int_string: "js_parseInt (js_int_string i) = Some i"
proof (cases "i < 0")
  case True
  have "js_parseInt (CHR ''-'' # js_nat_string (nat (- i))) = Some (- int (nat (- i)))"
    using js_nat_string_plain [of "nat (- i)"] js_parseInt_neg [of "js_nat_string (nat (- i))"]
      parseInt_nat_string [of "nat (- i)"]
    by simp
  then show ?thesis using True by (simp add: js_int_string_def)
next
  case False
  then show ?thesis using parseInt_nat_string [of "nat i"] by (simp add: js_int_string_def)
qed

lemma obj_typed_append:
  "obj_typed schema obj \<Longrightarrow> has_type t v \<Longrightarrow> obj_typed (schema @ [(k, t)]) (obj @ [(k, v)])"
  by (simp add: obj_typed_iff list_all2_appendI)

lemma obj_typed_keys: "obj_typed schema obj \<Longrightarrow> fst ` set obj = fst ` set schema"
  unfolding obj_typed_def by (metis list.set_map)

lemma form_valid_ctl: "form_valid ctls obj \<Longrightarrow> c \<in> set ctls \<Longrightarrow> ctl_valid obj c"
  by (simp add: form_valid_def list_all_iff)

lemmas form_defs = patientForm_controls_def emergencyForm_controls_def regForm_controls_def
  input_ctl_def number_ctl_def select_ctl_def

theorem patient_submit_typed:
  assumes "form_reachable patientForm_controls (\<lambda>n v t b. patientForm_handleChange n v) patientForm_init obj"
    and "form_valid patientForm_controls obj"
  shows "obj_typed patient_schema (fst (patientForm_handleSubmit now obj)) \<and>
         map_of (fst (patientForm_handleSubmit now obj)) ''patientId'' = Some (JStr (''PAT-'' @ js_int_string now)) \<and>
         (\<exists>a. map_of obj ''age'' = Some (JNum a) \<and> 0 \<le> a \<and> a \<le> 150)"
proof -
  have ty: "obj_typed patientForm_schema obj" using patientForm_reachable_typed [OF assms(1)] .
  have "''patientId'' \<notin> fst ` set obj"
    using obj_typed_keys [OF ty] by (simp add: patientForm_schema_def)
  then have sub: "fst (patientForm_handleSubmit now obj) = obj @ [(''patientId'', JStr (''PAT-'' @ js_int_string now))]"
    by (simp add: patientForm_handleSubmit_def update_absent)
  obtain a where a: "map_of obj ''age'' = Some (JNum a)"
    using obj_typed_map_of [OF ty, of "''age''" TNum] by (auto simp: patientForm_schema_def elim: has_type.elims)
  have "ctl_valid obj (number_ctl ''age'' (Some 0) (Some 150))"
    using form_valid_ctl [OF assms(2)] by (simp add: form_defs)
  then have "0 \<le> a \<and> a \<le> 150" using a by (simp add: ctl_valid_def number_ctl_def)
  moreover have "map_of (fst (patientForm_handleSubmit now obj)) ''patientId'' = Some (JStr (''PAT-'' @ js_int_string now))"
    by (simp add: patientForm_handleSubmit_def update_conv')
  ultimately show ?thesis
    using sub obj_typed_append [OF ty, of TStr] a by (simp add: patient_schema_def)
qed

theorem emergency_submit_typed:
  assumes "form_reachable emergencyForm_controls (\<lambda>n v t b. emergencyForm_handleChange n v) emergencyForm_init obj"
    and "form_valid emergencyForm_controls obj"
  shows "obj_typed emergency_schema (fst (emergencyForm_handleSubmit now obj)) \<and>
         map_of (fst (emergencyForm_handleSubmit now obj)) ''status'' = Some (JStr emergency_status) \<and>
         (\<exists>u. map_of obj ''unitsRequired'' = Some (JNum u) \<and> 1 \<le> u)"
proof -
  have ty: "obj_typed emergencyForm_schema obj" using emergencyForm_reachable_typed [OF assms(1)] .
  have k: "fst ` set obj = fst ` set emergencyForm_schema" using obj_typed_keys [OF ty] .
  let ?id = "(''emergencyCaseId'', JStr (''EMG-'' @ js_int_string now))"
  have sub: "fst (emergencyForm_handleSubmit now obj) = (obj @ [?id]) @ [(''status'', JStr emergency_status)]"
    using k by (simp add: emergencyForm_handleSubmit_def update_absent emergencyForm_schema_def)
  obtain u where u: "map_of obj ''unitsRequired'' = Some (JNum u)"
    using obj_typed_map_of [OF ty, of "''unitsRequired''" TNum]
    by (auto simp: emergencyForm_schema_def elim: has_type.elims)
  have "ctl_valid obj (number_ctl ''unitsRequired'' (Some 1) None)"
    using form_valid_ctl [OF assms(2)] by (simp add: form_defs)
  then have "1 \<le> u" using u by (simp add: ctl_valid_def number_ctl_def)
  moreover have "map_of (fst (emergencyForm_handleSubmit now obj)) ''status'' = Some (JStr emergency_status)"
    by (simp add: emergencyForm_handleSubmit_def update_conv')
  moreover have "obj_typed emergency_schema ((obj @ [?id]) @ [(''status'', JStr emergency_status)])"
    using obj_typed_append [OF obj_typed_append [OF ty, where t = TStr], where t = TStr]
    by (simp add: emergency_schema_def)
  ultimately show ?thesis using sub u by simp
qed

text \<open>Clearing a number field: the age of a patient reads back as 0, which the
  form then displays, so the field is no longer empty and passes \<open>required\<close>
  and \<open>min="0"\<close>; the units of an emergency read back as 0 too, but \<open>min="1"\<close>
  then blocks the submission.\<close>

lemma patient_age_cleared:
  "map_of (patientForm_handleChange ''age'' [] obj) ''age'' = Some (JNum 0) \<and>
   ctl_valid (patientForm_handleChange ''age'' [] obj) (number_ctl ''age'' (Some 0) (Some 150))"
  by (simp add: patientForm_handleChange_def parseInt_or_zero_def js_parseInt_def update_conv'
      ctl_valid_def number_ctl_def js_int_string_def js_nat_string.simps)

lemma emergency_units_cleared:
  "\<not> form_valid emergencyForm_controls (emergencyForm_handleChange ''unitsRequired'' [] obj)"
proof -
  have "\<not> ctl_valid (emergencyForm_handleChange ''unitsRequired'' [] obj) (number_ctl ''unitsRequired'' (Some 1) None)"
    by (simp add: emergencyForm_handleChange_def parseInt_or_zero_def js_parseInt_def update_conv'
        ctl_valid_def number_ctl_def)
  then show ?thesis by (auto simp: form_valid_def form_defs)
qed

text \<open>The registration form stores what the bed-capacity input holds as a
  string, so the object no longer has the \<open>HospitalRegistration\<close> type.\<close>

lemma regForm_init_typed: "obj_typed hospitalRegistration_schema regForm_init"
  by (simp add: obj_typed_def regForm_init_def hospitalRegistration_schema_def hospitalTypes_def)

lemma regForm_bedCapacity_untyped:
  "\<not> obj_typed hospitalRegistration_schema (regForm_handleChange ''bedCapacity'' v ''number'' b obj)"
proof
  assume "obj_typed hospitalRegistration_schema (regForm_handleChange ''bedCapacity'' v ''number'' b obj)"
  from obj_typed_map_of [OF this, of "''bedCapacity''" TNum]
  show False by (simp add: hospitalRegistration_schema_def regForm_handleChange_def update_conv')
qed

lemma hm_reachable_forms:
  "hm_reachable s \<Longrightarrow>
   (case hm_form s of
      NoForm \<Rightarrow> hm_expandedSection s \<notin> {Some ''registration'', Some ''add-patient'', Some ''emergency''}
    | RegForm obj \<Rightarrow> hm_expandedSection s = Some ''registration'' \<and>
        form_reachable regForm_controls regForm_handleChange regForm_init obj
    | PatientForm obj \<Rightarrow> hm_expandedSection s = Some ''add-patient'' \<and>
        form_reachable patientForm_controls (\<lambda>n v t b. patientForm_handleChange n v) patientForm_init obj
    | EmergencyForm obj \<Rightarrow> hm_expandedSection s = Some ''emergency'' \<and>
        form_reachable emergencyForm_controls (\<lambda>n v t b. emergencyForm_handleChange n v) emergencyForm_init obj)"
proof (induction rule: hm_reachable.induct)
  case hm_start
  then show ?case by (simp add: hm_init_def)
next
  case (hm_toggle s n)
  show ?case
    by (simp add: toggleSection_def section_mount_def Let_def form_reachable.form_init)
next
  case (hm_edit s c v b)
  then show ?case
    by (auto simp: hm_change_def split: section_form.splits intro: form_reachable.form_change)
qed

theorem hm_patient_form_typed:
  "hm_reachable s \<Longrightarrow> hm_form s = PatientForm obj \<Longrightarrow> obj_typed patientForm_schema obj"
  using hm_reachable_forms [of s] patientForm_reachable_typed by auto

text \<open>Every toggle leaves either no form or the toggled section's form at its
  initial data: opening another section, or closing this one, loses what was
  typed, and coming back shows the empty form.\<close>

theorem hm_toggle_discards:
  "hm_form (toggleSection n s) \<in> {NoForm, section_mount (Some n)}"
  by (simp add: toggleSection_def Let_def section_mount_def)

lemma hm_reopen_resets:
  "n \<noteq> ''registration'' \<Longrightarrow> hm_form (toggleSection ''registration'' (toggleSection n s)) = RegForm regForm_init"
  by (simp add: toggleSection_def section_mount_def Let_def)

lemma report_summary_sum:
  "report_summary rows = (length rows, sum_list (map mr_unitsUsed rows))"
proof -
  have "foldl (\<lambda>sum row. sum + mr_unitsUsed row) a rows = a + sum_list (map mr_unitsUsed rows)" for a
    by (induction rows arbitrary: a) (simp_all add: algebra_simps)
  then show ?thesis by (simp add: report_summary_def)
qed

text \<open>The fixed rows respect their types, their keys are distinct (React needs no
  fallback key), the monthly totals are 8 patients and 20 units, and on typed values
  no badge falls to a default class that two different values would share.\<close>

lemma typed_status_badge:
  "trackingOrder_typed o' \<Longrightarrow> getStatusBadgeClass (to_status o') \<noteq> ''status-badge''"
  by (auto simp: trackingOrder_typed_def getStatusBadgeClass_def)

lemma typed_report_badges:
  assumes "monthlyReportRow_typed r1" "monthlyReportRow_typed r2"
  shows "caseTypeClass (mr_caseType r1) = caseTypeClass (mr_caseType r2) \<longleftrightarrow> mr_caseType r1 = mr_caseType r2"
    and "outcomeClass (mr_outcome r1) = outcomeClass (mr_outcome r2) \<longleftrightarrow> mr_outcome r1 = mr_outcome r2"
  using assms by (auto simp: monthlyReportRow_typed_def caseTypeClass_def outcomeClass_def)

lemma trackingData_typed: "list_all trackingOrder_typed trackingData"
  by (simp add: trackingData_def trackingOrder_typed_def)

lemma reportData_typed: "list_all monthlyReportRow_typed reportData"
  by (simp add: reportData_def monthlyReportRow_typed_def)

lemma tracking_keys_distinct: "distinct (map tr_key (snd (snd trackingStatusTable)))"
  by (simp add: trackingStatusTable_def trackingData_def tracking_row_def)

lemma report_keys_distinct: "distinct (map tr_key (snd (snd (snd monthlyReportTable))))"
  by (simp add: monthlyReportTable_def reportData_def report_row_def report_summary_def)

lemma monthlyReport_totals: "fst (snd monthlyReportTable) = (''8'', ''20'')"
  by (simp add: monthlyReportTable_def reportData_def report_summary_def js_int_string_def js_nat_string.simps js_string_eval)

end
