(* ===== verification/Session.thy ===== *)
theory Session
  imports Auth
begin

text \<open>
  The authentication context (contexts/AuthContext.tsx) and the navigation bar
  that reads it (Navbar.tsx). The provider keeps \<open>currentUser\<close> and
  \<open>loading\<close>; the identity provider's auth-state listener fires with the signed-in
  account or \<open>null\<close>, and the provider mirrors the account into session storage.
  \<open>getIdToken()\<close> is an input of the event (\<open>None\<close> when it rejects); the
  listener's \<open>await\<close> completes before the next event. \<open>signOut\<close> signs out of the
  identity provider, whose listener then fires with \<open>null\<close>, and clears the
  storage. The bar shows nothing while loading, then either the user menu, whose
  avatar shows \<open>getUserInitials()\<close>, or the login and register buttons. The
  bar's controls are events of a step function, App.tsx's routes and its
  \<open>ProtectedRoute\<close> guard say what each path renders, and \<open>nav_reachable\<close>
  interleaves the bar's events with the provider's.
\<close>

record authCtx =
  currentUser :: "idp_account option"
  auth_loading :: bool

definition authCtx_init :: authCtx where
  "authCtx_init = \<lparr>currentUser = None, auth_loading = True\<rparr>"

definition isAuthenticated :: "authCtx \<Rightarrow> bool" where
  "isAuthenticated c \<longleftrightarrow> currentUser c \<noteq> None"

definition user_session_keys :: "string list" where
  "user_session_keys = [''userToken'', ''userEmail'', ''userId'', ''userDisplayName'']"

text \<open>The \<open>onAuthStateChanged\<close> callback.\<close>

definition onAuthStateChanged :: "idp_account option \<Rightarrow> string option \<Rightarrow> authCtx \<times> browser \<Rightarrow> authCtx \<times> browser" where
  "onAuthStateChanged user token st =
     (let (c, b) = st;
          b1 = (case user of
                  Some u \<Rightarrow>
                    (case token of
                       Some t \<Rightarrow> b\<lparr>session := set_field ''userDisplayName'' (acc_displayName u)
                                  (set_field ''userId'' (acc_uid u) (set_field ''userEmail'' (acc_email u)
                                    (set_field ''userToken'' t (session b))))\<rparr>
                     | None \<Rightarrow> b)
                | None \<Rightarrow> b\<lparr>session := fold AList.delete user_session_keys (session b)\<rparr>)
      in (c\<lparr>currentUser := user, auth_loading := False\<rparr>, b1))"

text \<open>\<open>signOut\<close>: the identity provider's sign-out (\<open>False\<close> when it rejects, in
  which case the error propagates), its listener firing with \<open>null\<close>, then
  \<open>sessionStorage.clear()\<close> and the removal of the remembered e-mail.\<close>

definition signOut :: "bool \<Rightarrow> authCtx \<times> browser \<Rightarrow> bool \<times> authCtx \<times> browser" where
  "signOut ok st =
     (if \<not> ok then (False, st)
      else let (c, b) = onAuthStateChanged None None st
           in (True, c, b\<lparr>session := [], local := AList.delete ''savedEmail'' (AList.delete ''rememberMe'' (local b))\<rparr>))"

text \<open>\<open>refreshToken\<close>: a fresh token (\<open>None\<close> when it rejects) when signed in.\<close>

definition refreshToken :: "string option \<Rightarrow> authCtx \<times> browser \<Rightarrow> string option \<times> browser" where
  "refreshToken token st =
     (let (c, b) = st
      in case currentUser c of
           None \<Rightarrow> (None, b)
         | Some u \<Rightarrow> (case token of None \<Rightarrow> (None, b)
                     | Some t \<Rightarrow> (Some t, b\<lparr>session := set_field ''userToken'' t (session b)\<rparr>)))"

subsection \<open>Navbar\<close>

text \<open>\<open>s.split(" ")\<close>: the pieces between the spaces, empty ones included.\<close>

fun js_split :: "char \<Rightarrow> string \<Rightarrow> string list" where
  "js_split d [] = [[]]"
| "js_split d (c # cs) =
     (if c = d then [] # js_split d cs
      else (case js_split d cs of [] \<Rightarrow> [[c]] | w # ws \<Rightarrow> (c # w) # ws))"

text \<open>\<open>ws.join(d)\<close>, the inverse of the split.\<close>

fun js_join :: "char \<Rightarrow> string list \<Rightarrow> string" where
  "js_join d [] = []"
| "js_join d [w] = w"
| "js_join d (w # v # ws) = w @ d # js_join d (v # ws)"

text \<open>\<open>toUpperCase\<close> on the ASCII letters.\<close>

definition js_upper_char :: "char \<Rightarrow> char" where
  "js_upper_char c =
     (if of_char (CHR ''a'') \<le> (of_char c :: nat) \<and> of_char c \<le> (of_char (CHR ''z'') :: nat)
      then char_of (of_char c - (32::nat)) else c)"

definition js_upper :: "string \<Rightarrow> string" where
  "js_upper s = map js_upper_char s"

text \<open>\<open>s[0]\<close>: the first character, \<open>undefined\<close> (\<open>None\<close>) for the empty string.\<close>

definition first_char :: "string \<Rightarrow> string option" where
  "first_char s = (case s of [] \<Rightarrow> None | c # _ \<Rightarrow> Some [c])"

datatype render_error = TypeError

text \<open>\<open>a + b\<close> of two such values: string concatenation writes \<open>undefined\<close>
  for a missing one; \<open>undefined + undefined\<close> is \<open>NaN\<close>, a number, on which
  \<open>.toUpperCase()\<close> throws.\<close>

definition js_add_first_chars :: "string option \<Rightarrow> string option \<Rightarrow> render_error + string" where
  "js_add_first_chars a b =
     (case (a, b) of
        (None, None) \<Rightarrow> Inl TypeError
      | (Some x, None) \<Rightarrow> Inr (x @ ''undefined'')
      | (None, Some y) \<Rightarrow> Inr (''undefined'' @ y)
      | (Some x, Some y) \<Rightarrow> Inr (x @ y))"

definition getUserDisplayName :: "authCtx \<Rightarrow> string" where
  "getUserDisplayName c =
     (case currentUser c of
        None \<Rightarrow> ''User''
      | Some u \<Rightarrow> if acc_displayName u \<noteq> [] then acc_displayName u
                  else if hd (js_split (CHR ''@'') (acc_email u)) \<noteq> [] then hd (js_split (CHR ''@'') (acc_email u))
                  else ''User'')"

definition getUserInitials :: "authCtx \<Rightarrow> render_error + string" where
  "getUserInitials c =
     (case currentUser c of
        None \<Rightarrow> Inr ''U''
      | Some u \<Rightarrow>
          (let name = (if acc_displayName u \<noteq> [] then acc_displayName u
                       else if acc_email u \<noteq> [] then acc_email u else ''User'');
               parts = js_split (CHR '' '') name
           in if length parts \<ge> 2
              then (case js_add_first_chars (first_char (parts ! 0)) (first_char (parts ! 1)) of
                      Inl e \<Rightarrow> Inl e | Inr s \<Rightarrow> Inr (js_upper s))
              else Inr (js_upper [hd name])))"

record navbar =
  showUserMenu :: bool
  nav_path :: string

text \<open>What the bar renders at its right end.\<close>

datatype nav_view = NavNothing | NavUserMenu | NavLoginButtons

definition nav_view :: "authCtx \<Rightarrow> nav_view" where
  "nav_view c = (if auth_loading c then NavNothing else if isAuthenticated c then NavUserMenu else NavLoginButtons)"

text \<open>\<open>handleLogout\<close>: on success the menu closes and the page goes to \<open>/\<close>; a
  rejected sign-out is logged and changes nothing.\<close>

definition handleLogout :: "bool \<Rightarrow> navbar \<times> authCtx \<times> browser \<Rightarrow> navbar \<times> authCtx \<times> browser" where
  "handleLogout ok st =
     (let (n, cb) = st; (done, c, b) = signOut ok cb
      in if done then (n\<lparr>showUserMenu := False, nav_path := ''/''\<rparr>, c, b) else (n, c, b))"

text \<open>The provider's runs from mount, on a browser whose session storage may hold
  anything from before: the listener's callbacks, \<open>signOut\<close> and
  \<open>refreshToken\<close>.\<close>

inductive auth_reachable :: "browser \<Rightarrow> authCtx \<times> browser \<Rightarrow> bool" for b0 where
  auth_mount: "auth_reachable b0 (authCtx_init, b0)"
| auth_listener: "auth_reachable b0 st \<Longrightarrow> auth_reachable b0 (onAuthStateChanged user token st)"
| auth_signOut: "auth_reachable b0 st \<Longrightarrow> signOut ok st = (dn, st') \<Longrightarrow> auth_reachable b0 st'"
| auth_refresh: "auth_reachable b0 (c, b) \<Longrightarrow> auth_reachable b0 (c, snd (refreshToken token (c, b)))"

text \<open>The rest of the bar: its links (the \<open>href\<close>s are plain anchors), the
  events of its controls and of the document-wide \<open>mousedown\<close> listener, which is
  registered while \<open>showUserMenu\<close> holds and closes the menu on a press outside
  the menu's element (\<open>menuRef.current\<close> is null, and nothing closes, while the
  element is not rendered). The bar is mounted once above the routes of App.tsx,
  so its state survives navigation.\<close>

definition navItems :: "(string \<times> string) list" where
  "navItems = [(''Home'', ''/''), (''About'', ''/#about''), (''Services'', ''/#services''), (''Contact'', ''/#contact'')]"

definition nav_links :: "string \<Rightarrow> (string \<times> string \<times> string) list" where
  "nav_links pathname =
     map (\<lambda>(label, href). (label, href, ''navbar__link '' @ (if pathname = ''/'' then ''navbar__link--home'' else '''')))
       navItems"

datatype nav_event = NavBrand | NavToggleMenu | NavMouseDown bool | NavDashboard | NavDonorRegistration
  | NavSignOut bool | NavSignIn | NavRegister

definition nav_enabled :: "navbar \<Rightarrow> authCtx \<Rightarrow> nav_event \<Rightarrow> bool" where
  "nav_enabled n c e =
     (case e of
        NavBrand \<Rightarrow> True
      | NavToggleMenu \<Rightarrow> nav_view c = NavUserMenu
      | NavMouseDown inside \<Rightarrow> True
      | NavSignIn \<Rightarrow> nav_view c = NavLoginButtons
      | NavRegister \<Rightarrow> nav_view c = NavLoginButtons
      | _ \<Rightarrow> nav_view c = NavUserMenu \<and> showUserMenu n)"

definition handleClickOutside :: "bool \<Rightarrow> bool \<Rightarrow> navbar \<Rightarrow> navbar" where
  "handleClickOutside mounted inside n = (if mounted \<and> \<not> inside then n\<lparr>showUserMenu := False\<rparr> else n)"

definition nav_step :: "nav_event \<Rightarrow> navbar \<times> authCtx \<times> browser \<Rightarrow> navbar \<times> authCtx \<times> browser" where
  "nav_step e st =
     (let (n, c, b) = st
      in case e of
           NavBrand \<Rightarrow> (n\<lparr>nav_path := ''/''\<rparr>, c, b)
         | NavToggleMenu \<Rightarrow> (n\<lparr>showUserMenu := \<not> showUserMenu n\<rparr>, c, b)
         | NavMouseDown inside \<Rightarrow>
             (if showUserMenu n then handleClickOutside (nav_view c = NavUserMenu) inside n else n, c, b)
         | NavDashboard \<Rightarrow> (n\<lparr>nav_path := ''/user/availability'', showUserMenu := False\<rparr>, c, b)
         | NavDonorRegistration \<Rightarrow> (n\<lparr>nav_path := ''/user/donor-registration'', showUserMenu := False\<rparr>, c, b)
         | NavSignOut ok \<Rightarrow> handleLogout ok (n, c, b)
         | NavSignIn \<Rightarrow> (n\<lparr>nav_path := ''/user/login''\<rparr>, c, b)
         | NavRegister \<Rightarrow> (n\<lparr>nav_path := ''/user/register''\<rparr>, c, b))"

text \<open>App.tsx's routes (the page each path renders and whether it sits inside
  \<open>ProtectedRoute\<close>) and the guard itself.\<close>

datatype app_page = HomePage | HospitalDashboardPage | HospitalLoginPage | UserLoginPage | UserRegistrationPage
  | AvailabilityPage | DonorRegistrationPage | BloodBankLoginPage | BloodBankDashboardPage
  | DeliveryLoginPage | DeliveryDashboardPage | AIFeaturesPage

definition app_routes :: "(string \<times> app_page \<times> bool) list" where
  "app_routes =
     [(''/'', HomePage, False), (''/hospital'', HospitalDashboardPage, False),
      (''/hospital/login'', HospitalLoginPage, False), (''/hospital/registration'', HospitalDashboardPage, False),
      (''/hospital/add-patient'', HospitalDashboardPage, False), (''/hospital/emergency'', HospitalDashboardPage, False),
      (''/hospital/tracking'', HospitalDashboardPage, False), (''/hospital/reports'', HospitalDashboardPage, False),
      (''/user/login'', UserLoginPage, False), (''/user/register'', UserRegistrationPage, False),
      (''/user/availability'', AvailabilityPage, True), (''/user/donor-registration'', DonorRegistrationPage, True),
      (''/blood-bank/login'', BloodBankLoginPage, False), (''/blood-bank/dashboard'', BloodBankDashboardPage, False),
      (''/delivery/login'', DeliveryLoginPage, False), (''/delivery/dashboard'', DeliveryDashboardPage, False),
      (''/ai-features'', AIFeaturesPage, False)]"

datatype route_view = RouteLoading | RouteRedirect string | RoutePage app_page | RouteNoMatch

definition protectedRoute :: "authCtx \<Rightarrow> app_page \<Rightarrow> route_view" where
  "protectedRoute c p =
     (if auth_loading c then RouteLoading else if \<not> isAuthenticated c then RouteRedirect ''/user/login'' else RoutePage p)"

definition app_render :: "authCtx \<Rightarrow> string \<Rightarrow> route_view" where
  "app_render c path =
     (case map_of app_routes path of
        None \<Rightarrow> RouteNoMatch
      | Some (p, protected) \<Rightarrow> if protected then protectedRoute c p else RoutePage p)"

text \<open>The bar's runs over the provider's: the listener may fire at any time (a
  sign-out in another tab, an expired session), the token may be refreshed, and the
  user acts on an enabled control.\<close>

inductive nav_reachable :: "string \<Rightarrow> browser \<Rightarrow> navbar \<times> authCtx \<times> browser \<Rightarrow> bool" for p0 b0 where
  nav_mount: "nav_reachable p0 b0 (\<lparr>showUserMenu = False, nav_path = p0\<rparr>, authCtx_init, b0)"
| nav_listener: "nav_reachable p0 b0 (n, st) \<Longrightarrow> nav_reachable p0 b0 (n, onAuthStateChanged user token st)"
| nav_refresh: "nav_reachable p0 b0 (n, c, b) \<Longrightarrow> nav_reachable p0 b0 (n, c, snd (refreshToken token (c, b)))"
| nav_event: "nav_reachable p0 b0 (n, c, b) \<Longrightarrow> nav_enabled n c e \<Longrightarrow> nav_reachable p0 b0 (nav_step e (n, c, b))"

subsection \<open>Lemmas\<close>

lemma js_split_ne [simp]: "js_split d s \<noteq> []"
  by (induction s) (auto split: list.splits)

lemma js_join_cons_hd [simp]: "js_join d ((c # w) # ws) = c # js_join d (w # ws)"
  by (cases ws) simp_all

lemma js_split_roundtrip: "js_join d (js_split d s) = s"
proof (induction s)
  case Nil
  then show ?case by simp
next
  case (Cons c cs)
  show ?case
  proof (cases "c = d")
    case True
    then show ?thesis using Cons js_split_ne [of d cs] by (cases "js_split d cs") simp_all
  next
    case False
    then show ?thesis using Cons js_split_ne [of d cs] by (auto split: list.splits)
  qed
qed

lemma js_split_no_sep: "w \<in> set (js_split d s) \<Longrightarrow> d \<notin> set w"
  by (induction s arbitrary: w) (auto split: list.splits if_splits)

lemma hd_js_split: "s \<noteq> [] \<Longrightarrow> hd s \<noteq> d \<Longrightarrow> hd (js_split d s) \<noteq> []"
  by (cases s) (auto split: list.splits)

lemma js_split_first:
  "CHR '' '' \<notin> set w \<Longrightarrow> js_split (CHR '' '') (w @ CHR '' '' # r) = w # js_split (CHR '' '') r"
  by (induction w) auto

lemma getUserInitials_two_words:
  assumes "currentUser c = Some u" "acc_displayName u = a # w1 @ CHR '' '' # b # w2"
    "a \<noteq> CHR '' ''" "CHR '' '' \<notin> set w1" "b \<noteq> CHR '' ''"
  shows "getUserInitials c = Inr (js_upper [a, b])"
proof -
  have "js_split (CHR '' '') (acc_displayName u) = (a # w1) # js_split (CHR '' '') (b # w2)"
    using js_split_first [of "a # w1" "b # w2"] assms(2-4) by simp
  moreover obtain v vs where "js_split (CHR '' '') (b # w2) = (b # v) # vs"
    using assms(5) by (cases "js_split (CHR '' '') w2") auto
  ultimately show ?thesis
    using assms(1,2) by (simp add: getUserInitials_def first_char_def js_add_first_chars_def Let_def)
qed

lemma getUserInitials_no_error:
  assumes "currentUser c = Some u"
    and "hd (if acc_displayName u \<noteq> [] then acc_displayName u else acc_email u) \<noteq> CHR '' ''"
  shows "getUserInitials c \<noteq> Inl TypeError"
proof -
  let ?name = "if acc_displayName u \<noteq> [] then acc_displayName u else if acc_email u \<noteq> [] then acc_email u else ''User''"
  have ne: "?name \<noteq> []" by simp
  have "hd ?name \<noteq> CHR '' ''" using assms(2) by auto
  then have "hd (js_split (CHR '' '') ?name) \<noteq> []" using hd_js_split [OF ne] by blast
  then have "first_char (js_split (CHR '' '') ?name ! 0) \<noteq> None"
    by (cases "js_split (CHR '' '') ?name") (auto simp: first_char_def split: list.splits)
  then show ?thesis
    using assms(1) by (auto simp: getUserInitials_def Let_def js_add_first_chars_def split: option.splits sum.splits)
qed

theorem handleLogout_clears:
  assumes "handleLogout True (n, c, b) = (n', c', b')"
  shows "session b' = [] \<and> map_of (local b') ''rememberMe'' = None \<and> map_of (local b') ''savedEmail'' = None \<and>
         \<not> isAuthenticated c' \<and> nav_view c' = NavLoginButtons \<and> \<not> showUserMenu n' \<and> nav_path n' = ''/''"
  using assms
  by (auto simp: handleLogout_def signOut_def onAuthStateChanged_def isAuthenticated_def nav_view_def
      delete_conv' Let_def)

text \<open>A display name with two spaces in a row passes the registration form, and
  the bar's avatar then shows \<open>AUNDEFINED\<close>: the empty piece between the spaces
  has no first character, and string concatenation writes \<open>undefined\<close>.\<close>

lemma registered_double_space_initials:
  "validateDisplayName ''Asha  Rao'' = None \<and>
   (\<exists>u. snd (reg_handleSubmit uid token Map.empty
          (reg_init\<lparr>rp_displayName := ''Asha  Rao'', rp_email := ''asha@example.com'',
             rp_password := ''secret12'', rp_confirmPassword := ''secret12'', rp_acceptTerms := True\<rparr>, b))
          ''asha@example.com'' = Some u \<and>
        getUserInitials (fst (onAuthStateChanged (Some u) tok (authCtx_init, b))) = Inr ''AUNDEFINED'')"
proof -
  let ?r = "reg_init\<lparr>rp_displayName := ''Asha  Rao'', rp_email := ''asha@example.com'',
             rp_password := ''secret12'', rp_confirmPassword := ''secret12'', rp_acceptTerms := True\<rparr>"
  have v: "validateDisplayName (rp_displayName ?r) = None" "validateEmail (rp_email ?r) = None"
    "validatePassword (rp_password ?r) = None"
    "validateConfirmPassword (rp_confirmPassword ?r) (rp_password ?r) = None"
    "rp_acceptTerms ?r"
    by (simp_all add: reg_init_def validateDisplayName_def validateEmail_def validatePassword_def
        validateConfirmPassword_def is_ascii_letter_def email_ok_def js_string_eval Let_def)
  have k: "js_lower (js_trim (rp_email ?r)) = ''asha@example.com''" "js_trim (rp_displayName ?r) = ''Asha  Rao''"
    by (simp_all add: reg_init_def js_string_eval)
  have "Map.empty (js_lower (js_trim (rp_email ?r))) = (None :: idp_account option)" by simp
  from reg_handleSubmit_created [OF v this, of uid token b] k
  show ?thesis
    using v(1)
    by (simp add: getUserInitials_def onAuthStateChanged_def authCtx_init_def Let_def first_char_def
        js_add_first_chars_def js_upper_def js_upper_char_def reg_init_def js_string_eval)
qed

lemma auth_signed_out_no_user_keys:
  "auth_reachable b0 st \<Longrightarrow> \<not> auth_loading (fst st) \<Longrightarrow> currentUser (fst st) = None \<Longrightarrow>
   k \<in> set user_session_keys \<Longrightarrow> map_of (session (snd st)) k = None"
proof (induction rule: auth_reachable.induct)
  case auth_mount
  then show ?case by (simp add: authCtx_init_def)
next
  case (auth_listener st user token)
  then show ?case
    by (cases st) (auto simp: onAuthStateChanged_def Let_def map_of_fold_delete split: option.splits)
next
  case (auth_signOut st ok dn st')
  then show ?case
    by (cases st) (auto simp: signOut_def onAuthStateChanged_def Let_def split: if_splits)
next
  case (auth_refresh c b token)
  then show ?case by (auto simp: refreshToken_def Let_def split: option.splits)
qed

text \<open>The bar only navigates to routes of App.tsx; its menu items open their
  protected pages (the menu is only rendered when signed in, so the guard does not
  redirect) and close the menu; the login buttons open their pages. The menu's
  open state survives a sign-out that does not come from the bar: a press outside
  does not close it, and the next sign-in renders the dropdown already open.\<close>

lemma nav_step_path:
  "nav_path (fst (nav_step e (n, c, b))) = nav_path n \<or> nav_path (fst (nav_step e (n, c, b))) \<in> fst ` set app_routes"
  by (cases e) (auto simp: nav_step_def handleLogout_def handleClickOutside_def app_routes_def Let_def split: prod.splits)

lemma nav_reachable_path:
  "nav_reachable p0 b0 s \<Longrightarrow> nav_path (fst s) = p0 \<or> nav_path (fst s) \<in> fst ` set app_routes"
proof (induction rule: nav_reachable.induct)
  case (nav_event n c b e)
  then show ?case using nav_step_path [of e n c b] by (metis fst_conv)
qed simp_all

lemma nav_menu_lands:
  assumes "nav_enabled n c e" "e = NavDashboard \<or> e = NavDonorRegistration"
  shows "app_render c (nav_path (fst (nav_step e (n, c, b)))) =
           RoutePage (if e = NavDashboard then AvailabilityPage else DonorRegistrationPage) \<and>
         \<not> showUserMenu (fst (nav_step e (n, c, b)))"
  using assms
  by (auto simp: nav_enabled_def nav_view_def nav_step_def app_render_def app_routes_def protectedRoute_def
      split: if_splits)

lemma nav_login_buttons_land:
  assumes "nav_enabled n c e" "e = NavSignIn \<or> e = NavRegister"
  shows "app_render c (nav_path (fst (nav_step e (n, c, b)))) =
           RoutePage (if e = NavSignIn then UserLoginPage else UserRegistrationPage)"
  using assms by (auto simp: nav_step_def app_render_def app_routes_def)

lemma nav_menu_survives_signout:
  "\<exists>n c b. nav_reachable p0 b0 (n, c, b) \<and> \<not> isAuthenticated c \<and> \<not> auth_loading c \<and> showUserMenu n \<and>
     nav_step (NavMouseDown False) (n, c, b) = (n, c, b) \<and>
     nav_view (fst (onAuthStateChanged (Some u) tok (c, b))) = NavUserMenu"
proof -
  let ?n0 = "\<lparr>showUserMenu = False, nav_path = p0\<rparr>"
  obtain c1 b1 where s1: "onAuthStateChanged (Some u) tok (authCtx_init, b0) = (c1, b1)" by fastforce
  have c1: "isAuthenticated c1 \<and> \<not> auth_loading c1"
    using s1 by (auto simp: onAuthStateChanged_def isAuthenticated_def Let_def)
  have r1: "nav_reachable p0 b0 (?n0, c1, b1)" using nav_listener [OF nav_mount] s1 by metis
  have "nav_enabled ?n0 c1 NavToggleMenu" using c1 by (simp add: nav_enabled_def nav_view_def)
  from nav_event [OF r1 this]
  have r2: "nav_reachable p0 b0 (?n0\<lparr>showUserMenu := True\<rparr>, c1, b1)" by (simp add: nav_step_def)
  obtain c3 b3 where s3: "onAuthStateChanged None None (c1, b1) = (c3, b3)" by fastforce
  have c3: "\<not> isAuthenticated c3 \<and> \<not> auth_loading c3"
    using s3 by (auto simp: onAuthStateChanged_def isAuthenticated_def Let_def)
  have r3: "nav_reachable p0 b0 (?n0\<lparr>showUserMenu := True\<rparr>, c3, b3)" using nav_listener [OF r2] s3 by metis
  show ?thesis
  proof (intro exI conjI)
    show "nav_reachable p0 b0 (?n0\<lparr>showUserMenu := True\<rparr>, c3, b3)" by (fact r3)
    show "nav_step (NavMouseDown False) (?n0\<lparr>showUserMenu := True\<rparr>, c3, b3) = (?n0\<lparr>showUserMenu := True\<rparr>, c3, b3)"
      using c3 by (simp add: nav_step_def nav_view_def handleClickOutside_def)
    show "nav_view (fst (onAuthStateChanged (Some u) tok (c3, b3))) = NavUserMenu"
      by (simp add: onAuthStateChanged_def nav_view_def isAuthenticated_def Let_def)
  qed (use c3 in simp_all)
qed

text \<open>The login page's "Register as Donor" link leads to a protected route: a
  signed-out visitor, the only one the login form is shown to, is sent straight back
  to the login page, so the link never reaches the registration form.\<close>

lemma login_register_link_redirects:
  assumes "\<not> auth_loading c" "\<not> isAuthenticated c"
  shows "\<exists>p. snd (login_step protect store token LoginRegisterLink (s, b)) = Some p \<and>
           app_render c p = RouteRedirect ''/user/login''"
  using assms by (simp add: login_step_def app_render_def app_routes_def protectedRoute_def)

end
