(* ===== verification/Bikes.thy ===== *)
theory Bikes
  imports Geo "HOL-Library.AList"
begin

text \<open>
  The delivery agents' bike markers of DeliveryDashboard.tsx: the marker icon
  (\<open>createBikeIcon\<close>), the popup, \<open>loadDeliveryBoys\<close>, which replaces the markers
  and their animation timers, and \<open>animateBikeMarker\<close>, whose 1.5-second timer
  moves a marker in a wandering pattern around its agent's position. Leaflet's
  map and markers are represented by what the code stores about them: the
  markers by agent id with their position, and the timers by agent id. The
  random numbers the animation draws are inputs of each tick, in \<open>[0, 1)\<close>.
  Coordinates are degrees, as the code treats them.
\<close>

record deliveryBoy =
  db_id :: string
  db_name :: string
  db_phone :: string
  db_vehicle :: string
  db_status :: string
  db_lat :: real
  db_lng :: real

subsection \<open>Icon and popup\<close>

definition bike_color :: "string \<Rightarrow> string" where
  "bike_color status = (if status = ''Available'' then ''#00D9FF'' else ''#FF6B6B'')"

record bikeIcon =
  icon_className :: string
  icon_color :: string
  icon_size :: "real \<times> real"
  icon_anchor :: "real \<times> real"

definition createBikeIcon :: "string \<Rightarrow> bikeIcon" where
  "createBikeIcon status =
     \<lparr>icon_className = ''bike-marker'', icon_color = bike_color status, icon_size = (45, 45),
      icon_anchor = (45 / 2, 45 / 2)\<rparr>"

definition bike_popup :: "deliveryBoy \<Rightarrow> string" where
  "bike_popup boy =
     ''<strong>'' @ db_name boy @ ''</strong><br/>'' @
     ''ID: '' @ db_id boy @ ''<br/>'' @
     ''Phone: '' @ db_phone boy @ ''<br/>'' @
     ''Vehicle: '' @ db_vehicle boy @ ''<br/>'' @
     ''Status: <span style=\"color: '' @ bike_color (db_status boy) @ ''\">'' @ db_status boy @ ''</span>''"

subsection \<open>The wandering animation\<close>

definition bike_speed :: real where
  "bike_speed = 3 / 10000"

definition bike_maxDistance :: real where
  "bike_maxDistance = 5 / 1000"

definition bike_interval :: nat where
  "bike_interval = 1500"

record wander =
  w_lat :: real
  w_lng :: real
  w_angle :: real
  w_counter :: nat
  w_step :: nat

text \<open>The closure's variables when \<open>animateBikeMarker\<close> starts; \<open>r\<close> is the
  first \<open>Math.random()\<close>.\<close>

definition wander_init :: "deliveryBoy \<Rightarrow> real \<Rightarrow> wander" where
  "wander_init boy r = \<lparr>w_lat = db_lat boy, w_lng = db_lng boy, w_angle = r * pi * 2, w_counter = 0, w_step = 0\<rparr>"

definition distanceFromBase :: "deliveryBoy \<Rightarrow> real \<Rightarrow> real \<Rightarrow> real" where
  "distanceFromBase boy cLat cLng = sqrt ((cLat - db_lat boy)\<^sup>2 + (cLng - db_lng boy)\<^sup>2)"

text \<open>One tick of the interval (the map and the marker exist): step in the
  current direction, turn back towards the base when more than
  \<open>maxDistance\<close> away (\<open>r1\<close> the random number drawn then), and every fifteenth
  tick turn by a random angle (\<open>r2\<close>).\<close>

definition wander_tick :: "deliveryBoy \<Rightarrow> real \<Rightarrow> real \<Rightarrow> wander \<Rightarrow> wander" where
  "wander_tick boy r1 r2 s =
     (let cLat = w_lat s + sin (w_angle s) * bike_speed;
          cLng = w_lng s + cos (w_angle s) * bike_speed;
          a1 = (if distanceFromBase boy cLat cLng > bike_maxDistance
                then js_atan2 (db_lat boy - cLat) (db_lng boy - cLng) + (r1 - 1 / 2) * (1 / 2)
                else w_angle s);
          c1 = Suc (w_counter s);
          (a2, c2) = (if c1 \<ge> 15 then (a1 + (r2 - 1 / 2) * (6 / 5), 0) else (a1, c1))
      in \<lparr>w_lat = cLat, w_lng = cLng, w_angle = a2, w_counter = c2, w_step = Suc (w_step s)\<rparr>)"

text \<open>The interval's callback: it clears itself when the map or the marker is
  gone (\<open>None\<close>), and otherwise ticks.\<close>

definition interval_callback :: "bool \<Rightarrow> deliveryBoy \<Rightarrow> real \<Rightarrow> real \<Rightarrow> wander \<Rightarrow> wander option" where
  "interval_callback present boy r1 r2 s = (if \<not> present then None else Some (wander_tick boy r1 r2 s))"

inductive wander_reachable :: "deliveryBoy \<Rightarrow> wander \<Rightarrow> bool" for boy where
  wander_start: "0 \<le> r \<Longrightarrow> r < 1 \<Longrightarrow> wander_reachable boy (wander_init boy r)"
| wander_step: "wander_reachable boy s \<Longrightarrow> 0 \<le> r1 \<Longrightarrow> r1 < 1 \<Longrightarrow> 0 \<le> r2 \<Longrightarrow> r2 < 1 \<Longrightarrow>
     wander_reachable boy (wander_tick boy r1 r2 s)"

subsection \<open>Markers and timers\<close>

text \<open>What \<open>loadDeliveryBoys\<close> and \<open>animateBikeMarker\<close> keep: the markers on the
  map (by object identity, a number), \<open>bikeMarkersRef\<close> (agent id to marker),
  \<open>bikeAnimationIntervalsRef\<close> (agent id to timer), the running timers, and the
  \<open>requestAnimationFrame\<close> callbacks not yet run (marker and agent).\<close>

record bikeMarker =
  mk_obj :: nat
  mk_pos :: "real \<times> real"
  mk_icon :: bikeIcon
  mk_popup :: string

record bikeLayer =
  bl_onMap :: "nat list"
  bl_markers :: "(string \<times> bikeMarker) list"
  bl_intervals :: "(string \<times> nat) list"
  bl_running :: "nat list"
  bl_frames :: "(bikeMarker \<times> deliveryBoy) list"
  bl_next :: nat

definition bikeLayer_init :: bikeLayer where
  "bikeLayer_init = \<lparr>bl_onMap = [], bl_markers = [], bl_intervals = [], bl_running = [], bl_frames = [], bl_next = 0\<rparr>"

text \<open>One agent of the \<open>forEach\<close>: a marker with its icon and popup, stored under
  the agent's id, added to the group, and its animation scheduled.\<close>

definition add_bike :: "bikeLayer \<Rightarrow> deliveryBoy \<Rightarrow> bikeLayer" where
  "add_bike s boy =
     (let m = \<lparr>mk_obj = bl_next s, mk_pos = (db_lat boy, db_lng boy), mk_icon = createBikeIcon (db_status boy),
               mk_popup = bike_popup boy\<rparr>
      in s\<lparr>bl_onMap := bl_onMap s @ [mk_obj m], bl_markers := AList.update (db_id boy) m (bl_markers s),
           bl_frames := bl_frames s @ [(m, boy)], bl_next := Suc (bl_next s)\<rparr>)"

text \<open>\<open>loadDeliveryBoys\<close> (the map and Leaflet present): when markers exist,
  remove them from the map and clear the timers the ref holds, then add every
  agent.\<close>

definition loadDeliveryBoys :: "deliveryBoy list \<Rightarrow> bikeLayer \<Rightarrow> bikeLayer" where
  "loadDeliveryBoys boys s =
     (let s1 = (if bl_markers s \<noteq> []
                then s\<lparr>bl_onMap := filter (\<lambda>k. k \<notin> mk_obj ` snd ` set (bl_markers s)) (bl_onMap s),
                       bl_markers := [],
                       bl_running := filter (\<lambda>t. t \<notin> snd ` set (bl_intervals s)) (bl_running s),
                       bl_intervals := []\<rparr>
                else s)
      in if boys = [] then s1 else foldl add_bike s1 boys)"

text \<open>The next animation frame: \<open>animateBikeMarker\<close> starts a timer (a fresh
  id) and stores it under the agent's id.\<close>

definition run_frame :: "bikeLayer \<Rightarrow> bikeLayer" where
  "run_frame s =
     (case bl_frames s of
        [] \<Rightarrow> s
      | (m, boy) # rest \<Rightarrow>
          s\<lparr>bl_frames := rest, bl_running := bl_running s @ [bl_next s],
            bl_intervals := AList.update (db_id boy) (bl_next s) (bl_intervals s), bl_next := Suc (bl_next s)\<rparr>)"

text \<open>The invariant of the animation: the marker is never more than
  \<open>maxDistance + speed\<close> from its base, and whenever it is beyond
  \<open>maxDistance\<close> its direction is within 0.85 rad of the direction back to the
  base (the turn-back noise is below 0.25 rad, the random turn below 0.6 rad).\<close>

definition wander_ok :: "deliveryBoy \<Rightarrow> wander \<Rightarrow> bool" where
  "wander_ok boy s \<longleftrightarrow>
     distanceFromBase boy (w_lat s) (w_lng s) \<le> bike_maxDistance + bike_speed \<and>
     (bike_maxDistance < distanceFromBase boy (w_lat s) (w_lng s) \<longrightarrow>
        (\<exists>\<delta>. \<bar>\<delta>\<bar> \<le> 17 / 20 \<and> w_angle s = js_atan2 (db_lat boy - w_lat s) (db_lng boy - w_lng s) + \<delta>))"

text \<open>An agent for the examples.\<close>

abbreviation demo_boy :: deliveryBoy where
  "demo_boy \<equiv> \<lparr>db_id = ''DB1'', db_name = ''Ravi'', db_phone = ''9876543210'', db_vehicle = ''Bike'',
     db_status = ''Available'', db_lat = 17, db_lng = 83\<rparr>"

subsection \<open>The map's initialisation\<close>

text \<open>The mount effect \<open>loadLeaflet\<close>: unless the container is missing or a map
  exists, it adds the stylesheet, loads the script when \<open>window.L\<close> is absent
  (\<open>script_ok\<close> says whether it loaded; a failure is logged and the page goes on
  without a map), and, if the library is there and the container still mounted
  after the wait, creates the map at [17.7, 83.25], zoom 12, with the
  OpenStreetMap tiles, then loads the agents in the next frame. The effect on
  \<open>mapEnabled\<close> reloads them when a map exists and the flag is set.\<close>

record leafletMap =
  lm_container :: bool
  lm_css :: bool
  lm_L :: bool
  lm_map :: "(real \<times> real \<times> nat) option"
  lm_tiles :: "string option"
  lm_bikes :: bikeLayer

definition leaflet_init :: "bool \<Rightarrow> leafletMap" where
  "leaflet_init hasJs = \<lparr>lm_container = True, lm_css = False, lm_L = hasJs, lm_map = None, lm_tiles = None,
     lm_bikes = bikeLayer_init\<rparr>"

definition loadLeaflet :: "bool \<Rightarrow> bool \<Rightarrow> deliveryBoy list \<Rightarrow> leafletMap \<Rightarrow> leafletMap" where
  "loadLeaflet script_ok mounted boys s =
     (if \<not> lm_container s \<or> lm_map s \<noteq> None then s
      else
        let s1 = s\<lparr>lm_css := True, lm_L := lm_L s \<or> script_ok\<rparr>
        in if \<not> lm_L s1 \<or> \<not> mounted then s1
           else s1\<lparr>lm_map := Some (177 / 10, 8325 / 100, 12),
                   lm_tiles := Some ''https://{s}.tile.openstreetmap.org/{z}/{x}/{y}.png'',
                   lm_bikes := loadDeliveryBoys boys (lm_bikes s1)\<rparr>)"

definition mapEnabled_effect :: "bool \<Rightarrow> deliveryBoy list \<Rightarrow> leafletMap \<Rightarrow> leafletMap" where
  "mapEnabled_effect mapEnabled boys s =
     (if lm_map s \<noteq> None \<and> mapEnabled then s\<lparr>lm_bikes := loadDeliveryBoys boys (lm_bikes s)\<rparr> else s)"

subsection \<open>Lemmas\<close>

lemma sqrt_one_plus_div:
  assumes "x \<noteq> 0"
  shows "sqrt (1 + (y / x)\<^sup>2) = sqrt (x\<^sup>2 + y\<^sup>2) / \<bar>x\<bar>"
proof -
  have "1 + (y / x)\<^sup>2 = (x\<^sup>2 + y\<^sup>2) / x\<^sup>2" using assms by (simp add: field_simps power2_eq_square)
  then show ?thesis by (simp add: real_sqrt_divide)
qed

lemma js_atan2_sin_cos:
  assumes "x \<noteq> 0 \<or> y \<noteq> 0"
  shows "sin (js_atan2 y x) = y / sqrt (x\<^sup>2 + y\<^sup>2) \<and> cos (js_atan2 y x) = x / sqrt (x\<^sup>2 + y\<^sup>2)"
proof -
  have r: "0 < sqrt (x\<^sup>2 + y\<^sup>2)" using assms by (auto simp: sum_power2_gt_zero_iff)
  consider "0 < x" | "x < 0" | "x = 0" by linarith
  then show ?thesis
  proof cases
    case 1
    then have "sin (arctan (y / x)) = y / sqrt (x\<^sup>2 + y\<^sup>2)" "cos (arctan (y / x)) = x / sqrt (x\<^sup>2 + y\<^sup>2)"
      using sqrt_one_plus_div [of x y] r by (simp_all add: sin_arctan cos_arctan field_simps)
    then show ?thesis using 1 by (simp add: js_atan2_def)
  next
    case 2
    then have "sin (arctan (y / x)) = - y / sqrt (x\<^sup>2 + y\<^sup>2)" "cos (arctan (y / x)) = - x / sqrt (x\<^sup>2 + y\<^sup>2)"
      using sqrt_one_plus_div [of x y] r by (simp_all add: sin_arctan cos_arctan field_simps)
    then show ?thesis using 2 by (simp add: js_atan2_def sin_add cos_add sin_diff cos_diff)
  next
    case 3
    then have "y \<noteq> 0" using assms by simp
    then show ?thesis using 3 by (cases "0 < y") (auto simp: js_atan2_def)
  qed
qed

lemma sum_sq_expand:
  "(e1 + v * p)\<^sup>2 + (e2 + v * q)\<^sup>2 = (e1::real)\<^sup>2 + e2\<^sup>2 + 2 * v * (e1 * p + e2 * q) + v\<^sup>2 * (p\<^sup>2 + q\<^sup>2)"
  by (simp add: power2_eq_square algebra_simps)

lemma step_dist_sq:
  "(e1 + v * sin a)\<^sup>2 + (e2 + v * cos a)\<^sup>2 = (e1::real)\<^sup>2 + e2\<^sup>2 + 2 * v * (e1 * sin a + e2 * cos a) + v\<^sup>2"
  using sum_sq_expand [of e1 v "sin a" e2 "cos a"] by simp

lemma step_dist_le:
  assumes "0 \<le> v"
  shows "sqrt ((e1 + v * sin a)\<^sup>2 + (e2 + v * cos a)\<^sup>2) \<le> sqrt (e1\<^sup>2 + e2\<^sup>2) + v"
proof -
  have "sqrt ((e1 + v * sin a)\<^sup>2 + (e2 + v * cos a)\<^sup>2) \<le> sqrt (e1\<^sup>2 + e2\<^sup>2) + sqrt ((v * sin a)\<^sup>2 + (v * cos a)\<^sup>2)"
    by (rule real_sqrt_sum_squares_triangle_ineq)
  moreover have "(v * sin a)\<^sup>2 + (v * cos a)\<^sup>2 = v\<^sup>2"
    by (simp add: power_mult_distrib flip: distrib_left)
  ultimately show ?thesis using assms by simp
qed

lemma toward_base_component:
  assumes "e1 \<noteq> 0 \<or> e2 \<noteq> 0" "a = js_atan2 (- e1) (- e2) + \<delta>"
  shows "e1 * sin a + e2 * cos a = - sqrt (e1\<^sup>2 + e2\<^sup>2) * cos \<delta>"
proof -
  let ?d = "sqrt (e1\<^sup>2 + e2\<^sup>2)"
  have d: "0 < ?d" using assms(1) by (auto simp: sum_power2_gt_zero_iff)
  have "- e2 \<noteq> 0 \<or> - e1 \<noteq> 0" using assms(1) by auto
  from js_atan2_sin_cos [OF this]
  have sc: "sin (js_atan2 (- e1) (- e2)) = - e1 / ?d" "cos (js_atan2 (- e1) (- e2)) = - e2 / ?d"
    by (simp_all add: add.commute)
  have dd: "?d * ?d = e1\<^sup>2 + e2\<^sup>2" by (simp flip: power2_eq_square)
  have "?d * (e1 * sin a + e2 * cos a) = - (e1\<^sup>2 + e2\<^sup>2) * cos \<delta>"
    using d unfolding assms(2) sin_add cos_add sc by (simp add: field_simps power2_eq_square)
  also have "- (e1\<^sup>2 + e2\<^sup>2) * cos \<delta> = - (?d * ?d) * cos \<delta>" by (simp only: dd)
  also have "\<dots> = ?d * (- ?d * cos \<delta>)" by (simp only: mult_minus_left mult_minus_right mult.assoc)
  finally have "?d * (e1 * sin a + e2 * cos a) = ?d * (- ?d * cos \<delta>)" .
  moreover have "?d \<noteq> 0" using d by linarith
  ultimately show ?thesis using mult_left_cancel by (metis mult_minus_left)
qed

lemma cos_ge_half:
  assumes "\<bar>\<delta>\<bar> \<le> (17 / 20 :: real)"
  shows "1 / 2 \<le> cos \<delta>"
proof -
  have "cos \<delta> = 1 - 2 * (sin (\<delta> / 2))\<^sup>2" using cos_double_sin [of "\<delta> / 2"] by simp
  moreover have "\<bar>sin (\<delta> / 2)\<bar> \<le> 17 / 40" using abs_sin_x_le_abs_x [of "\<delta> / 2"] assms by simp
  then have "(sin (\<delta> / 2))\<^sup>2 \<le> (17 / 40)\<^sup>2" by (metis abs_le_square_iff power2_abs abs_of_nonneg zero_le_divide_iff zero_le_numeral)
  ultimately show ?thesis by (simp add: power2_eq_square)
qed

lemma wander_tick_fields:
  "w_lat (wander_tick boy r1 r2 s) = w_lat s + sin (w_angle s) * bike_speed"
  "w_lng (wander_tick boy r1 r2 s) = w_lng s + cos (w_angle s) * bike_speed"
  by (simp_all add: wander_tick_def Let_def split: prod.splits)

lemma wander_tick_angle_eq:
  "w_angle (wander_tick boy r1 r2 s) =
     (let a1 = (if bike_maxDistance < distanceFromBase boy (w_lat (wander_tick boy r1 r2 s)) (w_lng (wander_tick boy r1 r2 s))
                then js_atan2 (db_lat boy - w_lat (wander_tick boy r1 r2 s)) (db_lng boy - w_lng (wander_tick boy r1 r2 s))
                       + (r1 - 1 / 2) * (1 / 2)
                else w_angle s)
      in if 15 \<le> Suc (w_counter s) then a1 + (r2 - 1 / 2) * (6 / 5) else a1)"
  unfolding wander_tick_fields by (simp add: wander_tick_def Let_def split: prod.splits)

lemma wander_tick_angle:
  assumes "0 \<le> r1" "r1 < 1" "0 \<le> r2" "r2 < 1"
    and "bike_maxDistance < distanceFromBase boy (w_lat (wander_tick boy r1 r2 s)) (w_lng (wander_tick boy r1 r2 s))"
  shows "\<exists>\<delta>. \<bar>\<delta>\<bar> \<le> 17 / 20 \<and> w_angle (wander_tick boy r1 r2 s) =
           js_atan2 (db_lat boy - w_lat (wander_tick boy r1 r2 s)) (db_lng boy - w_lng (wander_tick boy r1 r2 s)) + \<delta>"
proof -
  let ?t = "js_atan2 (db_lat boy - w_lat (wander_tick boy r1 r2 s)) (db_lng boy - w_lng (wander_tick boy r1 r2 s))"
  let ?d1 = "(r1 - 1 / 2) * (1 / 2)" and ?d2 = "(r2 - 1 / 2) * (6 / 5)"
  have b1: "\<bar>?d1\<bar> \<le> 1 / 4" using assms(1,2) by (auto simp: abs_mult abs_if)
  have b2: "\<bar>?d2\<bar> \<le> 3 / 5" using assms(3,4) by (auto simp: abs_mult abs_if field_simps)
  have "w_angle (wander_tick boy r1 r2 s) = ?t + ?d1 \<or> w_angle (wander_tick boy r1 r2 s) = ?t + (?d1 + ?d2)"
    using assms(5) unfolding wander_tick_angle_eq Let_def by simp
  then show ?thesis
  proof
    assume "w_angle (wander_tick boy r1 r2 s) = ?t + ?d1"
    moreover have "\<bar>?d1\<bar> \<le> 17 / 20" using b1 by linarith
    ultimately show ?thesis by blast
  next
    assume "w_angle (wander_tick boy r1 r2 s) = ?t + (?d1 + ?d2)"
    moreover have "\<bar>?d1 + ?d2\<bar> \<le> 17 / 20" using abs_triangle_ineq [of ?d1 ?d2] b1 b2 by linarith
    ultimately show ?thesis by blast
  qed
qed

lemma distanceFromBase_tick:
  "distanceFromBase boy (w_lat (wander_tick boy r1 r2 s)) (w_lng (wander_tick boy r1 r2 s)) =
   sqrt ((w_lat s - db_lat boy + bike_speed * sin (w_angle s))\<^sup>2 + (w_lng s - db_lng boy + bike_speed * cos (w_angle s))\<^sup>2)"
  by (simp add: distanceFromBase_def wander_tick_fields algebra_simps)

lemma wander_tick_dist:
  assumes "wander_ok boy s"
  shows "distanceFromBase boy (w_lat (wander_tick boy r1 r2 s)) (w_lng (wander_tick boy r1 r2 s))
           \<le> bike_maxDistance + bike_speed"
proof -
  let ?e1 = "w_lat s - db_lat boy" and ?e2 = "w_lng s - db_lng boy" and ?a = "w_angle s"
  let ?d = "distanceFromBase boy (w_lat s) (w_lng s)"
  have dd: "?d = sqrt (?e1\<^sup>2 + ?e2\<^sup>2)" by (simp add: distanceFromBase_def)
  have v: "0 \<le> bike_speed" by (simp add: bike_speed_def)
  show ?thesis
  proof (cases "bike_maxDistance < ?d")
    case False
    then show ?thesis
      using step_dist_le [OF v, of ?e1 ?a ?e2] dd by (simp add: distanceFromBase_tick)
  next
    case True
    then obtain \<delta> where \<delta>: "\<bar>\<delta>\<bar> \<le> 17 / 20" "?a = js_atan2 (- ?e1) (- ?e2) + \<delta>"
      using assms by (auto simp: wander_ok_def)
    have pos: "0 < ?d" using True by (simp add: bike_maxDistance_def)
    then have ne: "?e1 \<noteq> 0 \<or> ?e2 \<noteq> 0" using dd by auto
    have comp: "?e1 * sin ?a + ?e2 * cos ?a = - ?d * cos \<delta>"
      using toward_base_component [OF ne \<delta>(2)] dd by simp
    have c: "1 / 2 \<le> cos \<delta>" using cos_ge_half [OF \<delta>(1)] .
    have "bike_speed \<le> ?d * cos \<delta>"
    proof -
      have "?d * (1 / 2) \<le> ?d * cos \<delta>" using c pos by (intro mult_left_mono) auto
      then show ?thesis using True unfolding bike_speed_def bike_maxDistance_def by linarith
    qed
    then have "bike_speed * bike_speed \<le> bike_speed * (?d * cos \<delta>)" using v by (rule mult_left_mono)
    moreover have e: "(?e1 + bike_speed * sin ?a)\<^sup>2 + (?e2 + bike_speed * cos ?a)\<^sup>2 =
        ?e1\<^sup>2 + ?e2\<^sup>2 + 2 * bike_speed * (- ?d * cos \<delta>) + bike_speed\<^sup>2"
      by (simp only: step_dist_sq comp)
    moreover have "2 * bike_speed * (- ?d * cos \<delta>) = - 2 * (bike_speed * (?d * cos \<delta>))"
      by (simp add: algebra_simps)
    moreover have "bike_speed\<^sup>2 = bike_speed * bike_speed" by (simp add: power2_eq_square)
    moreover have "0 \<le> bike_speed * bike_speed" using v by simp
    ultimately have sq: "(?e1 + bike_speed * sin ?a)\<^sup>2 + (?e2 + bike_speed * cos ?a)\<^sup>2 \<le> ?e1\<^sup>2 + ?e2\<^sup>2"
      by linarith
    have "distanceFromBase boy (w_lat (wander_tick boy r1 r2 s)) (w_lng (wander_tick boy r1 r2 s)) \<le> ?d"
      unfolding distanceFromBase_tick dd using sq by (rule real_sqrt_le_mono)
    then show ?thesis using assms by (simp add: wander_ok_def)
  qed
qed

lemma wander_reachable_ok: "wander_reachable boy s \<Longrightarrow> wander_ok boy s"
proof (induction rule: wander_reachable.induct)
  case (wander_start r)
  then show ?case
    by (simp add: wander_ok_def wander_init_def distanceFromBase_def bike_maxDistance_def bike_speed_def)
next
  case (wander_step s r1 r2)
  then show ?case
    using wander_tick_dist [OF wander_step.IH] wander_tick_angle [OF wander_step.hyps(2-5)]
    by (simp add: wander_ok_def)
qed

text \<open>C9. The wandering animation keeps every bike marker near its agent: at
  every tick of the 1.5-second timer, whatever the random numbers drawn, the
  marker is at most \<open>maxDistance + speed\<close> = 0.0053 degrees from the agent's
  position, because once it is beyond \<open>maxDistance\<close> it heads back within
  0.85 rad of the direction to the base and each step then brings it closer.\<close>

theorem bike_stays_near_base:
  "wander_reachable boy s \<Longrightarrow> distanceFromBase boy (w_lat s) (w_lng s) \<le> bike_maxDistance + bike_speed"
  using wander_reachable_ok by (simp add: wander_ok_def)

lemma add_bike_fold:
  assumes "distinct (map db_id boys)" "\<forall>b\<in>set boys. db_id b \<notin> fst ` set (bl_markers s)"
  shows "map fst (bl_markers (foldl add_bike s boys)) = map fst (bl_markers s) @ map db_id boys \<and>
         map snd (bl_frames (foldl add_bike s boys)) = map snd (bl_frames s) @ boys \<and>
         length (bl_onMap (foldl add_bike s boys)) = length (bl_onMap s) + length boys \<and>
         bl_intervals (foldl add_bike s boys) = bl_intervals s \<and> bl_running (foldl add_bike s boys) = bl_running s \<and>
         bl_next (foldl add_bike s boys) = bl_next s + length boys"
  using assms
proof (induction boys arbitrary: s)
  case Nil
  then show ?case by simp
next
  case (Cons b bs)
  have "db_id b \<notin> fst ` set (bl_markers s)" using Cons.prems(2) by simp
  then have m: "bl_markers (add_bike s b) = bl_markers s @ [(db_id b, \<lparr>mk_obj = bl_next s,
      mk_pos = (db_lat b, db_lng b), mk_icon = createBikeIcon (db_status b), mk_popup = bike_popup b\<rparr>)]"
    by (simp add: add_bike_def update_absent Let_def)
  have "\<forall>b'\<in>set bs. db_id b' \<notin> fst ` set (bl_markers (add_bike s b))"
    using Cons.prems m by (auto simp: image_iff)
  then have "map fst (bl_markers (foldl add_bike (add_bike s b) bs)) = map fst (bl_markers (add_bike s b)) @ map db_id bs \<and>
         map snd (bl_frames (foldl add_bike (add_bike s b) bs)) = map snd (bl_frames (add_bike s b)) @ bs \<and>
         length (bl_onMap (foldl add_bike (add_bike s b) bs)) = length (bl_onMap (add_bike s b)) + length bs \<and>
         bl_intervals (foldl add_bike (add_bike s b) bs) = bl_intervals (add_bike s b) \<and>
         bl_running (foldl add_bike (add_bike s b) bs) = bl_running (add_bike s b) \<and>
         bl_next (foldl add_bike (add_bike s b) bs) = bl_next (add_bike s b) + length bs"
    using Cons.prems(1) by (intro Cons.IH) simp_all
  moreover have "map fst (bl_markers (add_bike s b)) = map fst (bl_markers s) @ [db_id b]"
    "map snd (bl_frames (add_bike s b)) = map snd (bl_frames s) @ [b]"
    "length (bl_onMap (add_bike s b)) = Suc (length (bl_onMap s))"
    "bl_intervals (add_bike s b) = bl_intervals s" "bl_running (add_bike s b) = bl_running s"
    "bl_next (add_bike s b) = Suc (bl_next s)"
    using m by (simp_all add: add_bike_def Let_def)
  ultimately show ?case by simp
qed

lemma run_frames:
  assumes "distinct (map (db_id \<circ> snd) (bl_frames s))" "\<forall>f\<in>set (bl_frames s). db_id (snd f) \<notin> fst ` set (bl_intervals s)"
  shows "bl_intervals ((run_frame ^^ length (bl_frames s)) s) =
           bl_intervals s @ zip (map (db_id \<circ> snd) (bl_frames s)) [bl_next s..<bl_next s + length (bl_frames s)] \<and>
         bl_running ((run_frame ^^ length (bl_frames s)) s) = bl_running s @ [bl_next s..<bl_next s + length (bl_frames s)] \<and>
         bl_frames ((run_frame ^^ length (bl_frames s)) s) = [] \<and>
         bl_markers ((run_frame ^^ length (bl_frames s)) s) = bl_markers s \<and>
         bl_onMap ((run_frame ^^ length (bl_frames s)) s) = bl_onMap s"
  using assms
proof (induction "bl_frames s" arbitrary: s)
  case Nil
  then have "bl_frames s = []" by simp
  then show ?case by simp
next
  case (Cons f fs)
  obtain m b where f: "f = (m, b)" by (cases f)
  have fr: "bl_frames s = (m, b) # fs" using Cons.hyps(2) f by simp
  have fresh: "db_id b \<notin> fst ` set (bl_intervals s)" using Cons.prems(2) fr by simp
  let ?s1 = "run_frame s"
  have r: "bl_frames ?s1 = fs" "bl_intervals ?s1 = bl_intervals s @ [(db_id b, bl_next s)]"
    "bl_running ?s1 = bl_running s @ [bl_next s]" "bl_next ?s1 = Suc (bl_next s)"
    "bl_markers ?s1 = bl_markers s" "bl_onMap ?s1 = bl_onMap s"
    using fr fresh by (simp_all add: run_frame_def update_absent)
  have d: "distinct (map (db_id \<circ> snd) (bl_frames ?s1))" using Cons.prems(1) fr r(1) by simp
  have n: "\<forall>f\<in>set (bl_frames ?s1). db_id (snd f) \<notin> fst ` set (bl_intervals ?s1)"
    using Cons.prems fr r(1,2) by (auto simp: image_iff)
  have IH: "bl_intervals ((run_frame ^^ length fs) ?s1) =
           bl_intervals ?s1 @ zip (map (db_id \<circ> snd) fs) [bl_next ?s1..<bl_next ?s1 + length fs] \<and>
         bl_running ((run_frame ^^ length fs) ?s1) = bl_running ?s1 @ [bl_next ?s1..<bl_next ?s1 + length fs] \<and>
         bl_frames ((run_frame ^^ length fs) ?s1) = [] \<and>
         bl_markers ((run_frame ^^ length fs) ?s1) = bl_markers ?s1 \<and>
         bl_onMap ((run_frame ^^ length fs) ?s1) = bl_onMap ?s1"
    using Cons.hyps(1) [of ?s1, OF r(1) [symmetric] d n] r(1) by simp
  have "(run_frame ^^ length (bl_frames s)) s = (run_frame ^^ length fs) ?s1"
    by (simp only: fr length_Cons funpow_Suc_right comp_apply)
  moreover have "[bl_next s..<bl_next s + Suc (length fs)] = bl_next s # [Suc (bl_next s)..<Suc (bl_next s) + length fs]"
    by (simp add: upt_conv_Cons del: upt_Suc)
  ultimately show ?case
    using IH r fr by (simp del: upt_Suc)
qed

theorem loadDeliveryBoys_animates:
  assumes "distinct (map db_id boys)"
  shows "map fst (bl_markers ((run_frame ^^ length boys) (loadDeliveryBoys boys bikeLayer_init))) = map db_id boys \<and>
         map fst (bl_intervals ((run_frame ^^ length boys) (loadDeliveryBoys boys bikeLayer_init))) = map db_id boys \<and>
         set (bl_running ((run_frame ^^ length boys) (loadDeliveryBoys boys bikeLayer_init))) =
           snd ` set (bl_intervals ((run_frame ^^ length boys) (loadDeliveryBoys boys bikeLayer_init))) \<and>
         length (bl_onMap ((run_frame ^^ length boys) (loadDeliveryBoys boys bikeLayer_init))) = length boys \<and>
         bl_frames ((run_frame ^^ length boys) (loadDeliveryBoys boys bikeLayer_init)) = []"
proof -
  let ?s0 = "loadDeliveryBoys boys bikeLayer_init"
  have s0: "?s0 = foldl add_bike bikeLayer_init boys"
    by (cases "boys = []") (simp_all add: loadDeliveryBoys_def bikeLayer_init_def)
  have a: "map fst (bl_markers ?s0) = map db_id boys" "map snd (bl_frames ?s0) = boys"
    "length (bl_onMap ?s0) = length boys" "bl_intervals ?s0 = []" "bl_running ?s0 = []"
    using add_bike_fold [OF assms, of bikeLayer_init] unfolding s0 by (simp_all add: bikeLayer_init_def)
  have len: "length (bl_frames ?s0) = length boys" using a(2) by (metis length_map)
  have d: "distinct (map (db_id \<circ> snd) (bl_frames ?s0))" using assms a(2) by (simp flip: map_map)
  have n: "\<forall>f\<in>set (bl_frames ?s0). db_id (snd f) \<notin> fst ` set (bl_intervals ?s0)" using a(4) by simp
  have ids: "map (db_id \<circ> snd) (bl_frames ?s0) = map db_id boys" using a(2) by (simp flip: map_map)
  have lz: "length (map db_id boys) = length [k..<k + length boys]" for k by simp
  have z: "map fst (zip (map db_id boys) [k..<k + length boys]) = map db_id boys"
    "snd ` set (zip (map db_id boys) [k..<k + length boys]) = set [k..<k + length boys]" for k
    using map_fst_zip [OF lz [of k]] map_snd_zip [OF lz [of k]] by (simp, metis set_map)
  show ?thesis
    using run_frames [OF d n] a len ids z by simp
qed

theorem bike_stays_near_base_witness:
  "wander_reachable demo_boy (wander_tick demo_boy 0 0 (wander_init demo_boy 0)) \<and>
   distanceFromBase demo_boy (w_lat (wander_tick demo_boy 0 0 (wander_init demo_boy 0)))
     (w_lng (wander_tick demo_boy 0 0 (wander_init demo_boy 0))) \<le> bike_maxDistance + bike_speed"
proof -
  have r: "wander_reachable demo_boy (wander_tick demo_boy 0 0 (wander_init demo_boy 0))"
    by (intro wander_reachable.wander_step wander_reachable.wander_start) simp_all
  show ?thesis using r bike_stays_near_base [OF r] by simp
qed

text \<open>The initialisation runs once, a failed script leaves the page without map and
  markers, and a successful one shows the map and animates every agent; the
  \<open>mapEnabled\<close> effect, whose flag stays false, then changes nothing.\<close>

lemma loadLeaflet_idem: "lm_map s \<noteq> None \<Longrightarrow> loadLeaflet ok m boys s = s"
  by (simp add: loadLeaflet_def)

lemma loadLeaflet_failed: "\<not> hasJs \<Longrightarrow> lm_map (loadLeaflet False m boys (leaflet_init hasJs)) = None \<and>
    lm_bikes (loadLeaflet False m boys (leaflet_init hasJs)) = bikeLayer_init"
  by (simp add: loadLeaflet_def leaflet_init_def)

lemma loadLeaflet_animates:
  assumes "hasJs \<or> script_ok" "distinct (map db_id boys)"
  shows "lm_map (loadLeaflet script_ok True boys (leaflet_init hasJs)) = Some (177 / 10, 8325 / 100, 12) \<and>
         map fst (bl_intervals ((run_frame ^^ length boys) (lm_bikes (loadLeaflet script_ok True boys (leaflet_init hasJs))))) =
           map db_id boys \<and>
         mapEnabled_effect False boys (loadLeaflet script_ok True boys (leaflet_init hasJs)) =
           loadLeaflet script_ok True boys (leaflet_init hasJs)"
  using assms loadDeliveryBoys_animates [OF assms(2)]
  by (auto simp: loadLeaflet_def leaflet_init_def mapEnabled_effect_def)

end
