(* ===== verification/MapView.thy ===== *)
theory MapView
  imports Delivery
begin

text \<open>
  The markers the delivery page puts on the map for a request (DeliveryDashboard.tsx,
  \<open>showLocationOnMap\<close>): \<open>markersRef.current\<close> is an object from keys to markers,
  an association list here (\<open>delete\<close> removes a key, an assignment updates or
  appends). The request's own marker is keyed by its id (\<open>request.id || ""\<close>),
  the bank's by \<open>`${request.id}-bank`\<close>; the keys \<open>start\<close> and \<open>end\<close> of
  earlier routes are removed too. A popup is the list of its lines without the
  emoji and markup; \<open>num\<close> is \<open>String\<close> of a number. The bike markers live in
  another ref (Bikes.thy) and are not touched. The call returns the map's new
  focus: the bounds of both markers, or the user's position at zoom 13.
\<close>

datatype marker_icon = UserIcon | BankIcon

record mapMarker =
  mm_lat :: real
  mm_lon :: real
  mm_icon :: marker_icon
  mm_popup :: "string list"

type_synonym marker_refs = "(string \<times> mapMarker) list"

datatype map_focus = FitBounds coord coord | SetView real real nat

definition urgency_color :: "string \<Rightarrow> string" where
  "urgency_color u = (if u = ''High'' then ''#EF4444'' else if u = ''Medium'' then ''#F59E0B'' else ''#10B981'')"

definition request_key :: "deliveryRequest \<Rightarrow> string" where
  "request_key request = (case dr_id request of None \<Rightarrow> [] | Some i \<Rightarrow> i)"

definition bank_key :: "deliveryRequest \<Rightarrow> string" where
  "bank_key request = (case dr_id request of None \<Rightarrow> ''undefined'' | Some i \<Rightarrow> i) @ ''-bank''"

definition js_units :: "(real \<Rightarrow> string) \<Rightarrow> deliveryRequest \<Rightarrow> string" where
  "js_units num request =
     (case dr_quantity_units request of
        Some q \<Rightarrow> if q \<noteq> 0 then num q else (case dr_units_needed request of Some u \<Rightarrow> num u | None \<Rightarrow> ''undefined'')
      | None \<Rightarrow> (case dr_units_needed request of Some u \<Rightarrow> num u | None \<Rightarrow> ''undefined''))"

definition user_popup :: "(real \<Rightarrow> string) \<Rightarrow> coord \<Rightarrow> deliveryRequest \<Rightarrow> string list" where
  "user_popup num pos request =
     [(if dr_type request = User then dr_name request else js_nullish (dr_hospital_name request) ''undefined''),
      ''Blood Group: '' @ dr_blood_required request, ''Units: '' @ js_units num request,
      ''Urgency: '' @ dr_urgency request @ '' ('' @ urgency_color (dr_urgency request) @ '')'',
      ''Location: '' @ address pos]"

definition bank_popup :: "deliveryRequest \<Rightarrow> nearestBank \<Rightarrow> string list" where
  "bank_popup request nb =
     [nb_name nb, ''Location: '' @ nb_location nb, ''Distance: '' @ formatDistance (Some (nb_distance nb)),
      ''Blood Group Available: '' @ dr_blood_required request]"

definition showLocationOnMap ::
  "(real \<Rightarrow> string) \<Rightarrow> bool \<Rightarrow> coord \<Rightarrow> deliveryRequest \<Rightarrow> marker_refs \<Rightarrow> marker_refs \<times> map_focus option" where
  "showLocationOnMap num ready pos request markers =
     (if \<not> ready then (markers, None)
      else
        let m1 = fold AList.delete [request_key request, bank_key request, ''start'', ''end''] markers;
            marker = \<lparr>mm_lat = lat pos, mm_lon = lon pos, mm_icon = UserIcon, mm_popup = user_popup num pos request\<rparr>;
            m2 = AList.update (request_key request) marker m1
        in case dr_nearestBloodBank request of
             Some nb \<Rightarrow>
               (AList.update (bank_key request)
                  \<lparr>mm_lat = lat (nb_coords nb), mm_lon = lon (nb_coords nb), mm_icon = BankIcon,
                   mm_popup = bank_popup request nb\<rparr> m2,
                Some (FitBounds pos (nb_coords nb)))
           | None \<Rightarrow> (m2, Some (SetView (lat pos) (lon pos) 13)))"

text \<open>The rest of the page: the greeting read from the session, the logout, the
  completed deliveries, the empty message, the route card (car, bike and air, each
  its distance and duration) and the selected delivery's card.\<close>

definition delivery_handleLogout :: "(string \<times> string) list \<Rightarrow> (string \<times> string) list \<times> string" where
  "delivery_handleLogout session = (fold AList.delete [''deliveryId'', ''deliveryName''] session, ''/delivery/login'')"

record deliveryView =
  dv_welcome :: string
  dv_showPending :: bool
  dv_completed :: "string option list"
  dv_empty :: bool
  dv_route :: "(string \<times> string \<times> string) list option"
  dv_selected :: "(string option \<times> string) option"

definition route_card :: "routeInfo \<Rightarrow> (string \<times> string \<times> string) list" where
  "route_card ri =
     [(''Car'', formatDistance (leg_distance (car ri)), formatDuration (leg_duration (car ri))),
      (''Bike'', formatDistance (Some (leg_distance (bike ri))), formatDuration (Some (leg_duration (bike ri)))),
      (''Air'', formatDistance (Some (leg_distance (air ri))), formatDuration (Some (leg_duration (air ri))))]"

definition delivery_view :: "string option \<Rightarrow> dashboard \<Rightarrow> deliveryView" where
  "delivery_view deliveryName s =
     \<lparr>dv_welcome = ''Welcome, '' @ (if js_truthy_str deliveryName then the deliveryName else ''Delivery Agent''),
      dv_showPending = (pendingRequests (deliveryRequests s) \<noteq> []),
      dv_completed = map display_name (deliveredRequests (deliveryRequests s)),
      dv_empty = (deliveryRequests s = []),
      dv_route = map_option route_card (d_routeInfo s),
      dv_selected = (case (selectedRequest s, d_routeInfo s) of
                       (Some r, None) \<Rightarrow> map_option (\<lambda>u. (display_name r, address u)) (dr_userLocation r)
                     | _ \<Rightarrow> None)\<rparr>"

subsection \<open>Lemmas\<close>

text \<open>The two keys of a request differ, so its bank marker never overwrites its own
  marker; after the call the request's markers are the new ones, the route's
  endpoints are gone, every other marker is kept, and the focus covers the bank
  exactly when the request has one.\<close>

lemma request_key_ne_bank_key: "request_key r \<noteq> bank_key r"
proof -
  have "length (request_key r) < length (bank_key r)"
    by (cases "dr_id r") (simp_all add: request_key_def bank_key_def)
  then show ?thesis by auto
qed

lemma bank_key_not_start_end: "bank_key r \<noteq> ''start''" "bank_key r \<noteq> ''end''"
  by (cases "dr_id r"; simp add: bank_key_def)+

lemma showLocationOnMap_refs:
  assumes "showLocationOnMap num True pos r ms = (ms', f)"
  shows "map_of ms' (request_key r) =
           Some \<lparr>mm_lat = lat pos, mm_lon = lon pos, mm_icon = UserIcon, mm_popup = user_popup num pos r\<rparr>"
    and "map_of ms' (bank_key r) =
           map_option (\<lambda>nb. \<lparr>mm_lat = lat (nb_coords nb), mm_lon = lon (nb_coords nb), mm_icon = BankIcon,
                              mm_popup = bank_popup r nb\<rparr>) (dr_nearestBloodBank r)"
    and "k \<notin> {request_key r, bank_key r, ''start'', ''end''} \<Longrightarrow> map_of ms' k = map_of ms k"
    and "request_key r \<notin> {''start'', ''end''} \<Longrightarrow> map_of ms' ''start'' = None \<and> map_of ms' ''end'' = None"
    and "f = Some (case dr_nearestBloodBank r of Some nb \<Rightarrow> FitBounds pos (nb_coords nb)
                   | None \<Rightarrow> SetView (lat pos) (lon pos) 13)"
  using assms request_key_ne_bank_key [of r] bank_key_not_start_end [of r]
  by (auto simp: showLocationOnMap_def Let_def update_conv' delete_conv' split: option.splits)

text \<open>Marking a listed request delivered puts it among the completed deliveries;
  the logout removes the agent's session keys.\<close>

lemma markDelivered_completed:
  assumes "r \<in> set (deliveryRequests s)" "dr_id r \<noteq> None"
  shows "display_name r \<in> set (dv_completed (delivery_view n (markDelivered r s))) \<and>
         \<not> dv_empty (delivery_view n (markDelivered r s))"
proof -
  let ?r = "r\<lparr>dr_deliveryStatus := Some Delivered\<rparr>"
  have m: "?r \<in> set (deliveryRequests (markDelivered r s))"
    using assms by (force simp: markDelivered_requests js_nullish_def)
  then have "?r \<in> set (deliveredRequests (deliveryRequests (markDelivered r s)))"
    by (simp add: deliveredRequests_def)
  then have "display_name ?r \<in> set (map display_name (deliveredRequests (deliveryRequests (markDelivered r s))))"
    by simp
  moreover have "display_name ?r = display_name r" by (simp add: display_name_def)
  moreover have "deliveryRequests (markDelivered r s) \<noteq> []" using m by auto
  ultimately show ?thesis by (simp add: delivery_view_def)
qed

lemma delivery_handleLogout_clears:
  "map_of (fst (delivery_handleLogout session)) ''deliveryId'' = None \<and>
   map_of (fst (delivery_handleLogout session)) ''deliveryName'' = None \<and>
   snd (delivery_handleLogout session) = ''/delivery/login''"
  by (simp add: delivery_handleLogout_def delete_conv')

end
