(* ===== verification/Spec2Isabelle.thy ===== *)
theory Spec2Isabelle
  imports Prelude Geo Geocoder Matcher Route Otp OtpServer Requests Delivery BloodBank Wizard Hospital Spoilage Search Donor Auth Outbreak HospitalMain Session Bikes MapView
begin

text \<open>
  Verification development for the blood-bank coordination web application of
  src/src (React and TypeScript, run in the browser) and its one-time-code service
  src/otp-service (Node.js). The definitions are a shallow embedding of the sources:
  each component's state is a record, each handler a function from state to state
  (an error or early return is a branch of a sum or option value), and each page
  an \<^emph>\<open>inductive\<close> reachability relation whose steps are the handlers of the
  controls the page renders enabled.

  \<^bold>\<open>Parts and how they interact.\<close> A blood bank (BloodBankDashboard.tsx) accepts
  user, hospital and donor requests from requests.json and writes the accepted
  lists to the browser's localStorage key acceptedRequests; the delivery page
  (DeliveryDashboard.tsx) reads that key, turns each accepted request into a
  delivery, resolves locations through the Nominatim geocoder with a cache, finds
  the nearest suitable bank, asks the GraphHopper router for a route and moves the
  delivery through Pending, Accepted, In_transit and Delivered. The hospital page
  (HospitalDashboard.tsx) collects patients, emergency requests, report and
  tracking queries through multi-step dialogs (WizardModal.tsx) and hands them to
  a mock API; the hospital main module (HospitalMainModule.tsx) opens one section
  at a time with the registration, patient and emergency forms and two tables. Logins use one-time codes (services/otpService.ts in the browser,
  otp-service/server.js as a service). Side pages search the directory
  (BloodAvailabilityModule.tsx, services/stateService.ts), register donors
  (DonorRegistrationModule.tsx), track spoilage (BloodSpoilageModule.tsx) and
  summarise last month's disease report (DiseaseOutbreakPredictionModule.tsx).
  Users sign up and sign in (UserRegistrationPage.tsx, UserLoginPage.tsx) against
  the identity provider of firebase.ts; the bank, delivery and hospital logins
  only check their form and write the session.

  \<^bold>\<open>Theories.\<close>
  \<^item> Prelude: the JavaScript operators and string functions the sources use
    (\<open>??\<close>, trim, toLowerCase, startsWith, includes, Number and String
    conversions, Math.round), list helpers and the shared lemmas on them.
  \<^item> Geo, Geocoder, Matcher, Route: DeliveryDashboard.tsx's haversineDistance
    and quickDistance, geocodeLocation with its cache, findNearestBloodBank
    (candidates, pre-ranking, the exact scan with early exit, the batched
    cold-start geocoding), calculateRouteWithInfo and
    calculateRouteFromBloodBankToUser, formatDistance and formatDuration.
  \<^item> Requests: the request records exchanged through localStorage.
  \<^item> Delivery: the delivery page's state (dashboard), loadAcceptedRequests,
    loadBloodBanks, preGeocodeCommonBanks, handleAcceptDelivery,
    handleStartDelivery, handleGetDirections, updateDeliveryStatus and the buttons;
    dash_step and dash_reachable are its runs; status_advance is the spec's
    delivery state machine.
  \<^item> BloodBank: the bank page's state (bankDashboard), its mount and save
    effects, updateInventory, handleAcceptRequest, handleRejectRequest,
    handleAcceptDonor, handleRejectDonor, getRecommendations, the button
    guards and the rendered page (information panel, accepted lists and cards);
    bank_reachable is its runs.
  \<^item> Wizard and Hospital: WizardModal generic in the host's steps (handleNext,
    handleBack, handleSubmit split at its await, the host's onClose), and the four
    hospital wizards with their fields and validators; hospital_reachable composes
    them, and mockApi.ts's endpoints log what the dialogs submit.
  \<^item> Spoilage, Search, Donor: BloodSpoilageModule's classification, sort,
    summary and rendered page (cards, section tables with their badges, alerts); stateService and BloodAvailabilityModule's search, controls, runs and results view; the donor form
    with its credits, notices and timers.
  \<^item> Otp and OtpServer: otpService.ts's requestOtp and verifyOtp over its store;
    server.js's configuration, API-key check, identifier validation, code
    generation, storage, delivery and both routes.
  \<^item> Auth: the identity provider's contract (an account store keyed by the
    lower-cased e-mail), the login page (validation, handleSubmit with its error
    codes, remember-me, the saved e-mail, its own auth listener, its controls and
    what it renders), the registration page (the four validators,
    getPasswordStrength, the live validation, handleSubmit, the rendered form) and
    the three role logins.
  \<^item> Outbreak: DiseaseOutbreakPredictionModule's analysis (the state with most
    cases, the disease and blood-group totals, the stable descending sorts, the
    per-state summaries) and the page it renders (charts, pie shares, ranks,
    state cards).
  \<^item> HospitalMain: HospitalMainModule's accordion, whose sections mount a form
    only while open, the hospital registration, patient and emergency forms
    (controls, handleChange with JavaScript's parseInt, handleSubmit, the browser's
    constraint validation) and the two tables (their fixed rows, rendered rows and totals); the forms' typing
    invariants, what a valid submission carries, and the data lost on a toggle.
  \<^item> Session: AuthContext's provider (the auth-state listener mirroring the
    account into session storage, signOut, refreshToken, and its runs) and the
    navigation bar that reads it (display name, initials, its links and controls,
    the click-outside listener, logout), App.tsx's route table and ProtectedRoute,
    and the bar's runs interleaved with the provider's.
  \<^item> Bikes: the delivery agents' markers on the delivery page (icon, popup,
    loadDeliveryBoys with its marker and timer refs, the animation frames) and the
    wandering animation, whose bound is proved by an invariant over its ticks, and
    the Leaflet initialisation that starts them.
  \<^item> MapView: the request and bank markers of showLocationOnMap and the map's
    focus; the delivery page's logout and what it renders (greeting, completed
    deliveries, route card, selected delivery).
  \<^item> This theory: the properties that span components.

  \<^bold>\<open>What the lemmas show.\<close> C1-C4 the matcher's soundness, early exit, empty
  result and frame; C5 the distance; C6-C8 the route planner; C9 the bound on
  the bike markers' wandering; C10-C14 the client code service (single use, attempt limit, cooldown, entry invariant, six digits);
  C15-C16 the geocode cache round trip and invariant; C17 that the matcher's
  batching loop returns, with the batches it builds; C18-C19 the delivery page's
  matched bank and the refinement of the status machine; C20 the bank inventory's
  well-formedness; C21 that the donor page's confirmation always disappears; C22
  the registration-to-login round trip and its whitespace defect; C23-C24 the
  delivery page's error paths; C25 the cache invariant over the whole delivery
  page; C26-C31 the code service of server.js (fail-closed key check, no code leak
  in production, single use, a failed delivery blocking retries, code length,
  e-mail syntax); C32-C34 and C36 the bank page (stock never negative, exact
  stock and credit on acceptance, the credit ledger, the reload defect); C35 the
  outbreak page's two maxima agreeing; C37 the hand-off from bank to delivery; C38-C39 complete wizard
  submissions; C40 the spoilage summary.
  Each invariant is proved once by rule induction over the page's reachability
  relation (dash_reachable_inv, bank_reachable_inv, wz_reachable_inv,
  donor_reachable_inv, otp_reachable_entries_ok) and each claim is derived from it.

  \<^bold>\<open>Modelling choices.\<close> JavaScript numbers are reals (integers where the code
  only counts); Math.random(), Date.now() and the network are inputs of the
  handler that reads them. A handler runs to completion before the next event, as
  in the browser's event loop; where the code awaits and the user can act in
  between (a wizard's submission, the donor page's timers) the continuation is a
  separate event. JSON.parse of what JSON.stringify wrote is the identity.
  localeCompare is a collation key (ICU compares sort keys), so sorting with it is
  \<^const>\<open>sort_key\<close>, stable as Array.prototype.sort is. No loop needs fuel: the
  matcher's loops run over finite candidate lists (at most 30, batches of 5): the
  batching for-loop is a partial function whose result is proved to exist for
  every positive step (and to be None, divergence, for step 0), and the other
  non-structural recursion (replace_ws) has a termination proof. The donor page's
  timers run on an explicit clock, so that a message disappearing is an event
  reached after a bounded delay.

  \<^bold>\<open>Not modelled.\<close> Rendering beyond the views listed above (each a function
  from the page's state to the strings and lists its JSX interpolates): the map's
  tile imagery, route lines, and the styling of markers and cards; the express rate limiters of server.js (time-window
  counters of the library); the identity provider's implementation (only its
  contract is modelled); the login pages' show-password toggles and redirect
  timers, which only change the display or navigate; the presentational components
  (hero, cards, footer), which hold no state; the browser's e-mail syntax check of
  the registration form, whose submission only logs.
  HospitalDashboard.tsx imports ./ToastProvider, which the repository lacks; its
  toasts are a list of messages.
\<close>

subsection \<open>Properties across components\<close>

text \<open>
  C25. The location resolver's cache invariant survives the whole delivery page:
  in every reachable state each cached coordinate is the geocoding service's
  answer for a non-blank text with that key, although the cache is written by the
  acceptance handler's fallback chain, by the matcher's concurrent batches and by
  the background pre-geocoding; and the directory differs from the loaded one
  only in the coordinates attached to its banks.
\<close>

theorem dashboard_cache_sound:
  assumes "dash_reachable g banks0 s"
  shows "cache_sound g (geocodeCache s) \<and> same_but_coords banks0 (allBloodBanks s)"
  using dash_reachable_inv [OF assms] by (simp add: dash_inv_def)

theorem dashboard_cache_sound_witness:
  "dash_reachable demo_geocoder [demo_bank]
     (snd (handleAcceptDelivery demo_geocoder demo_env (user_delivery_request 0 0 demo_user) demo_s0)) \<and>
   cache_sound demo_geocoder
     (geocodeCache (snd (handleAcceptDelivery demo_geocoder demo_env (user_delivery_request 0 0 demo_user) demo_s0)))"
  using demo_reach_accept dashboard_cache_sound [OF demo_reach_accept] by simp

text \<open>
  C37. The hand-off from the blood bank to the delivery service: when a bank accepts
  a pending user request through its enabled button, the storage it writes makes the
  delivery page, on its next load, list that request (stamped with the acceptance
  time, at the position it was appended) as a pending delivery with the requester's
  name, phone, blood group and quantity.
\<close>

theorem bank_accept_handoff:
  assumes "bank_enabled s (AcceptUser i)"
  shows "user_delivery_request (length (acceptedUsers s)) (nowU (length (acceptedUsers s)))
           ((userRequests s ! i)\<lparr>ur_accepted_at := Some now\<rparr>)
         \<in> set (pendingRequests (deliveryRequests
               (dash_init nowU nowH (stored (bank_handle now (AcceptUser i) s)) directory)))"
proof -
  have "\<not> bank_loading s" using assms by (simp add: bank_enabled_def)
  then show ?thesis
    using loadAcceptedRequests_user_at [where k = "length (acceptedUsers s)" and
        us = "acceptedUsers s @ [(userRequests s ! i)\<lparr>ur_accepted_at := Some now\<rparr>]"]
    by (simp add: stored_bank_handle bank_accept_user_effect dash_init_def pendingRequests_def
        user_delivery_request_def)
qed

theorem bank_accept_handoff_witness:
  "user_delivery_request 0 0 (demo_user\<lparr>ur_accepted_at := Some ''2025-01-02''\<rparr>)
     \<in> set (pendingRequests (deliveryRequests
           (dash_init (\<lambda>k. 0) (\<lambda>k. 0) (stored (bank_handle ''2025-01-02'' (AcceptUser 0) demo_bank_s0)) [])))"
  using bank_accept_handoff [OF demo_bank_enabled, where nowU = "\<lambda>k. 0" and nowH = "\<lambda>k. 0"
      and now = "''2025-01-02''" and directory = "[]"]
  by (simp add: demo_bank_mount_facts)

end
